(* ===== verification/Prelude.thy ===== *)
theory Prelude
  imports Main
begin

section \<open>Prelude: actions with exceptions and a state\<close>

text \<open>
  An \<open>async\<close> method of the program either returns a value or throws, and in both cases the state it
  has changed so far stays changed. It is modelled as an action: a function from the state to a
  sum (\<open>Inl\<close> the thrown error, \<open>Inr\<close> the returned value) and the new state. The combinators below
  are the program's sequencing (\<open>await a; b\<close>), \<open>throw\<close>, \<open>try/catch\<close> and \<open>for ... of\<close>; the lemmas
  in the collections \<^theory_text>\<open>act_simps\<close> and \<^theory_text>\<open>keeps_intros\<close> carry the proofs about them.
\<close>

named_theorems act_simps "evaluation of the action combinators"
named_theorems keeps_intros "preservation of a state predicate by actions"
named_theorems run_elims "what a run that returned has gone through"
named_theorems safe_intros "actions that never throw"

text \<open>The errors the program throws: a plain \<open>Error\<close> and the VPN manager's \<open>VpnConflictError\<close>.\<close>

datatype failure = Err string | VpnConflict string

fun message :: "failure \<Rightarrow> string" where
  "message (Err m) = m"
| "message (VpnConflict m) = m"

fun is_conflict :: "failure \<Rightarrow> bool" where
  "is_conflict (Err m) = False"
| "is_conflict (VpnConflict m) = True"

type_synonym ('s, 'a) act = "'s \<Rightarrow> (failure + 'a) \<times> 's"

definition ret :: "'a \<Rightarrow> ('s, 'a) act" where
  "ret x = (\<lambda>s. (Inr x, s))"

definition throw :: "string \<Rightarrow> ('s, 'a) act" where
  "throw m = (\<lambda>s. (Inl (Err m), s))"

definition throw_conflict :: "string \<Rightarrow> ('s, 'a) act" where
  "throw_conflict m = (\<lambda>s. (Inl (VpnConflict m), s))"

definition andThen :: "('s, 'a) act \<Rightarrow> ('a \<Rightarrow> ('s, 'b) act) \<Rightarrow> ('s, 'b) act" where
  "andThen m f = (\<lambda>s. case m s of (Inl e, t) \<Rightarrow> (Inl e, t) | (Inr x, t) \<Rightarrow> f x t)"

definition catch :: "('s, 'a) act \<Rightarrow> (failure \<Rightarrow> ('s, 'a) act) \<Rightarrow> ('s, 'a) act" where
  "catch m h = (\<lambda>s. case m s of (Inl e, t) \<Rightarrow> h e t | (Inr x, t) \<Rightarrow> (Inr x, t))"

definition gets :: "('s \<Rightarrow> 'a) \<Rightarrow> ('s, 'a) act" where
  "gets f = (\<lambda>s. (Inr (f s), s))"

definition modify :: "('s \<Rightarrow> 's) \<Rightarrow> ('s, unit) act" where
  "modify f = (\<lambda>s. (Inr (), f s))"

definition cond :: "bool \<Rightarrow> ('s, unit) act \<Rightarrow> ('s, unit) act" where
  "cond b m = (if b then m else ret ())"

fun forEach :: "('a \<Rightarrow> ('s, unit) act) \<Rightarrow> 'a list \<Rightarrow> ('s, unit) act" where
  "forEach f [] = ret ()"
| "forEach f (x # xs) = andThen (f x) (\<lambda>_. forEach f xs)"

fun mapAct :: "('a \<Rightarrow> ('s, 'b) act) \<Rightarrow> 'a list \<Rightarrow> ('s, 'b list) act" where
  "mapAct f [] = ret []"
| "mapAct f (x # xs) = andThen (f x) (\<lambda>y. andThen (mapAct f xs) (\<lambda>ys. ret (y # ys)))"

text \<open>
  \<open>db.batch(statements)\<close>: one transaction. A statement is a partial function on the state; when one
  aborts, the state is that before the batch.
\<close>

fun run_all :: "('s \<Rightarrow> 's option) list \<Rightarrow> 's \<Rightarrow> 's option" where
  "run_all [] s = Some s"
| "run_all (f # fs) s = (case f s of None \<Rightarrow> None | Some t \<Rightarrow> run_all fs t)"

definition sql_error :: string where "sql_error = ''SQLITE_CONSTRAINT''"

definition batch :: "('s \<Rightarrow> 's option) list \<Rightarrow> ('s, unit) act" where
  "batch fs = (\<lambda>s. case run_all fs s of None \<Rightarrow> (Inl (Err sql_error), s) | Some t \<Rightarrow> (Inr (), t))"

lemma ret_run [simp, act_simps]: "ret x s = (Inr x, s)"
  by (simp add: ret_def)

lemma throw_run [simp, act_simps]: "throw m s = (Inl (Err m), s)"
  by (simp add: throw_def)

lemma throw_conflict_run [simp, act_simps]: "throw_conflict m s = (Inl (VpnConflict m), s)"
  by (simp add: throw_conflict_def)

lemma gets_run [simp, act_simps]: "gets f s = (Inr (f s), s)"
  by (simp add: gets_def)

lemma modify_run [simp, act_simps]: "modify f s = (Inr (), f s)"
  by (simp add: modify_def)

lemma andThen_run [act_simps]:
  "andThen m f s = (case m s of (Inl e, t) \<Rightarrow> (Inl e, t) | (Inr x, t) \<Rightarrow> f x t)"
  by (simp add: andThen_def)

lemma catch_run [act_simps]:
  "catch m h s = (case m s of (Inl e, t) \<Rightarrow> h e t | (Inr x, t) \<Rightarrow> (Inr x, t))"
  by (simp add: catch_def)

lemma andThen_Inr [simp]: "m s = (Inr x, t) \<Longrightarrow> andThen m f s = f x t"
  by (simp add: andThen_def)

lemma andThen_Inl [simp]: "m s = (Inl e, t) \<Longrightarrow> andThen m f s = (Inl e, t)"
  by (simp add: andThen_def)

lemma catch_Inr [simp]: "m s = (Inr x, t) \<Longrightarrow> catch m h s = (Inr x, t)"
  by (simp add: catch_def)

lemma catch_Inl [simp]: "m s = (Inl e, t) \<Longrightarrow> catch m h s = h e t"
  by (simp add: catch_def)

lemma andThen_ret [simp]: "andThen (ret x) f = f x"
  by (simp add: andThen_def ret_def)

lemma cond_run [simp, act_simps]: "cond b m s = (if b then m s else (Inr (), s))"
  by (simp add: cond_def)

lemma andThen_Inr_elim [run_elims]:
  assumes "andThen m f s = (Inr y, u)"
  obtains x t where "m s = (Inr x, t)" and "f x t = (Inr y, u)"
  using assms by (auto simp: andThen_def split: prod.splits sum.splits)

lemma guard_Inr_elim [run_elims]:
  assumes "(if b then throw m else f) s = (Inr y, t)"
  obtains "\<not> b" and "f s = (Inr y, t)"
  using assms by (auto split: if_splits)

lemma guard_conflict_Inr_elim [run_elims]:
  assumes "(if b then throw_conflict m else f) s = (Inr y, t)"
  obtains "\<not> b" and "f s = (Inr y, t)"
  using assms by (auto split: if_splits)

lemma found_Inr_elim [run_elims]:
  assumes "(case z of None \<Rightarrow> throw m | Some x \<Rightarrow> f x) s = (Inr y, t)"
  obtains x where "z = Some x" and "f x s = (Inr y, t)"
  using assms by (auto split: option.splits)

lemma gets_Inr_elim [run_elims]:
  assumes "gets f s = (Inr x, t)"
  obtains "x = f s" and "t = s"
proof (rule that)
  show "x = f s" using arg_cong [OF assms, of fst] by (simp only: gets_run fst_conv sum.inject)
  show "t = s" using arg_cong [OF assms, of snd] by (simp only: gets_run snd_conv)
qed

lemma ret_Inr_elim [run_elims]:
  assumes "ret a s = (Inr x, t)"
  obtains "x = a" and "t = s"
  by (rule that) (use assms in auto)

lemma modify_Inr_elim [run_elims]:
  assumes "modify f s = (Inr x, t)"
  obtains "t = f s"
  by (rule that) (use assms in auto)

lemma batch_Inr_elim [run_elims]:
  assumes "batch fs s = (Inr x, t)"
  obtains "run_all fs s = Some t"
  using assms by (auto simp: batch_def split: option.splits)

lemma run_all_single_elim [run_elims]:
  assumes "run_all [f] s = Some t"
  obtains "f s = Some t"
  using assms by (auto split: option.splits)

subsection \<open>Preservation of a predicate on the state\<close>

text \<open>
  An action keeps a predicate when it leads from states that satisfy it to states that satisfy it,
  whether it returns or throws.
\<close>

definition keeps :: "('s \<Rightarrow> bool) \<Rightarrow> ('s, 'a) act \<Rightarrow> bool" where
  "keeps I m \<longleftrightarrow> (\<forall>s. I s \<longrightarrow> I (snd (m s)))"

lemma keepsI: "(\<And>s. I s \<Longrightarrow> I (snd (m s))) \<Longrightarrow> keeps I m"
  by (simp add: keeps_def)

lemma keepsD: "keeps I m \<Longrightarrow> I s \<Longrightarrow> I (snd (m s))"
  by (simp add: keeps_def)

lemma keepsD_run: "keeps I m \<Longrightarrow> I s \<Longrightarrow> m s = (r, t) \<Longrightarrow> I t"
  using keepsD by fastforce

lemma keeps_ret [keeps_intros]: "keeps I (ret x)"
  by (simp add: keeps_def)

lemma keeps_throw [keeps_intros]: "keeps I (throw m)"
  by (simp add: keeps_def)

lemma keeps_throw_conflict [keeps_intros]: "keeps I (throw_conflict m)"
  by (simp add: keeps_def)

lemma keeps_gets [keeps_intros]: "keeps I (gets f)"
  by (simp add: keeps_def)

lemma keeps_modify: "(\<And>s. I s \<Longrightarrow> I (f s)) \<Longrightarrow> keeps I (modify f)"
  by (simp add: keeps_def)

lemma keeps_andThen [keeps_intros]:
  "keeps I m \<Longrightarrow> (\<And>x. keeps I (f x)) \<Longrightarrow> keeps I (andThen m f)"
  by (fastforce simp: keeps_def andThen_def split: prod.splits sum.splits)

lemma keeps_catch [keeps_intros]:
  "keeps I m \<Longrightarrow> (\<And>e. keeps I (h e)) \<Longrightarrow> keeps I (catch m h)"
  by (fastforce simp: keeps_def catch_def split: prod.splits sum.splits)

lemma keeps_cond [keeps_intros]: "(b \<Longrightarrow> keeps I m) \<Longrightarrow> keeps I (cond b m)"
  by (simp add: keeps_def cond_def)

lemma keeps_if [keeps_intros]:
  "(b \<Longrightarrow> keeps I m) \<Longrightarrow> (\<not> b \<Longrightarrow> keeps I n) \<Longrightarrow> keeps I (if b then m else n)"
  by simp

lemma keeps_option [keeps_intros]:
  "keeps I m \<Longrightarrow> (\<And>x. keeps I (f x)) \<Longrightarrow> keeps I (case z of None \<Rightarrow> m | Some x \<Rightarrow> f x)"
  by (cases z) auto

lemma keeps_list [keeps_intros]:
  "keeps I m \<Longrightarrow> (\<And>x xs. keeps I (f x xs)) \<Longrightarrow> keeps I (case z of [] \<Rightarrow> m | x # xs \<Rightarrow> f x xs)"
  by (cases z) auto

lemma keeps_let [keeps_intros]: "(\<And>x. keeps I (f x)) \<Longrightarrow> keeps I (let x = z in f x)"
  by simp

lemma keeps_forEach [keeps_intros]: "(\<And>x. keeps I (f x)) \<Longrightarrow> keeps I (forEach f xs)"
  by (induction xs) (auto intro: keeps_ret keeps_andThen)

lemma keeps_mapAct [keeps_intros]: "(\<And>x. keeps I (f x)) \<Longrightarrow> keeps I (mapAct f xs)"
  by (induction xs) (auto intro: keeps_ret keeps_andThen)

lemma run_all_keeps:
  "run_all fs s = Some t \<Longrightarrow> I s \<Longrightarrow> (\<And>f u v. f \<in> set fs \<Longrightarrow> I u \<Longrightarrow> f u = Some v \<Longrightarrow> I v) \<Longrightarrow> I t"
proof (induction fs arbitrary: s)
  case Nil
  then show ?case by simp
next
  case (Cons f fs)
  from Cons.prems(1) obtain u where "f s = Some u" and "run_all fs u = Some t"
    by (auto split: option.splits)
  with Cons show ?case by (metis list.set_intros)
qed

lemma keeps_batch:
  "(\<And>f u v. f \<in> set fs \<Longrightarrow> I u \<Longrightarrow> f u = Some v \<Longrightarrow> I v) \<Longrightarrow> keeps I (batch fs)"
  unfolding keeps_def batch_def using run_all_keeps [of fs _ _ I] by (auto split: option.splits)

lemma keeps_statement:
  "(\<And>s t. I s \<Longrightarrow> f s = Some t \<Longrightarrow> I t) \<Longrightarrow> keeps I (batch [f])"
  by (rule keeps_batch) auto

subsection \<open>Triples\<close>

text \<open>
  \<open>triple P m Q E\<close>: from a state with \<open>P\<close>, the action returns in a state with \<open>Q\<close> (of the result) or throws
  in a state with \<open>E\<close>. It is used where an invariant is stronger in the middle of an operation.
\<close>

definition triple :: "('s \<Rightarrow> bool) \<Rightarrow> ('s, 'a) act \<Rightarrow> ('a \<Rightarrow> 's \<Rightarrow> bool) \<Rightarrow> ('s \<Rightarrow> bool) \<Rightarrow> bool" where
  "triple P m Q E \<longleftrightarrow> (\<forall>s. P s \<longrightarrow> (case m s of (Inl e, t) \<Rightarrow> E t | (Inr x, t) \<Rightarrow> Q x t))"

lemma tripleI: "(\<And>s. P s \<Longrightarrow> (case m s of (Inl e, t) \<Rightarrow> E t | (Inr x, t) \<Rightarrow> Q x t)) \<Longrightarrow> triple P m Q E"
  by (simp add: triple_def)

lemma tripleD: "triple P m Q E \<Longrightarrow> P s \<Longrightarrow> m s = (Inr x, t) \<Longrightarrow> Q x t"
  unfolding triple_def by (drule spec [of _ s]) simp

lemma tripleD_throw: "triple P m Q E \<Longrightarrow> P s \<Longrightarrow> m s = (Inl e, t) \<Longrightarrow> E t"
  unfolding triple_def by (drule spec [of _ s]) simp

lemma triple_keeps: "keeps P m \<Longrightarrow> triple P m (\<lambda>_. P) P"
  unfolding keeps_def triple_def by (auto split: prod.splits sum.splits)

lemma keeps_triple: "triple P m (\<lambda>_. P) P \<Longrightarrow> keeps P m"
  unfolding keeps_def triple_def by (fastforce split: prod.splits sum.splits)

lemma triple_weaken:
  "triple P m Q E \<Longrightarrow> (\<And>s. P' s \<Longrightarrow> P s) \<Longrightarrow> (\<And>x s. Q x s \<Longrightarrow> Q' x s) \<Longrightarrow> (\<And>s. E s \<Longrightarrow> E' s) \<Longrightarrow> triple P' m Q' E'"
  unfolding triple_def by (fastforce split: prod.splits sum.splits)

lemma triple_andThen:
  "triple P m R E \<Longrightarrow> (\<And>x. triple (R x) (f x) Q E) \<Longrightarrow> triple P (andThen m f) Q E"
  unfolding triple_def andThen_def by (fastforce split: prod.splits sum.splits)

text \<open>A step that keeps the stronger invariant \<open>R\<close>, inside an operation whose errors only owe \<open>E\<close>.\<close>

lemma triple_step:
  "keeps R m \<Longrightarrow> (\<And>s. R s \<Longrightarrow> E s) \<Longrightarrow> (\<And>x. triple R (f x) Q E) \<Longrightarrow> triple R (andThen m f) Q E"
  by (rule triple_andThen [of R m "\<lambda>_. R"]) (auto intro: triple_weaken [OF triple_keeps])

lemma triple_catch:
  "triple P m Q E \<Longrightarrow> (\<And>e. triple E (h e) Q E') \<Longrightarrow> triple P (catch m h) Q E'"
  unfolding triple_def catch_def by (fastforce split: prod.splits sum.splits)

lemma triple_throw: "(\<And>s. P s \<Longrightarrow> E s) \<Longrightarrow> triple P (throw m) Q E"
  by (simp add: triple_def)

lemma triple_ret: "(\<And>s. P s \<Longrightarrow> Q x s) \<Longrightarrow> triple P (ret x) Q E"
  by (simp add: triple_def)

lemma triple_if:
  "(b \<Longrightarrow> triple P m Q E) \<Longrightarrow> (\<not> b \<Longrightarrow> triple P n Q E) \<Longrightarrow> triple P (if b then m else n) Q E"
  by simp

lemma triple_option:
  "triple P m Q E \<Longrightarrow> (\<And>x. triple P (f x) Q E) \<Longrightarrow> triple P (case z of None \<Rightarrow> m | Some x \<Rightarrow> f x) Q E"
  by (cases z) auto

subsection \<open>Actions that never throw\<close>

definition safe :: "('s, 'a) act \<Rightarrow> bool" where
  "safe m \<longleftrightarrow> (\<forall>s. \<exists>x t. m s = (Inr x, t))"

lemma safeD: "safe m \<Longrightarrow> \<exists>x t. m s = (Inr x, t)"
  by (simp add: safe_def)

lemma safe_ret [safe_intros]: "safe (ret x)"
  by (simp add: safe_def)

lemma safe_gets [safe_intros]: "safe (gets f)"
  by (simp add: safe_def)

lemma safe_modify [safe_intros]: "safe (modify f)"
  by (simp add: safe_def)

lemma safe_cond [safe_intros]: "safe m \<Longrightarrow> safe (cond b m)"
  by (simp add: safe_def)

lemma safe_andThen [safe_intros]: "safe m \<Longrightarrow> (\<And>x. safe (f x)) \<Longrightarrow> safe (andThen m f)"
  unfolding safe_def by (metis andThen_Inr)

lemma safe_catch [safe_intros]:
  assumes "\<And>e. safe (h e)"
  shows "safe (catch m h)"
  unfolding safe_def
proof
  fix s
  show "\<exists>x t. catch m h s = (Inr x, t)"
    using assms by (cases "m s"; cases "fst (m s)") (auto simp: catch_def safe_def)
qed

lemma safe_forEach [safe_intros]: "(\<And>x. safe (f x)) \<Longrightarrow> safe (forEach f xs)"
  by (induction xs) (auto intro: safe_ret safe_andThen)

lemma safe_if [safe_intros]: "safe m \<Longrightarrow> safe n \<Longrightarrow> safe (if b then m else n)"
  by simp

lemma safe_option [safe_intros]: "safe m \<Longrightarrow> (\<And>x. safe (f x)) \<Longrightarrow> safe (case z of None \<Rightarrow> m | Some x \<Rightarrow> f x)"
  by (cases z) auto

subsection \<open>Lists\<close>

lemma find_filter: "find P xs = (case filter P xs of [] \<Rightarrow> None | x # _ \<Rightarrow> Some x)"
  by (induction xs) auto

lemma filter_ConsD: "filter P xs = y # ys \<Longrightarrow> y \<in> set xs \<and> P y"
  by (induction xs) (auto split: if_splits)

lemma dropWhile_set_subset: "set (dropWhile P xs) \<subseteq> set xs"
  by (induction xs) auto

lemma last_dropWhile: "dropWhile P xs \<noteq> [] \<Longrightarrow> last (dropWhile P xs) = last xs"
  by (induction xs) auto

lemma distinct_map_filter: "distinct (map f xs) \<Longrightarrow> distinct (map f (filter P xs))"
  by (induction xs) auto

lemma distinct_map_key_eq:
  "distinct (map f xs) \<Longrightarrow> x \<in> set xs \<Longrightarrow> y \<in> set xs \<Longrightarrow> f x = f y \<Longrightarrow> x = y"
  by (induction xs) (force simp: image_iff)+

lemma filter_key_singleton:
  "distinct (map f xs) \<Longrightarrow> x \<in> set xs \<Longrightarrow> filter (\<lambda>y. f y = f x) xs = [x]"
proof (induction xs)
  case Nil
  then show ?case by simp
next
  case (Cons a xs)
  show ?case
  proof (cases "x = a")
    case True
    with Cons.prems have "f y \<noteq> f a" if "y \<in> set xs" for y
      using that by (auto simp: image_iff)
    with True show ?thesis by (simp add: filter_empty_conv)
  next
    case False
    with Cons show ?thesis by auto
  qed
qed

end
