(* ===== verification/Schema.thy ===== *)
theory Schema
  imports Js_String
begin

section \<open>Data model: the rows of the database\<close>

text \<open>
  The records of \<open>lib/db/schema.ts\<close>, one field per column, and the state of the management process:
  the SQLite tables (a list of rows per table, in insertion order), the log events emitted so far and
  the outer world, whose type is a parameter. A time stamp is the instant in milliseconds: the program
  stores \<open>toISOString()\<close> texts, whose fixed width makes their text order the order of the instants.
\<close>

type_synonym timestamp = nat

datatype json = JNull | JBool bool | JNum int | JDec int | JStr string
  | JArr "json list" | JObj "(string \<times> json) list"

record user =
  u_id :: string
  u_username :: string
  u_password_hash :: string
  u_session_version :: int
  u_created_at :: timestamp
  u_updated_at :: timestamp

record provider_user =
  pu_id :: string
  pu_provider_id :: string
  pu_username :: string
  pu_password_hash :: string
  pu_enabled :: int
  pu_created_at :: timestamp
  pu_updated_at :: timestamp

text \<open>The table still has the plain-text column that migration 4 cleared.\<close>

record provider_user_row = provider_user +
  pu_password :: string

record provider =
  p_id :: string
  p_name :: string
  p_host :: string
  p_route :: string
  p_upstream_username :: string
  p_upstream_password :: string
  p_local_username :: string
  p_local_password :: string
  p_is_default :: int
  p_cache_duration_hours :: int
  p_enabled :: int
  p_created_at :: timestamp
  p_updated_at :: timestamp

text \<open>An \<open>IptvProvider\<close> as the services return it: the row and its optional \<open>users\<close>.\<close>

record iptv_provider = provider +
  p_users :: "provider_user list option"

datatype vpn_type = TypeOff | TypeWireguard | TypeOpenvpn | TypeWarp
datatype vpn_status = StatusOff | StatusConnecting | StatusConnected | StatusError

record app_settings =
  active_vpn_type :: vpn_type
  active_vpn_profile_id :: "string option"
  active_vpn_label :: "string option"
  vpn_status :: vpn_status
  vpn_last_error :: "string option"
  vpn_connected_at :: "timestamp option"
  vpn_public_ip :: "string option"
  vpn_country :: "string option"
  log_retention_days :: int
  initial_setup_completed :: int
  settings_updated_at :: timestamp

record wireguard_profile =
  wg_id :: string
  wg_name :: string
  wg_config :: string
  wg_enabled :: int
  wg_created_at :: timestamp
  wg_updated_at :: timestamp

record wireguard_profile_summary =
  wgs_id :: string
  wgs_name :: string
  wgs_address :: "string option"
  wgs_endpoint :: "string option"
  wgs_enabled :: int
  wgs_created_at :: timestamp
  wgs_updated_at :: timestamp

datatype openvpn_source = Uploaded | Vpngate

record openvpn_profile =
  ov_id :: string
  ov_name :: string
  ov_config :: string
  ov_username :: "string option"
  ov_password :: "string option"
  ov_source :: openvpn_source
  ov_enabled :: int
  ov_created_at :: timestamp
  ov_updated_at :: timestamp

record openvpn_profile_summary =
  ovs_id :: string
  ovs_name :: string
  ovs_remotes :: "string list"
  ovs_proto :: "string option"
  ovs_dev :: "string option"
  ovs_hasCredentials :: bool
  ovs_source :: openvpn_source
  ovs_enabled :: int
  ovs_created_at :: timestamp
  ovs_updated_at :: timestamp

datatype log_level = Debug | Info | Warning | Error

datatype log_source = SrcAuth | SrcProvider | SrcVpn | SrcWireguard | SrcOpenvpn | SrcWarp
  | SrcVpngate | SrcSystem | SrcProxy

text \<open>The texts of the two enumerations, as the columns and the query parameters have them.\<close>

fun level_name :: "log_level \<Rightarrow> string" where
  "level_name Debug = ''debug''"
| "level_name Info = ''info''"
| "level_name Warning = ''warning''"
| "level_name Error = ''error''"

fun source_name :: "log_source \<Rightarrow> string" where
  "source_name SrcAuth = ''auth''"
| "source_name SrcProvider = ''provider''"
| "source_name SrcVpn = ''vpn''"
| "source_name SrcWireguard = ''wireguard''"
| "source_name SrcOpenvpn = ''openvpn''"
| "source_name SrcWarp = ''warp''"
| "source_name SrcVpngate = ''vpngate''"
| "source_name SrcSystem = ''system''"
| "source_name SrcProxy = ''proxy''"

record log_entry =
  l_id :: string
  l_timestamp :: timestamp
  l_level :: log_level
  l_source :: log_source
  l_category :: string
  l_message :: string
  l_metadata_json :: "string option"
  l_created_at :: timestamp

record public_vpngate_server =
  g_id :: string
  g_ip :: string
  g_hostname :: string
  g_countryLong :: string
  g_countryShort :: string
  g_ping :: int
  g_speed :: int
  g_score :: int
  g_sessions :: int
  g_uptime :: int

record vpngate_server = public_vpngate_server +
  g_ovpnConfigBase64 :: string

text \<open>The events of \<open>logEmitter\<close>.\<close>

datatype log_event = New_log log_entry | Updated_log log_entry | Deleted_log string

text \<open>
  The state of the process. \<open>t_logs\<close> pairs every row with its SQLite \<open>rowid\<close>, which the live stream
  reads; \<open>t_settings\<close> is the row \<open>'global'\<close> of \<open>app_settings\<close>, if present.
\<close>

record 'w db =
  t_users :: "user list"
  t_providers :: "provider list"
  t_provider_users :: "provider_user_row list"
  t_settings :: "app_settings option"
  t_wireguard :: "wireguard_profile list"
  t_openvpn :: "openvpn_profile list"
  t_logs :: "(nat \<times> log_entry) list"
  emitted :: "log_event list"
  outer :: 'w

definition empty_db :: "'w \<Rightarrow> 'w db" where
  "empty_db w = \<lparr>t_users = [], t_providers = [], t_provider_users = [], t_settings = None,
     t_wireguard = [], t_openvpn = [], t_logs = [], emitted = [], outer = w\<rparr>"

subsection \<open>JSON.stringify\<close>

definition hex_digit :: "nat \<Rightarrow> char" where
  "hex_digit n = (if n < 10 then char_of (48 + n) else char_of (87 + n))"

definition escape_char :: "char \<Rightarrow> string" where
  "escape_char c =
     (if c = CHR 0x22 then [CHR 0x5C, CHR 0x22]
      else if c = CHR 0x5C then [CHR 0x5C, CHR 0x5C]
      else if c = CHR 0x08 then [CHR 0x5C, CHR ''b'']
      else if c = CHR 0x0C then [CHR 0x5C, CHR ''f'']
      else if c = CHR 0x0A then [CHR 0x5C, CHR ''n'']
      else if c = CHR 0x0D then [CHR 0x5C, CHR ''r'']
      else if c = CHR 0x09 then [CHR 0x5C, CHR ''t'']
      else if (of_char c :: nat) < 32
        then [CHR 0x5C, CHR ''u'', CHR ''0'', CHR ''0'',
              hex_digit (of_char c div 16), hex_digit (of_char c mod 16)]
      else [c])"

definition quote :: "string \<Rightarrow> string" where
  "quote s = [CHR 0x22] @ concat (map escape_char s) @ [CHR 0x22]"

definition show_int :: "int \<Rightarrow> string" where
  "show_int i = (if i < 0 then ''-'' @ show_nat (nat (- i)) else show_nat (nat i))"

text \<open>A number with two decimals, given in hundredths, as JavaScript writes it: without trailing zeros.\<close>

definition show_hundredths :: "int \<Rightarrow> string" where
  "show_hundredths i =
     (let n = nat (abs i); f = n mod 100 in
      (if i < 0 then ''-'' else []) @ show_nat (n div 100) @
      (if f = 0 then [] else if f mod 10 = 0 then ''.'' @ show_nat (f div 10)
       else ''.'' @ show_nat (f div 10) @ show_nat (f mod 10)))"

fun stringify :: "json \<Rightarrow> string" where
  "stringify JNull = ''null''"
| "stringify (JBool b) = (if b then ''true'' else ''false'')"
| "stringify (JNum i) = show_int i"
| "stringify (JDec i) = show_hundredths i"
| "stringify (JStr s) = quote s"
| "stringify (JArr vs) = ''['' @ join '','' (map stringify vs) @ '']''"
| "stringify (JObj kvs) =
     ''{'' @ join '','' (map (\<lambda>(k, v). quote k @ '':'' @ stringify v) kvs) @ ''}''"

end
