(* ===== verification/World.thy ===== *)
theory World
  imports Schema
begin

section \<open>The outside of the program as parameters\<close>

text \<open>
  Everything the program calls and that is not its own code is an argument of the model: the record
  \<open>env\<close> holds one function per external call. Calls that read or change the world outside the
  process (clock, random numbers, file system, processes, network) take the world \<open>'w\<close> and return
  its next value; pure library calls (the URL parser, bcrypt's comparison, PBKDF2, JSON web tokens) are
  plain functions. Nothing is assumed about them here; a theorem that needs a documented law of one of
  them names it as a hypothesis.
\<close>

record url =
  url_protocol :: string
  url_username :: string
  url_password :: string
  url_search :: string
  url_hash :: string
  url_origin :: string

text \<open>A \<open>fetch\<close> response: \<open>r_json\<close> is what \<open>response.json()\<close> yields, \<open>None\<close> if it throws.\<close>

record response =
  r_ok :: bool
  r_status :: nat
  r_statusText :: string
  r_text :: string
  r_json :: "json option"

text \<open>The full form of a \<open>fetch\<close>: the request with its headers, and the response with its headers and its final URL, or the
  error that \<open>fetch\<close> throws; \<open>r_body\<close> is the number of bytes that \<open>response.arrayBuffer()\<close> yields, or its
  error. \<open>fetch\<close> below is the form of the calls that look at neither.\<close>

record http_request =
  hq_method :: string
  hq_url :: string
  hq_headers :: "(string \<times> string) list"
  hq_body :: string

record http_response = response +
  r_header :: "string \<Rightarrow> string option"
  r_url :: string
  r_body :: "string + nat"

record fetch_failure =
  ff_name :: string
  ff_message :: string

text \<open>A URL taken apart: what stands before the query, the decoded parameters, and the fragment.\<close>

record url_parts =
  up_base :: string
  up_query :: "(string \<times> string) list"
  up_hash :: string

type_synonym claims = "(string \<times> json) list"

record 'w env =
  Date_now :: "'w \<Rightarrow> timestamp \<times> 'w"
  randomUUID :: "'w \<Rightarrow> string \<times> 'w"
  randomBytes :: "nat \<Rightarrow> 'w \<Rightarrow> nat list \<times> 'w"
  pbkdf2Sync :: "string \<Rightarrow> nat list \<Rightarrow> nat \<Rightarrow> nat \<Rightarrow> nat list"
  base64url_length :: "string \<Rightarrow> nat"
  base64_decode :: "string \<Rightarrow> string"
  sha256_hex :: "string \<Rightarrow> string"
  bcrypt_hash :: "string \<Rightarrow> nat \<Rightarrow> 'w \<Rightarrow> string \<times> 'w"
  bcrypt_compare :: "string \<Rightarrow> string \<Rightarrow> bool"
  parse_url :: "string \<Rightarrow> url option"
  jwt_sign :: "string \<Rightarrow> claims \<Rightarrow> string"
  jwt_verify :: "string \<Rightarrow> string \<Rightarrow> timestamp \<Rightarrow> claims option"
  getenv :: "string \<Rightarrow> string option"
  execFile :: "string \<Rightarrow> string list \<Rightarrow> 'w \<Rightarrow> (string + string) \<times> 'w"
  fetch :: "string \<Rightarrow> 'w \<Rightarrow> response option \<times> 'w"
  sleep_ms :: "nat \<Rightarrow> 'w \<Rightarrow> 'w"
  fs_exists :: "string \<Rightarrow> 'w \<Rightarrow> bool"
  fs_read :: "string \<Rightarrow> 'w \<Rightarrow> string option"
  fs_write :: "string \<Rightarrow> string \<Rightarrow> 'w \<Rightarrow> (string + unit) \<times> 'w"
  fs_create :: "string \<Rightarrow> string \<Rightarrow> 'w \<Rightarrow> (string + unit) \<times> 'w"
  fs_mkdir :: "string \<Rightarrow> 'w \<Rightarrow> (string + unit) \<times> 'w"
  fs_chmod :: "string \<Rightarrow> 'w \<Rightarrow> 'w"
  cwd :: string
  fs_unlink :: "string \<Rightarrow> 'w \<Rightarrow> (string + unit) \<times> 'w"
  proc_spawn :: "string \<Rightarrow> string list \<Rightarrow> 'w \<Rightarrow> (string + unit) \<times> 'w"
  proc_spawn_error :: "'w \<Rightarrow> string option"
  proc_alive :: "int \<Rightarrow> 'w \<Rightarrow> bool"
  proc_kill :: "string \<Rightarrow> int option \<Rightarrow> 'w \<Rightarrow> 'w"
  zod_issue :: "string \<Rightarrow> json \<Rightarrow> string"
  http_fetch :: "http_request \<Rightarrow> 'w \<Rightarrow> (fetch_failure + http_response) \<times> 'w"
  split_url :: "string \<Rightarrow> url_parts option"
  join_url :: "url_parts \<Rightarrow> string"
  file_size :: "string \<Rightarrow> 'w \<Rightarrow> nat option"
  journal_mode :: "'w \<Rightarrow> string option"
  node_process :: "string \<times> string \<times> string"
  process_uptime :: "'w \<Rightarrow> nat"
  process_id :: nat
  sqlite :: "string \<Rightarrow> string \<Rightarrow> 'w \<Rightarrow> (string + string) \<times> 'w"
  fs_list :: "string \<Rightarrow> 'w \<Rightarrow> (string + (string \<times> nat) list) \<times> 'w"
  performance_now :: "'w \<Rightarrow> nat \<times> 'w"

text \<open>\<open>ext f\<close> runs an external call on the world inside the state.\<close>

definition ext :: "('w \<Rightarrow> 'a \<times> 'w) \<Rightarrow> (('w, 'z) db_scheme, 'a) act" where
  "ext f = (\<lambda>s. case f (outer s) of (x, w) \<Rightarrow> (Inr x, s\<lparr>outer := w\<rparr>))"

definition ext_read :: "('w \<Rightarrow> 'a) \<Rightarrow> (('w, 'z) db_scheme, 'a) act" where
  "ext_read f = (\<lambda>s. (Inr (f (outer s)), s))"

text \<open>An external call that may throw.\<close>

definition ext_try :: "('w \<Rightarrow> (string + 'a) \<times> 'w) \<Rightarrow> (('w, 'z) db_scheme, 'a) act" where
  "ext_try f = (\<lambda>s. case f (outer s) of
      (Inl m, w) \<Rightarrow> (Inl (Err m), s\<lparr>outer := w\<rparr>)
    | (Inr x, w) \<Rightarrow> (Inr x, s\<lparr>outer := w\<rparr>))"

definition ext_do :: "('w \<Rightarrow> 'w) \<Rightarrow> (('w, 'z) db_scheme, unit) act" where
  "ext_do f = (\<lambda>s. (Inr (), s\<lparr>outer := f (outer s)\<rparr>))"

lemma ext_run [act_simps]:
  "ext f s = (Inr (fst (f (outer s))), s\<lparr>outer := snd (f (outer s))\<rparr>)"
  by (simp add: ext_def split: prod.splits)

lemma ext_Inr_elim [run_elims]:
  assumes "ext f s = (Inr x, t)"
  obtains w where "f (outer s) = (x, w)" and "t = s\<lparr>outer := w\<rparr>"
  using assms by (auto simp: ext_def split: prod.splits)

lemma ext_read_run [simp, act_simps]: "ext_read f s = (Inr (f (outer s)), s)"
  by (simp add: ext_read_def)

lemma ext_do_run [simp, act_simps]: "ext_do f s = (Inr (), s\<lparr>outer := f (outer s)\<rparr>)"
  by (simp add: ext_do_def)

text \<open>
  A predicate about the tables does not look at the outer world; \<open>ext_free I\<close> says so, and then every
  external call keeps it.
\<close>

definition ext_free :: "(('w, 'z) db_scheme \<Rightarrow> bool) \<Rightarrow> bool" where
  "ext_free I \<longleftrightarrow> (\<forall>s w. I (s\<lparr>outer := w\<rparr>) = I s)"

lemma ext_freeD: "ext_free I \<Longrightarrow> I (s\<lparr>outer := w\<rparr>) = I s"
  by (simp add: ext_free_def)

lemma keeps_ext: "ext_free I \<Longrightarrow> keeps I (ext f)"
  by (auto simp: keeps_def ext_def ext_free_def split: prod.splits)

lemma keeps_ext_read [keeps_intros]: "keeps I (ext_read f)"
  by (simp add: keeps_def)

lemma keeps_ext_try: "ext_free I \<Longrightarrow> keeps I (ext_try f)"
  by (auto simp: keeps_def ext_try_def ext_free_def split: prod.splits sum.splits)

lemma keeps_ext_do: "ext_free I \<Longrightarrow> keeps I (ext_do f)"
  by (auto simp: keeps_def ext_free_def)

lemma safe_ext [safe_intros]: "safe (ext f)"
  by (simp add: safe_def ext_run)

lemma safe_ext_read [safe_intros]: "safe (ext_read f)"
  by (simp add: safe_def)

lemma safe_ext_do [safe_intros]: "safe (ext_do f)"
  by (simp add: safe_def)

lemmas keeps_externals = keeps_ext keeps_ext_try keeps_ext_do

subsection \<open>A concrete environment\<close>

text \<open>
  The world is a counter that every clock reading and every UUID advances; the library functions are
  simple stand-ins. It shows that the hypotheses of the theorems can be met, and it makes the model
  run on concrete inputs.
\<close>

definition demo_url :: "string \<Rightarrow> url option" where
  "demo_url s =
     (if startsWith s ''http://'' then
        Some \<lparr>url_protocol = ''http:'', url_username = [], url_password = [], url_search = [],
              url_hash = [], url_origin = ''http://'' @ takeWhile (\<lambda>c. c \<noteq> CHR ''/'') (drop 7 s)\<rparr>
      else if startsWith s ''https://'' then
        Some \<lparr>url_protocol = ''https:'', url_username = [], url_password = [], url_search = [],
              url_hash = [], url_origin = ''https://'' @ takeWhile (\<lambda>c. c \<noteq> CHR ''/'') (drop 8 s)\<rparr>
      else None)"

definition demo_env :: "nat env" where
  "demo_env = \<lparr>
     Date_now = (\<lambda>w. (w, Suc w)),
     randomUUID = (\<lambda>w. (''id-'' @ replicate w (CHR ''x''), Suc w)),
     randomBytes = (\<lambda>n w. (replicate n 7, w)),
     pbkdf2Sync = (\<lambda>p salt i n. replicate n 9),
     base64url_length = (\<lambda>s. 6 * length s div 8),
     base64_decode = (\<lambda>s. s),
     sha256_hex = (\<lambda>s. s),
     bcrypt_hash = (\<lambda>p n w. (''$2$'' @ p, w)),
     bcrypt_compare = (\<lambda>p h. h = ''$2$'' @ p),
     parse_url = demo_url,
     jwt_sign = (\<lambda>k c. k @ ''.'' @ stringify (JObj c)),
     jwt_verify = (\<lambda>k t now. None),
     getenv = (\<lambda>v. None),
     execFile = (\<lambda>c a w. (Inr [], w)),
     fetch = (\<lambda>u w. (None, w)),
     sleep_ms = (\<lambda>n w. w + n),
     fs_exists = (\<lambda>f w. False),
     fs_read = (\<lambda>f w. None),
     fs_write = (\<lambda>f c w. (Inr (), w)),
     fs_create = (\<lambda>f c w. (Inr (), w)),
     fs_mkdir = (\<lambda>d w. (Inr (), w)),
     fs_chmod = (\<lambda>f w. w),
     cwd = ''/app'',
     fs_unlink = (\<lambda>f w. (Inr (), w)),
     proc_spawn = (\<lambda>c a w. (Inr (), w)),
     proc_spawn_error = (\<lambda>w. None),
     proc_alive = (\<lambda>p w. False),
     proc_kill = (\<lambda>sig p w. w),
     zod_issue = (\<lambda>schema body. ''Invalid input''),
     http_fetch = (\<lambda>q w. (Inl \<lparr>ff_name = ''TypeError'', ff_message = ''fetch failed''\<rparr>, w)),
     split_url = (\<lambda>s. if startsWith s ''http'' then Some \<lparr>up_base = s, up_query = [], up_hash = []\<rparr> else None),
     join_url = (\<lambda>u. up_base u @ concat (map (\<lambda>(k, v). k @ v) (up_query u)) @ up_hash u),
     file_size = (\<lambda>f w. None),
     journal_mode = (\<lambda>w. Some ''wal''),
     node_process = (''v22'', ''linux'', ''x64''),
     process_uptime = (\<lambda>w. w div 1000),
     process_id = 7,
     sqlite = (\<lambda>f q w. (Inr ''ok'', w)),
     fs_list = (\<lambda>d w. (Inr [], w)),
     performance_now = (\<lambda>w. (1000000 * w, Suc w))\<rparr>"

lemma demo_env_simps [simp]:
  "Date_now demo_env w = (w, Suc w)"
  "randomUUID demo_env w = (''id-'' @ replicate w (CHR ''x''), Suc w)"
  "randomBytes demo_env n w = (replicate n 7, w)"
  "pbkdf2Sync demo_env p salt i n = replicate n 9"
  "base64url_length demo_env s = 6 * length s div 8"
  "base64_decode demo_env s = s"
  "sha256_hex demo_env s = s"
  "bcrypt_hash demo_env p n w = (''$2$'' @ p, w)"
  "bcrypt_compare demo_env p h = (h = ''$2$'' @ p)"
  "parse_url demo_env = demo_url"
  "getenv demo_env v = None"
  "execFile demo_env c a w = (Inr [], w)"
  "fetch demo_env u w = (None, w)"
  "sleep_ms demo_env n w = w + n"
  "fs_exists demo_env fl w = False"
  "fs_read demo_env fl w = None"
  "fs_write demo_env fl ct w = (Inr (), w)"
  "fs_create demo_env fl ct w = (Inr (), w)"
  "fs_mkdir demo_env fl w = (Inr (), w)"
  "fs_chmod demo_env fl w = w"
  "cwd demo_env = ''/app''"
  "fs_unlink demo_env fl w = (Inr (), w)"
  "proc_alive demo_env q w = False"
  "zod_issue demo_env sch b = ''Invalid input''"
  "sqlite demo_env fl sq w = (Inr ''ok'', w)"
  "fs_list demo_env fl w = (Inr [], w)"
  "performance_now demo_env w = (1000000 * w, Suc w)"
  "file_size demo_env fl w = None"
  "http_fetch demo_env hq w = (Inl \<lparr>ff_name = ''TypeError'', ff_message = ''fetch failed''\<rparr>, w)"
  "jwt_sign demo_env k cl = k @ ''.'' @ stringify (JObj cl)"
  by (simp_all add: demo_env_def)

end
