(* ===== verification/Tables.thy ===== *)
theory Tables
  imports World "HOL-Library.List_Lexorder" "HOL-Library.Char_ord" "HOL-Library.Product_Lexorder"
begin

section \<open>SQL tables\<close>

text \<open>
  The meaning of the SQL statements of the program on a table, a list of rows: \<open>SELECT ... WHERE\<close> is
  \<open>filter\<close>, \<open>UPDATE\<close> and \<open>DELETE\<close> are below, and the writing statements check the table's uniqueness
  constraints (\<open>uniq\<close>) on their result and the row triggers (\<open>row_ok\<close>) on every row they write; a
  violated constraint aborts the statement.
\<close>

definition update_where :: "('r \<Rightarrow> bool) \<Rightarrow> ('r \<Rightarrow> 'r) \<Rightarrow> 'r list \<Rightarrow> 'r list" where
  "update_where P f t = map (\<lambda>r. if P r then f r else r) t"

definition delete_where :: "('r \<Rightarrow> bool) \<Rightarrow> 'r list \<Rightarrow> 'r list" where
  "delete_where P t = filter (\<lambda>r. \<not> P r) t"

definition sql_insert :: "('r list \<Rightarrow> bool) \<Rightarrow> ('r \<Rightarrow> bool) \<Rightarrow> 'r \<Rightarrow> 'r list \<Rightarrow> 'r list option" where
  "sql_insert uniq row_ok r t = (if row_ok r \<and> uniq (t @ [r]) then Some (t @ [r]) else None)"

definition sql_update ::
  "('r list \<Rightarrow> bool) \<Rightarrow> ('r \<Rightarrow> bool) \<Rightarrow> ('r \<Rightarrow> bool) \<Rightarrow> ('r \<Rightarrow> 'r) \<Rightarrow> 'r list \<Rightarrow> 'r list option" where
  "sql_update uniq row_ok P f t =
     (if list_all (\<lambda>r. P r \<longrightarrow> row_ok (f r)) t \<and> uniq (update_where P f t)
      then Some (update_where P f t) else None)"

text \<open>A statement of the program on one table of the state; run alone it is a batch of one.\<close>

definition on_table ::
  "('s \<Rightarrow> 't list) \<Rightarrow> ('t list \<Rightarrow> 's \<Rightarrow> 's) \<Rightarrow> ('t list \<Rightarrow> 't list option) \<Rightarrow> 's \<Rightarrow> 's option" where
  "on_table get put stmt s = map_option (\<lambda>t. put t s) (stmt (get s))"

definition run_sql ::
  "('s \<Rightarrow> 't list) \<Rightarrow> ('t list \<Rightarrow> 's \<Rightarrow> 's) \<Rightarrow> ('t list \<Rightarrow> 't list option) \<Rightarrow> ('s, unit) act" where
  "run_sql get put stmt = batch [on_table get put stmt]"

lemma run_sql_eq:
  "run_sql get put stmt s = (case stmt (get s) of
      None \<Rightarrow> (Inl (Err sql_error), s)
    | Some t \<Rightarrow> (Inr (), put t s))"
  by (simp add: run_sql_def batch_def on_table_def split: option.splits)

lemma run_sql_Some [act_simps]:
  "stmt (get s) = Some t \<Longrightarrow> run_sql get put stmt s = (Inr (), put t s)"
  by (simp add: run_sql_eq)

lemma run_sql_None [act_simps]:
  "stmt (get s) = None \<Longrightarrow> run_sql get put stmt s = (Inl (Err sql_error), s)"
  by (simp add: run_sql_eq)

lemma run_sql_Inr_elim [run_elims]:
  assumes "run_sql get put stmt s = (Inr x, t)"
  obtains u where "stmt (get s) = Some u" and "t = put u s"
  using assms by (auto simp: run_sql_eq split: option.splits)

lemma keeps_run_sql:
  "(\<And>s t. I s \<Longrightarrow> stmt (get s) = Some t \<Longrightarrow> I (put t s)) \<Longrightarrow> keeps I (run_sql get put stmt)"
  unfolding run_sql_def by (rule keeps_statement) (auto simp: on_table_def)

subsection \<open>Facts about updates\<close>

lemma update_where_Nil [simp]: "update_where P f [] = []"
  by (simp add: update_where_def)

lemma update_where_Cons [simp]:
  "update_where P f (r # t) = (if P r then f r else r) # update_where P f t"
  by (simp add: update_where_def)

lemma length_update_where [simp]: "length (update_where P f t) = length t"
  by (simp add: update_where_def)

lemma map_update_where:
  "(\<And>r. g (f r) = g r) \<Longrightarrow> map g (update_where P f t) = map g t"
  by (simp add: update_where_def)

lemma in_update_where:
  "r \<in> set (update_where P f t) \<longleftrightarrow> (\<exists>r0 \<in> set t. r = (if P r0 then f r0 else r0))"
  by (auto simp: update_where_def)

lemma list_all_update_where:
  "(\<And>r. P r \<Longrightarrow> Q (f r)) \<Longrightarrow> (\<And>r. \<not> P r \<Longrightarrow> Q r) \<Longrightarrow> list_all Q (update_where P f t)"
  by (induction t) auto

lemma filter_update_where_other:
  "(\<And>r. P r \<Longrightarrow> \<not> Q r \<and> \<not> Q (f r)) \<Longrightarrow> filter Q (update_where P f t) = filter Q t"
  by (induction t) auto

lemma sql_insert_Some: "sql_insert uniq ok r t = Some t' \<longleftrightarrow> ok r \<and> uniq (t @ [r]) \<and> t' = t @ [r]"
  by (auto simp: sql_insert_def)

lemma sql_update_Some:
  "sql_update uniq ok P f t = Some t' \<longleftrightarrow>
     (\<forall>r \<in> set t. P r \<longrightarrow> ok (f r)) \<and> uniq (update_where P f t) \<and> t' = update_where P f t"
  by (auto simp: sql_update_def list_all_iff)

subsection \<open>A table with a key\<close>

text \<open>
  The contract every keyed table offers to the services: rows have a key column, and the uniqueness
  constraint contains that of the key and survives deletion. The lemmas are what a lookup by key returns
  after each kind of statement.
\<close>

locale keyed_table =
  fixes key :: "'r \<Rightarrow> string" and uniq :: "'r list \<Rightarrow> bool"
  assumes uniq_Nil: "uniq []"
    and uniq_key: "uniq t \<Longrightarrow> distinct (map key t)"
    and uniq_filter: "uniq t \<Longrightarrow> uniq (filter P t)"
begin

lemma lookup_member: "uniq t \<Longrightarrow> r \<in> set t \<Longrightarrow> filter (\<lambda>x. key x = key r) t = [r]"
  by (rule filter_key_singleton [OF uniq_key])

lemma lookup_unique:
  "uniq t \<Longrightarrow> filter (\<lambda>x. key x = k) t = r # rs \<Longrightarrow> rs = [] \<and> r \<in> set t \<and> key r = k"
proof -
  assume "uniq t" and f: "filter (\<lambda>x. key x = k) t = r # rs"
  from f have "r \<in> set (filter (\<lambda>x. key x = k) t)" by simp
  then have r: "r \<in> set t" "key r = k" by auto
  with lookup_member [OF \<open>uniq t\<close> r(1)] f show ?thesis by simp
qed

lemma lookup_inserted:
  assumes "sql_insert uniq ok r t = Some t'"
  shows "filter (\<lambda>x. key x = key r) t' = [r]"
proof -
  from assms have "uniq t'" and "r \<in> set t'"
    by (auto simp: sql_insert_def split: if_splits)
  then show ?thesis by (rule lookup_member)
qed

lemma lookup_insert_other:
  "sql_insert uniq ok r t = Some t' \<Longrightarrow> k \<noteq> key r \<Longrightarrow>
     filter (\<lambda>x. key x = k) t' = filter (\<lambda>x. key x = k) t"
  by (auto simp: sql_insert_def split: if_splits)

lemma insert_uniq: "sql_insert uniq ok r t = Some t' \<Longrightarrow> uniq t'"
  by (auto simp: sql_insert_def split: if_splits)

lemma update_uniq: "sql_update uniq ok P f t = Some t' \<Longrightarrow> uniq t'"
  by (auto simp: sql_update_def split: if_splits)

lemma delete_uniq: "uniq t \<Longrightarrow> uniq (delete_where P t)"
  unfolding delete_where_def by (rule uniq_filter)

lemma lookup_updated:
  assumes "sql_update uniq ok (\<lambda>x. key x = k) f t = Some t'" and "\<And>r. key (f r) = key r"
  shows "filter (\<lambda>x. key x = k) t' = map f (filter (\<lambda>x. key x = k) t)"
proof -
  have "filter (\<lambda>x. key x = k) (update_where (\<lambda>x. key x = k) f u) = map f (filter (\<lambda>x. key x = k) u)" for u
    by (induction u) (auto simp: update_where_def assms(2))
  with assms(1) show ?thesis by (auto simp: sql_update_def split: if_splits)
qed

lemma member_by_key: "uniq t \<Longrightarrow> r \<in> set t \<Longrightarrow> r' \<in> set t \<Longrightarrow> key r = key r' \<Longrightarrow> r = r'"
  using distinct_map_key_eq [OF uniq_key] .

lemma update_one:
  assumes "uniq t" and "r0 \<in> set t" and "\<And>r. P r \<Longrightarrow> key r = key r0" and "P r0"
  shows "update_where P f t = update_where (\<lambda>r. key r = key r0) (\<lambda>_. f r0) t"
proof -
  have "(if P r then f r else r) = (if key r = key r0 then f r0 else r)" if "r \<in> set t" for r
  proof (cases "key r = key r0")
    case True
    then have "r = r0" using member_by_key [OF assms(1) that assms(2)] by blast
    then show ?thesis using assms(4) by simp
  next
    case False
    then have "\<not> P r" using assms(3) by blast
    with False show ?thesis by simp
  qed
  then show ?thesis unfolding update_where_def by (intro map_cong refl)
qed

lemma lookup_deleted: "filter (\<lambda>x. key x = k) (delete_where (\<lambda>x. key x = k) t) = []"
  by (simp add: delete_where_def)

end

end
