(* ===== verification/Log_Service.thy ===== *)
theory Log_Service
  imports Tables
begin

section \<open>Log service\<close>

text \<open>
  \<open>lib/services/log.service.ts\<close>: redaction of log texts and metadata, the log table's operations, and the
  filters of \<open>queryLogs\<close>. The nine redaction patterns are scanners: a keyword, a run of separators and
  the captured secret, with the regular expression's backtracking on the separators written out.
\<close>

subsection \<open>Redaction of texts\<close>

definition REDACTED :: string where "REDACTED = ''[REDACTED]''"

definition is_control :: "char \<Rightarrow> bool" where
  "is_control c \<longleftrightarrow> in_range 0 8 c \<or> c = CHR 0x0B \<or> c = CHR 0x0C \<or> in_range 14 31 c"

text \<open>The classes \<^verbatim>\<open>["':\s=]\<close>, \<^verbatim>\<open>[^"\s,;&]\<close> and \<^verbatim>\<open>[A-Za-z0-9._~-]\<close>.\<close>

definition is_sep :: "char \<Rightarrow> bool" where
  "is_sep c \<longleftrightarrow> c = CHR 0x22 \<or> c = CHR 0x27 \<or> c = CHR '':'' \<or> c = CHR ''='' \<or> is_ws c"

definition is_captured :: "char \<Rightarrow> bool" where
  "is_captured c \<longleftrightarrow> \<not> (c = CHR 0x22 \<or> c = CHR '','' \<or> c = CHR '';'' \<or> c = CHR ''&'' \<or> is_ws c)"

definition is_bearer_char :: "char \<Rightarrow> bool" where
  "is_bearer_char c \<longleftrightarrow> is_alnum c \<or> c = CHR ''.'' \<or> c = CHR ''_'' \<or> c = CHR ''~'' \<or> c = CHR ''-''"

text \<open>\<open>(sep)+(cap+)\<close> at the head of a text: the longest run of separators first, then shorter ones.\<close>

fun try_sep :: "(char \<Rightarrow> bool) \<Rightarrow> nat \<Rightarrow> string \<Rightarrow> (nat \<times> string) option" where
  "try_sep cap 0 s = None"
| "try_sep cap (Suc k) s =
     (let captured = takeWhile cap (drop (Suc k) s)
      in if captured \<noteq> [] then Some (Suc k, captured) else try_sep cap k s)"

text \<open>A keyword (in lower case) at the head of a text, in either case.\<close>

fun startsWith_ci :: "string \<Rightarrow> string \<Rightarrow> bool" where
  "startsWith_ci s [] = True"
| "startsWith_ci [] (k # ks) = False"
| "startsWith_ci (c # cs) (k # ks) = (if lower_char c = k then startsWith_ci cs ks else False)"

datatype secret_pattern = Keyed "string list" "char \<Rightarrow> bool" "char \<Rightarrow> bool"

fun match_secret :: "secret_pattern \<Rightarrow> string \<Rightarrow> (nat \<times> string) option" where
  "match_secret (Keyed kws sep cap) s =
     (case find (\<lambda>k. startsWith_ci s k) kws of
        None \<Rightarrow> None
      | Some k \<Rightarrow>
          (let rest = drop (length k) s
           in case try_sep cap (length (takeWhile sep rest)) rest of
                None \<Rightarrow> None
              | Some (n, captured) \<Rightarrow>
                  (let len = length k + n + length captured
                   in Some (len, replace_first captured REDACTED (take len s)))))"

definition SENSITIVE_PATTERNS :: "secret_pattern list" where
  "SENSITIVE_PATTERNS =
     [Keyed [''password''] is_sep is_captured,
      Keyed [''upstream_password''] is_sep is_captured,
      Keyed [''local_password''] is_sep is_captured,
      Keyed [''privatekey''] is_sep is_captured,
      Keyed [''private_key''] is_sep is_captured,
      Keyed [''presharedkey''] is_sep is_captured,
      Keyed [''session_token'', ''session-token'', ''sessiontoken''] is_sep is_captured,
      Keyed [''authorization''] is_sep is_captured,
      Keyed [''bearer''] is_ws is_bearer_char]"

definition sanitizeLogString :: "string \<Rightarrow> string" where
  "sanitizeLogString input =
     take 8000 (foldl (\<lambda>s p. replace_all (match_secret p) s)
                  (filter (\<lambda>c. \<not> is_control c) input) SENSITIVE_PATTERNS)"

lemmas redact_eval = char_eval is_control_def is_sep_def is_captured_def is_bearer_char_def
  REDACTED_def SENSITIVE_PATTERNS_def sanitizeLogString_def

subsection \<open>Redaction of metadata\<close>

definition sensitive_words :: "string list" where
  "sensitive_words = [''password'', ''secret'', ''privatekey'', ''private_key'', ''preshared'',
     ''token'', ''cookie'', ''authorization'', ''config'']"

definition is_sensitive_key :: "string \<Rightarrow> bool" where
  "is_sensitive_key key = list_ex (includesStr (toLowerCase key)) sensitive_words"

fun scrubValue :: "json \<Rightarrow> string \<Rightarrow> json" where
  "scrubValue v key =
     (if is_sensitive_key key then JStr REDACTED
      else case v of
        JArr vs \<Rightarrow> JArr (map (\<lambda>item. scrubValue item []) vs)
      | JObj kvs \<Rightarrow> JObj (map (\<lambda>(childKey, childValue). (childKey, scrubValue childValue childKey)) kvs)
      | JStr s \<Rightarrow> JStr (sanitizeLogString s)
      | _ \<Rightarrow> v)"

declare scrubValue.simps [simp del]

definition sanitizeMetadata :: "json option \<Rightarrow> string option" where
  "sanitizeMetadata metadata = map_option (\<lambda>m. stringify (scrubValue m [])) metadata"

subsection \<open>The log table\<close>

definition log_uniq :: "(nat \<times> log_entry) list \<Rightarrow> bool" where
  "log_uniq t = distinct (map (\<lambda>r. l_id (snd r)) t)"

definition next_rowid :: "(nat \<times> log_entry) list \<Rightarrow> nat" where
  "next_rowid t = Suc (foldr max (map fst t) 0)"

definition insert_log :: "log_entry \<Rightarrow> (('w, 'z) db_scheme, unit) act" where
  "insert_log e = run_sql t_logs (\<lambda>t s. s\<lparr>t_logs := t\<rparr>)
     (\<lambda>t. sql_insert log_uniq (\<lambda>_. True) (next_rowid t, e) t)"

definition emit :: "log_event \<Rightarrow> (('w, 'z) db_scheme, unit) act" where
  "emit ev = modify (\<lambda>s. s\<lparr>emitted := emitted s @ [ev]\<rparr>)"

definition rowToLog :: "nat \<times> log_entry \<Rightarrow> log_entry" where
  "rowToLog row = (let e = snd row in
     e\<lparr>l_metadata_json := (if l_metadata_json e = Some [] then None else l_metadata_json e)\<rparr>)"

definition new_log_entry ::
  "timestamp \<Rightarrow> string \<Rightarrow> log_level \<Rightarrow> log_source \<Rightarrow> string \<Rightarrow> string \<Rightarrow> json option \<Rightarrow> log_entry" where
  "new_log_entry now logId level source category msg metadata =
     \<lparr>l_id = logId, l_timestamp = now, l_level = level, l_source = source,
      l_category = take 128 (sanitizeLogString category), l_message = sanitizeLogString msg,
      l_metadata_json = sanitizeMetadata metadata, l_created_at = now\<rparr>"

definition writeLog ::
  "'w env \<Rightarrow> log_level \<Rightarrow> log_source \<Rightarrow> string \<Rightarrow> string \<Rightarrow> json option \<Rightarrow>
     (('w, 'z) db_scheme, log_entry) act" where
  "writeLog env level source category msg metadata =
     andThen (ext (Date_now env)) (\<lambda>now.
     andThen (ext (randomUUID env)) (\<lambda>logId.
     andThen (ret (new_log_entry now logId level source category msg metadata)) (\<lambda>entry.
     andThen (insert_log entry) (\<lambda>_.
     andThen (emit (New_log entry)) (\<lambda>_.
     ret entry)))))"

text \<open>\<open>LogService.info\<close>, \<open>warn\<close>, \<open>error\<close> and \<open>debug\<close>; every call site drops the returned entry.\<close>

definition logged :: "('s, log_entry) act \<Rightarrow> ('s, unit) act" where
  "logged m = andThen m (\<lambda>_. ret ())"

definition log_info ::
  "'w env \<Rightarrow> log_source \<Rightarrow> string \<Rightarrow> string \<Rightarrow> json option \<Rightarrow> (('w, 'z) db_scheme, unit) act" where
  "log_info env source category msg metadata = logged (writeLog env Info source category msg metadata)"

definition log_warn ::
  "'w env \<Rightarrow> log_source \<Rightarrow> string \<Rightarrow> string \<Rightarrow> json option \<Rightarrow> (('w, 'z) db_scheme, unit) act" where
  "log_warn env source category msg metadata = logged (writeLog env Warning source category msg metadata)"

definition log_error ::
  "'w env \<Rightarrow> log_source \<Rightarrow> string \<Rightarrow> string \<Rightarrow> json option \<Rightarrow> (('w, 'z) db_scheme, unit) act" where
  "log_error env source category msg metadata = logged (writeLog env Error source category msg metadata)"

definition log_debug ::
  "'w env \<Rightarrow> log_source \<Rightarrow> string \<Rightarrow> string \<Rightarrow> json option \<Rightarrow> (('w, 'z) db_scheme, unit) act" where
  "log_debug env source category msg metadata = logged (writeLog env Debug source category msg metadata)"

definition getLog :: "string \<Rightarrow> (('w, 'z) db_scheme, log_entry option) act" where
  "getLog logId = gets (\<lambda>s. case filter (\<lambda>r. l_id (snd r) = logId) (t_logs s) of
     [] \<Rightarrow> None | row # _ \<Rightarrow> Some (rowToLog row))"

record log_update =
  lu_level :: "log_level option"
  lu_source :: "log_source option"
  lu_category :: "string option"
  lu_message :: "string option"
  lu_metadata :: "json option option"

definition updateLog :: "string \<Rightarrow> log_update \<Rightarrow> (('w, 'z) db_scheme, log_entry option) act" where
  "updateLog logId input =
     andThen (getLog logId) (\<lambda>existing. case existing of
       None \<Rightarrow> ret None
     | Some old \<Rightarrow>
         (let level = (case lu_level input of Some l \<Rightarrow> l | None \<Rightarrow> l_level old);
              source = (case lu_source input of Some l \<Rightarrow> l | None \<Rightarrow> l_source old);
              category = (case lu_category input of None \<Rightarrow> l_category old
                          | Some c \<Rightarrow> take 128 (sanitizeLogString c));
              msg = (case lu_message input of None \<Rightarrow> l_message old | Some m \<Rightarrow> sanitizeLogString m);
              metadataJson = (case lu_metadata input of None \<Rightarrow> l_metadata_json old
                              | Some m \<Rightarrow> sanitizeMetadata m)
          in andThen (run_sql t_logs (\<lambda>t s. s\<lparr>t_logs := t\<rparr>)
               (sql_update log_uniq (\<lambda>_. True) (\<lambda>r. l_id (snd r) = logId)
                 (\<lambda>r. (fst r, (snd r)\<lparr>l_level := level, l_source := source, l_category := category,
                        l_message := msg, l_metadata_json := metadataJson\<rparr>)))) (\<lambda>_.
             andThen (getLog logId) (\<lambda>updated.
             andThen (case updated of None \<Rightarrow> ret () | Some u \<Rightarrow> emit (Updated_log u)) (\<lambda>_.
             ret updated)))))"

text \<open>A \<open>DELETE\<close> answers the number of rows it removed.\<close>

definition delete_logs :: "(nat \<times> log_entry \<Rightarrow> bool) \<Rightarrow> (('w, 'z) db_scheme, nat) act" where
  "delete_logs P = (\<lambda>s. (Inr (length (filter P (t_logs s))),
                         s\<lparr>t_logs := delete_where P (t_logs s)\<rparr>))"

definition deleteLog :: "string \<Rightarrow> (('w, 'z) db_scheme, bool) act" where
  "deleteLog logId =
     andThen (delete_logs (\<lambda>r. l_id (snd r) = logId)) (\<lambda>n.
     andThen (cond (n > 0) (emit (Deleted_log logId))) (\<lambda>_. ret (n > 0)))"

definition clearAllLogs :: "(('w, 'z) db_scheme, nat) act" where
  "clearAllLogs = delete_logs (\<lambda>_. True)"

definition clamp :: "int \<Rightarrow> int \<Rightarrow> int \<Rightarrow> int" where
  "clamp lo hi x = max lo (min hi x)"

definition DAY_MS :: int where "DAY_MS = 86400000"

definition pruneOldLogs :: "'w env \<Rightarrow> int \<Rightarrow> (('w, 'z) db_scheme, nat) act" where
  "pruneOldLogs env days =
     (let safeDays = clamp 1 365 days
      in andThen (ext (Date_now env)) (\<lambda>now.
         delete_logs (\<lambda>r. int (l_timestamp (snd r)) < int now - safeDays * DAY_MS)))"

subsection \<open>Queries\<close>

definition ascii_lower :: "char \<Rightarrow> char" where
  "ascii_lower c = (if in_range 65 90 c then char_of ((of_char c :: nat) + 32) else c)"

text \<open>SQLite's \<open>LIKE\<close>: \<open>%\<close> is any run, \<open>_\<close> any character, ASCII letters match in either case.\<close>

fun sql_like :: "string \<Rightarrow> string \<Rightarrow> bool" where
  "sql_like [] s = (s = [])"
| "sql_like (p # ps) s =
     (if p = CHR ''%'' then sql_like ps s \<or> (case s of [] \<Rightarrow> False | _ # t \<Rightarrow> sql_like (p # ps) t)
      else (case s of [] \<Rightarrow> False
            | c # t \<Rightarrow> (p = CHR ''_'' \<or> ascii_lower p = ascii_lower c) \<and> sql_like ps t))"

definition REQUEST_ROUTING_CATEGORIES :: "string list" where
  "REQUEST_ROUTING_CATEGORIES =
     [''direct.route'', ''cache.route'', ''cache.result'', ''live.route'', ''hls.token'']"

definition VPN_SOURCES :: "string list" where
  "VPN_SOURCES = [''vpn'', ''wireguard'', ''openvpn'', ''vpngate'', ''warp'']"

text \<open>The condition \<open>addGroupCondition\<close> pushes; no condition for an unknown group.\<close>

definition addGroupCondition :: "string \<Rightarrow> log_entry \<Rightarrow> bool" where
  "addGroupCondition grp e =
     (let category = l_category e; source = source_name (l_source e)
      in if grp = ''traffic'' then
           sql_like ''request.%'' category \<or> sql_like ''upstream.%'' category \<or>
           sql_like ''route.%'' category \<or> category \<in> set REQUEST_ROUTING_CATEGORIES
         else if grp = ''cache'' then sql_like ''cache.%'' category
         else if grp = ''streams'' then
           sql_like ''live.%'' category \<or> sql_like ''hls.%'' category \<or> sql_like ''stream.%'' category
         else if grp = ''vpn'' then source \<in> set VPN_SOURCES
         else if grp = ''providers'' then source = ''provider''
         else if grp = ''auth'' then source = ''auth''
         else if grp = ''system'' then source = ''system''
         else True)"

record log_query =
  q_level :: "string option"
  q_source :: "string option"
  q_category :: "string option"
  q_group :: "string option"
  q_search :: "string option"
  q_limit :: "int option"
  q_offset :: "int option"
  q_asc :: bool

text \<open>A filter parameter is active when it is a non-empty text other than \<open>'all'\<close>.\<close>

definition active_filter :: "string option \<Rightarrow> string option" where
  "active_filter p = (case p of None \<Rightarrow> None | Some v \<Rightarrow> if v = [] \<or> v = ''all'' then None else Some v)"

definition query_where :: "log_query \<Rightarrow> log_entry \<Rightarrow> bool" where
  "query_where q e \<longleftrightarrow>
     (case active_filter (q_level q) of None \<Rightarrow> True | Some v \<Rightarrow> level_name (l_level e) = v) \<and>
     (case active_filter (q_source q) of None \<Rightarrow> True | Some v \<Rightarrow> source_name (l_source e) = v) \<and>
     (case active_filter (q_category q) of None \<Rightarrow> True | Some v \<Rightarrow> l_category e = v) \<and>
     (case active_filter (q_group q) of None \<Rightarrow> True | Some v \<Rightarrow> addGroupCondition v e) \<and>
     (case q_search q of None \<Rightarrow> True
      | Some raw \<Rightarrow> (let search = trim raw in
          if search = [] then True
          else (let term = ''%'' @ take 200 search @ ''%''
                in sql_like term (l_message e) \<or> sql_like term (l_category e) \<or>
                   sql_like term (source_name (l_source e)) \<or>
                   (case l_metadata_json e of None \<Rightarrow> False | Some m \<Rightarrow> sql_like term m))))"

text \<open>\<open>None\<close> stands for a number that is missing or not finite.\<close>

definition query_limit :: "log_query \<Rightarrow> nat" where
  "query_limit q = nat (max 1 (min (case q_limit q of None \<Rightarrow> 100 | Some n \<Rightarrow> if n = 0 then 100 else n) 500))"

definition query_offset :: "log_query \<Rightarrow> nat" where
  "query_offset q = nat (max 0 (case q_offset q of None \<Rightarrow> 0 | Some n \<Rightarrow> n))"

text \<open>\<open>ORDER BY timestamp\<close>; rows of one instant keep their table order.\<close>

definition order_logs :: "bool \<Rightarrow> (nat \<times> log_entry) list \<Rightarrow> (nat \<times> log_entry) list" where
  "order_logs asc rows =
     (if asc then sort_key (\<lambda>r. int (l_timestamp (snd r))) rows
      else sort_key (\<lambda>r. - int (l_timestamp (snd r))) rows)"

definition queryLogs :: "log_query \<Rightarrow> (('w, 'z) db_scheme, log_entry list \<times> nat) act" where
  "queryLogs q = gets (\<lambda>s.
     let matching = filter (\<lambda>r. query_where q (snd r)) (t_logs s)
     in (map rowToLog (take (query_limit q) (drop (query_offset q) (order_logs (q_asc q) matching))),
         length matching))"

end
