(* ===== verification/Logs.thy ===== *)
theory Logs
  imports Log_Service "HOL-Library.Multiset"
begin

section \<open>Logs: the log page's filters and the properties of the log service\<close>

text \<open>
  The group filters of \<open>app/logs/page.tsx\<close> on entries that arrive over the live stream, and the
  properties of the service: redaction, bounds, the write/read round trip, paging and retention.
\<close>

subsection \<open>The log page's group filter\<close>

definition matchesGroup :: "log_entry \<Rightarrow> string \<Rightarrow> bool" where
  "matchesGroup log grp =
     (let category = l_category log; source = source_name (l_source log)
      in if grp = ''ALL'' then True
         else if grp = ''traffic'' then
           startsWith category ''request.'' \<or> startsWith category ''upstream.'' \<or>
           startsWith category ''route.'' \<or> category \<in> set REQUEST_ROUTING_CATEGORIES
         else if grp = ''cache'' then startsWith category ''cache.''
         else if grp = ''streams'' then
           startsWith category ''live.'' \<or> startsWith category ''hls.'' \<or> startsWith category ''stream.''
         else if grp = ''vpn'' then source \<in> set VPN_SOURCES
         else if grp = ''providers'' then source = ''provider''
         else if grp = ''auth'' then source = ''auth''
         else if grp = ''system'' then source = ''system''
         else True)"

definition displayGroup :: "log_entry \<Rightarrow> string" where
  "displayGroup log =
     (if matchesGroup log ''traffic'' then ''traffic''
      else if matchesGroup log ''cache'' then ''cache''
      else if matchesGroup log ''streams'' then ''stream''
      else if matchesGroup log ''vpn'' then ''vpn''
      else if matchesGroup log ''providers'' then ''provider''
      else if matchesGroup log ''auth'' then ''auth''
      else if matchesGroup log ''system'' then ''system''
      else source_name (l_source log))"

definition KNOWN_GROUPS :: "string list" where
  "KNOWN_GROUPS = [''traffic'', ''cache'', ''streams'', ''vpn'', ''providers'', ''auth'', ''system'']"

subsection \<open>The log table's interface\<close>

lemma log_uniq_filter: "log_uniq t \<Longrightarrow> log_uniq (filter P t)"
  unfolding log_uniq_def by (rule distinct_map_filter)

interpretation logs: keyed_table "\<lambda>r. l_id (snd r)" log_uniq
  by unfold_locales (simp_all add: log_uniq_def distinct_map_filter)

lemma length_sanitize: "length (sanitizeLogString s) \<le> 8000"
  by (simp add: sanitizeLogString_def)

lemma stringify_nonempty [simp]: "stringify v \<noteq> []"
  by (cases v) (auto simp: show_int_def show_hundredths_def Let_def quote_def)

lemma sanitizeMetadata_not_empty [simp]: "sanitizeMetadata m \<noteq> Some []"
  by (cases m) (auto simp: sanitizeMetadata_def)

text \<open>The outcome of a write: it appends the entry and emits it, unless the identifier is taken.\<close>

definition written_entry ::
  "'w env \<Rightarrow> log_level \<Rightarrow> log_source \<Rightarrow> string \<Rightarrow> string \<Rightarrow> json option \<Rightarrow> 'w \<Rightarrow> log_entry" where
  "written_entry env level source category msg metadata w =
     new_log_entry (fst (Date_now env w)) (fst (randomUUID env (snd (Date_now env w))))
       level source category msg metadata"

definition after_write :: "'w env \<Rightarrow> 'w \<Rightarrow> 'w" where
  "after_write env w = snd (randomUUID env (snd (Date_now env w)))"

lemma writeLog_eq:
  "writeLog env level source category msg metadata s =
     (let e = written_entry env level source category msg metadata (outer s);
          s1 = s\<lparr>outer := after_write env (outer s)\<rparr>
      in if log_uniq (t_logs s @ [(next_rowid (t_logs s), e)])
         then (Inr e, s1\<lparr>t_logs := t_logs s @ [(next_rowid (t_logs s), e)],
                         emitted := emitted s @ [New_log e]\<rparr>)
         else (Inl (Err sql_error), s1))"
  by (simp add: writeLog_def andThen_run ext_run insert_log_def run_sql_eq sql_insert_def emit_def
      written_entry_def after_write_def Let_def)

lemma keeps_writeLog:
  assumes "ext_free I" and "\<And>s t. I s \<Longrightarrow> I (s\<lparr>t_logs := t\<rparr>)" and "\<And>s e. I s \<Longrightarrow> I (s\<lparr>emitted := e\<rparr>)"
  shows "keeps I (writeLog env level source category msg metadata)"
  unfolding writeLog_def insert_log_def emit_def Let_def
  by (intro keeps_intros keeps_ext assms keeps_run_sql keeps_modify)

text \<open>
  A predicate that looks neither at the logs nor at the outer world: logging keeps it.
\<close>

definition log_free :: "(('w, 'z) db_scheme \<Rightarrow> bool) \<Rightarrow> bool" where
  "log_free I \<longleftrightarrow> ext_free I \<and> (\<forall>s t. I (s\<lparr>t_logs := t\<rparr>) = I s) \<and> (\<forall>s e. I (s\<lparr>emitted := e\<rparr>) = I s)"

lemma log_free_ext [intro]: "log_free I \<Longrightarrow> ext_free I"
  by (simp add: log_free_def)

lemma keeps_logged:
  assumes "log_free I"
  shows "keeps I (log_info env a b c d)" and "keeps I (log_warn env a b c d)"
    and "keeps I (log_error env a b c d)" and "keeps I (log_debug env a b c d)"
  using assms
  by (auto simp: log_free_def log_info_def log_warn_def log_error_def log_debug_def logged_def
      intro!: keeps_andThen keeps_ret keeps_writeLog)

lemma log_keeps_table:
  assumes "\<And>s w. g (s\<lparr>outer := w\<rparr>) = g s" and "\<And>s w. g (s\<lparr>t_logs := w\<rparr>) = g s"
    and "\<And>s w. g (s\<lparr>emitted := w\<rparr>) = g s"
  shows "log_info env a b c d s = (r, t) \<Longrightarrow> g t = g s"
    and "log_warn env a b c d s = (r, t) \<Longrightarrow> g t = g s"
    and "log_error env a b c d s = (r, t) \<Longrightarrow> g t = g s"
    and "log_debug env a b c d s = (r, t) \<Longrightarrow> g t = g s"
proof -
  have free: "log_free (\<lambda>u. g u = g s)" by (simp add: log_free_def ext_free_def assms)
  show "log_info env a b c d s = (r, t) \<Longrightarrow> g t = g s" by (rule keepsD_run [OF keeps_logged(1) [OF free]]) simp
  show "log_warn env a b c d s = (r, t) \<Longrightarrow> g t = g s" by (rule keepsD_run [OF keeps_logged(2) [OF free]]) simp
  show "log_error env a b c d s = (r, t) \<Longrightarrow> g t = g s" by (rule keepsD_run [OF keeps_logged(3) [OF free]]) simp
  show "log_debug env a b c d s = (r, t) \<Longrightarrow> g t = g s" by (rule keepsD_run [OF keeps_logged(4) [OF free]]) simp
qed

lemmas log_keeps_users [dest] = log_keeps_table [where g = t_users, simplified]
lemmas log_keeps_providers [dest] = log_keeps_table [where g = t_providers, simplified]
lemmas log_keeps_provider_users [dest] = log_keeps_table [where g = t_provider_users, simplified]
lemmas log_keeps_settings [dest] = log_keeps_table [where g = t_settings, simplified]
lemmas log_keeps_wireguard [dest] = log_keeps_table [where g = t_wireguard, simplified]
lemmas log_keeps_openvpn [dest] = log_keeps_table [where g = t_openvpn, simplified]

subsection \<open>Scrubbed metadata\<close>

fun clean_json :: "json \<Rightarrow> bool" where
  "clean_json (JStr s) = (length s \<le> 8000)"
| "clean_json (JArr vs) = list_all clean_json vs"
| "clean_json (JObj kvs) =
     list_all (\<lambda>(k, v). (is_sensitive_key k \<longrightarrow> v = JStr REDACTED) \<and> clean_json v) kvs"
| "clean_json _ = True"

lemma clean_REDACTED: "clean_json (JStr REDACTED)"
  by (simp add: REDACTED_def)

lemma scrub_sensitive: "is_sensitive_key k \<Longrightarrow> scrubValue v k = JStr REDACTED"
  by (simp add: scrubValue.simps)

lemma clean_scrub: "clean_json (scrubValue v k)"
proof (induction v arbitrary: k)
  case (JArr vs)
  then show ?case
    using clean_REDACTED by (subst scrubValue.simps) (simp add: list_all_iff)
next
  case (JObj kvs)
  have "clean_json (scrubValue v k')" if "(k', v) \<in> set kvs" for k' v
    using JObj that by (metis snds.intros snd_conv)
  then show ?case
    using clean_REDACTED
    by (subst scrubValue.simps) (auto simp: list_all_iff scrub_sensitive)
qed (use clean_REDACTED length_sanitize in \<open>subst scrubValue.simps; auto\<close>)+

subsection \<open>Redaction by one pattern\<close>

lemma takeWhile_all: "(\<forall>c \<in> set xs. P c) \<Longrightarrow> ys = [] \<or> \<not> P (hd ys) \<Longrightarrow> takeWhile P (xs @ ys) = xs"
  by (induction xs) (cases ys, auto)

lemma replace_first_append:
  "p \<noteq> [] \<Longrightarrow> hd p \<notin> set xs \<Longrightarrow> replace_first p r (xs @ p @ ys) = xs @ r @ ys"
proof (induction xs)
  case Nil
  then show ?case by (cases p) auto
next
  case (Cons x xs)
  from Cons.prems have "\<not> startsWith (x # xs @ p @ ys) p" by (cases p) auto
  with Cons show ?case by simp
qed

lemma startsWith_ci_append: "map lower_char k' = k \<Longrightarrow> startsWith_ci (k' @ t) k"
  by (induction k' arbitrary: k) auto

lemma try_sep_hit:
  "takeWhile cap (drop (Suc k) s) \<noteq> [] \<Longrightarrow>
     try_sep cap (Suc k) s = Some (Suc k, takeWhile cap (drop (Suc k) s))"
  by simp

lemma match_secret_hit:
  assumes "map lower_char k' = k" and "sp \<noteq> []" and "\<forall>c \<in> set sp. sep c"
    and "v \<noteq> []" and "\<forall>c \<in> set v. cap c" and "\<not> sep (hd v)" and "hd v \<notin> set (k' @ sp)"
    and "rest = [] \<or> \<not> cap (hd rest)"
  shows "match_secret (Keyed [k] sep cap) (k' @ sp @ v @ rest) =
           Some (length (k' @ sp @ v), k' @ sp @ REDACTED)"
proof -
  have len: "length k = length k'" using assms(1) by auto
  have run: "takeWhile sep (sp @ v @ rest) = sp"
    using assms(3,4,6) by (intro takeWhile_all) (auto simp: hd_append)
  have capt: "takeWhile cap (v @ rest) = v" using assms(5,8) by (intro takeWhile_all) auto
  obtain n where n: "length sp = Suc n" using assms(2) by (cases sp) auto
  have hit: "try_sep cap (length sp) (sp @ v @ rest) = Some (length sp, v)"
    unfolding n using try_sep_hit [of cap n "sp @ v @ rest"] n capt assms(4) by simp
  have "replace_first v REDACTED ((k' @ sp) @ v @ []) = (k' @ sp) @ REDACTED @ []"
    using assms(4,7) by (intro replace_first_append) auto
  then show ?thesis
    using startsWith_ci_append [OF assms(1)] len run hit by (simp add: Let_def)
qed

lemma replace_all_hit:
  "s \<noteq> [] \<Longrightarrow> m s = Some (n, r) \<Longrightarrow> 0 < n \<Longrightarrow> replace_all m s = r @ replace_all m (drop n s)"
  by (cases s) (auto simp: drop_Cons')

subsection \<open>LIKE with a literal prefix\<close>

lemma sql_like_percent: "sql_like ''%'' s"
proof (induction s)
  case (Cons c s)
  then show ?case by (subst sql_like.simps) (simp del: sql_like.simps)
qed simp

lemma sql_like_prefix:
  assumes "\<forall>c \<in> set p. c \<noteq> CHR ''%'' \<and> c \<noteq> CHR ''_'' \<and> ascii_lower c = c"
  shows "sql_like (p @ ''%'') s \<longleftrightarrow> startsWith (map ascii_lower s) p"
  using assms
proof (induction p arbitrary: s)
  case Nil
  then show ?case by (simp add: sql_like_percent del: sql_like.simps)
next
  case (Cons c p)
  then show ?case by (cases s) auto
qed

lemma sql_like_groups [simp]:
  "sql_like ''request.%'' s = startsWith (map ascii_lower s) ''request.''"
  "sql_like ''upstream.%'' s = startsWith (map ascii_lower s) ''upstream.''"
  "sql_like ''route.%'' s = startsWith (map ascii_lower s) ''route.''"
  "sql_like ''cache.%'' s = startsWith (map ascii_lower s) ''cache.''"
  "sql_like ''live.%'' s = startsWith (map ascii_lower s) ''live.''"
  "sql_like ''hls.%'' s = startsWith (map ascii_lower s) ''hls.''"
  "sql_like ''stream.%'' s = startsWith (map ascii_lower s) ''stream.''"
  using sql_like_prefix [of "''request.''" s] sql_like_prefix [of "''upstream.''" s]
    sql_like_prefix [of "''route.''" s] sql_like_prefix [of "''cache.''" s]
    sql_like_prefix [of "''live.''" s] sql_like_prefix [of "''hls.''" s]
    sql_like_prefix [of "''stream.''" s]
  by (simp_all add: ascii_lower_def char_eval)

subsection \<open>Ordering and paging\<close>

lemma set_order_logs [simp]: "set (order_logs asc rows) = set rows"
  by (simp add: order_logs_def)

lemma length_order_logs [simp]: "length (order_logs asc rows) = length rows"
  by (simp add: order_logs_def)

lemma mset_order_logs [simp]: "mset (order_logs asc rows) = mset rows"
  by (simp add: order_logs_def)

lemma sorted_order_logs:
  "sorted_wrt (\<lambda>a b. if asc then l_timestamp (snd a) \<le> l_timestamp (snd b)
                     else l_timestamp (snd b) \<le> l_timestamp (snd a)) (order_logs asc rows)"
proof (cases asc)
  case True
  have "sorted (map (\<lambda>r. int (l_timestamp (snd r))) (order_logs True rows))"
    by (simp add: order_logs_def)
  with True show ?thesis by (simp add: sorted_wrt_map)
next
  case False
  have "sorted (map (\<lambda>r. - int (l_timestamp (snd r))) (order_logs False rows))"
    by (simp add: order_logs_def)
  with False show ?thesis by (simp add: sorted_wrt_map)
qed

definition matching_rows :: "log_query \<Rightarrow> ('w, 'z) db_scheme \<Rightarrow> (nat \<times> log_entry) list" where
  "matching_rows q s = filter (\<lambda>r. query_where q (snd r)) (t_logs s)"

text \<open>The rows of page \<open>k\<close> for a page size \<open>L\<close>, as the log page asks for them.\<close>

definition query_page :: "log_query \<Rightarrow> nat \<Rightarrow> nat \<Rightarrow> ('w, 'z) db_scheme \<Rightarrow> log_entry list" where
  "query_page q L k s =
     (case fst (queryLogs (q\<lparr>q_limit := Some (int L), q_offset := Some (int (k * L))\<rparr>) s) of
        Inl _ \<Rightarrow> [] | Inr (rows, n) \<Rightarrow> rows)"

lemma query_page_eq:
  assumes "1 \<le> L" and "L \<le> 500"
  shows "query_page q L k s =
           map rowToLog (take L (drop (k * L) (order_logs (q_asc q) (matching_rows q s))))"
proof -
  have "query_limit (q\<lparr>q_limit := Some (int L), q_offset := Some (int (k * L))\<rparr>) = L"
    using assms by (simp add: query_limit_def)
  moreover have "query_offset (q\<lparr>q_limit := Some (int L), q_offset := Some (int (k * L))\<rparr>) = k * L"
    by (simp add: query_offset_def del: of_nat_mult)
  moreover have "query_where (q\<lparr>q_limit := a, q_offset := b\<rparr>) = query_where q" for a b
    by (simp add: query_where_def fun_eq_iff)
  ultimately show ?thesis
    by (simp add: query_page_def queryLogs_def matching_rows_def Let_def)
qed

lemma concat_pages:
  "concat (map (\<lambda>k. take L (drop (k * L) xs)) [0..<K]) = take (K * L) xs"
  by (induction K) (simp_all add: take_add [symmetric] add.commute)

subsection \<open>Properties\<close>

text \<open>each single-keyword redaction pattern replaces a secret that follows the keyword and its
  separators by the mark, and nothing before it, provided the secret's first character does not occur
  in the keyword and separators (see the findings for why that proviso is there).\<close>

theorem redact_pattern:
  assumes "Keyed [k] sep cap \<in> set SENSITIVE_PATTERNS" and "map lower_char k' = k"
    and "sp \<noteq> []" and "\<forall>c \<in> set sp. sep c"
    and "v \<noteq> []" and "\<forall>c \<in> set v. cap c" and "\<not> sep (hd v)" and "hd v \<notin> set (k' @ sp)"
    and "rest = [] \<or> \<not> cap (hd rest)"
  shows "replace_all (match_secret (Keyed [k] sep cap)) (k' @ sp @ v @ rest) =
           k' @ sp @ REDACTED @ replace_all (match_secret (Keyed [k] sep cap)) rest"
  using match_secret_hit [OF assms(2-9)] assms(3)
  by (subst replace_all_hit) auto

theorem redact_pattern_witness:
  "replace_all (match_secret (Keyed [''password''] is_sep is_captured)) ''Password: hunter2,x'' =
     ''Password: '' @ REDACTED @ replace_all (match_secret (Keyed [''password''] is_sep is_captured)) '',x''"
  using redact_pattern [of "''password''" is_sep is_captured "''Password''" "'': ''" "''hunter2''" "'',x''"]
  by (simp add: SENSITIVE_PATTERNS_def is_sep_def is_captured_def char_eval)

text \<open>C24: scrubbed metadata has the mark under every sensitive key, at every depth, and no text
  longer than 8000 code units.\<close>

theorem scrubbed_metadata: "clean_json (scrubValue v k)"
  by (rule clean_scrub)

text \<open>C25: a log entry that is written with a new identifier is stored, emitted and read back as it
  was returned; its texts are sanitised and bounded.\<close>

theorem writeLog_roundtrip:
  assumes "log_uniq (t_logs s)"
    and "fst (randomUUID env (snd (Date_now env (outer s)))) \<notin> (\<lambda>r. l_id (snd r)) ` set (t_logs s)"
  shows "\<exists>e t. writeLog env level source category msg metadata s = (Inr e, t) \<and>
           fst (getLog (l_id e) t) = Inr (Some e) \<and> New_log e \<in> set (emitted t) \<and>
           log_uniq (t_logs t) \<and> l_level e = level \<and> l_source e = source \<and>
           length (l_category e) \<le> 128 \<and> length (l_message e) \<le> 8000"
proof -
  define e where "e = written_entry env level source category msg metadata (outer s)"
  define t where "t = t_logs s @ [(next_rowid (t_logs s), e)]"
  have ins: "sql_insert log_uniq (\<lambda>_. True) (next_rowid (t_logs s), e) (t_logs s) = Some t"
    using assms by (auto simp: sql_insert_def t_def log_uniq_def e_def written_entry_def new_log_entry_def)
  have found: "filter (\<lambda>r. l_id (snd r) = l_id e) t = [(next_rowid (t_logs s), e)]"
    using logs.lookup_inserted [OF ins] by simp
  have "rowToLog (next_rowid (t_logs s), e) = e"
    by (simp add: rowToLog_def e_def written_entry_def new_log_entry_def)
  moreover have "length (l_message e) \<le> 8000" "length (l_category e) \<le> 128"
    by (simp_all add: e_def written_entry_def new_log_entry_def length_sanitize)
  moreover have "l_level e = level" "l_source e = source"
    by (simp_all add: e_def written_entry_def new_log_entry_def)
  ultimately show ?thesis
    using found logs.insert_uniq [OF ins]
    by (simp add: writeLog_eq Let_def e_def [symmetric] t_def [symmetric] getLog_def)
qed

theorem writeLog_roundtrip_witness:
  "\<exists>e t. writeLog demo_env Info SrcSystem ''boot'' ''started'' None (empty_db 0) = (Inr e, t) \<and>
     fst (getLog (l_id e) t) = Inr (Some e) \<and> New_log e \<in> set (emitted t) \<and> log_uniq (t_logs t) \<and>
     l_level e = Info \<and> l_source e = SrcSystem \<and> length (l_category e) \<le> 128 \<and> length (l_message e) \<le> 8000"
  by (rule writeLog_roundtrip) (simp_all add: empty_db_def log_uniq_def)

text \<open>the pages of a query with one page size put together are the matching rows, each once and
  in the order of the query.\<close>

theorem pages_partition:
  assumes "1 \<le> L" and "L \<le> 500" and "length (matching_rows q s) \<le> K * L"
  shows "\<exists>rows. concat (map (\<lambda>k. query_page q L k s) [0..<K]) = map rowToLog rows \<and>
           mset rows = mset (matching_rows q s) \<and>
           sorted_wrt (\<lambda>a b. if q_asc q then l_timestamp (snd a) \<le> l_timestamp (snd b)
                             else l_timestamp (snd b) \<le> l_timestamp (snd a)) rows"
proof -
  let ?rows = "order_logs (q_asc q) (matching_rows q s)"
  have "concat (map (\<lambda>k. query_page q L k s) [0..<K]) =
          map rowToLog (concat (map (\<lambda>k. take L (drop (k * L) ?rows)) [0..<K]))"
    using assms(1,2) by (simp add: query_page_eq map_concat comp_def)
  also have "\<dots> = map rowToLog ?rows"
    using assms(3) by (simp add: concat_pages)
  finally show ?thesis
    using sorted_order_logs by (intro exI [of _ ?rows]) simp
qed

text \<open>the server's group filter and the log page's agree on every entry whose category is in
  lower case.\<close>

theorem group_filters_agree:
  assumes "map ascii_lower (l_category e) = l_category e" and "g \<in> set KNOWN_GROUPS"
  shows "addGroupCondition g e = matchesGroup e g"
  using assms by (auto simp: KNOWN_GROUPS_def addGroupCondition_def matchesGroup_def Let_def
      simp del: sql_like.simps)

text \<open>an update changes the named fields of the one entry, keeps its identifier and its times,
  and leaves every other row alone.\<close>

theorem updateLog_frame:
  assumes "log_uniq (t_logs s)" and "row \<in> set (t_logs s)"
  shows "\<exists>e t. updateLog (l_id (snd row)) input s = (Inr (Some e), t) \<and>
           l_id e = l_id (snd row) \<and> l_timestamp e = l_timestamp (snd row) \<and>
           l_created_at e = l_created_at (snd row) \<and>
           l_level e = (case lu_level input of None \<Rightarrow> l_level (snd row) | Some l \<Rightarrow> l) \<and>
           l_source e = (case lu_source input of None \<Rightarrow> l_source (snd row) | Some x \<Rightarrow> x) \<and>
           delete_where (\<lambda>r. l_id (snd r) = l_id (snd row)) (t_logs t) =
             delete_where (\<lambda>r. l_id (snd r) = l_id (snd row)) (t_logs s) \<and>
           emitted t = emitted s @ [Updated_log e]"
proof -
  let ?id = "l_id (snd row)"
  let ?old = "rowToLog row"
  define f where "f = (\<lambda>r::nat \<times> log_entry. (fst r, (snd r)\<lparr>
      l_level := (case lu_level input of Some l \<Rightarrow> l | None \<Rightarrow> l_level ?old),
      l_source := (case lu_source input of Some l \<Rightarrow> l | None \<Rightarrow> l_source ?old),
      l_category := (case lu_category input of None \<Rightarrow> l_category ?old
                     | Some c \<Rightarrow> take 128 (sanitizeLogString c)),
      l_message := (case lu_message input of None \<Rightarrow> l_message ?old | Some m \<Rightarrow> sanitizeLogString m),
      l_metadata_json := (case lu_metadata input of None \<Rightarrow> l_metadata_json ?old
                          | Some m \<Rightarrow> sanitizeMetadata m)\<rparr>))"
  define t where "t = update_where (\<lambda>r. l_id (snd r) = ?id) f (t_logs s)"
  have f_id: "l_id (snd (f r)) = l_id (snd r)" for r by (simp add: f_def)
  have found: "filter (\<lambda>r. l_id (snd r) = ?id) (t_logs s) = [row]"
    using assms by (rule logs.lookup_member)
  have upd: "sql_update log_uniq (\<lambda>_. True) (\<lambda>r. l_id (snd r) = ?id) f (t_logs s) = Some t"
    using assms(1) by (simp add: sql_update_Some t_def log_uniq_def map_update_where f_id)
  have found': "filter (\<lambda>r. l_id (snd r) = ?id) t = [f row]"
    using logs.lookup_updated [OF upd f_id] found by simp
  have others: "delete_where (\<lambda>r. l_id (snd r) = ?id) t = delete_where (\<lambda>r. l_id (snd r) = ?id) (t_logs s)"
    unfolding t_def delete_where_def by (rule filter_update_where_other) (simp add: f_id)
  have "updateLog ?id input s =
          (Inr (Some (rowToLog (f row))), s\<lparr>t_logs := t, emitted := emitted s @ [Updated_log (rowToLog (f row))]\<rparr>)"
    using found found' upd
    by (simp add: updateLog_def getLog_def andThen_run run_sql_Some Let_def emit_def f_def [symmetric])
  moreover have "l_level (rowToLog (f row)) = (case lu_level input of None \<Rightarrow> l_level (snd row) | Some l \<Rightarrow> l)"
    and "l_source (rowToLog (f row)) = (case lu_source input of None \<Rightarrow> l_source (snd row) | Some x \<Rightarrow> x)"
    by (simp_all add: rowToLog_def f_def Let_def split: option.splits)
  ultimately show ?thesis
    using others by (auto simp: rowToLog_def f_def Let_def)
qed

definition example_log :: log_entry where
  "example_log = new_log_entry 5 ''a'' Info SrcAuth ''setup'' ''hello'' None"

theorem updateLog_frame_witness:
  "\<exists>e t. updateLog ''a'' \<lparr>lu_level = Some Warning, lu_source = None, lu_category = None,
            lu_message = None, lu_metadata = None\<rparr> ((empty_db (0::nat))\<lparr>t_logs := [(1, example_log)]\<rparr>) =
          (Inr (Some e), t) \<and> l_level e = Warning \<and> l_id e = ''a''"
  using updateLog_frame [of "(empty_db (0::nat))\<lparr>t_logs := [(1, example_log)]\<rparr>" "(1, example_log)"
      "\<lparr>lu_level = Some Warning, lu_source = None, lu_category = None, lu_message = None, lu_metadata = None\<rparr>"]
  by (auto simp: log_uniq_def empty_db_def example_log_def new_log_entry_def)

text \<open>retention keeps every entry younger than a day and drops every entry older than a year,
  whatever number of days is asked for.\<close>

theorem prune_bounds:
  assumes "pruneOldLogs env days s = (r, t)"
  shows "(\<forall>row \<in> set (t_logs s). int (l_timestamp (snd row)) \<ge> int (fst (Date_now env (outer s))) - DAY_MS
             \<longrightarrow> row \<in> set (t_logs t)) \<and>
         (\<forall>row \<in> set (t_logs t). row \<in> set (t_logs s) \<and>
             int (l_timestamp (snd row)) \<ge> int (fst (Date_now env (outer s))) - 365 * DAY_MS)"
  using assms
  by (auto simp: pruneOldLogs_def andThen_run ext_run delete_logs_def delete_where_def clamp_def
      DAY_MS_def Let_def)

theorem prune_bounds_witness:
  "example_log \<in> snd ` set (t_logs (snd (pruneOldLogs demo_env 0 ((empty_db 9)\<lparr>t_logs := [(1, example_log)]\<rparr>))))"
  using prune_bounds [of demo_env 0 "(empty_db 9)\<lparr>t_logs := [(1, example_log)]\<rparr>"
      "fst (pruneOldLogs demo_env 0 ((empty_db 9)\<lparr>t_logs := [(1, example_log)]\<rparr>))"
      "snd (pruneOldLogs demo_env 0 ((empty_db 9)\<lparr>t_logs := [(1, example_log)]\<rparr>))"]
  by (force simp: empty_db_def example_log_def new_log_entry_def DAY_MS_def)

theorem pages_partition_witness:
  "\<exists>rows. concat (map (\<lambda>k. query_page \<lparr>q_level = None, q_source = None, q_category = None,
        q_group = None, q_search = None, q_limit = None, q_offset = None, q_asc = True\<rparr> 2 k
        ((empty_db (0::nat))\<lparr>t_logs := [(1, example_log)]\<rparr>)) [0..<1]) = map rowToLog rows \<and>
      mset rows = {#(1, example_log)#}"
  using pages_partition [of 2 "\<lparr>q_level = None, q_source = None, q_category = None,
        q_group = None, q_search = None, q_limit = None, q_offset = None, q_asc = True\<rparr>"
      "(empty_db (0::nat))\<lparr>t_logs := [(1, example_log)]\<rparr>" 1]
  by (auto simp: matching_rows_def query_where_def active_filter_def empty_db_def)

theorem group_filters_agree_witness:
  "addGroupCondition ''auth'' (new_log_entry 5 ''a'' Info SrcAuth [] [] None) =
     matchesGroup (new_log_entry 5 ''a'' Info SrcAuth [] [] None) ''auth''"
  by (rule group_filters_agree)
    (simp_all add: new_log_entry_def KNOWN_GROUPS_def sanitizeLogString_def SENSITIVE_PATTERNS_def)

subsection \<open>Where redaction fails\<close>

text \<open>
  The replacement acts on the first occurrence of the captured text inside the match, which is the
  keyword itself when the secret is a part of it; and the pattern for \<open>authorization\<close> captures the
  scheme name \<open>Bearer\<close>, so that the pattern for \<open>bearer\<close> no longer finds the token.
\<close>

lemma password_part_of_keyword_leaks:
  "sanitizeLogString ''password=word'' = ''pass[REDACTED]=word''"
  by (simp add: redact_eval)

lemma authorization_bearer_token_leaks:
  "sanitizeLogString ''Authorization: Bearer abc.def'' = ''Authorization: [REDACTED] abc.def''"
  by (simp add: redact_eval)

text \<open>The server's filter ignores the case of ASCII letters, the log page's does not.\<close>

lemma group_filters_differ:
  "addGroupCondition ''cache'' ((new_log_entry 5 ''a'' Info SrcProxy [] [] None)\<lparr>l_category := ''Cache.hit''\<rparr>) \<and>
   \<not> matchesGroup ((new_log_entry 5 ''a'' Info SrcProxy [] [] None)\<lparr>l_category := ''Cache.hit''\<rparr>) ''cache''"
  by (simp add: addGroupCondition_def matchesGroup_def ascii_lower_def char_eval del: sql_like.simps)

end
