(* ===== verification/Integrity.thy ===== *)
theory Integrity
  imports Logs
begin

section \<open>Constraints of the database and its invariant\<close>

text \<open>
  The constraints that \<open>lib/db/migrations.ts\<close> declares: primary keys, the unique columns, the partial
  unique index on the default provider, the foreign key of the provider users, and the triggers on the
  cache duration and on plain-text passwords. \<open>db_inv\<close> collects them for the whole state; it looks
  neither at the logs nor at the outer world.
\<close>

definition u_uniq :: "user list \<Rightarrow> bool" where
  "u_uniq t = (distinct (map u_id t) \<and> distinct (map u_username t))"

definition p_uniq :: "provider list \<Rightarrow> bool" where
  "p_uniq t = (distinct (map p_id t) \<and> distinct (map p_route t) \<and>
     length (filter (\<lambda>r. p_is_default r = 1) t) \<le> 1)"

definition cache_ok :: "provider \<Rightarrow> bool" where
  "cache_ok r = (0 \<le> p_cache_duration_hours r \<and> p_cache_duration_hours r \<le> 24)"

definition local_password_ok :: "provider \<Rightarrow> bool" where
  "local_password_ok r = (p_local_password r = [])"

definition p_row_ok :: "provider \<Rightarrow> bool" where
  "p_row_ok r = (cache_ok r \<and> local_password_ok r)"

definition pu_uniq :: "provider_user_row list \<Rightarrow> bool" where
  "pu_uniq t = (distinct (map pu_id t) \<and> distinct (map (\<lambda>r. (pu_provider_id r, pu_username r)) t))"

text \<open>SQLite's \<open>trim\<close> removes spaces only.\<close>

definition pu_row_ok :: "provider_user_row \<Rightarrow> bool" where
  "pu_row_ok r = (list_ex (\<lambda>c. c \<noteq> CHR '' '') (pu_password_hash r) \<and> pu_password r = [])"

definition wg_uniq :: "wireguard_profile list \<Rightarrow> bool" where
  "wg_uniq t = distinct (map wg_id t)"

definition ov_uniq :: "openvpn_profile list \<Rightarrow> bool" where
  "ov_uniq t = distinct (map ov_id t)"

definition db_inv :: "('w, 'z) db_scheme \<Rightarrow> bool" where
  "db_inv s \<longleftrightarrow> u_uniq (t_users s) \<and> p_uniq (t_providers s) \<and> pu_uniq (t_provider_users s) \<and>
     wg_uniq (t_wireguard s) \<and> ov_uniq (t_openvpn s) \<and>
     list_all p_row_ok (t_providers s) \<and> list_all pu_row_ok (t_provider_users s) \<and>
     list_all (\<lambda>r. pu_provider_id r \<in> set (map p_id (t_providers s))) (t_provider_users s)"

lemma log_free_db_inv: "log_free db_inv"
  by (simp add: log_free_def ext_free_def db_inv_def)

lemma ext_free_db_inv: "ext_free db_inv"
  using log_free_db_inv by blast

lemma db_inv_empty: "db_inv (empty_db w)"
  by (simp add: db_inv_def empty_db_def u_uniq_def p_uniq_def pu_uniq_def wg_uniq_def ov_uniq_def)

lemmas db_keeps = keeps_intros keeps_externals [OF ext_free_db_inv] keeps_logged [OF log_free_db_inv]

subsection \<open>The tables keep the table contract\<close>

lemma length_filter_filter: "length (filter Q (filter P t)) \<le> length (filter Q t)"
  by (induction t) auto

interpretation users: keyed_table u_id u_uniq
  by unfold_locales (simp_all add: u_uniq_def distinct_map_filter)

interpretation providers: keyed_table p_id p_uniq
proof
  show "p_uniq (filter P t)" if "p_uniq t" for t P
    using that length_filter_filter [of "\<lambda>r. p_is_default r = 1" P t]
    by (auto simp: p_uniq_def distinct_map_filter simp del: filter_filter)
qed (simp_all add: p_uniq_def)

interpretation provider_users: keyed_table pu_id pu_uniq
  by unfold_locales (simp_all add: pu_uniq_def distinct_map_filter)

interpretation wireguard: keyed_table wg_id wg_uniq
  by unfold_locales (simp_all add: wg_uniq_def distinct_map_filter)

interpretation openvpn: keyed_table ov_id ov_uniq
  by unfold_locales (simp_all add: ov_uniq_def distinct_map_filter)

subsection \<open>Single defaults\<close>

lemma single_default:
  assumes "p_uniq t" and "p \<in> set t" and "q \<in> set t" and "p_is_default p = 1" and "p_is_default q = 1"
  shows "p = q"
proof -
  let ?d = "filter (\<lambda>r. p_is_default r = 1) t"
  have "p \<in> set ?d" "q \<in> set ?d" using assms by auto
  moreover have "length ?d \<le> 1" using assms(1) by (simp add: p_uniq_def)
  ultimately show ?thesis by (cases ?d) auto
qed

end
