(* ===== verification/Http.thy ===== *)
theory Http
  imports Integrity
begin

section \<open>Requests, replies and the access checks of the API\<close>

text \<open>
  The parts of \<open>NextRequest\<close> and \<open>NextResponse\<close> that the routes use, and
  \<open>lib/auth/request-security.ts\<close>: which state-changing requests are accepted. A header that is absent is
  \<open>None\<close>; the session cookie, the parsed body (\<open>None\<close> when \<open>req.json()\<close> throws) and the query parameters
  are fields of the request.
\<close>

record request =
  rq_header :: "string \<Rightarrow> string option"
  rq_cookie :: "string option"
  rq_body :: "json option"
  rq_protocol :: string
  rq_origin :: string
  rq_param :: "string \<Rightarrow> string option"

record reply =
  rp_status :: nat
  rp_body :: json
  rp_retry_after :: "nat option"

definition reply_json :: "nat \<Rightarrow> (string \<times> json) list \<Rightarrow> reply" where
  "reply_json code kvs = \<lparr>rp_status = code, rp_body = JObj kvs, rp_retry_after = None\<rparr>"

definition ok_json :: "(string \<times> json) list \<Rightarrow> reply" where
  "ok_json kvs = reply_json 200 ((''success'', JBool True) # kvs)"

definition error_json :: "nat \<Rightarrow> string \<Rightarrow> reply" where
  "error_json code msg = reply_json code [(''success'', JBool False), (''error'', JStr msg)]"

text \<open>The \<open>try ... catch\<close> around a route: an escaping error becomes a 500 reply.\<close>

definition route_catch :: "('s, reply) act \<Rightarrow> ('s, reply) act" where
  "route_catch m = catch m (\<lambda>e. ret (error_json 500 (message e)))"

definition get_field :: "string \<Rightarrow> json \<Rightarrow> json option" where
  "get_field k v = (case v of JObj kvs \<Rightarrow> map_of kvs k | _ \<Rightarrow> None)"

text \<open>\<open>header?.split(',')[0]?.trim()\<close>.\<close>

definition first_listed :: "string option \<Rightarrow> string option" where
  "first_listed v = map_option (\<lambda>s. trim (hd (splitOn (CHR '','') s))) v"

subsection \<open>Cross-site requests\<close>

definition normalizeOrigin :: "'w env \<Rightarrow> string \<Rightarrow> string option" where
  "normalizeOrigin env value = map_option url_origin (parse_url env value)"

definition allowed_origins :: "'w env \<Rightarrow> request \<Rightarrow> string list" where
  "allowed_origins env req =
     (let configured = (case truthy (map_option trim (getenv env ''APP_URL'')) of
            None \<Rightarrow> []
          | Some appUrl \<Rightarrow> (case normalizeOrigin env appUrl of None \<Rightarrow> [] | Some u \<Rightarrow> if u = [] then [] else [u]));
          host = or_else (first_listed (rq_header req ''x-forwarded-host'')) (rq_header req ''host'');
          proto = (case truthy (first_listed (rq_header req ''x-forwarded-proto'')) of
            Some p \<Rightarrow> p | None \<Rightarrow> replace_first '':'' [] (rq_protocol req));
          forwarded = (case truthy host of Some h \<Rightarrow> [proto @ ''://'' @ h] | None \<Rightarrow> [])
      in configured @ forwarded @ [rq_origin req])"

definition validateMutationRequest :: "'w env \<Rightarrow> request \<Rightarrow> string option" where
  "validateMutationRequest env req =
     (let fetchSite = truthy (rq_header req ''sec-fetch-site'') in
      if (case fetchSite of Some v \<Rightarrow> v \<notin> {''same-origin'', ''same-site'', ''none''} | None \<Rightarrow> False)
      then Some ''Cross-site state-changing requests are not allowed.''
      else case truthy (rq_header req ''origin'') of
        None \<Rightarrow> None
      | Some originHeader \<Rightarrow>
          (case truthy (normalizeOrigin env originHeader) of
             None \<Rightarrow> Some ''Invalid Origin header.''
           | Some origin \<Rightarrow>
               if origin \<in> set (allowed_origins env req) then None
               else Some ''Origin does not match this application.''))"

text \<open>Every mutating route starts with this check.\<close>

definition guarded :: "'w env \<Rightarrow> request \<Rightarrow> ('s, reply) act \<Rightarrow> ('s, reply) act" where
  "guarded env req m = (case validateMutationRequest env req of
     Some e \<Rightarrow> ret (error_json 403 e) | None \<Rightarrow> m)"

text \<open>The body, or the error \<open>req.json()\<close> throws.\<close>

definition read_body :: "request \<Rightarrow> ('s, json) act" where
  "read_body req = (case rq_body req of Some b \<Rightarrow> ret b | None \<Rightarrow> throw ''Unexpected end of JSON input'')"

lemma keeps_route_catch [keeps_intros]: "keeps I m \<Longrightarrow> keeps I (route_catch m)"
  unfolding route_catch_def by (intro keeps_intros)

lemma keeps_guarded [keeps_intros]: "keeps I m \<Longrightarrow> keeps I (guarded env req m)"
  unfolding guarded_def by (cases "validateMutationRequest env req") (auto intro: keeps_ret)

lemma keeps_read_body [keeps_intros]: "keeps I (read_body req)"
  unfolding read_body_def by (cases "rq_body req") (auto intro: keeps_intros)

subsection \<open>Properties\<close>

text \<open>A mutating request is accepted exactly when its \<open>Sec-Fetch-Site\<close>, if present, is not cross-site and
  its \<open>Origin\<close>, if present, is a URL whose origin is the application's configured, forwarded or own one.\<close>

theorem mutation_accepted:
  "validateMutationRequest env req = None \<longleftrightarrow>
     truthy (rq_header req ''sec-fetch-site'') \<in> {None, Some ''same-origin'', Some ''same-site'', Some ''none''} \<and>
     (truthy (rq_header req ''origin'') = None \<or>
      (\<exists>h o'. truthy (rq_header req ''origin'') = Some h \<and> truthy (normalizeOrigin env h) = Some o' \<and>
         o' \<in> set (allowed_origins env req)))"
  by (auto simp: validateMutationRequest_def Let_def split: option.splits)

end
