(* ===== verification/Session.thy ===== *)
theory Session
  imports Http
begin

section \<open>Sessions, the session secret and the login rate limit\<close>

text \<open>
  \<open>lib/auth/secret.ts\<close>, \<open>lib/auth/session.ts\<close>, \<open>lib/auth/rate-limit.ts\<close>, \<open>lib/auth/password.ts\<close> and
  \<open>lib/auth/api-access.ts\<close>. The process state grows by the login buckets, the cached secret and the
  session cookie that the current reply sets (value and maximal age in seconds).
\<close>

record bucket =
  b_count :: nat
  b_resetAt :: timestamp

record 'w app = "'w db" +
  attempts :: "string \<Rightarrow> bucket option"
  cachedSecret :: "string option"
  set_cookie :: "(string \<times> bool \<times> nat) option"

subsection \<open>The login rate limit\<close>

definition WINDOW_MS :: nat where "WINDOW_MS = 15 * 60 * 1000"
definition MAX_ATTEMPTS :: nat where "MAX_ATTEMPTS = 8"

definition loginRateLimitKey :: "string \<Rightarrow> string \<Rightarrow> string" where
  "loginRateLimitKey ip username = toLowerCase (trim ip) @ ''|'' @ toLowerCase (trim username)"

text \<open>\<open>Math.ceil((resetAt - now) / 1000)\<close> for a positive difference.\<close>

definition retry_after :: "timestamp \<Rightarrow> timestamp \<Rightarrow> nat" where
  "retry_after resetAt now = max 1 ((resetAt - now + 999) div 1000)"

definition check_bucket :: "timestamp \<Rightarrow> string \<Rightarrow> (string \<Rightarrow> bucket option) \<Rightarrow> (bool \<times> nat) \<times> (string \<Rightarrow> bucket option)" where
  "check_bucket now key m = (case m key of
     None \<Rightarrow> ((True, 0), m)
   | Some b \<Rightarrow>
       if b_resetAt b \<le> now then ((True, 0), m(key := None))
       else if b_count b < MAX_ATTEMPTS then ((True, 0), m)
       else ((False, retry_after (b_resetAt b) now), m))"

definition bump_bucket :: "timestamp \<Rightarrow> string \<Rightarrow> (string \<Rightarrow> bucket option) \<Rightarrow> (string \<Rightarrow> bucket option)" where
  "bump_bucket now key m = (case m key of
     None \<Rightarrow> m(key := Some \<lparr>b_count = 1, b_resetAt = now + WINDOW_MS\<rparr>)
   | Some b \<Rightarrow>
       if b_resetAt b \<le> now then m(key := Some \<lparr>b_count = 1, b_resetAt = now + WINDOW_MS\<rparr>)
       else m(key := Some (b\<lparr>b_count := b_count b + 1\<rparr>)))"

definition checkLoginRateLimit :: "'w env \<Rightarrow> string \<Rightarrow> (('w, 'z) app_scheme, bool \<times> nat) act" where
  "checkLoginRateLimit env key =
     andThen (ext (Date_now env)) (\<lambda>now s.
       case check_bucket now key (attempts s) of (r, m) \<Rightarrow> (Inr r, s\<lparr>attempts := m\<rparr>))"

definition recordLoginFailure :: "'w env \<Rightarrow> string \<Rightarrow> (('w, 'z) app_scheme, unit) act" where
  "recordLoginFailure env key =
     andThen (ext (Date_now env)) (\<lambda>now.
     modify (\<lambda>s. s\<lparr>attempts := bump_bucket now key (attempts s)\<rparr>))"

definition clearLoginFailures :: "string \<Rightarrow> (('w, 'z) app_scheme, unit) act" where
  "clearLoginFailures key = modify (\<lambda>s. s\<lparr>attempts := (attempts s)(key := None)\<rparr>)"

subsection \<open>The session secret\<close>

text \<open>\<open>path.dirname\<close> of a POSIX path, and \<open>path.join\<close> of a directory and a plain name.\<close>

definition dirname :: "string \<Rightarrow> string" where
  "dirname p = (case p of
     [] \<Rightarrow> ''.''
   | c # rest \<Rightarrow>
       (case dropWhile (\<lambda>x. x \<noteq> CHR ''/'') (dropWhile (\<lambda>x. x = CHR ''/'') (rev rest)) of
          [] \<Rightarrow> if c = CHR ''/'' then ''/'' else ''.''
        | _ # before \<Rightarrow> if before = [] \<and> c = CHR ''/'' then ''//'' else c # rev before))"

definition path_join :: "string \<Rightarrow> string \<Rightarrow> string" where
  "path_join dir name = (if endsWith dir ''/'' then dir @ name else dir @ ''/'' @ name)"

definition getenv_trim :: "'w env \<Rightarrow> string \<Rightarrow> string option" where
  "getenv_trim env name = truthy (map_option trim (getenv env name))"

definition databaseDirectory :: "'w env \<Rightarrow> (('w, 'z) db_scheme, string) act" where
  "databaseDirectory env = (case getenv_trim env ''DATABASE_PATH'' of
     Some databasePath \<Rightarrow> ret (dirname databasePath)
   | None \<Rightarrow> andThen (ext_read (fs_exists env ''/data'')) (\<lambda>e.
       ret (if e then ''/data'' else path_join (cwd env) ''data'')))"

definition hex_byte :: "nat \<Rightarrow> string" where
  "hex_byte b = [hex_digit (b div 16), hex_digit (b mod 16)]"

definition cache_secret :: "string \<Rightarrow> (('w, 'z) app_scheme, string) act" where
  "cache_secret secret = andThen (modify (\<lambda>s. s\<lparr>cachedSecret := Some secret\<rparr>)) (\<lambda>_. ret secret)"

definition getSessionSecret :: "'w env \<Rightarrow> (('w, 'z) app_scheme, string) act" where
  "getSessionSecret env =
     andThen (gets cachedSecret) (\<lambda>cached.
     case cached of Some k \<Rightarrow> ret k
     | None \<Rightarrow>
     (case truthy (map_option trim (or_else (getenv env ''SESSION_SECRET'') (getenv env ''JWT_SECRET''))) of
        Some configured \<Rightarrow>
          if length configured < 32 then throw ''SESSION_SECRET/JWT_SECRET must be at least 32 characters.''
          else cache_secret configured
      | None \<Rightarrow>
          andThen (databaseDirectory env) (\<lambda>dataDir.
          let secretPath = path_join dataDir ''.session-secret'' in
          andThen (ext_try (fs_mkdir env dataDir)) (\<lambda>_.
          andThen (ext_read (fs_exists env secretPath)) (\<lambda>present.
          andThen (if present then
                andThen (ext_read (fs_read env secretPath)) (\<lambda>content.
                case content of None \<Rightarrow> throw (''ENOENT: '' @ secretPath)
                | Some c \<Rightarrow>
                    if length (trim c) < 32
                    then throw (''Persisted session secret at '' @ secretPath @ '' is invalid.'')
                    else ret (trim c))
              else
                andThen (ext (randomBytes env 32)) (\<lambda>bytes.
                let secret = concat (map hex_byte bytes) in
                andThen (ext_try (fs_create env secretPath (secret @ [LF]))) (\<lambda>_.
                ret secret))) (\<lambda>secret.
          andThen (ext_do (fs_chmod env secretPath)) (\<lambda>_.
          cache_secret secret)))))))"

definition shouldUseSecureCookie :: "'w env \<Rightarrow> bool" where
  "shouldUseSecureCookie env =
     (let configured = (case getenv env ''COOKIE_SECURE'' of None \<Rightarrow> [] | Some v \<Rightarrow> toLowerCase (trim v)) in
      if configured \<in> {''true'', ''1'', ''yes''} then True
      else if configured \<in> {''false'', ''0'', ''no''} then False
      else case getenv_trim env ''APP_URL'' of
        Some appUrl \<Rightarrow> startsWith (toLowerCase appUrl) ''https://''
      | None \<Rightarrow> getenv env ''NODE_ENV'' = Some ''production'')"

subsection \<open>Passwords of administrators\<close>

definition hashPassword :: "'w env \<Rightarrow> string \<Rightarrow> (('w, 'z) db_scheme, string) act" where
  "hashPassword env plaintext = ext (bcrypt_hash env plaintext 12)"

definition verifyPassword :: "'w env \<Rightarrow> string \<Rightarrow> string \<Rightarrow> bool" where
  "verifyPassword env plaintext hash = bcrypt_compare env plaintext hash"

subsection \<open>Session tokens\<close>

definition SESSION_MAX_AGE_SECONDS :: nat where "SESSION_MAX_AGE_SECONDS = 60 * 60 * 24 * 7"

record session_payload =
  sp_userId :: string
  sp_username :: string
  sp_sessionVersion :: int

definition session_claims :: "string \<Rightarrow> string \<Rightarrow> int \<Rightarrow> timestamp \<Rightarrow> timestamp \<Rightarrow> string \<Rightarrow> claims" where
  "session_claims userId username version now later jti =
     [(''userId'', JStr userId), (''username'', JStr username), (''sessionVersion'', JNum version),
      (''iat'', JNum (int (now div 1000))), (''jti'', JStr jti),
      (''exp'', JNum (int (later div 1000 + SESSION_MAX_AGE_SECONDS)))]"

definition createSessionToken ::
  "'w env \<Rightarrow> string \<Rightarrow> string \<Rightarrow> int \<Rightarrow> (('w, 'z) app_scheme, string) act" where
  "createSessionToken env userId username version =
     andThen (ext (Date_now env)) (\<lambda>now.
     andThen (ext (randomUUID env)) (\<lambda>jti.
     andThen (ext (Date_now env)) (\<lambda>later.
     andThen (getSessionSecret env) (\<lambda>secret.
     ret (jwt_sign env secret (session_claims userId username version now later jti))))))"

definition payload_of :: "claims \<Rightarrow> session_payload option" where
  "payload_of c = (case (map_of c ''userId'', map_of c ''username'', map_of c ''sessionVersion'') of
     (Some (JStr u), Some (JStr n), Some (JNum v)) \<Rightarrow>
        Some \<lparr>sp_userId = u, sp_username = n, sp_sessionVersion = v\<rparr>
   | _ \<Rightarrow> None)"

definition verifySessionToken :: "'w env \<Rightarrow> string \<Rightarrow> (('w, 'z) app_scheme, session_payload option) act" where
  "verifySessionToken env token =
     catch
       (andThen (getSessionSecret env) (\<lambda>secret.
        andThen (ext (Date_now env)) (\<lambda>now.
        case jwt_verify env secret token now of
          None \<Rightarrow> throw ''JWTInvalid''
        | Some c \<Rightarrow> ret (payload_of c))))
       (\<lambda>_. ret None)"

definition version_or_1 :: "int \<Rightarrow> int" where
  "version_or_1 v = (if v = 0 then 1 else v)"

definition getSessionUser :: "'w env \<Rightarrow> request \<Rightarrow> (('w, 'z) app_scheme, user option) act" where
  "getSessionUser env req = (case truthy (rq_cookie req) of
     None \<Rightarrow> ret None
   | Some token \<Rightarrow>
       andThen (verifySessionToken env token) (\<lambda>payload.
       case payload of None \<Rightarrow> ret None
       | Some p \<Rightarrow>
       andThen (gets (\<lambda>s. filter (\<lambda>r. u_id r = sp_userId p) (t_users s))) (\<lambda>rows.
       case rows of [] \<Rightarrow> ret None
       | row # _ \<Rightarrow>
           if version_or_1 (u_session_version row) \<noteq> sp_sessionVersion p then ret None
           else ret (Some (row\<lparr>u_session_version := version_or_1 (u_session_version row)\<rparr>)))))"

definition setSessionCookie :: "'w env \<Rightarrow> string \<Rightarrow> (('w, 'z) app_scheme, unit) act" where
  "setSessionCookie env token =
     modify (\<lambda>s. s\<lparr>set_cookie := Some (token, shouldUseSecureCookie env, SESSION_MAX_AGE_SECONDS)\<rparr>)"

definition clearSessionCookie :: "'w env \<Rightarrow> (('w, 'z) app_scheme, unit) act" where
  "clearSessionCookie env = modify (\<lambda>s. s\<lparr>set_cookie := Some ([], shouldUseSecureCookie env, 0)\<rparr>)"

subsection \<open>Access to the API\<close>

definition hasInternalApiAccess :: "'w env \<Rightarrow> request \<Rightarrow> bool" where
  "hasInternalApiAccess env req = (case getenv_trim env ''INTERNAL_API_TOKEN'' of
     None \<Rightarrow> False
   | Some configured \<Rightarrow>
       (let authorization = (case rq_header req ''authorization'' of Some a \<Rightarrow> a | None \<Rightarrow> []) in
        if \<not> startsWith authorization ''Bearer '' then False
        else trim (drop 7 authorization) = configured))"

definition hasManagementAccess :: "'w env \<Rightarrow> request \<Rightarrow> (('w, 'z) app_scheme, bool) act" where
  "hasManagementAccess env req =
     (if hasInternalApiAccess env req then ret True
      else andThen (getSessionUser env req) (\<lambda>u. ret (u \<noteq> None)))"

subsection \<open>What the session functions leave alone\<close>

text \<open>A predicate that looks at neither the outer world nor the cached secret.\<close>

definition session_free :: "(('w, 'z) app_scheme \<Rightarrow> bool) \<Rightarrow> bool" where
  "session_free I \<longleftrightarrow> ext_free I \<and> (\<forall>s k. I (s\<lparr>cachedSecret := k\<rparr>) = I s)"

lemma session_free_ext [intro]: "session_free I \<Longrightarrow> ext_free I"
  by (simp add: session_free_def)

lemma keeps_getSessionSecret: "session_free I \<Longrightarrow> keeps I (getSessionSecret env)"
  unfolding getSessionSecret_def databaseDirectory_def cache_secret_def Let_def
  by (intro keeps_intros keeps_externals keeps_modify) (auto simp: session_free_def)

lemma keeps_createSessionToken: "session_free I \<Longrightarrow> keeps I (createSessionToken env a b c)"
  unfolding createSessionToken_def
  by (intro keeps_intros keeps_externals keeps_getSessionSecret) auto

lemma keeps_verifySessionToken: "session_free I \<Longrightarrow> keeps I (verifySessionToken env token)"
  unfolding verifySessionToken_def
  by (intro keeps_intros keeps_externals keeps_getSessionSecret) auto

lemma keeps_getSessionUser: "session_free I \<Longrightarrow> keeps I (getSessionUser env req)"
  unfolding getSessionUser_def by (intro keeps_intros keeps_verifySessionToken)

lemma keeps_hasManagementAccess: "session_free I \<Longrightarrow> keeps I (hasManagementAccess env req)"
  unfolding hasManagementAccess_def by (intro keeps_intros keeps_getSessionUser)

lemmas keeps_sessions = keeps_getSessionSecret keeps_createSessionToken keeps_verifySessionToken
  keeps_getSessionUser keeps_hasManagementAccess

lemma session_free_users: "session_free (\<lambda>u. P (t_users u))"
  by (simp add: session_free_def ext_free_def)

lemma createSessionToken_frame: "createSessionToken env a b c s = (r, t) \<Longrightarrow> t_users t = t_users s"
  by (rule keepsD_run [OF keeps_createSessionToken [OF session_free_users]]) simp_all

lemma verifySessionToken_frame: "verifySessionToken env token s = (r, t) \<Longrightarrow> t_users t = t_users s"
  by (rule keepsD_run [OF keeps_verifySessionToken [OF session_free_users]]) simp_all

end
