(* ===== verification/Auth_Routes.thy ===== *)
theory Auth_Routes
  imports Session
begin

section \<open>The authentication routes\<close>

text \<open>
  \<open>app/api/auth/login\<close>, \<open>logout\<close>, \<open>me\<close>, \<open>password\<close> and \<open>setup\<close>. A request schema is the function that
  parses the body: \<open>None\<close> stands for a body that the schema rejects.
\<close>

definition string_field :: "string \<Rightarrow> json \<Rightarrow> string option" where
  "string_field k body = (case get_field k body of Some (JStr s) \<Rightarrow> Some s | _ \<Rightarrow> None)"

definition bounded :: "nat \<Rightarrow> nat \<Rightarrow> string option \<Rightarrow> string option" where
  "bounded lo hi v = (case v of Some s \<Rightarrow> if lo \<le> length s \<and> length s \<le> hi then Some s else None | None \<Rightarrow> None)"

definition both :: "'a option \<Rightarrow> 'b option \<Rightarrow> ('a \<times> 'b) option" where
  "both a b = (case (a, b) of (Some x, Some y) \<Rightarrow> Some (x, y) | _ \<Rightarrow> None)"

definition loginSchema :: "json \<Rightarrow> (string \<times> string) option" where
  "loginSchema body = both (bounded 1 128 (map_option trim (string_field ''username'' body)))
                           (bounded 1 1024 (string_field ''password'' body))"

definition setupSchema :: "json \<Rightarrow> (string \<times> string) option" where
  "setupSchema body = both (bounded 3 128 (map_option trim (string_field ''username'' body)))
                           (bounded 8 1024 (string_field ''password'' body))"

definition passwordSchema :: "json \<Rightarrow> (string \<times> string) option" where
  "passwordSchema body = both (bounded 1 1024 (string_field ''current_password'' body))
                              (bounded 8 1024 (string_field ''new_password'' body))"

definition clientIp :: "request \<Rightarrow> string" where
  "clientIp req = (case or_else (rq_header req ''cf-connecting-ip'')
      (or_else (rq_header req ''x-real-ip'')
        (truthy (first_listed (rq_header req ''x-forwarded-for'')))) of
     Some ip \<Rightarrow> ip | None \<Rightarrow> ''unknown'')"

subsection \<open>Login\<close>

definition login_attempt :: "'w env \<Rightarrow> request \<Rightarrow> string \<Rightarrow> string \<Rightarrow> string \<Rightarrow> (('w, 'z) app_scheme, reply) act" where
  \<open>login_attempt env req key username password =
     andThen (gets (\<lambda>s. filter (\<lambda>r. u_username r = username) (t_users s))) (\<lambda>rows.
     let refused =
       andThen (recordLoginFailure env key) (\<lambda>_.
       andThen (log_warn env SrcAuth ''login_failure''
           (''Failed login attempt for username "'' @ username @ ''".'')
           (Some (JObj [(''ip'', JStr (clientIp req))]))) (\<lambda>_.
       ret (error_json 401 ''Invalid username or password'')))
     in case rows of [] \<Rightarrow> refused
     | user # _ \<Rightarrow>
       if \<not> verifyPassword env password (u_password_hash user) then refused
       else
         andThen (clearLoginFailures key) (\<lambda>_.
         andThen (createSessionToken env (u_id user) (u_username user)
                    (version_or_1 (u_session_version user))) (\<lambda>token.
         andThen (setSessionCookie env token) (\<lambda>_.
         andThen (log_info env SrcAuth ''login_success'' (''User "'' @ username @ ''" logged in successfully.'')
             (Some (JObj [(''user_id'', JStr (u_id user)), (''ip'', JStr (clientIp req))]))) (\<lambda>_.
         ret (ok_json [(''data'', JObj [(''id'', JStr (u_id user)), (''username'', JStr (u_username user))])]))))))\<close>

definition login_POST :: "'w env \<Rightarrow> request \<Rightarrow> (('w, 'z) app_scheme, reply) act" where
  "login_POST env req = route_catch (guarded env req (
     andThen (read_body req) (\<lambda>body.
     case loginSchema body of
       None \<Rightarrow> ret (error_json 400 (zod_issue env ''login'' body))
     | Some (username, password) \<Rightarrow>
         let key = loginRateLimitKey (clientIp req) username in
         andThen (checkLoginRateLimit env key) (\<lambda>rate.
         if \<not> fst rate then
           ret ((error_json 429 ''Too many failed login attempts. Try again later.'')
                  \<lparr>rp_retry_after := Some (snd rate)\<rparr>)
         else login_attempt env req key username password))))"

subsection \<open>Logout and the session's user\<close>

definition logout_POST :: "'w env \<Rightarrow> request \<Rightarrow> (('w, 'z) app_scheme, reply) act" where
  \<open>logout_POST env req = route_catch (guarded env req (
     andThen (getSessionUser env req) (\<lambda>user.
     andThen (case user of None \<Rightarrow> ret ()
       | Some u \<Rightarrow> log_info env SrcAuth ''logout'' (''User "'' @ u_username u @ ''" logged out.'') None) (\<lambda>_.
     andThen (clearSessionCookie env) (\<lambda>_.
     ret (ok_json [(''message'', JStr ''Logged out successfully'')]))))))\<close>

definition me_GET :: "'w env \<Rightarrow> request \<Rightarrow> (('w, 'z) app_scheme, reply) act" where
  "me_GET env req = route_catch (
     andThen (getSessionUser env req) (\<lambda>user.
     andThen (gets (\<lambda>s. length (t_users s))) (\<lambda>userCount.
     case user of
       None \<Rightarrow> ret (reply_json 401 [(''success'', JBool False), (''authenticated'', JBool False),
                                   (''needsSetup'', JBool (userCount = 0))])
     | Some u \<Rightarrow> ret (ok_json [(''authenticated'', JBool True), (''needsSetup'', JBool False),
         (''user'', JObj [(''id'', JStr (u_id u)), (''username'', JStr (u_username u)),
                          (''created_at'', JNum (int (u_created_at u)))])]))))"

subsection \<open>Changing the password\<close>

definition update_user_password ::
  "string \<Rightarrow> string \<Rightarrow> int \<Rightarrow> timestamp \<Rightarrow> (('w, 'z) db_scheme, unit) act" where
  "update_user_password userId passwordHash newSessionVersion now =
     run_sql t_users (\<lambda>t s. s\<lparr>t_users := t\<rparr>)
       (sql_update u_uniq (\<lambda>_. True) (\<lambda>r. u_id r = userId)
         (\<lambda>r. r\<lparr>u_password_hash := passwordHash, u_session_version := newSessionVersion, u_updated_at := now\<rparr>))"

definition change_password :: "'w env \<Rightarrow> user \<Rightarrow> string \<Rightarrow> (('w, 'z) app_scheme, reply) act" where
  \<open>change_password env user newPassword =
     andThen (hashPassword env newPassword) (\<lambda>passwordHash.
     andThen (ext (Date_now env)) (\<lambda>now.
     let newSessionVersion = u_session_version user + 1 in
     andThen (update_user_password (u_id user) passwordHash newSessionVersion now) (\<lambda>_.
     andThen (createSessionToken env (u_id user) (u_username user) newSessionVersion) (\<lambda>token.
     andThen (setSessionCookie env token) (\<lambda>_.
     andThen (log_info env SrcAuth ''password_changed''
         (''Password changed for administrator "'' @ u_username user @ ''". Previous sessions were invalidated.'')
         (Some (JObj [(''user_id'', JStr (u_id user)), (''session_version'', JNum newSessionVersion)]))) (\<lambda>_.
     ret (ok_json [(''message'', JStr ''Password updated. Other sessions have been signed out.'')])))))))\<close>

definition password_PUT :: "'w env \<Rightarrow> request \<Rightarrow> (('w, 'z) app_scheme, reply) act" where
  \<open>password_PUT env req = route_catch (guarded env req (
     andThen (getSessionUser env req) (\<lambda>found.
     case found of None \<Rightarrow> ret (error_json 401 ''Unauthorized'')
     | Some user \<Rightarrow>
     andThen (read_body req) (\<lambda>body.
     case passwordSchema body of
       None \<Rightarrow> ret (error_json 400 (zod_issue env ''password'' body))
     | Some (currentPassword, newPassword) \<Rightarrow>
         if \<not> verifyPassword env currentPassword (u_password_hash user) then
           andThen (log_warn env SrcAuth ''password_change_failed''
               (''Rejected password change for user "'' @ u_username user @ ''".'') None) (\<lambda>_.
           ret (error_json 400 ''Current password is incorrect.''))
         else if verifyPassword env newPassword (u_password_hash user) then
           ret (error_json 400 ''New password must be different from the current password.'')
         else change_password env user newPassword))))\<close>

subsection \<open>Initial setup\<close>

definition create_admin :: "'w env \<Rightarrow> string \<Rightarrow> string \<Rightarrow> (('w, 'z) app_scheme, reply) act" where
  \<open>create_admin env username password =
     andThen (hashPassword env password) (\<lambda>passwordHash.
     andThen (ext (randomUUID env)) (\<lambda>userId.
     andThen (ext (Date_now env)) (\<lambda>now.
     andThen (catch
       (andThen (batch
          [on_table t_users (\<lambda>t s. s\<lparr>t_users := t\<rparr>) (sql_insert u_uniq (\<lambda>_. True)
             \<lparr>u_id = userId, u_username = username, u_password_hash = passwordHash, u_session_version = 1,
              u_created_at = now, u_updated_at = now\<rparr>),
           (\<lambda>s. Some (s\<lparr>t_settings := map_option (\<lambda>g. g\<lparr>initial_setup_completed := 1,
                   settings_updated_at := now\<rparr>) (t_settings s)\<rparr>))]) (\<lambda>_. ret None))
       (\<lambda>e. andThen (gets (\<lambda>s. length (t_users s))) (\<lambda>n.
            if n > 0 then ret (Some (error_json 409 ''Administrator setup was completed by another request.''))
            else (\<lambda>s. (Inl e, s))))) (\<lambda>early.
     case early of Some r \<Rightarrow> ret r
     | None \<Rightarrow>
         andThen (createSessionToken env userId username 1) (\<lambda>token.
         andThen (setSessionCookie env token) (\<lambda>_.
         andThen (log_info env SrcAuth ''setup''
             (''Initial administrator account "'' @ username @ ''" created.'') None) (\<lambda>_.
         ret (reply_json 201 [(''success'', JBool True),
           (''data'', JObj [(''id'', JStr userId), (''username'', JStr username)])]))))))))\<close>

text \<open>
  The route up to the hash of the password only reads; the rest is \<open>create_admin\<close>. Between the two the
  process may serve other requests.
\<close>

definition setup_checks :: "'w env \<Rightarrow> request \<Rightarrow> (('w, 'z) app_scheme, reply + string \<times> string) act" where
  "setup_checks env req = (case validateMutationRequest env req of
     Some e \<Rightarrow> ret (Inl (error_json 403 e))
   | None \<Rightarrow>
     andThen (gets (\<lambda>s. length (t_users s))) (\<lambda>n.
     if n > 0 then ret (Inl (error_json 409 ''Initial administrator setup is already complete.''))
     else andThen (read_body req) (\<lambda>body.
     case setupSchema body of
       None \<Rightarrow> ret (Inl (error_json 400 (zod_issue env ''setup'' body)))
     | Some credentials \<Rightarrow> ret (Inr credentials))))"

definition setup_POST :: "'w env \<Rightarrow> request \<Rightarrow> (('w, 'z) app_scheme, reply) act" where
  "setup_POST env req = route_catch (
     andThen (setup_checks env req) (\<lambda>r.
     case r of Inl reply \<Rightarrow> ret reply
     | Inr (username, password) \<Rightarrow> create_admin env username password))"

subsection \<open>The rate limit\<close>

definition record_failures :: "string \<Rightarrow> timestamp list \<Rightarrow> (string \<Rightarrow> bucket option) \<Rightarrow> (string \<Rightarrow> bucket option)" where
  "record_failures key ts m = foldl (\<lambda>m now. bump_bucket now key m) m ts"

lemma record_failures_count:
  assumes "m key = Some \<lparr>b_count = n, b_resetAt = r\<rparr>" and "\<forall>t \<in> set ts. t < r"
  shows "record_failures key ts m = m(key := Some \<lparr>b_count = n + length ts, b_resetAt = r\<rparr>)"
  using assms
proof (induction ts arbitrary: m n)
  case Nil
  then show ?case by (auto simp: record_failures_def)
next
  case (Cons t ts)
  from Cons.prems have bump: "bump_bucket t key m = m(key := Some \<lparr>b_count = Suc n, b_resetAt = r\<rparr>)"
    by (auto simp: bump_bucket_def)
  have "record_failures key (t # ts) m = record_failures key ts (bump_bucket t key m)"
    by (simp add: record_failures_def)
  also have "\<dots> = (bump_bucket t key m)(key := Some \<lparr>b_count = Suc n + length ts, b_resetAt = r\<rparr>)"
    by (rule Cons.IH) (use Cons.prems bump in auto)
  finally show ?case unfolding bump fun_upd_upd by simp
qed

lemma record_failures_first:
  assumes "m key = None" and "\<forall>t \<in> set ts. t < t0 + WINDOW_MS"
  shows "record_failures key (t0 # ts) m = m(key := Some \<lparr>b_count = Suc (length ts), b_resetAt = t0 + WINDOW_MS\<rparr>)"
  using record_failures_count [of "bump_bucket t0 key m" key 1 "t0 + WINDOW_MS" ts] assms
  by (simp add: record_failures_def bump_bucket_def)

text \<open>C17: After failures at the instants \<open>t0, ts\<close> within one window, a check inside the window admits the
  client while there are fewer than eight, and otherwise refuses it with the seconds that remain; from the
  end of the window on it is admitted again. Other clients are not affected.\<close>

theorem lockout:
  assumes "m key = None" and "\<forall>t \<in> set ts. t < t0 + WINDOW_MS"
  shows "fst (check_bucket now key (record_failures key (t0 # ts) m)) =
     (if now < t0 + WINDOW_MS \<and> 8 \<le> length (t0 # ts) then (False, retry_after (t0 + WINDOW_MS) now) else (True, 0)) \<and>
     (record_failures key (t0 # ts) m)(key := None) = m"
  using assms by (simp add: record_failures_first check_bucket_def MAX_ATTEMPTS_def fun_upd_idem)

theorem lockout_witness:
  "fst (check_bucket 9 ''k'' (record_failures ''k'' [1, 2, 3, 4, 5, 6, 7, 8] (\<lambda>_. None))) = (False, 900)"
  using lockout [of "\<lambda>_. None" "''k''" "[2, 3, 4, 5, 6, 7, 8]" 1 9]
  by (simp add: WINDOW_MS_def retry_after_def)

subsection \<open>Runs of the session functions\<close>

text \<open>A locked client's login is refused with 429 before any password is looked at: nothing but the clock
  has moved.\<close>

theorem locked_login_refused:
  assumes "validateMutationRequest env req = None" and "rq_body req = Some body"
    and "loginSchema body = Some (username, password)"
    and "attempts s (loginRateLimitKey (clientIp req) username) = Some b"
    and "8 \<le> b_count b" and "fst (Date_now env (outer s)) < b_resetAt b"
  shows "\<exists>r. login_POST env req s = (Inr r, s\<lparr>outer := snd (Date_now env (outer s))\<rparr>) \<and> rp_status r = 429 \<and>
     rp_retry_after r = Some (retry_after (b_resetAt b) (fst (Date_now env (outer s))))"
  using assms
  by (simp add: login_POST_def route_catch_def guarded_def read_body_def Let_def catch_run andThen_run ext_run
      checkLoginRateLimit_def check_bucket_def MAX_ATTEMPTS_def error_json_def reply_json_def)

lemma login_attempt_200:
  assumes "login_attempt env req key username password s = (Inr r, t)" and "rp_status r = 200"
  shows "\<exists>user \<in> set (t_users s). u_username user = username \<and> bcrypt_compare env password (u_password_hash user)"
proof -
  have refused: "rp_status r \<noteq> 200" if "andThen (recordLoginFailure env key) (\<lambda>_.
       andThen (log_warn env SrcAuth ''login_failure'' m c) (\<lambda>_.
       ret (error_json 401 ''Invalid username or password''))) s = (Inr r, t)" for m c
    using that by (elim run_elims) (simp add: error_json_def reply_json_def)
  show ?thesis
  proof (cases "filter (\<lambda>r. u_username r = username) (t_users s)")
    case Nil
    then show ?thesis using assms refused
      by (simp add: login_attempt_def andThen_run [of "gets _"] Let_def)
  next
    case (Cons user rows)
    then show ?thesis using assms refused filter_ConsD [OF Cons]
      by (cases "verifyPassword env password (u_password_hash user)")
        (auto simp: login_attempt_def andThen_run [of "gets _"] Let_def verifyPassword_def)
  qed
qed

text \<open>C4: A login is answered with success only if the request was not cross-site and its body names a stored
  administrator together with a password that bcrypt accepts for the stored hash.\<close>

theorem login_needs_password:
  assumes "login_POST env req s = (Inr r, t)" and "rp_status r = 200"
  shows "\<exists>user \<in> set (t_users s). \<exists>body password.
     rq_body req = Some body \<and> loginSchema body = Some (u_username user, password) \<and>
     bcrypt_compare env password (u_password_hash user) \<and> validateMutationRequest env req = None"
proof -
  have ok: "validateMutationRequest env req = None"
    using assms unfolding login_POST_def route_catch_def guarded_def
    by (auto simp: catch_def error_json_def reply_json_def split: option.splits)
  have "andThen (read_body req) (\<lambda>body.
     case loginSchema body of
       None \<Rightarrow> ret (error_json 400 (zod_issue env ''login'' body))
     | Some (username, password) \<Rightarrow>
         let key = loginRateLimitKey (clientIp req) username in
         andThen (checkLoginRateLimit env key) (\<lambda>rate.
         if \<not> fst rate then
           ret ((error_json 429 ''Too many failed login attempts. Try again later.'')
                  \<lparr>rp_retry_after := Some (snd rate)\<rparr>)
         else login_attempt env req key username password)) s = (Inr r, t)"
    using assms ok unfolding login_POST_def route_catch_def guarded_def
    by (auto simp: catch_def error_json_def reply_json_def split: prod.splits sum.splits)
  then obtain body where body: "rq_body req = Some body" and
    rest: "(case loginSchema body of
       None \<Rightarrow> ret (error_json 400 (zod_issue env ''login'' body))
     | Some (username, password) \<Rightarrow>
         let key = loginRateLimitKey (clientIp req) username in
         andThen (checkLoginRateLimit env key) (\<lambda>rate.
         if \<not> fst rate then
           ret ((error_json 429 ''Too many failed login attempts. Try again later.'')
                  \<lparr>rp_retry_after := Some (snd rate)\<rparr>)
         else login_attempt env req key username password)) s = (Inr r, t)"
    by (cases "rq_body req") (auto simp: read_body_def andThen_run)
  obtain username password where creds: "loginSchema body = Some (username, password)"
    using rest assms(2) by (cases "loginSchema body") (auto simp: error_json_def reply_json_def)
  define key where "key = loginRateLimitKey (clientIp req) username"
  obtain rate s1 where check: "checkLoginRateLimit env key s = (Inr rate, s1)"
    and go: "(if \<not> fst rate then
           ret ((error_json 429 ''Too many failed login attempts. Try again later.'')
                  \<lparr>rp_retry_after := Some (snd rate)\<rparr>)
         else login_attempt env req key username password) s1 = (Inr r, t)"
    using rest unfolding creds Let_def option.case prod.case key_def [symmetric]
    by (elim andThen_Inr_elim) (rule that)
  have "t_users s1 = t_users s"
    using check by (auto simp: checkLoginRateLimit_def andThen_run ext_run split: prod.splits)
  moreover have "login_attempt env req key username password s1 = (Inr r, t)"
    using go assms(2) by (auto simp: error_json_def reply_json_def split: if_splits)
  ultimately show ?thesis using login_attempt_200 [OF _ assms(2)] body creds ok by metis
qed

subsection \<open>A concrete server\<close>

definition demo_admin :: user where
  "demo_admin = \<lparr>u_id = ''a1'', u_username = ''admin'', u_password_hash = ''$2$hunter22'',
     u_session_version = 1, u_created_at = 0, u_updated_at = 0\<rparr>"

definition demo_app :: "nat app" where
  "demo_app = \<lparr>t_users = [demo_admin], t_providers = [], t_provider_users = [], t_settings = None,
     t_wireguard = [], t_openvpn = [], t_logs = [], emitted = [], outer = 5,
     attempts = (\<lambda>_. None), cachedSecret = Some ''k'', set_cookie = None\<rparr>"

definition demo_request :: request where
  "demo_request = \<lparr>rq_header = (\<lambda>_. None), rq_cookie = None, rq_body = None, rq_protocol = ''http:'',
     rq_origin = ''http://app'', rq_param = (\<lambda>_. None)\<rparr>"

definition demo_login :: request where
  "demo_login = demo_request\<lparr>rq_body := Some (JObj [(''username'', JStr ''admin''), (''password'', JStr ''hunter22'')])\<rparr>"

lemma demo_mutation: "validateMutationRequest demo_env (demo_request\<lparr>rq_cookie := c, rq_body := b\<rparr>) = None"
  by (simp add: validateMutationRequest_def demo_request_def truthy_def)

lemma demo_login_mutation: "validateMutationRequest demo_env demo_login = None"
  by (simp add: validateMutationRequest_def demo_login_def demo_request_def truthy_def)

lemmas schema_eval = both_def bounded_def string_field_def get_field_def trim_def trimStart_def trimEnd_def
  char_eval loginSchema_def setupSchema_def passwordSchema_def

lemma demo_login_schema:
  "rq_body demo_login = Some (JObj [(''username'', JStr ''admin''), (''password'', JStr ''hunter22'')])"
  "loginSchema (JObj [(''username'', JStr ''admin''), (''password'', JStr ''hunter22'')]) =
     Some (''admin'', ''hunter22'')"
  by (simp_all add: demo_login_def schema_eval)

lemma demo_logged_in: "\<exists>r t. login_POST demo_env demo_login demo_app = (Inr r, t) \<and> rp_status r = 200"
  by (simp add: login_POST_def route_catch_def guarded_def demo_login_mutation read_body_def
      demo_login_schema Let_def checkLoginRateLimit_def check_bucket_def act_simps
      login_attempt_def demo_app_def demo_admin_def verifyPassword_def createSessionToken_def
      getSessionSecret_def clearLoginFailures_def setSessionCookie_def log_info_def logged_def writeLog_eq
      log_uniq_def ok_json_def reply_json_def)

theorem login_needs_password_witness:
  "\<exists>r t. login_POST demo_env demo_login demo_app = (Inr r, t) \<and> rp_status r = 200 \<and>
     (\<exists>user \<in> set (t_users demo_app). bcrypt_compare demo_env ''hunter22'' (u_password_hash user))"
proof -
  obtain r t where run: "login_POST demo_env demo_login demo_app = (Inr r, t)" "rp_status r = 200"
    using demo_logged_in by blast
  with login_needs_password [OF run] show ?thesis by (auto simp: demo_login_schema)
qed

definition demo_locked :: "nat app" where
  "demo_locked = demo_app\<lparr>attempts := (\<lambda>_. Some \<lparr>b_count = 8, b_resetAt = 1000\<rparr>)\<rparr>"

theorem locked_login_refused_witness:
  "\<exists>r. login_POST demo_env demo_login demo_locked = (Inr r, demo_locked\<lparr>outer := 6\<rparr>) \<and> rp_status r = 429"
proof -
  have "\<exists>r. login_POST demo_env demo_login demo_locked =
      (Inr r, demo_locked\<lparr>outer := snd (Date_now demo_env (outer demo_locked))\<rparr>) \<and> rp_status r = 429 \<and>
      rp_retry_after r = Some (retry_after 1000 (fst (Date_now demo_env (outer demo_locked))))"
    using locked_login_refused [OF demo_login_mutation demo_login_schema(1,2), of demo_locked "\<lparr>b_count = 8, b_resetAt = 1000\<rparr>"]
    by (simp only: demo_locked_def demo_app_def) simp
  then show ?thesis by (auto simp: demo_locked_def demo_app_def)
qed

subsection \<open>Changing the password ends the other sessions\<close>

lemma change_password_version:
  assumes "change_password env user np s = (Inr r, t)"
  shows "list_all (\<lambda>r. u_id r = u_id user \<longrightarrow> u_session_version r = u_session_version user + 1) (t_users t)"
  using assms unfolding change_password_def Let_def hashPassword_def update_user_password_def setSessionCookie_def
  apply (elim run_elims)
  apply (drule createSessionToken_frame)
  apply (drule log_keeps_users(1))
  apply (simp add: sql_update_Some list_all_update_where)
  done

text \<open>C15: Once a password change has returned, every session token issued for the old version of that
  administrator is refused from then on, in whatever state has the same administrators.\<close>

theorem password_change_ends_sessions:
  assumes "change_password env user np s = (Inr r, t)"
    and "verifySessionToken env token u = (Inr (Some p), u')" and "t_users u = t_users t"
    and "sp_userId p = u_id user" and "sp_sessionVersion p = u_session_version user"
    and "rq_cookie req = Some token" and "token \<noteq> []"
  shows "getSessionUser env req u = (Inr None, u')"
proof -
  have users: "t_users u' = t_users t" using verifySessionToken_frame [OF assms(2)] assms(3) by simp
  have old: "version_or_1 (u_session_version row) \<noteq> u_session_version user"
    if "row \<in> set (t_users t) \<and> u_id row = u_id user" for row
  proof -
    have "u_session_version row = u_session_version user + 1"
      using that change_password_version [OF assms(1)] by (simp add: list_all_iff)
    then show ?thesis by (auto simp: version_or_1_def)
  qed
  show ?thesis
  proof (cases "filter (\<lambda>r. u_id r = u_id user) (t_users t)")
    case Nil
    then show ?thesis using assms users by (simp add: getSessionUser_def truthy_def andThen_run)
  next
    case (Cons row rows)
    then show ?thesis using assms users old [OF filter_ConsD [OF Cons]]
      by (simp add: getSessionUser_def truthy_def andThen_run)
  qed
qed

definition demo_session_env :: "nat env" where
  "demo_session_env = demo_env\<lparr>jwt_verify := (\<lambda>k token now. if token = ''old''
     then Some (session_claims ''a1'' ''admin'' 1 0 0 ''j'') else None)\<rparr>"

definition demo_session_request :: request where
  "demo_session_request = demo_request\<lparr>rq_cookie := Some ''old''\<rparr>"

lemma demo_session_env_simps [simp]:
  "Date_now demo_session_env w = (w, Suc w)"
  "randomUUID demo_session_env w = (''id-'' @ replicate w (CHR ''x''), Suc w)"
  "bcrypt_hash demo_session_env q n w = (''$2$'' @ q, w)"
  "jwt_verify demo_session_env k tok now =
     (if tok = ''old'' then Some (session_claims ''a1'' ''admin'' 1 0 0 ''j'') else None)"
  "jwt_sign demo_session_env k cl = k @ ''.'' @ stringify (JObj cl)"
  "getenv demo_session_env v = None"
  by (simp_all add: demo_session_env_def demo_env_def)

lemma demo_password_changed:
  "\<exists>r t. change_password demo_session_env demo_admin ''hunter333'' demo_app = (Inr r, t) \<and>
     cachedSecret t = Some ''k''"
  by (simp add: change_password_def hashPassword_def update_user_password_def run_sql_eq sql_update_def u_uniq_def
     Let_def act_simps demo_app_def demo_admin_def createSessionToken_def
      getSessionSecret_def setSessionCookie_def log_info_def logged_def writeLog_eq log_uniq_def)

theorem password_change_ends_sessions_witness:
  "\<exists>r t u'. change_password demo_session_env demo_admin ''hunter333'' demo_app = (Inr r, t) \<and>
     getSessionUser demo_session_env demo_session_request t = (Inr None, u')"
proof -
  obtain r t where run: "change_password demo_session_env demo_admin ''hunter333'' demo_app = (Inr r, t)"
    and key: "cachedSecret t = Some ''k''"
    using demo_password_changed by blast
  have "verifySessionToken demo_session_env ''old'' t =
      (Inr (Some \<lparr>sp_userId = ''a1'', sp_username = ''admin'', sp_sessionVersion = 1\<rparr>), t\<lparr>outer := Suc (outer t)\<rparr>)"
    using key by (simp add: verifySessionToken_def getSessionSecret_def act_simps payload_of_def session_claims_def)
  from password_change_ends_sessions [OF run this refl, of demo_session_request] run show ?thesis
    by (simp add: demo_admin_def demo_session_request_def)
qed

subsection \<open>The initial setup\<close>

text \<open>C18: Once an administrator exists, the setup route changes no administrator and never answers 201.\<close>

theorem setup_only_once:
  assumes "t_users s \<noteq> []" and "setup_POST env req s = (Inr r, t)"
  shows "t = s \<and> rp_status r \<in> {403, 409}"
  using assms
  by (auto simp: setup_POST_def route_catch_def setup_checks_def catch_def andThen_run error_json_def
      reply_json_def split: option.splits)

theorem setup_only_once_witness:
  "\<exists>r. setup_POST demo_env demo_request demo_app = (Inr r, demo_app) \<and> rp_status r \<in> {403, 409}"
proof -
  obtain r t where "setup_POST demo_env demo_request demo_app = (Inr r, t)"
    by (simp add: setup_POST_def route_catch_def setup_checks_def catch_def andThen_run demo_app_def
        demo_request_def validateMutationRequest_def truthy_def)
  with setup_only_once [OF _ this] show ?thesis by (auto simp: demo_app_def)
qed

text \<open>
  The check and the insertion are two steps with the password hash between them. Two setup requests with
  different names that interleave there both succeed: the result has two administrators.
\<close>

definition demo_setup :: "string \<Rightarrow> request" where
  "demo_setup name = demo_request\<lparr>rq_body := Some (JObj [(''username'', JStr name), (''password'', JStr ''password1'')])\<rparr>"

lemma setup_race_creates_two_administrators:
  assumes "s0 = demo_app\<lparr>t_users := []\<rparr>"
  shows "setup_checks demo_env (demo_setup ''alice'') s0 = (Inr (Inr (''alice'', ''password1'')), s0)"
    and "setup_checks demo_env (demo_setup ''robert'') s0 = (Inr (Inr (''robert'', ''password1'')), s0)"
    and "\<exists>r1 t1 r2 t2. create_admin demo_env ''alice'' ''password1'' s0 = (Inr r1, t1) \<and>
     create_admin demo_env ''robert'' ''password1'' t1 = (Inr r2, t2) \<and>
     rp_status r1 = 201 \<and> rp_status r2 = 201 \<and> length (t_users t2) = 2"
proof -
  show "setup_checks demo_env (demo_setup ''alice'') s0 = (Inr (Inr (''alice'', ''password1'')), s0)"
    and "setup_checks demo_env (demo_setup ''robert'') s0 = (Inr (Inr (''robert'', ''password1'')), s0)"
    by (simp_all add: assms setup_checks_def demo_setup_def demo_request_def demo_app_def
        validateMutationRequest_def truthy_def andThen_run read_body_def schema_eval)
  show "\<exists>r1 t1 r2 t2. create_admin demo_env ''alice'' ''password1'' s0 = (Inr r1, t1) \<and>
     create_admin demo_env ''robert'' ''password1'' t1 = (Inr r2, t2) \<and>
     rp_status r1 = 201 \<and> rp_status r2 = 201 \<and> length (t_users t2) = 2"
  by (simp add: assms create_admin_def hashPassword_def Let_def act_simps demo_app_def batch_def on_table_def
      sql_insert_def u_uniq_def createSessionToken_def getSessionSecret_def setSessionCookie_def
      log_info_def logged_def writeLog_eq log_uniq_def written_entry_def new_log_entry_def reply_json_def
      after_write_def numeral_eq_Suc)
qed

end
