(* ===== verification/Provider_Password.thy ===== *)
theory Provider_Password
  imports World
begin

section \<open>Verifiers of provider client passwords\<close>

text \<open>
  \<open>lib/auth/provider-password.ts\<close>: the text format \<open>pbkdf2_sha256$iterations$salt$key\<close> of a stored
  verifier and its recognition. The base64url encoder is written out; the length that \<open>Buffer.from\<close>
  decodes, PBKDF2 and the random salt are parameters.
\<close>

definition ALGORITHM :: string where "ALGORITHM = ''pbkdf2_sha256''"
definition ITERATIONS :: nat where "ITERATIONS = 210000"
definition SALT_BYTES :: nat where "SALT_BYTES = 16"
definition KEY_BYTES :: nat where "KEY_BYTES = 32"

definition b64url_char :: "nat \<Rightarrow> char" where
  "b64url_char n =
     (if n < 26 then char_of (65 + n)
      else if n < 52 then char_of (71 + n)
      else if n < 62 then char_of (n - 4)
      else if n = 62 then CHR ''-'' else CHR ''_'')"

fun b64url_encode :: "nat list \<Rightarrow> string" where
  "b64url_encode [] = []"
| "b64url_encode [a] = [b64url_char (a div 4), b64url_char (a mod 4 * 16)]"
| "b64url_encode [a, b] =
     [b64url_char (a div 4), b64url_char (a mod 4 * 16 + b div 16), b64url_char (b mod 16 * 4)]"
| "b64url_encode (a # b # c # rest) =
     [b64url_char (a div 4), b64url_char (a mod 4 * 16 + b div 16),
      b64url_char (b mod 16 * 4 + c div 64), b64url_char (c mod 64)] @ b64url_encode rest"

definition hashProviderPassword :: "'w env \<Rightarrow> string \<Rightarrow> (('w, 'z) db_scheme, string) act" where
  "hashProviderPassword env password =
     andThen (ext (randomBytes env SALT_BYTES)) (\<lambda>salt.
     ret (join ''$'' [ALGORITHM, show_nat ITERATIONS, b64url_encode salt,
            b64url_encode (pbkdf2Sync env password salt ITERATIONS KEY_BYTES)]))"

text \<open>A missing element of the destructured array is \<open>undefined\<close>, which the tests treat as empty.\<close>

definition isProviderPasswordHash :: "'w env \<Rightarrow> string \<Rightarrow> bool" where
  "isProviderPasswordHash env value =
     (let parts = splitOn (CHR ''$'') value;
          part = (\<lambda>i. case nth_opt parts i of None \<Rightarrow> [] | Some x \<Rightarrow> x);
          iterations = part 1;
          count = digits_val iterations
      in if length parts > 4 \<or> part 0 \<noteq> ALGORITHM \<or> iterations = [] \<or> \<not> list_all is_digit iterations
         then False
         else if count > 9007199254740991 \<or> count < 10000 \<or> count > 10000000 then False
         else if part 2 = [] \<or> part 3 = [] then False
         else base64url_length env (part 2) \<ge> 8 \<and> base64url_length env (part 3) \<ge> 16)"

subsection \<open>The format\<close>

lemma b64url_char_set: "b64url_char n \<noteq> CHR ''$''"
proof (cases "n < 62")
  case True
  have "of_char (b64url_char n) \<noteq> (36 :: nat)"
    using True by (auto simp: b64url_char_def)
  then show ?thesis by auto
qed (auto simp: b64url_char_def)

lemma b64url_encode_no_dollar: "CHR ''$'' \<notin> set (b64url_encode bs)"
  by (induction bs rule: b64url_encode.induct) (auto simp: b64url_char_set b64url_char_set [symmetric])

lemma b64url_encode_nonempty: "bs \<noteq> [] \<Longrightarrow> b64url_encode bs \<noteq> []"
  by (cases bs rule: b64url_encode.cases) auto

lemma show_iterations: "show_nat ITERATIONS = ''210000''"
  by (simp add: ITERATIONS_def show_nat.simps char_of_def bit_Suc_0_iff)

lemma splitOn_verifier:
  assumes "CHR ''$'' \<notin> set a" and "CHR ''$'' \<notin> set b"
  shows "splitOn (CHR ''$'') (join ''$'' [ALGORITHM, show_nat ITERATIONS, a, b]) =
           [ALGORITHM, ''210000'', a, b]"
  unfolding show_iterations using assms by (intro splitOn_join) (auto simp: ALGORITHM_def)

lemma hashProviderPassword_run:
  "hashProviderPassword env password s =
     (case randomBytes env SALT_BYTES (outer s) of (salt, w) \<Rightarrow>
        (Inr (join ''$'' [ALGORITHM, show_nat ITERATIONS, b64url_encode salt,
              b64url_encode (pbkdf2Sync env password salt ITERATIONS KEY_BYTES)]), s\<lparr>outer := w\<rparr>))"
  by (simp add: hashProviderPassword_def andThen_run ext_def split: prod.splits)

lemma keeps_hashProviderPassword: "ext_free I \<Longrightarrow> keeps I (hashProviderPassword env password)"
  unfolding hashProviderPassword_def by (intro keeps_intros keeps_ext)

text \<open>The documented behaviour of the byte sources and of the base64url decoder.\<close>

definition password_lib_ok :: "'w env \<Rightarrow> bool" where
  "password_lib_ok env \<longleftrightarrow>
     (\<forall>n w. length (fst (randomBytes env n w)) = n) \<and>
     (\<forall>p salt i n. length (pbkdf2Sync env p salt i n) = n) \<and>
     (\<forall>bs. base64url_length env (b64url_encode bs) = length bs)"

lemma hash_recognised:
  assumes "password_lib_ok env" and "hashProviderPassword env password s = (Inr h, t)"
  shows "isProviderPasswordHash env h"
proof -
  obtain salt w where rb: "randomBytes env SALT_BYTES (outer s) = (salt, w)" by fastforce
  define key where "key = pbkdf2Sync env password salt ITERATIONS KEY_BYTES"
  have h: "h = join ''$'' [ALGORITHM, show_nat ITERATIONS, b64url_encode salt, b64url_encode key]"
    using assms(2) by (simp add: hashProviderPassword_run rb key_def)
  have len: "length salt = 16" "length key = 32"
    using assms(1) rb unfolding password_lib_ok_def key_def SALT_BYTES_def KEY_BYTES_def
    by (metis fst_conv)+
  then have ne: "b64url_encode salt \<noteq> []" "b64url_encode key \<noteq> []"
    by (auto intro!: b64url_encode_nonempty)
  have "splitOn (CHR ''$'') h = [ALGORITHM, ''210000'', b64url_encode salt, b64url_encode key]"
    unfolding h by (intro splitOn_verifier b64url_encode_no_dollar)
  then show ?thesis
    using assms(1) len ne
    by (simp add: isProviderPasswordHash_def nth_opt_def password_lib_ok_def Let_def char_eval
        digits_val_def digit_val_def)
qed

end
