(* ===== verification/Provider_Users.thy ===== *)
theory Provider_Users
  imports Integrity Provider_Password
begin

section \<open>Provider client users\<close>

text \<open>
  \<open>lib/services/provider-user.service.ts\<close>: the client users of a provider. The ordering of
  \<open>getUsers\<close> is the linear order of the sort key \<open>user_rank\<close>.
\<close>

datatype user_rank = Rank int timestamp string

instantiation user_rank :: linorder
begin

fun less_eq_user_rank :: "user_rank \<Rightarrow> user_rank \<Rightarrow> bool" where
  "less_eq_user_rank (Rank e c n) (Rank e' c' n') = ((- e, c, n) \<le> (- e', c', n'))"

definition less_user_rank :: "user_rank \<Rightarrow> user_rank \<Rightarrow> bool" where
  "less_user_rank a b = (a \<le> b \<and> \<not> b \<le> a)"

instance
proof
  fix a b c :: user_rank
  show "(a < b) = (a \<le> b \<and> \<not> b \<le> a)" by (simp add: less_user_rank_def)
  show "a \<le> a" by (cases a) simp
  show "a \<le> b \<Longrightarrow> b \<le> c \<Longrightarrow> a \<le> c" by (cases a; cases b; cases c) fastforce
  show "a \<le> b \<Longrightarrow> b \<le> a \<Longrightarrow> a = b" by (cases a; cases b) force
  show "a \<le> b \<or> b \<le> a" by (cases a; cases b) (simp only: less_eq_user_rank.simps linear)
qed

end

text \<open>\<open>ORDER BY enabled DESC, created_at ASC, username ASC\<close> and \<open>..., id ASC\<close>.\<close>

definition rank_by_username :: "provider_user_row \<Rightarrow> user_rank" where
  "rank_by_username r = Rank (pu_enabled r) (pu_created_at r) (pu_username r)"

definition rank_by_id :: "provider_user_row \<Rightarrow> user_rank" where
  "rank_by_id r = Rank (pu_enabled r) (pu_created_at r) (pu_id r)"

record create_provider_user_input =
  cu_username :: string
  cu_password :: string
  cu_enabled :: "bool option"

record update_provider_user_input =
  uu_username :: "string option"
  uu_password :: "string option"
  uu_enabled :: "bool option"

definition rowToUser :: "provider_user_row \<Rightarrow> bool \<Rightarrow> provider_user" where
  "rowToUser row includeSensitive =
     \<lparr>pu_id = pu_id row, pu_provider_id = pu_provider_id row, pu_username = pu_username row,
      pu_password_hash = (if includeSensitive then pu_password_hash row else MASK),
      pu_enabled = pu_enabled row, pu_created_at = pu_created_at row, pu_updated_at = pu_updated_at row\<rparr>"

definition ensureProvider :: "string \<Rightarrow> (('w, 'z) db_scheme, string \<times> string) act" where
  "ensureProvider providerId = (\<lambda>s.
     case filter (\<lambda>r. p_id r = providerId) (t_providers s) of
       [] \<Rightarrow> (Inl (Err ''Provider not found.''), s)
     | r # _ \<Rightarrow> (Inr (p_id r, p_name r), s))"

definition syncLegacyIdentity :: "'w env \<Rightarrow> string \<Rightarrow> (('w, 'z) db_scheme, unit) act" where
  "syncLegacyIdentity env providerId =
     andThen (gets (\<lambda>s. case sort_key rank_by_id
          (filter (\<lambda>r. pu_provider_id r = providerId) (t_provider_users s)) of
        [] \<Rightarrow> [] | r # _ \<Rightarrow> pu_username r)) (\<lambda>username.
     andThen (ext (Date_now env)) (\<lambda>now.
     run_sql t_providers (\<lambda>t s. s\<lparr>t_providers := t\<rparr>)
       (sql_update p_uniq local_password_ok (\<lambda>r. p_id r = providerId)
         (\<lambda>r. r\<lparr>p_local_username := username, p_local_password := [], p_updated_at := now\<rparr>))))"

definition getUsers :: "string \<Rightarrow> bool \<Rightarrow> (('w, 'z) db_scheme, provider_user list) act" where
  "getUsers providerId includeSensitive =
     andThen (ensureProvider providerId) (\<lambda>_.
     gets (\<lambda>s. map (\<lambda>r. rowToUser r includeSensitive) (sort_key rank_by_username
       (filter (\<lambda>r. pu_provider_id r = providerId) (t_provider_users s)))))"

definition getUsersForInternalRegistry :: "string \<Rightarrow> (('w, 'z) db_scheme, provider_user list) act" where
  "getUsersForInternalRegistry providerId = getUsers providerId True"

definition getUser ::
  "string \<Rightarrow> string \<Rightarrow> bool \<Rightarrow> (('w, 'z) db_scheme, provider_user option) act" where
  "getUser providerId userId includeSensitive = gets (\<lambda>s.
     case filter (\<lambda>r. pu_provider_id r = providerId \<and> pu_id r = userId) (t_provider_users s) of
       [] \<Rightarrow> None | r # _ \<Rightarrow> Some (rowToUser r includeSensitive))"

text \<open>\<open>INSERT INTO provider_users\<close>: the foreign key first, then the table's own constraints.\<close>

definition insert_provider_user :: "provider_user_row \<Rightarrow> ('w, 'z) db_scheme \<Rightarrow> ('w, 'z) db_scheme option" where
  "insert_provider_user r s =
     (if pu_provider_id r \<in> set (map p_id (t_providers s))
      then on_table t_provider_users (\<lambda>t s. s\<lparr>t_provider_users := t\<rparr>) (sql_insert pu_uniq pu_row_ok r) s
      else None)"

definition duplicate_user_message :: "string \<Rightarrow> string" where
  \<open>duplicate_user_message username =
     ''User "'' @ username @ ''" already exists for this provider.''\<close>

definition createUser ::
  "'w env \<Rightarrow> string \<Rightarrow> create_provider_user_input \<Rightarrow> (('w, 'z) db_scheme, provider_user) act" where
  \<open>createUser env providerId input =
     andThen (ensureProvider providerId) (\<lambda>(_, providerName).
     let username = trim (cu_username input); password = cu_password input in
     if username = [] then throw ''Username is required.''
     else if length username > 512 then throw ''Username is too long.''
     else if password = [] then throw ''Password is required.''
     else if length password > 4096 then throw ''Password is too long.''
     else
       andThen (gets (\<lambda>s. filter (\<lambda>r. pu_provider_id r = providerId \<and> pu_username r = username)
                            (t_provider_users s))) (\<lambda>duplicate.
       if duplicate \<noteq> [] then throw (duplicate_user_message username)
       else
         andThen (ext (randomUUID env)) (\<lambda>userId.
         andThen (ext (Date_now env)) (\<lambda>now.
         andThen (hashProviderPassword env password) (\<lambda>passwordHash.
         andThen (batch [insert_provider_user
             \<lparr>pu_id = userId, pu_provider_id = providerId, pu_username = username,
              pu_password_hash = passwordHash,
              pu_enabled = (if cu_enabled input = Some False then 0 else 1),
              pu_created_at = now, pu_updated_at = now, pu_password = []\<rparr>]) (\<lambda>_.
         andThen (syncLegacyIdentity env providerId) (\<lambda>_.
         andThen (log_info env SrcProvider ''user_creation''
             (''Added client user "'' @ username @ ''" to provider "'' @ providerName @ ''".'')
             (Some (JObj [(''provider_id'', JStr providerId), (''provider_user_id'', JStr userId),
                          (''username'', JStr username)]))) (\<lambda>_.
         andThen (getUser providerId userId False) (\<lambda>created.
         case created of
           None \<Rightarrow> throw ''Provider user was created but could not be reloaded.''
         | Some u \<Rightarrow> ret u)))))))))\<close>

definition updateUser ::
  "'w env \<Rightarrow> string \<Rightarrow> string \<Rightarrow> update_provider_user_input \<Rightarrow> (('w, 'z) db_scheme, provider_user) act" where
  \<open>updateUser env providerId userId input =
     andThen (ensureProvider providerId) (\<lambda>(_, providerName).
     andThen (getUser providerId userId True) (\<lambda>found.
     case found of None \<Rightarrow> throw ''Provider user not found.''
     | Some existing \<Rightarrow>
     if \<not> isProviderPasswordHash env (pu_password_hash existing)
     then throw ''Provider user password verifier is invalid.''
     else
     let username = (case uu_username input of Some u \<Rightarrow> trim u | None \<Rightarrow> pu_username existing) in
     if username = [] then throw ''Username cannot be empty.''
     else if length username > 512 then throw ''Username is too long.''
     else if (case uu_password input of Some p \<Rightarrow> length p > 4096 | None \<Rightarrow> False)
     then throw ''Password is too long.''
     else
       let passwordChanged = (case uu_password input of Some p \<Rightarrow> p \<noteq> [] | None \<Rightarrow> False) in
       andThen (case uu_password input of
                  Some p \<Rightarrow> if p \<noteq> [] then hashProviderPassword env p else ret (pu_password_hash existing)
                | None \<Rightarrow> ret (pu_password_hash existing)) (\<lambda>passwordHash.
       let enabled = (case uu_enabled input of Some e \<Rightarrow> (if e then 1 else 0) | None \<Rightarrow> pu_enabled existing) in
       andThen (gets (\<lambda>s. filter (\<lambda>r. pu_provider_id r = providerId \<and> pu_username r = username \<and>
                                      pu_id r \<noteq> userId) (t_provider_users s))) (\<lambda>duplicate.
       if duplicate \<noteq> [] then throw (duplicate_user_message username)
       else
         andThen (ext (Date_now env)) (\<lambda>now.
         andThen (run_sql t_provider_users (\<lambda>t s. s\<lparr>t_provider_users := t\<rparr>)
           (sql_update pu_uniq pu_row_ok (\<lambda>r. pu_provider_id r = providerId \<and> pu_id r = userId)
             (\<lambda>r. r\<lparr>pu_username := username, pu_password := [], pu_password_hash := passwordHash,
                    pu_enabled := enabled, pu_updated_at := now\<rparr>))) (\<lambda>_.
         andThen (syncLegacyIdentity env providerId) (\<lambda>_.
         andThen (log_info env SrcProvider ''user_update''
             (''Updated client user "'' @ username @ ''" for provider "'' @ providerName @ ''".'')
             (Some (JObj [(''provider_id'', JStr providerId), (''provider_user_id'', JStr userId),
                          (''username'', JStr username), (''enabled'', JBool (enabled \<noteq> 0)),
                          (''password_changed'', JBool passwordChanged)]))) (\<lambda>_.
         andThen (getUser providerId userId False) (\<lambda>updated.
         case updated of
           None \<Rightarrow> throw ''Provider user was updated but could not be reloaded.''
         | Some u \<Rightarrow> ret u)))))))))\<close>

definition deleteUser :: "'w env \<Rightarrow> string \<Rightarrow> string \<Rightarrow> (('w, 'z) db_scheme, unit) act" where
  \<open>deleteUser env providerId userId =
     andThen (ensureProvider providerId) (\<lambda>(_, providerName).
     andThen (getUser providerId userId False) (\<lambda>found.
     case found of None \<Rightarrow> throw ''Provider user not found.''
     | Some existing \<Rightarrow>
       andThen (modify (\<lambda>s. s\<lparr>t_provider_users :=
           delete_where (\<lambda>r. pu_provider_id r = providerId \<and> pu_id r = userId) (t_provider_users s)\<rparr>)) (\<lambda>_.
       andThen (syncLegacyIdentity env providerId) (\<lambda>_.
       log_warn env SrcProvider ''user_deletion''
         (''Removed client user "'' @ pu_username existing @ ''" from provider "'' @ providerName @ ''".'')
         (Some (JObj [(''provider_id'', JStr providerId), (''provider_user_id'', JStr userId),
                      (''username'', JStr (pu_username existing))]))))))\<close>

definition upsertPrimaryUser ::
  "'w env \<Rightarrow> string \<Rightarrow> string \<Rightarrow> string option \<Rightarrow> (('w, 'z) db_scheme, unit) act" where
  "upsertPrimaryUser env providerId username password =
     andThen (getUsers providerId True) (\<lambda>users.
     case users of
       primary # _ \<Rightarrow>
         andThen (updateUser env providerId (pu_id primary)
           \<lparr>uu_username = Some username, uu_password = password, uu_enabled = None\<rparr>) (\<lambda>_. ret ())
     | [] \<Rightarrow>
         (case password of
            None \<Rightarrow> throw ''A password is required for the first provider user.''
          | Some p \<Rightarrow>
              if p = [] then throw ''A password is required for the first provider user.''
              else andThen (createUser env providerId
                     \<lparr>cu_username = username, cu_password = p, cu_enabled = Some True\<rparr>) (\<lambda>_. ret ())))"

subsection \<open>The operations keep the invariant\<close>

lemma ensureProvider_Inr:
  "ensureProvider pid s = (Inr r, t) \<Longrightarrow>
     t = s \<and> fst r = pid \<and> (\<exists>p \<in> set (t_providers s). p_id p = pid \<and> snd r = p_name p)"
proof -
  assume run: "ensureProvider pid s = (Inr r, t)"
  then obtain p ps where p: "filter (\<lambda>r. p_id r = pid) (t_providers s) = p # ps" and "t = s" "r = (p_id p, p_name p)"
    by (cases "filter (\<lambda>r. p_id r = pid) (t_providers s)") (auto simp: ensureProvider_def)
  moreover have "p \<in> set (t_providers s) \<and> p_id p = pid" using filter_ConsD [OF p] .
  ultimately show ?thesis by auto
qed

lemma keeps_ensureProvider [keeps_intros]: "keeps I (ensureProvider pid)"
  by (auto simp: keeps_def ensureProvider_def split: list.splits)

lemma keeps_getUser [keeps_intros]: "keeps I (getUser pid uid b)"
  by (simp add: keeps_def getUser_def)

lemma keeps_getUsers [keeps_intros]: "keeps I (getUsers pid b)"
  unfolding getUsers_def by (intro keeps_intros)

lemma db_inv_provider_users:
  "db_inv s \<Longrightarrow> pu_uniq t \<Longrightarrow> list_all pu_row_ok t \<Longrightarrow>
     list_all (\<lambda>r. pu_provider_id r \<in> set (map p_id (t_providers s))) t \<Longrightarrow>
     db_inv (s\<lparr>t_provider_users := t\<rparr>)"
  by (simp add: db_inv_def)

lemma db_inv_providers:
  "db_inv s \<Longrightarrow> p_uniq t \<Longrightarrow> list_all p_row_ok t \<Longrightarrow> map p_id t = map p_id (t_providers s) \<Longrightarrow>
     db_inv (s\<lparr>t_providers := t\<rparr>)"
  by (simp add: db_inv_def)

lemma update_row_ok:
  assumes "list_all ok t" and "\<forall>r \<in> set t. P r \<longrightarrow> ok (f r)"
  shows "list_all ok (update_where P f t)"
  using assms by (auto simp: list_all_iff in_update_where)

lemma keeps_syncLegacyIdentity: "keeps (db_inv :: ('w, 'z) db_scheme \<Rightarrow> bool) (syncLegacyIdentity env pid)"
proof -
  have "keeps (db_inv :: ('w, 'z) db_scheme \<Rightarrow> bool) (run_sql t_providers (\<lambda>t s. s\<lparr>t_providers := t\<rparr>)
       (sql_update p_uniq local_password_ok (\<lambda>r. p_id r = pid)
         (\<lambda>r. r\<lparr>p_local_username := username, p_local_password := [], p_updated_at := now\<rparr>)))"
    for username now
  proof (rule keeps_run_sql)
    fix s :: "('w, 'z) db_scheme" and t
    assume inv: "db_inv s" and "sql_update p_uniq local_password_ok (\<lambda>r. p_id r = pid)
         (\<lambda>r. r\<lparr>p_local_username := username, p_local_password := [], p_updated_at := now\<rparr>)
         (t_providers s) = Some t"
    then have t: "p_uniq t" "t = update_where (\<lambda>r. p_id r = pid)
         (\<lambda>r. r\<lparr>p_local_username := username, p_local_password := [], p_updated_at := now\<rparr>) (t_providers s)"
      by (auto simp: sql_update_Some)
    have rows: "list_all p_row_ok (t_providers s)" using inv by (simp add: db_inv_def)
    have "list_all p_row_ok t" unfolding t(2)
      by (rule update_row_ok [OF rows]) (use rows in \<open>auto simp: list_all_iff p_row_ok_def cache_ok_def local_password_ok_def\<close>)
    with inv t show "db_inv (s\<lparr>t_providers := t\<rparr>)"
      by (intro db_inv_providers) (auto simp: map_update_where)
  qed
  then show ?thesis unfolding syncLegacyIdentity_def by (intro db_keeps)
qed

lemma insert_provider_user_Some:
  "insert_provider_user r s = Some t \<longleftrightarrow>
     pu_provider_id r \<in> set (map p_id (t_providers s)) \<and> pu_row_ok r \<and>
     pu_uniq (t_provider_users s @ [r]) \<and> t = s\<lparr>t_provider_users := t_provider_users s @ [r]\<rparr>"
  by (auto simp: insert_provider_user_def on_table_def sql_insert_Some)

lemma insert_provider_user_inv: "db_inv s \<Longrightarrow> insert_provider_user r s = Some t \<Longrightarrow> db_inv t"
  by (auto simp: insert_provider_user_Some db_inv_def)

lemma keeps_insert_provider_user: "keeps db_inv (batch [insert_provider_user r])"
  by (rule keeps_statement) (rule insert_provider_user_inv)

lemma keeps_update_provider_user:
  assumes "\<And>r. pu_provider_id (f r) = pu_provider_id r"
  shows "keeps (db_inv :: ('w, 'z) db_scheme \<Rightarrow> bool) (run_sql t_provider_users (\<lambda>t s. s\<lparr>t_provider_users := t\<rparr>)
           (sql_update pu_uniq pu_row_ok P f))"
proof (rule keeps_run_sql)
  fix s :: "('w, 'z) db_scheme" and t
  assume inv: "db_inv s" and "sql_update pu_uniq pu_row_ok P f (t_provider_users s) = Some t"
  then have t: "pu_uniq t" "t = update_where P f (t_provider_users s)"
    and ok: "\<forall>r \<in> set (t_provider_users s). P r \<longrightarrow> pu_row_ok (f r)"
    by (auto simp: sql_update_Some)
  have "list_all pu_row_ok t" unfolding t(2)
    by (rule update_row_ok) (use inv ok in \<open>auto simp: db_inv_def\<close>)
  moreover have "list_all (\<lambda>r. pu_provider_id r \<in> set (map p_id (t_providers s))) t" unfolding t(2)
    by (rule update_row_ok) (use inv assms in \<open>auto simp: db_inv_def list_all_iff\<close>)
  ultimately show "db_inv (s\<lparr>t_provider_users := t\<rparr>)" using inv t by (intro db_inv_provider_users)
qed

lemmas user_keeps = db_keeps keeps_ensureProvider keeps_getUser keeps_getUsers keeps_syncLegacyIdentity
  keeps_insert_provider_user keeps_hashProviderPassword [OF ext_free_db_inv]

lemma keeps_createUser: "keeps db_inv (createUser env pid input)"
  unfolding createUser_def case_prod_unfold Let_def by (intro user_keeps)

lemma keeps_updateUser: "keeps db_inv (updateUser env pid uid input)"
  unfolding updateUser_def case_prod_unfold Let_def
  by (intro user_keeps keeps_update_provider_user) simp_all

lemma keeps_deleteUser: "keeps (db_inv :: ('w, 'z) db_scheme \<Rightarrow> bool) (deleteUser env pid uid)"
proof -
  have "keeps (db_inv :: ('w, 'z) db_scheme \<Rightarrow> bool) (modify (\<lambda>s. s\<lparr>t_provider_users :=
           delete_where (\<lambda>r. pu_provider_id r = pid \<and> pu_id r = uid) (t_provider_users s)\<rparr>))"
    by (rule keeps_modify)
      (auto simp: db_inv_def list_all_iff delete_where_def provider_users.uniq_filter)
  then show ?thesis
    unfolding deleteUser_def case_prod_unfold Let_def by (intro user_keeps)
qed

lemma keeps_upsertPrimaryUser: "keeps db_inv (upsertPrimaryUser env pid username password)"
  unfolding upsertPrimaryUser_def
  by (intro user_keeps keeps_createUser keeps_updateUser)

subsection \<open>What a returned call has done\<close>

lemma syncLegacyIdentity_frame:
  "syncLegacyIdentity env pid s = (r, t) \<Longrightarrow> t_provider_users t = t_provider_users s"
  by (auto simp: syncLegacyIdentity_def act_simps run_sql_eq split: option.splits)

definition made_verifier :: "'w env \<Rightarrow> string \<Rightarrow> string \<Rightarrow> bool" where
  "made_verifier env password h \<longleftrightarrow> (\<exists>w. h = join ''$'' [ALGORITHM, show_nat ITERATIONS,
      b64url_encode (fst (randomBytes env SALT_BYTES w)),
      b64url_encode (pbkdf2Sync env password (fst (randomBytes env SALT_BYTES w)) ITERATIONS KEY_BYTES)])"

lemma hash_Inr_elim [run_elims]:
  assumes "hashProviderPassword env p s = (Inr h, t)"
  obtains w where "t = s\<lparr>outer := w\<rparr>" and "made_verifier env p h"
proof -
  obtain salt w where rb: "randomBytes env SALT_BYTES (outer s) = (salt, w)" by fastforce
  show thesis
  proof (rule that)
    show "t = s\<lparr>outer := w\<rparr>" using assms by (simp add: hashProviderPassword_run rb)
    show "made_verifier env p h" unfolding made_verifier_def
      by (rule exI [of _ "outer s"]) (use assms in \<open>auto simp: hashProviderPassword_run rb\<close>)
  qed
qed

definition found_user :: "string \<Rightarrow> string \<Rightarrow> bool \<Rightarrow> ('w, 'z) db_scheme \<Rightarrow> provider_user option" where
  "found_user pid uid b s =
     map_option (\<lambda>r. rowToUser r b) (find (\<lambda>r. pu_provider_id r = pid \<and> pu_id r = uid) (t_provider_users s))"

lemma getUser_run: "getUser pid uid b s = (Inr (found_user pid uid b s), s)"
  by (simp add: getUser_def found_user_def find_filter split: list.splits)

lemma getUser_Inr_elim [run_elims]:
  assumes "getUser pid uid b s = (Inr x, t)"
  obtains "x = found_user pid uid b s" and "t = s"
proof (rule that)
  show "x = found_user pid uid b s"
    using arg_cong [OF assms, of fst] by (simp only: getUser_run fst_conv sum.inject)
  show "t = s" using arg_cong [OF assms, of snd] by (simp only: getUser_run snd_conv)
qed

lemma found_user_member:
  assumes "pu_uniq (t_provider_users s)" and "row \<in> set (t_provider_users s)"
  shows "found_user (pu_provider_id row) (pu_id row) b s = Some (rowToUser row b)"
proof -
  have "filter (\<lambda>r. pu_provider_id r = pu_provider_id row \<and> pu_id r = pu_id row) (t_provider_users s) =
     filter (\<lambda>r. pu_provider_id r = pu_provider_id row) (filter (\<lambda>r. pu_id r = pu_id row) (t_provider_users s))"
    by (auto intro: filter_cong)
  also have "\<dots> = [row]" using provider_users.lookup_member [OF assms] by simp
  finally show ?thesis by (simp add: found_user_def find_filter)
qed

lemma found_user_SomeD:
  assumes "found_user pid uid b s = Some u"
  shows "\<exists>row \<in> set (t_provider_users s). pu_provider_id row = pid \<and> pu_id row = uid \<and> u = rowToUser row b"
proof -
  from assms obtain row where "find (\<lambda>r. pu_provider_id r = pid \<and> pu_id r = uid) (t_provider_users s) = Some row"
    and "u = rowToUser row b" by (auto simp: found_user_def)
  then show ?thesis by (auto simp: find_Some_iff)
qed

lemma createUser_Inr:
  assumes run: "createUser env pid input s = (Inr u, t)" and inv: "db_inv s"
  shows "\<exists>row. t_provider_users t = t_provider_users s @ [row] \<and> u = rowToUser row False \<and>
     pu_provider_id row = pid \<and> pu_username row = trim (cu_username input) \<and>
     pu_enabled row = (if cu_enabled input = Some False then 0 else 1) \<and> pu_password row = [] \<and>
     made_verifier env (cu_password input) (pu_password_hash row)"
proof -
  have "db_inv t" using keepsD_run [OF keeps_createUser inv run] .
  then have uniq: "pu_uniq (t_provider_users t)" by (simp add: db_inv_def)
  have "\<exists>row. t_provider_users t = t_provider_users s @ [row] \<and>
     found_user pid (pu_id row) False t = Some u \<and>
     pu_provider_id row = pid \<and> pu_username row = trim (cu_username input) \<and>
     pu_enabled row = (if cu_enabled input = Some False then 0 else 1) \<and> pu_password row = [] \<and>
     made_verifier env (cu_password input) (pu_password_hash row)"
    using run unfolding createUser_def Let_def case_prod_unfold
    apply (elim run_elims)
    apply (drule ensureProvider_Inr)
    apply (drule syncLegacyIdentity_frame)
    apply (drule log_keeps_provider_users)
    apply (unfold insert_provider_user_Some)
    apply (rule exI, rule conjI, simp, simp)
    done
  then obtain row where row: "t_provider_users t = t_provider_users s @ [row]"
      "found_user pid (pu_id row) False t = Some u" "pu_provider_id row = pid"
      "pu_username row = trim (cu_username input)"
      "pu_enabled row = (if cu_enabled input = Some False then 0 else 1)" "pu_password row = []"
      "made_verifier env (cu_password input) (pu_password_hash row)" by blast
  with found_user_member [OF uniq, of row False] have "u = rowToUser row False" by simp
  with row show ?thesis by blast
qed

lemma run_branch_elim:
  assumes "(case z of None \<Rightarrow> ret a | Some p \<Rightarrow> if p \<noteq> [] then f p else ret a) s = (Inr h, t)"
  obtains p where "z = Some p" and "p \<noteq> []" and "f p s = (Inr h, t)"
  | "z = None \<or> z = Some []" and "h = a" and "t = s"
  using assms by (cases z) (auto split: if_splits)

lemma updateUser_Inr:
  assumes run: "updateUser env pid uid input s = (Inr u, t)" and inv: "db_inv s"
  shows "\<exists>old \<in> set (t_provider_users s). \<exists>new.
     pu_provider_id old = pid \<and> pu_id old = uid \<and>
     t_provider_users t = update_where (\<lambda>r. pu_id r = uid) (\<lambda>_. new) (t_provider_users s) \<and>
     u = rowToUser new False \<and> pu_provider_id new = pid \<and> pu_id new = uid \<and>
     pu_username new = (case uu_username input of None \<Rightarrow> pu_username old | Some n \<Rightarrow> trim n) \<and>
     pu_enabled new = (case uu_enabled input of None \<Rightarrow> pu_enabled old | Some e \<Rightarrow> if e then 1 else 0) \<and>
     (if uu_password input = None \<or> uu_password input = Some [] then pu_password_hash new = pu_password_hash old
      else made_verifier env (the (uu_password input)) (pu_password_hash new))"
proof -
  have "db_inv t" using keepsD_run [OF keeps_updateUser inv run] .
  then have uniq: "pu_uniq (t_provider_users t)" by (simp add: db_inv_def)
  have "\<exists>user hash now.
     found_user pid uid True s = Some user \<and> found_user pid uid False t = Some u \<and>
     t_provider_users t = update_where (\<lambda>r. pu_provider_id r = pid \<and> pu_id r = uid)
        (\<lambda>r. r\<lparr>pu_username := (case uu_username input of None \<Rightarrow> pu_username user | Some n \<Rightarrow> trim n), 
               pu_password := [], pu_password_hash := hash,
               pu_enabled := (case uu_enabled input of None \<Rightarrow> pu_enabled user | Some e \<Rightarrow> if e then 1 else 0),
               pu_updated_at := now\<rparr>) (t_provider_users s) \<and>
     (if uu_password input = None \<or> uu_password input = Some [] then hash = pu_password_hash user
      else made_verifier env (the (uu_password input)) hash)"
    using run unfolding updateUser_def Let_def case_prod_unfold
    apply (elim run_elims run_branch_elim)
     apply (drule ensureProvider_Inr, drule syncLegacyIdentity_frame, drule log_keeps_provider_users)
     apply (rule exI, rule exI, rule exI, rule conjI, simp, simp add: sql_update_Some)
    apply (drule ensureProvider_Inr, drule syncLegacyIdentity_frame, drule log_keeps_provider_users)
    apply (rule exI, rule exI, rule exI, rule conjI, simp, simp add: sql_update_Some)
    done
  then obtain user hash now where found: "found_user pid uid True s = Some user"
      "found_user pid uid False t = Some u" and
      rows: "t_provider_users t = update_where (\<lambda>r. pu_provider_id r = pid \<and> pu_id r = uid)
        (\<lambda>r. r\<lparr>pu_username := (case uu_username input of None \<Rightarrow> pu_username user | Some n \<Rightarrow> trim n), 
               pu_password := [], pu_password_hash := hash,
               pu_enabled := (case uu_enabled input of None \<Rightarrow> pu_enabled user | Some e \<Rightarrow> if e then 1 else 0),
               pu_updated_at := now\<rparr>) (t_provider_users s)" 
          (is "_ = update_where ?P ?f _") and
      hash: "if uu_password input = None \<or> uu_password input = Some [] then hash = pu_password_hash user
      else made_verifier env (the (uu_password input)) hash"
    by blast
  obtain old where old: "old \<in> set (t_provider_users s)" "pu_provider_id old = pid" "pu_id old = uid"
      "user = rowToUser old True"
    using found_user_SomeD [OF found(1)] by blast
  have "pu_uniq (t_provider_users s)" using inv by (simp add: db_inv_def)
  from provider_users.update_one [OF this old(1), of ?P ?f] rows old
  have rows': "t_provider_users t = update_where (\<lambda>r. pu_id r = uid) (\<lambda>_. ?f old) (t_provider_users s)"
    by simp
  have new: "?f old \<in> set (t_provider_users t)"
    unfolding rows' using old by (auto simp: in_update_where)
  from found_user_member [OF uniq new, of False] found(2) old have "u = rowToUser (?f old) False" by simp
  with rows' hash old show ?thesis
    by (intro bexI [of _ old] exI [of _ "?f old"]) (auto simp: rowToUser_def split: if_splits option.splits)
qed

lemma deleteUser_Inr:
  assumes run: "deleteUser env pid uid s = (Inr u, t)"
  shows "\<exists>old \<in> set (t_provider_users s). pu_provider_id old = pid \<and> pu_id old = uid"
    and "t_provider_users t = filter (\<lambda>r. \<not> (pu_provider_id r = pid \<and> pu_id r = uid)) (t_provider_users s)"
proof -
  have "found_user pid uid False s \<noteq> None \<and>
     t_provider_users t = filter (\<lambda>r. \<not> (pu_provider_id r = pid \<and> pu_id r = uid)) (t_provider_users s)"
    using run unfolding deleteUser_def case_prod_unfold
    apply (elim run_elims)
    apply (drule syncLegacyIdentity_frame)
    apply (drule ensureProvider_Inr)
    apply (drule log_keeps_provider_users)
    apply (simp add: delete_where_def)
    done
  then show "\<exists>old \<in> set (t_provider_users s). pu_provider_id old = pid \<and> pu_id old = uid"
    and "t_provider_users t = filter (\<lambda>r. \<not> (pu_provider_id r = pid \<and> pu_id r = uid)) (t_provider_users s)"
    using found_user_SomeD by fastforce+
qed

subsection \<open>A concrete database\<close>

definition demo_provider :: provider where
  "demo_provider = \<lparr>p_id = ''p1'', p_name = ''One'', p_host = ''http://up'', p_route = ''one'',
     p_upstream_username = ''a'', p_upstream_password = ''b'', p_local_username = [], p_local_password = [],
     p_is_default = 1, p_cache_duration_hours = 1, p_enabled = 1, p_created_at = 0, p_updated_at = 0\<rparr>"

definition demo_db :: "nat db" where
  "demo_db = (empty_db 0)\<lparr>t_providers := [demo_provider]\<rparr>"

definition demo_input :: create_provider_user_input where
  "demo_input = \<lparr>cu_username = '' bob'', cu_password = ''secret'', cu_enabled = None\<rparr>"

lemma demo_db_inv: "db_inv demo_db"
  by (simp add: demo_db_def demo_provider_def db_inv_def empty_db_def u_uniq_def p_uniq_def pu_uniq_def
      wg_uniq_def ov_uniq_def p_row_ok_def cache_ok_def local_password_ok_def)

lemma demo_password_lib: "password_lib_ok demo_env"
proof -
  have "6 * length (b64url_encode bs) div 8 = length bs" for bs
    by (induction bs rule: b64url_encode.induct) auto
  then show ?thesis by (simp add: password_lib_ok_def)
qed

lemma demo_created: "\<exists>u t. createUser demo_env ''p1'' demo_input demo_db = (Inr u, t)"
  by (simp add: createUser_def ensureProvider_def demo_db_def demo_provider_def demo_input_def
     empty_db_def andThen_run ext_run hashProviderPassword_run batch_def insert_provider_user_def
     on_table_def sql_insert_def pu_row_ok_def pu_uniq_def syncLegacyIdentity_def run_sql_eq
     sql_update_def p_uniq_def local_password_ok_def log_info_def logged_def writeLog_eq log_uniq_def
     getUser_run found_user_def Let_def trim_def trimStart_def trimEnd_def char_eval ALGORITHM_def)

lemma made_verifier_recognised:
  assumes "password_lib_ok env" and "made_verifier env p h"
  shows "isProviderPasswordHash env h"
proof -
  from assms(2) obtain w where "h = join ''$'' [ALGORITHM, show_nat ITERATIONS,
      b64url_encode (fst (randomBytes env SALT_BYTES w)),
      b64url_encode (pbkdf2Sync env p (fst (randomBytes env SALT_BYTES w)) ITERATIONS KEY_BYTES)]"
    by (auto simp: made_verifier_def)
  then have "\<exists>t. hashProviderPassword env p (empty_db w) = (Inr h, t)"
    by (simp add: hashProviderPassword_run empty_db_def split: prod.splits)
  then show ?thesis using hash_recognised [OF assms(1)] by blast
qed

subsection \<open>Properties\<close>

text \<open>Every operation on client users leads from a consistent database to a consistent one,
  whether it returns or throws.\<close>

theorem user_operations_keep_integrity:
  "keeps db_inv (createUser env pid input) \<and> keeps db_inv (updateUser env pid uid changes) \<and>
   keeps db_inv (deleteUser env pid uid) \<and> keeps db_inv (upsertPrimaryUser env pid username password)"
  by (intro conjI keeps_createUser keeps_updateUser keeps_deleteUser keeps_upsertPrimaryUser)

text \<open>A returned \<open>createUser\<close> has appended exactly one row to the table: the trimmed name, the
  requested enabled flag, an empty plain-text column and a recognised verifier of the given password. What
  it returns is that row with the verifier masked.\<close>

theorem createUser_stores:
  assumes "db_inv s" and "password_lib_ok env" and "createUser env pid input s = (Inr u, t)"
  shows "\<exists>row. t_provider_users t = t_provider_users s @ [row] \<and> u = rowToUser row False \<and>
     pu_provider_id row = pid \<and> pu_username row = trim (cu_username input) \<and>
     pu_enabled row = (if cu_enabled input = Some False then 0 else 1) \<and> pu_password row = [] \<and>
     made_verifier env (cu_password input) (pu_password_hash row) \<and>
     isProviderPasswordHash env (pu_password_hash row)"
  using createUser_Inr [OF assms(3,1)] made_verifier_recognised [OF assms(2)] by blast

theorem createUser_stores_witness:
  "\<exists>u t row. createUser demo_env ''p1'' demo_input demo_db = (Inr u, t) \<and>
     t_provider_users t = t_provider_users demo_db @ [row] \<and> pu_username row = ''bob''"
proof -
  obtain u t where run: "createUser demo_env ''p1'' demo_input demo_db = (Inr u, t)"
    using demo_created by blast
  have "trim (cu_username demo_input) = ''bob''" by (simp add: demo_input_def trim_def trimStart_def trimEnd_def char_eval)
  with createUser_stores [OF demo_db_inv demo_password_lib run] run show ?thesis by metis
qed

text \<open>C22: A returned \<open>updateUser\<close> has changed exactly the row of the user: the name and the flag as
  requested, and the verifier only when a non-empty password was given; an absent or empty password keeps
  the old verifier. What it returns is the new row, masked.\<close>

theorem updateUser_effect:
  assumes "db_inv s" and "updateUser env pid uid input s = (Inr u, t)"
  shows "\<exists>old \<in> set (t_provider_users s). \<exists>new.
     pu_provider_id old = pid \<and> pu_id old = uid \<and>
     t_provider_users t = update_where (\<lambda>r. pu_id r = uid) (\<lambda>_. new) (t_provider_users s) \<and>
     u = rowToUser new False \<and> pu_provider_id new = pid \<and> pu_id new = uid \<and>
     pu_username new = (case uu_username input of None \<Rightarrow> pu_username old | Some n \<Rightarrow> trim n) \<and>
     pu_enabled new = (case uu_enabled input of None \<Rightarrow> pu_enabled old | Some e \<Rightarrow> if e then 1 else 0) \<and>
     (if uu_password input = None \<or> uu_password input = Some [] then pu_password_hash new = pu_password_hash old
      else made_verifier env (the (uu_password input)) (pu_password_hash new))"
  by (rule updateUser_Inr [OF assms(2,1)])

definition demo_row :: provider_user_row where
  "demo_row = \<lparr>pu_id = ''u1'', pu_provider_id = ''p1'', pu_username = ''bob'',
     pu_password_hash = ''pbkdf2_sha256$210000$BwcHBwcHBwcHBwcH$CQkJCQkJCQkJCQkJCQkJCQkJCQk'', pu_enabled = 1,
     pu_created_at = 0, pu_updated_at = 0, pu_password = []\<rparr>"

definition demo_db_user :: "nat db" where
  "demo_db_user = demo_db\<lparr>t_provider_users := [demo_row]\<rparr>"

lemma demo_db_user_inv: "db_inv demo_db_user"
  using demo_db_inv
  by (simp add: db_inv_def demo_db_user_def demo_db_def empty_db_def demo_row_def demo_provider_def
      pu_uniq_def pu_row_ok_def)

lemma demo_updated:
  "\<exists>u t. updateUser demo_env ''p1'' ''u1'' \<lparr>uu_username = Some ''rob '', uu_password = Some [], uu_enabled = None\<rparr>
     demo_db_user = (Inr u, t)"
  by (simp add: updateUser_def ensureProvider_def demo_db_user_def demo_row_def demo_db_def demo_provider_def
     empty_db_def andThen_run ext_run hashProviderPassword_run
     sql_insert_def pu_row_ok_def pu_uniq_def syncLegacyIdentity_def run_sql_eq isProviderPasswordHash_def
     sql_update_def p_uniq_def local_password_ok_def log_info_def logged_def writeLog_eq log_uniq_def
     getUser_run found_user_def Let_def trim_def trimStart_def trimEnd_def char_eval ALGORITHM_def rowToUser_def nth_opt_def digits_val_def digit_val_def)

theorem updateUser_effect_witness:
  "\<exists>u t new. updateUser demo_env ''p1'' ''u1'' \<lparr>uu_username = Some ''rob '', uu_password = Some [], uu_enabled = None\<rparr>
     demo_db_user = (Inr u, t) \<and> t_provider_users t = [new] \<and> pu_username new = ''rob'' \<and>
     pu_password_hash new = pu_password_hash demo_row"
proof -
  obtain u t where run: "updateUser demo_env ''p1'' ''u1''
      \<lparr>uu_username = Some ''rob '', uu_password = Some [], uu_enabled = None\<rparr> demo_db_user = (Inr u, t)"
    using demo_updated by blast
  have "trim ''rob '' = ''rob''" by (simp add: trim_def trimStart_def trimEnd_def char_eval)
  with updateUser_effect [OF demo_db_user_inv run] run show ?thesis
    by (auto simp: demo_db_user_def demo_row_def)
qed

text \<open>A returned \<open>deleteUser\<close> has removed exactly the rows of that user, of which there was one,
  and a lookup of the user finds nothing afterwards.\<close>

theorem deleteUser_removes:
  assumes "deleteUser env pid uid s = (Inr x, t)"
  shows "(\<exists>old \<in> set (t_provider_users s). pu_provider_id old = pid \<and> pu_id old = uid) \<and>
     t_provider_users t = filter (\<lambda>r. \<not> (pu_provider_id r = pid \<and> pu_id r = uid)) (t_provider_users s) \<and>
     fst (getUser pid uid b t) = Inr None"
  using deleteUser_Inr [OF assms]
  by (auto simp: getUser_def filter_empty_conv split: list.splits)

lemma demo_deleted: "\<exists>t. deleteUser demo_env ''p1'' ''u1'' demo_db_user = (Inr (), t)"
  by (simp add: deleteUser_def ensureProvider_def demo_db_user_def demo_row_def demo_db_def demo_provider_def
     empty_db_def andThen_run ext_run syncLegacyIdentity_def run_sql_eq delete_where_def
     sql_update_def p_uniq_def local_password_ok_def log_warn_def logged_def writeLog_eq log_uniq_def
     getUser_run found_user_def rowToUser_def Let_def)

theorem deleteUser_removes_witness:
  "\<exists>t. deleteUser demo_env ''p1'' ''u1'' demo_db_user = (Inr (), t) \<and> t_provider_users t = []"
proof -
  obtain t where run: "deleteUser demo_env ''p1'' ''u1'' demo_db_user = (Inr (), t)"
    using demo_deleted by blast
  from deleteUser_removes [OF this] run show ?thesis by (auto simp: demo_db_user_def demo_row_def)
qed

text \<open>The name that the provider row repeats for old clients.\<close>

definition primary_username :: "string \<Rightarrow> provider_user_row list \<Rightarrow> string" where
  "primary_username pid t = (case sort_key rank_by_id (filter (\<lambda>r. pu_provider_id r = pid) t) of
     [] \<Rightarrow> [] | r # _ \<Rightarrow> pu_username r)"

definition legacy_synced :: "string \<Rightarrow> ('w, 'z) db_scheme \<Rightarrow> bool" where
  "legacy_synced pid s = list_all (\<lambda>p. p_id p = pid \<longrightarrow>
     p_local_username p = primary_username pid (t_provider_users s) \<and> p_local_password p = []) (t_providers s)"

lemma sync_legacy_synced:
  assumes "syncLegacyIdentity env pid s = (Inr x, t)"
  shows "legacy_synced pid t"
proof -
  obtain now where "t_providers t = update_where (\<lambda>r. p_id r = pid)
       (\<lambda>r. r\<lparr>p_local_username := primary_username pid (t_provider_users s), p_local_password := [],
              p_updated_at := now\<rparr>) (t_providers s)"
    using assms unfolding syncLegacyIdentity_def primary_username_def [symmetric]
    by (elim run_elims) (simp add: sql_update_Some)
  moreover have "t_provider_users t = t_provider_users s" using syncLegacyIdentity_frame [OF assms] .
  moreover have "list_all (\<lambda>p. p_id p = pid \<longrightarrow> p_local_username p = n \<and> p_local_password p = [])
      (update_where (\<lambda>r. p_id r = pid)
         (\<lambda>r. r\<lparr>p_local_username := n, p_local_password := [], p_updated_at := now\<rparr>) ps)" for n ps
    by (induction ps) auto
  ultimately show ?thesis by (simp add: legacy_synced_def)
qed

lemma log_keeps_legacy_synced:
  "log_info env a b c d s = (r, t) \<Longrightarrow> legacy_synced pid s \<Longrightarrow> legacy_synced pid t"
  "log_warn env a b c d s = (r, t) \<Longrightarrow> legacy_synced pid s \<Longrightarrow> legacy_synced pid t"
  by (simp_all add: legacy_synced_def log_keeps_providers log_keeps_provider_users)

text \<open>When creating, updating or deleting a client user has returned, the provider row repeats the name
  of the first user in the order enabled, oldest, identifier (or the empty name), and no password.\<close>

theorem legacy_identity_synced:
  assumes "createUser env pid input s = (Inr u, t) \<or> updateUser env pid uid changes s = (Inr u, t) \<or>
     deleteUser env pid uid s = (Inr (), t)"
  shows "legacy_synced pid t"
  using assms
proof (elim disjE)
  assume "createUser env pid input s = (Inr u, t)"
  then show ?thesis unfolding createUser_def Let_def case_prod_unfold
    apply (elim run_elims)
    apply (drule sync_legacy_synced)
    apply (drule (1) log_keeps_legacy_synced(1))
    apply (simp only:)
    done
next
  assume "updateUser env pid uid changes s = (Inr u, t)"
  then show ?thesis unfolding updateUser_def Let_def case_prod_unfold
    apply (elim run_elims run_branch_elim)
     apply (drule sync_legacy_synced, drule (1) log_keeps_legacy_synced(1), simp only:)
    apply (drule sync_legacy_synced, drule (1) log_keeps_legacy_synced(1), simp only:)
    done
next
  assume "deleteUser env pid uid s = (Inr (), t)"
  then show ?thesis unfolding deleteUser_def Let_def case_prod_unfold
    apply (elim run_elims)
    apply (drule sync_legacy_synced)
    apply (drule (1) log_keeps_legacy_synced(2))
    apply assumption
    done
qed

theorem legacy_identity_synced_witness:
  "\<exists>t. deleteUser demo_env ''p1'' ''u1'' demo_db_user = (Inr (), t) \<and> legacy_synced ''p1'' t"
  using demo_deleted legacy_identity_synced [of demo_env "''p1''" _ demo_db_user _ _ "''u1''"] by blast

end
