(* ===== verification/Routes_Text.thy ===== *)
theory Routes_Text
  imports Js_String
begin

section \<open>Route names\<close>

text \<open>
  The route normalisation of \<open>lib/services/provider.service.ts\<close> and the facts about its texts: the
  alphabet and length of a normalised route, when normalising twice changes nothing, and which reserved
  names a normalised route can equal at all.
\<close>

definition RESERVED_ROUTES :: "string list" where
  "RESERVED_ROUTES =
     [''ui'', ''api'', ''admin'', ''login'', ''vpn'', ''logs'', ''dashboard'', ''settings'', ''system'',
      ''health'', ''_next'', ''_hls'', ''public'', ''favicon.ico'', ''player_api.php'', ''get.php'',
      ''xmltv.php'', ''live'', ''movie'', ''series'', ''timeshift'', ''streaming'']"

text \<open>The class \<open>[a-z0-9_-]\<close>.\<close>

definition route_char :: "char \<Rightarrow> bool" where
  "route_char c \<longleftrightarrow> is_lower c \<or> is_digit c \<or> c = CHR ''_'' \<or> c = CHR ''-''"

text \<open>\<open>replace(/^x+|x+$/g, '')\<close> for one character.\<close>

definition strip_char :: "char \<Rightarrow> string \<Rightarrow> string" where
  "strip_char d s = rev (dropWhile (\<lambda>c. c = d) (rev (dropWhile (\<lambda>c. c = d) s)))"

text \<open>Every run of characters in the class becomes one dash.\<close>

function squeeze :: "(char \<Rightarrow> bool) \<Rightarrow> string \<Rightarrow> string" where
  "squeeze P [] = []"
| "squeeze P (c # cs) = (if P c then CHR ''-'' # squeeze P (dropWhile P cs) else c # squeeze P cs)"
  by pat_completeness auto
termination
  by (relation "measure (\<lambda>(P, s). length s)") (auto simp: le_imp_less_Suc length_dropWhile_le)

definition normalizeRoute :: "string \<Rightarrow> string" where
  "normalizeRoute route =
     take 64 (strip_char (CHR ''-'')
       (squeeze (\<lambda>c. c = CHR ''-'')
         (squeeze (\<lambda>c. \<not> route_char c)
           (strip_char (CHR ''/'') (toLowerCase (trim route))))))"

definition isRouteReserved :: "string \<Rightarrow> bool" where
  "isRouteReserved route = (normalizeRoute route \<in> set RESERVED_ROUTES)"

subsection \<open>Stripping and squeezing\<close>

lemma set_strip_char: "set (strip_char d s) \<subseteq> set s"
  unfolding strip_char_def using dropWhile_set_subset by (metis order_trans set_rev)

lemma length_strip_char: "length (strip_char d s) \<le> length s"
  unfolding strip_char_def by (metis length_dropWhile_le length_rev order_trans)

lemma strip_char_id: "s = [] \<or> (hd s \<noteq> d \<and> last s \<noteq> d) \<Longrightarrow> strip_char d s = s"
proof (cases "s = []")
  case False
  moreover assume "s = [] \<or> (hd s \<noteq> d \<and> last s \<noteq> d)"
  ultimately have "dropWhile (\<lambda>c. c = d) s = s" "dropWhile (\<lambda>c. c = d) (rev s) = rev s"
    by (auto simp: dropWhile_eq_self_iff hd_rev)
  then show ?thesis by (simp add: strip_char_def)
qed (simp add: strip_char_def)

lemma strip_char_no: "d \<notin> set s \<Longrightarrow> strip_char d s = s"
  by (rule strip_char_id) (auto dest: hd_in_set last_in_set)

lemma strip_char_ends:
  assumes "strip_char d s \<noteq> []"
  shows "hd (strip_char d s) \<noteq> d" and "last (strip_char d s) \<noteq> d"
proof -
  let ?u = "dropWhile (\<lambda>c. c = d) s"
  have u: "strip_char d s = rev (dropWhile (\<lambda>c. c = d) (rev ?u))" by (simp add: strip_char_def)
  with assms show "last (strip_char d s) \<noteq> d"
    using hd_dropWhile [of "\<lambda>c. c = d" "rev ?u"] by (simp add: last_rev)
  have "?u = strip_char d s @ rev (takeWhile (\<lambda>c. c = d) (rev ?u))"
    unfolding strip_char_def by (metis rev_append rev_rev_ident takeWhile_dropWhile_id)
  with assms have "hd ?u = hd (strip_char d s)" and "?u \<noteq> []"
    by (metis hd_append2, metis append_is_Nil_conv)
  then show "hd (strip_char d s) \<noteq> d" using hd_dropWhile [of "\<lambda>c. c = d" s] by metis
qed

text \<open>A contiguous part of a text: what stripping leaves.\<close>

lemma strip_char_part: "\<exists>a b. s = a @ strip_char d s @ b"
proof -
  let ?u = "dropWhile (\<lambda>c. c = d) s"
  have "s = takeWhile (\<lambda>c. c = d) s @ ?u" by simp
  moreover have "?u = strip_char d s @ rev (takeWhile (\<lambda>c. c = d) (rev ?u))"
    unfolding strip_char_def by (metis rev_append rev_rev_ident takeWhile_dropWhile_id)
  ultimately show ?thesis by metis
qed

lemma set_squeeze: "set (squeeze P s) \<subseteq> insert (CHR ''-'') {c \<in> set s. \<not> P c}"
proof (induction P s rule: squeeze.induct)
  case (2 P c cs)
  then show ?case using dropWhile_set_subset [of P cs] by (auto split: if_splits)
qed simp

lemma length_squeeze: "length (squeeze P s) \<le> length s"
proof (induction P s rule: squeeze.induct)
  case (2 P c cs)
  then show ?case using length_dropWhile_le [of P cs] by (auto simp: le_SucI)
qed simp

lemma squeeze_none: "\<forall>c \<in> set s. \<not> P c \<Longrightarrow> squeeze P s = s"
  by (induction P s rule: squeeze.induct) auto

text \<open>Texts without two adjacent dashes.\<close>

fun no_double :: "string \<Rightarrow> bool" where
  "no_double [] = True"
| "no_double [c] = True"
| "no_double (a # b # s) = (\<not> (a = CHR ''-'' \<and> b = CHR ''-'') \<and> no_double (b # s))"

lemma no_double_Cons:
  "no_double (c # s) \<longleftrightarrow> no_double s \<and> \<not> (c = CHR ''-'' \<and> s \<noteq> [] \<and> hd s = CHR ''-'')"
  by (cases s) auto

lemma no_double_append: "no_double (a @ b) \<Longrightarrow> no_double a \<and> no_double b"
  by (induction a) (auto simp: no_double_Cons simp del: no_double.simps(3))

lemma squeeze_dash_hd: "squeeze (\<lambda>c. c = CHR ''-'') s \<noteq> [] \<Longrightarrow> hd (squeeze (\<lambda>c. c = CHR ''-'') s) = hd s"
  by (cases s) auto

lemma squeeze_dash_hd_dropWhile:
  assumes "squeeze (\<lambda>c. c = CHR ''-'') (dropWhile (\<lambda>c. c = CHR ''-'') cs) \<noteq> []"
  shows "hd (squeeze (\<lambda>c. c = CHR ''-'') (dropWhile (\<lambda>c. c = CHR ''-'') cs)) \<noteq> CHR ''-''"
proof -
  have "dropWhile (\<lambda>c. c = CHR ''-'') cs \<noteq> []" using assms squeeze.simps(1) by metis
  then have "hd (dropWhile (\<lambda>c. c = CHR ''-'') cs) \<noteq> CHR ''-''"
    by (rule hd_dropWhile)
  then show ?thesis unfolding squeeze_dash_hd [OF assms] .
qed

lemma no_double_squeeze: "no_double (squeeze (\<lambda>c. c = CHR ''-'') s)"
proof (induction "length s" arbitrary: s rule: less_induct)
  case less
  show ?case
  proof (cases s)
    case (Cons c cs)
    have "no_double (squeeze (\<lambda>c. c = CHR ''-'') (dropWhile (\<lambda>c. c = CHR ''-'') cs))"
      by (rule less) (simp add: Cons le_imp_less_Suc length_dropWhile_le)
    moreover have "no_double (squeeze (\<lambda>c. c = CHR ''-'') cs)" by (rule less) (simp add: Cons)
    ultimately show ?thesis
      using squeeze_dash_hd_dropWhile [of cs]
      by (auto simp add: Cons no_double_Cons simp del: no_double.simps(3))
  qed simp
qed

lemma squeeze_dash_id: "no_double s \<Longrightarrow> squeeze (\<lambda>c. c = CHR ''-'') s = s"
proof (induction s rule: no_double.induct)
  case (3 a b s)
  then show ?case by (cases "a = CHR ''-''") (auto simp: no_double_Cons)
qed auto

subsection \<open>Characters\<close>

lemma lower_char_route: "route_char c \<Longrightarrow> lower_char c = c"
  by (auto simp: route_char_def is_lower_def is_digit_def lower_char_def in_range_def)

lemma route_char_not_ws: "route_char c \<Longrightarrow> \<not> is_ws c"
  by (auto simp: route_char_def is_lower_def is_digit_def in_range_def is_ws_def)

lemma route_char_not_slash: "route_char c \<Longrightarrow> c \<noteq> CHR ''/''"
  by (auto simp: route_char_def is_lower_def is_digit_def in_range_def)

lemma route_char_dash: "route_char (CHR ''-'')"
  by (simp add: route_char_def)

subsection \<open>The shape of a normalised route\<close>

lemma normalizeRoute_chars: "c \<in> set (normalizeRoute r) \<Longrightarrow> route_char c"
proof -
  let ?a = "squeeze (\<lambda>c. \<not> route_char c) (strip_char (CHR ''/'') (toLowerCase (trim r)))"
  assume "c \<in> set (normalizeRoute r)"
  then have "c \<in> set (squeeze (\<lambda>c. c = CHR ''-'') ?a)"
    using set_strip_char set_take_subset unfolding normalizeRoute_def by fastforce
  then have "c = CHR ''-'' \<or> c \<in> set ?a" using set_squeeze by fastforce
  then show "route_char c" using set_squeeze route_char_dash by fastforce
qed

lemma normalizeRoute_length: "length (normalizeRoute r) \<le> 64"
  by (simp add: normalizeRoute_def)

lemma normalizeRoute_no_double: "no_double (normalizeRoute r)"
proof -
  let ?q = "squeeze (\<lambda>c. c = CHR ''-'')
              (squeeze (\<lambda>c. \<not> route_char c) (strip_char (CHR ''/'') (toLowerCase (trim r))))"
  obtain a b where "?q = a @ strip_char (CHR ''-'') ?q @ b" using strip_char_part by metis
  then have "no_double (strip_char (CHR ''-'') ?q)"
    using no_double_squeeze no_double_append by metis
  moreover have "strip_char (CHR ''-'') ?q = normalizeRoute r @ drop 64 (strip_char (CHR ''-'') ?q)"
    by (simp add: normalizeRoute_def)
  ultimately show ?thesis using no_double_append by metis
qed

lemma normalizeRoute_short:
  assumes "length (trim r) \<le> 64"
  shows "normalizeRoute r = strip_char (CHR ''-'') (squeeze (\<lambda>c. c = CHR ''-'')
           (squeeze (\<lambda>c. \<not> route_char c) (strip_char (CHR ''/'') (toLowerCase (trim r)))))"
proof -
  have "length (strip_char (CHR ''-'') (squeeze (\<lambda>c. c = CHR ''-'')
           (squeeze (\<lambda>c. \<not> route_char c) (strip_char (CHR ''/'') (toLowerCase (trim r)))))) \<le> 64"
    using assms length_strip_char length_squeeze length_toLowerCase
    by (metis order_trans)
  then show ?thesis by (simp add: normalizeRoute_def)
qed

text \<open>A text that already has the alphabet and no double dash only loses its outer dashes.\<close>

lemma normalizeRoute_clean:
  assumes "\<forall>c \<in> set s. route_char c" and "no_double s"
  shows "normalizeRoute s = take 64 (strip_char (CHR ''-'') s)"
proof -
  have "trim s = s" using assms(1) route_char_not_ws by (intro trim_no_ws) auto
  moreover have "toLowerCase s = s"
    using assms(1) lower_char_route by (simp add: toLowerCase_def map_idI)
  moreover have "strip_char (CHR ''/'') s = s"
    using assms(1) route_char_not_slash by (intro strip_char_no) auto
  moreover have "squeeze (\<lambda>c. \<not> route_char c) s = s" using assms(1) by (intro squeeze_none) auto
  ultimately show ?thesis using assms(2) squeeze_dash_id by (simp add: normalizeRoute_def)
qed

lemma normalizeRoute_fixed:
  assumes "\<forall>c \<in> set s. route_char c" and "no_double s" and "length s \<le> 64"
    and "s = [] \<or> (hd s \<noteq> CHR ''-'' \<and> last s \<noteq> CHR ''-'')"
  shows "normalizeRoute s = s"
  using normalizeRoute_clean [OF assms(1,2)] strip_char_id [OF assms(4)] assms(3) by simp

lemma no_double_replicate: "d \<noteq> CHR ''-'' \<Longrightarrow> no_double (replicate n d @ s) = no_double s"
  by (induction n) (auto simp: no_double_Cons simp del: no_double.simps(3))

lemma normalizeRoute_idem:
  assumes "length (trim r) \<le> 64"
  shows "normalizeRoute (normalizeRoute r) = normalizeRoute r"
proof (rule normalizeRoute_fixed)
  show "normalizeRoute r = [] \<or>
          (hd (normalizeRoute r) \<noteq> CHR ''-'' \<and> last (normalizeRoute r) \<noteq> CHR ''-'')"
    using normalizeRoute_short [OF assms] strip_char_ends by metis
qed (auto simp: normalizeRoute_chars normalizeRoute_no_double normalizeRoute_length)

end
