(* ===== verification/Providers.thy ===== *)
theory Providers
  imports Provider_Users Routes_Text
begin

section \<open>Providers\<close>

text \<open>
  \<open>lib/services/provider.service.ts\<close>: the IPTV providers, their routes and the default provider. A
  transaction is a \<open>batch\<close> of table statements; deleting a provider deletes its users by the foreign
  key's \<open>ON DELETE CASCADE\<close>.
\<close>

definition normalizeHost :: "'w env \<Rightarrow> string \<Rightarrow> failure + string" where
  "normalizeHost env host =
     (let candidate = trim host in
      case parse_url env candidate of
        None \<Rightarrow> Inl (Err ''Provider host must be a valid absolute HTTP or HTTPS URL.'')
      | Some parsed \<Rightarrow>
          if url_protocol parsed \<notin> {''http:'', ''https:''}
          then Inl (Err ''Provider host must use http:// or https://.'')
          else if url_username parsed \<noteq> [] \<or> url_password parsed \<noteq> []
          then Inl (Err ''Do not embed credentials in the provider host URL.'')
          else if url_search parsed \<noteq> [] \<or> url_hash parsed \<noteq> []
          then Inl (Err ''Provider host must not contain query parameters or fragments.'')
          else Inr (rev (dropWhile (\<lambda>c. c = CHR ''/'') (rev candidate))))"

text \<open>A pure function that may throw, called from an action.\<close>

definition call :: "failure + 'a \<Rightarrow> ('s, 'a) act" where
  "call r = (\<lambda>s. (r, s))"

definition rowToProvider :: "provider \<Rightarrow> bool \<Rightarrow> iptv_provider" where
  "rowToProvider row includeSensitive =
     \<lparr>p_id = p_id row, p_name = p_name row, p_host = p_host row, p_route = p_route row,
      p_upstream_username = p_upstream_username row,
      p_upstream_password = (if includeSensitive then p_upstream_password row else MASK),
      p_local_username = p_local_username row, p_local_password = MASK,
      p_is_default = p_is_default row, p_cache_duration_hours = p_cache_duration_hours row,
      p_enabled = p_enabled row, p_created_at = p_created_at row, p_updated_at = p_updated_at row,
      p_users = None\<rparr>"

definition attachUsers :: "iptv_provider \<Rightarrow> bool \<Rightarrow> (('w, 'z) db_scheme, iptv_provider) act" where
  "attachUsers provider includeSensitive =
     andThen (getUsers (p_id provider) includeSensitive) (\<lambda>users.
     ret (provider\<lparr>p_users := Some users\<rparr>))"

record create_provider_input =
  ci_name :: string
  ci_host :: string
  ci_route :: string
  ci_upstream_username :: string
  ci_upstream_password :: string
  ci_local_username :: string
  ci_local_password :: string
  ci_is_default :: "bool option"
  ci_cache_duration_hours :: "int option"
  ci_enabled :: "bool option"

record update_provider_input =
  ui_name :: "string option"
  ui_host :: "string option"
  ui_route :: "string option"
  ui_upstream_username :: "string option"
  ui_upstream_password :: "string option"
  ui_local_username :: "string option"
  ui_local_password :: "string option"
  ui_is_default :: "bool option"
  ui_cache_duration_hours :: "int option"
  ui_enabled :: "bool option"

definition toPublicProvider :: "iptv_provider \<Rightarrow> iptv_provider" where
  "toPublicProvider provider = provider\<lparr>p_upstream_password := MASK, p_local_password := MASK,
     p_users := map_option (map (\<lambda>user. user\<lparr>pu_password_hash := MASK\<rparr>)) (p_users provider)\<rparr>"

definition provider_rank :: "provider \<Rightarrow> int \<times> string" where
  "provider_rank r = (- p_is_default r, p_name r)"

definition getAllProviders :: "bool \<Rightarrow> (('w, 'z) db_scheme, iptv_provider list) act" where
  "getAllProviders includeSensitive =
     andThen (gets (\<lambda>s. sort_key provider_rank (t_providers s))) (\<lambda>rows.
     mapAct (\<lambda>row. attachUsers (rowToProvider row includeSensitive) includeSensitive) rows)"

definition getProviderById :: "string \<Rightarrow> bool \<Rightarrow> (('w, 'z) db_scheme, iptv_provider option) act" where
  "getProviderById providerId includeSensitive =
     andThen (gets (\<lambda>s. filter (\<lambda>r. p_id r = providerId) (t_providers s))) (\<lambda>rows.
     case rows of
       [] \<Rightarrow> ret None
     | row # _ \<Rightarrow>
         andThen (attachUsers (rowToProvider row includeSensitive) includeSensitive) (\<lambda>p. ret (Some p)))"

text \<open>The statements on the provider table.\<close>

definition providers_stmt :: "(provider list \<Rightarrow> provider list option) \<Rightarrow> ('w, 'z) db_scheme \<Rightarrow> ('w, 'z) db_scheme option" where
  "providers_stmt stmt = on_table t_providers (\<lambda>t s. s\<lparr>t_providers := t\<rparr>) stmt"

definition clear_default :: "timestamp \<Rightarrow> (provider \<Rightarrow> bool) \<Rightarrow> ('w, 'z) db_scheme \<Rightarrow> ('w, 'z) db_scheme option" where
  "clear_default now P = providers_stmt (sql_update p_uniq (\<lambda>_. True)
     (\<lambda>r. p_is_default r = 1 \<and> P r) (\<lambda>r. r\<lparr>p_is_default := 0, p_updated_at := now\<rparr>))"

definition in_use_message :: "string \<Rightarrow> string" where
  \<open>in_use_message route = ''Route "'' @ route @ ''" is already in use.''\<close>

definition createProvider ::
  "'w env \<Rightarrow> create_provider_input \<Rightarrow> (('w, 'z) db_scheme, iptv_provider) act" where
  \<open>createProvider env input =
     (let name = trim (ci_name input); route = normalizeRoute (ci_route input) in
      andThen (call (normalizeHost env (ci_host input))) (\<lambda>host.
      let localUsername = trim (ci_local_username input) in
      if name = [] then throw ''Provider name is required.''
      else if route = [] then throw ''Provider route is required and must contain letters or numbers.''
      else if isRouteReserved route then throw (''Route "'' @ route @ ''" is reserved by the system.'')
      else if localUsername = [] then throw ''Initial client username is required.''
      else if ci_local_password input = [] then throw ''Initial client password is required.''
      else if length (ci_local_password input) > 4096 then throw ''Initial client password is too long.''
      else
      andThen (gets (\<lambda>s. filter (\<lambda>r. p_route r = route) (t_providers s))) (\<lambda>routeCheck.
      if routeCheck \<noteq> [] then throw (in_use_message route)
      else
      andThen (ext (randomUUID env)) (\<lambda>providerId.
      andThen (ext (randomUUID env)) (\<lambda>providerUserId.
      andThen (ext (Date_now env)) (\<lambda>now.
      let isDefault = (if ci_is_default input = Some True then 1 else 0);
          cacheHours = clamp 0 24 (case ci_cache_duration_hours input of None \<Rightarrow> 1 | Some h \<Rightarrow> h);
          enabled = (if ci_enabled input = Some False then 0 else 1)
      in
      andThen (hashProviderPassword env (ci_local_password input)) (\<lambda>passwordHash.
      andThen (batch
        ((if isDefault = 1 then [clear_default now (\<lambda>_. True)] else []) @
         [providers_stmt (sql_insert p_uniq p_row_ok
            \<lparr>p_id = providerId, p_name = name, p_host = host, p_route = route,
             p_upstream_username = trim (ci_upstream_username input),
             p_upstream_password = ci_upstream_password input,
             p_local_username = localUsername, p_local_password = [],
             p_is_default = isDefault, p_cache_duration_hours = cacheHours, p_enabled = enabled,
             p_created_at = now, p_updated_at = now\<rparr>),
          insert_provider_user
            \<lparr>pu_id = providerUserId, pu_provider_id = providerId, pu_username = localUsername,
             pu_password_hash = passwordHash, pu_enabled = 1,
             pu_created_at = now, pu_updated_at = now, pu_password = []\<rparr>])) (\<lambda>_.
      andThen (log_info env SrcProvider ''creation''
          (''Created provider "'' @ name @ ''" on route "/'' @ route @ ''".'')
          (Some (JObj [(''provider_id'', JStr providerId), (''is_default'', JBool (isDefault \<noteq> 0)),
                       (''cache_duration_hours'', JNum cacheHours),
                       (''initial_provider_user_id'', JStr providerUserId)]))) (\<lambda>_.
      andThen (getProviderById providerId False) (\<lambda>created.
      case created of
        None \<Rightarrow> throw ''Provider was created but could not be reloaded.''
      | Some p \<Rightarrow> ret p))))))))))\<close>

text \<open>An optional password that is the mask counts as absent.\<close>

definition unmasked :: "string option \<Rightarrow> string option" where
  "unmasked v = (case v of None \<Rightarrow> None | Some p \<Rightarrow> if p = MASK then None else Some p)"

definition chosen :: "'a option \<Rightarrow> 'a \<Rightarrow> 'a" where
  "chosen v old = (case v of Some x \<Rightarrow> x | None \<Rightarrow> old)"

definition updateProvider ::
  "'w env \<Rightarrow> string \<Rightarrow> update_provider_input \<Rightarrow> (('w, 'z) db_scheme, iptv_provider) act" where
  \<open>updateProvider env providerId input =
     andThen (getProviderById providerId True) (\<lambda>found.
     case found of None \<Rightarrow> throw ''Provider not found.''
     | Some existing \<Rightarrow>
     andThen (ext (Date_now env)) (\<lambda>now.
     let name = chosen (map_option trim (ui_name input)) (p_name existing) in
     if name = [] then throw ''Provider name cannot be empty.''
     else
     andThen (case ui_route input of
         None \<Rightarrow> ret (p_route existing)
       | Some r \<Rightarrow>
           let route = normalizeRoute r in
           if route = [] then throw ''Provider route cannot be empty.''
           else if isRouteReserved route then throw (''Route "'' @ route @ ''" is reserved.'')
           else andThen (gets (\<lambda>s. filter (\<lambda>r. p_route r = route \<and> p_id r \<noteq> providerId) (t_providers s))) (\<lambda>check.
             if check \<noteq> [] then throw (in_use_message route) else ret route)) (\<lambda>route.
     andThen (case ui_host input of
         None \<Rightarrow> ret (p_host existing)
       | Some h \<Rightarrow> call (normalizeHost env h)) (\<lambda>host.
     let isDefault = chosen (map_option (\<lambda>b. if b then 1 else 0) (ui_is_default input)) (p_is_default existing);
         upstreamUsername = chosen (map_option trim (ui_upstream_username input)) (p_upstream_username existing);
         upstreamPassword = chosen (unmasked (ui_upstream_password input)) (p_upstream_password existing);
         cacheHours = chosen (map_option (clamp 0 24) (ui_cache_duration_hours input))
                        (p_cache_duration_hours existing);
         enabled = chosen (map_option (\<lambda>b. if b then 1 else 0) (ui_enabled input)) (p_enabled existing)
     in
     andThen (batch
       ((if ui_is_default input = Some True then [clear_default now (\<lambda>r. p_id r \<noteq> providerId)] else []) @
        [providers_stmt (sql_update p_uniq p_row_ok (\<lambda>r. p_id r = providerId)
           (\<lambda>r. r\<lparr>p_name := name, p_host := host, p_route := route,
                  p_upstream_username := upstreamUsername, p_upstream_password := upstreamPassword,
                  p_is_default := isDefault, p_cache_duration_hours := cacheHours, p_enabled := enabled,
                  p_local_password := [], p_updated_at := now\<rparr>))])) (\<lambda>_.
     andThen (cond (ui_local_username input \<noteq> None \<or> unmasked (ui_local_password input) \<noteq> None)
         (let given = chosen (map_option trim (ui_local_username input)) [];
              username = (if given \<noteq> [] then given else p_local_username existing)
          in upsertPrimaryUser env providerId username (unmasked (ui_local_password input)))) (\<lambda>_.
     andThen (log_info env SrcProvider ''update''
         (''Updated provider "'' @ name @ ''" (route: "/'' @ route @ ''").'')
         (Some (JObj [(''provider_id'', JStr providerId), (''is_default'', JBool (isDefault \<noteq> 0)),
                      (''enabled'', JBool (enabled \<noteq> 0))]))) (\<lambda>_.
     andThen (getProviderById providerId False) (\<lambda>updated.
     case updated of
       None \<Rightarrow> throw ''Provider was updated but could not be reloaded.''
     | Some p \<Rightarrow> ret p))))))))\<close>

definition setDefaultProvider :: "'w env \<Rightarrow> string \<Rightarrow> (('w, 'z) db_scheme, iptv_provider) act" where
  \<open>setDefaultProvider env providerId =
     andThen (getProviderById providerId False) (\<lambda>found.
     case found of None \<Rightarrow> throw ''Provider not found.''
     | Some provider \<Rightarrow>
     andThen (ext (Date_now env)) (\<lambda>now.
     andThen (batch
       [clear_default now (\<lambda>_. True),
        providers_stmt (sql_update p_uniq (\<lambda>_. True) (\<lambda>r. p_id r = providerId)
          (\<lambda>r. r\<lparr>p_is_default := 1, p_updated_at := now\<rparr>))]) (\<lambda>_.
     andThen (log_info env SrcProvider ''default''
         (''Set provider "'' @ p_name provider @ ''" as the default provider.'')
         (Some (JObj [(''provider_id'', JStr providerId)]))) (\<lambda>_.
     andThen (getProviderById providerId False) (\<lambda>updated.
     case updated of
       None \<Rightarrow> throw ''Provider not found after default update.''
     | Some p \<Rightarrow> ret p)))))\<close>

definition deleteProvider :: "'w env \<Rightarrow> string \<Rightarrow> (('w, 'z) db_scheme, unit) act" where
  \<open>deleteProvider env providerId =
     andThen (getProviderById providerId False) (\<lambda>found.
     case found of None \<Rightarrow> throw ''Provider not found.''
     | Some provider \<Rightarrow>
     andThen (modify (\<lambda>s. s\<lparr>t_providers := delete_where (\<lambda>r. p_id r = providerId) (t_providers s),
         t_provider_users := delete_where (\<lambda>r. pu_provider_id r = providerId) (t_provider_users s)\<rparr>)) (\<lambda>_.
     log_warn env SrcProvider ''deletion''
       (''Deleted provider "'' @ p_name provider @ ''" (route: "/'' @ p_route provider @ ''").'')
       (Some (JObj [(''provider_id'', JStr providerId)]))))\<close>

datatype matched_by = ByRoute | ByDefault | ByNone

record resolution =
  rs_provider :: "iptv_provider option"
  rs_matchedBy :: matched_by
  rs_remainingPath :: string
  rs_resolvedTargetUrl :: "string option"

definition resolveProviderByPath :: "string \<Rightarrow> (('w, 'z) db_scheme, resolution) act" where
  "resolveProviderByPath requestPath =
     (let trimmed = dropWhile (\<lambda>c. c = CHR ''/'') (trim requestPath);
          segments = (if trimmed \<noteq> [] then splitOn (CHR ''/'') trimmed else []);
          firstSegment = (case segments of seg # _ \<Rightarrow> if seg \<noteq> [] then normalizeRoute seg else [] | [] \<Rightarrow> []);
          target = (\<lambda>p path. if path \<noteq> [] then p_host p @ ''/'' @ path else p_host p);
          fallback =
            andThen (gets (\<lambda>s. filter (\<lambda>r. p_is_default r = 1 \<and> p_enabled r = 1) (t_providers s))) (\<lambda>rows.
            case rows of
              row # _ \<Rightarrow>
                andThen (attachUsers (rowToProvider row True) True) (\<lambda>provider.
                ret \<lparr>rs_provider = Some provider, rs_matchedBy = ByDefault, rs_remainingPath = ''/'' @ trimmed,
                     rs_resolvedTargetUrl = Some (target provider trimmed)\<rparr>)
            | [] \<Rightarrow> ret \<lparr>rs_provider = None, rs_matchedBy = ByNone, rs_remainingPath = ''/'' @ trimmed,
                        rs_resolvedTargetUrl = None\<rparr>)
      in if firstSegment \<noteq> [] then
           andThen (gets (\<lambda>s. filter (\<lambda>r. p_route r = firstSegment \<and> p_enabled r = 1) (t_providers s))) (\<lambda>rows.
           case rows of
             row # _ \<Rightarrow>
               andThen (attachUsers (rowToProvider row True) True) (\<lambda>provider.
               let remaining = join ''/'' (drop 1 segments)
               in ret \<lparr>rs_provider = Some provider, rs_matchedBy = ByRoute, rs_remainingPath = ''/'' @ remaining,
                       rs_resolvedTargetUrl = Some (target provider remaining)\<rparr>)
           | [] \<Rightarrow> fallback)
         else fallback)"

subsection \<open>Reading providers\<close>

definition shown_users :: "string \<Rightarrow> bool \<Rightarrow> ('w, 'z) db_scheme \<Rightarrow> provider_user list" where
  "shown_users pid b s = map (\<lambda>r. rowToUser r b) (sort_key rank_by_username
     (filter (\<lambda>r. pu_provider_id r = pid) (t_provider_users s)))"

definition shown_provider :: "provider \<Rightarrow> bool \<Rightarrow> ('w, 'z) db_scheme \<Rightarrow> iptv_provider" where
  "shown_provider row b s = (rowToProvider row b)\<lparr>p_users := Some (shown_users (p_id row) b s)\<rparr>"

lemma getUsers_run:
  assumes "p \<in> set (t_providers s)"
  shows "getUsers (p_id p) b s = (Inr (shown_users (p_id p) b s), s)"
proof -
  have "filter (\<lambda>r. p_id r = p_id p) (t_providers s) \<noteq> []"
    using assms by (auto simp: filter_empty_conv)
  then show ?thesis
    by (auto simp: getUsers_def ensureProvider_def act_simps shown_users_def split: list.splits)
qed

lemma attachUsers_run:
  "row \<in> set (t_providers s) \<Longrightarrow> attachUsers (rowToProvider row b) b s = (Inr (shown_provider row b s), s)"
  using getUsers_run [of row s b]
  by (simp add: attachUsers_def andThen_run shown_provider_def rowToProvider_def)

lemma getProviderById_run:
  "getProviderById pid b s =
     (Inr (map_option (\<lambda>row. shown_provider row b s) (find (\<lambda>r. p_id r = pid) (t_providers s))), s)"
proof (cases "filter (\<lambda>r. p_id r = pid) (t_providers s)")
  case Nil
  then show ?thesis by (simp add: getProviderById_def find_filter)
next
  case (Cons row rows)
  then have "row \<in> set (t_providers s)" using filter_ConsD by fast
  then show ?thesis
    by (simp add: getProviderById_def find_filter Cons andThen_run attachUsers_run)
qed

definition found_provider :: "string \<Rightarrow> bool \<Rightarrow> ('w, 'z) db_scheme \<Rightarrow> iptv_provider option" where
  "found_provider pid b s = map_option (\<lambda>row. shown_provider row b s) (find (\<lambda>r. p_id r = pid) (t_providers s))"

lemma getProviderById_Inr_elim [run_elims]:
  assumes "getProviderById pid b s = (Inr x, t)"
  obtains "x = found_provider pid b s" and "t = s"
proof (rule that)
  show "x = found_provider pid b s" using arg_cong [OF assms, of fst]
    by (simp only: getProviderById_run found_provider_def fst_conv sum.inject)
  show "t = s" using arg_cong [OF assms, of snd] by (simp only: getProviderById_run snd_conv)
qed

lemma found_provider_SomeD:
  assumes "found_provider pid b s = Some p"
  shows "\<exists>row \<in> set (t_providers s). p_id row = pid \<and> p = shown_provider row b s"
proof -
  from assms obtain row where "find (\<lambda>r. p_id r = pid) (t_providers s) = Some row"
    and "p = shown_provider row b s" by (auto simp: found_provider_def)
  then show ?thesis by (auto simp: find_Some_iff)
qed

lemma found_provider_member:
  assumes "p_uniq (t_providers s)" and "row \<in> set (t_providers s)"
  shows "found_provider (p_id row) b s = Some (shown_provider row b s)"
  using providers.lookup_member [OF assms] by (simp add: found_provider_def find_filter)

lemma keeps_getProviderById [keeps_intros]: "keeps I (getProviderById pid b)"
  by (simp add: keeps_def getProviderById_run)

lemma keeps_call [keeps_intros]: "keeps I (call r)"
  by (simp add: keeps_def call_def)

lemma call_Inr_elim [run_elims]:
  assumes "call r s = (Inr x, t)"
  obtains "r = Inr x" and "t = s"
  by (rule that) (use assms in \<open>simp_all add: call_def\<close>)

subsection \<open>The operations keep the invariant\<close>

lemma providers_stmt_update_inv:
  assumes "db_inv s" and "providers_stmt (sql_update p_uniq ok P f) s = Some t"
    and "\<And>r. p_id (f r) = p_id r"
    and "\<And>r. ok (f r) \<Longrightarrow> p_row_ok r \<Longrightarrow> p_row_ok (f r)"
  shows "db_inv t"
proof -
  from assms(2) have t: "t = s\<lparr>t_providers := update_where P f (t_providers s)\<rparr>"
      "p_uniq (update_where P f (t_providers s))" "\<forall>r \<in> set (t_providers s). P r \<longrightarrow> ok (f r)"
    by (auto simp: providers_stmt_def on_table_def sql_update_Some)
  have "list_all p_row_ok (update_where P f (t_providers s))"
    by (rule update_row_ok) (use assms t(3) in \<open>auto simp: db_inv_def list_all_iff\<close>)
  with t assms(1,3) show ?thesis by (auto intro: db_inv_providers simp: map_update_where)
qed

lemma clear_default_inv: "db_inv s \<Longrightarrow> clear_default now P s = Some t \<Longrightarrow> db_inv t"
  unfolding clear_default_def
  by (erule (1) providers_stmt_update_inv) (auto simp: p_row_ok_def cache_ok_def local_password_ok_def)

lemma set_default_inv:
  "db_inv s \<Longrightarrow> providers_stmt (sql_update p_uniq (\<lambda>_. True) P (\<lambda>r. r\<lparr>p_is_default := 1, p_updated_at := now\<rparr>)) s = Some t
     \<Longrightarrow> db_inv t"
  by (erule (1) providers_stmt_update_inv) (auto simp: p_row_ok_def cache_ok_def local_password_ok_def)

lemma insert_provider_inv:
  "db_inv s \<Longrightarrow> providers_stmt (sql_insert p_uniq p_row_ok r) s = Some t \<Longrightarrow> db_inv t"
  by (auto simp: providers_stmt_def on_table_def sql_insert_Some db_inv_def list_all_iff)

lemma keeps_createProvider: "keeps db_inv (createProvider env input)"
proof -
  have "keeps db_inv (batch ((if b then [clear_default now P] else []) @
         [providers_stmt (sql_insert p_uniq p_row_ok r), insert_provider_user u]))" for b now P r u
    by (rule keeps_batch)
      (auto split: if_splits intro: clear_default_inv insert_provider_inv insert_provider_user_inv)
  then show ?thesis unfolding createProvider_def Let_def by (intro user_keeps keeps_call keeps_getProviderById)
qed

lemma keeps_updateProvider: "keeps (db_inv :: ('w, 'z) db_scheme \<Rightarrow> bool) (updateProvider env pid input)"
proof -
  have upd: "db_inv s \<Longrightarrow> providers_stmt (sql_update p_uniq p_row_ok Q
           (\<lambda>r. r\<lparr>p_name := name, p_host := host, p_route := route,
                  p_upstream_username := upstreamUsername, p_upstream_password := upstreamPassword,
                  p_is_default := isDefault, p_cache_duration_hours := cacheHours, p_enabled := enabled,
                  p_local_password := [], p_updated_at := now\<rparr>)) s = Some t \<Longrightarrow> db_inv t"
    for s t :: "('w, 'z) db_scheme" and now Q name host route upstreamUsername upstreamPassword isDefault cacheHours enabled
    by (erule (1) providers_stmt_update_inv) auto
  have "keeps (db_inv :: ('w, 'z) db_scheme \<Rightarrow> bool) (batch ((if b then [clear_default now P] else []) @
        [providers_stmt (sql_update p_uniq p_row_ok Q
           (\<lambda>r. r\<lparr>p_name := name, p_host := host, p_route := route,
                  p_upstream_username := upstreamUsername, p_upstream_password := upstreamPassword,
                  p_is_default := isDefault, p_cache_duration_hours := cacheHours, p_enabled := enabled,
                  p_local_password := [], p_updated_at := now\<rparr>))]))"
    for b now P Q name host route upstreamUsername upstreamPassword isDefault cacheHours enabled
    by (rule keeps_batch) (auto split: if_splits intro: clear_default_inv upd)
  then show ?thesis unfolding updateProvider_def Let_def
    by (intro user_keeps keeps_call keeps_getProviderById keeps_upsertPrimaryUser)
qed

lemma keeps_setDefaultProvider: "keeps db_inv (setDefaultProvider env pid)"
proof -
  have "keeps db_inv (batch [clear_default now P,
        providers_stmt (sql_update p_uniq (\<lambda>_. True) Q (\<lambda>r. r\<lparr>p_is_default := 1, p_updated_at := now\<rparr>))])"
    for now P Q
    by (rule keeps_batch) (auto intro: clear_default_inv set_default_inv)
  then show ?thesis unfolding setDefaultProvider_def by (intro user_keeps keeps_getProviderById)
qed

lemma keeps_deleteProvider: "keeps (db_inv :: ('w, 'z) db_scheme \<Rightarrow> bool) (deleteProvider env pid)"
proof -
  have "keeps (db_inv :: ('w, 'z) db_scheme \<Rightarrow> bool)
     (modify (\<lambda>s. s\<lparr>t_providers := delete_where (\<lambda>r. p_id r = pid) (t_providers s),
         t_provider_users := delete_where (\<lambda>r. pu_provider_id r = pid) (t_provider_users s)\<rparr>))"
    by (rule keeps_modify)
      (auto simp: db_inv_def list_all_iff delete_where_def provider_users.uniq_filter providers.uniq_filter)
  then show ?thesis unfolding deleteProvider_def by (intro user_keeps keeps_getProviderById)
qed

subsection \<open>What a returned call has done\<close>

lemma providers_stmt_update_Some:
  "providers_stmt (sql_update p_uniq ok P f) s = Some t \<longleftrightarrow>
     (\<forall>r \<in> set (t_providers s). P r \<longrightarrow> ok (f r)) \<and> p_uniq (update_where P f (t_providers s)) \<and>
     t = s\<lparr>t_providers := update_where P f (t_providers s)\<rparr>"
  by (auto simp: providers_stmt_def on_table_def sql_update_Some)

lemma providers_stmt_insert_Some:
  "providers_stmt (sql_insert p_uniq ok r) s = Some t \<longleftrightarrow>
     ok r \<and> p_uniq (t_providers s @ [r]) \<and> t = s\<lparr>t_providers := t_providers s @ [r]\<rparr>"
  by (auto simp: providers_stmt_def on_table_def sql_insert_Some)

lemma run_all_two_elim [run_elims]:
  assumes "run_all [f, g] s = Some t"
  obtains u where "f s = Some u" and "g u = Some t"
  using assms by (auto split: option.splits)

definition cleared :: "bool \<Rightarrow> timestamp \<Rightarrow> (provider \<Rightarrow> bool) \<Rightarrow> provider list \<Rightarrow> provider list" where
  "cleared b now P t = (if b then update_where (\<lambda>r. p_is_default r = 1 \<and> P r)
     (\<lambda>r. r\<lparr>p_is_default := 0, p_updated_at := now\<rparr>) t else t)"

lemma map_id_cleared [simp]: "map p_id (cleared b now P t) = map p_id t"
  by (simp add: cleared_def map_update_where)

lemma run_all_optional_elim [run_elims]:
  assumes "run_all ((if b then [clear_default now P] else []) @ fs) s = Some t"
  obtains u where "run_all fs u = Some t" and "u = s\<lparr>t_providers := cleared b now P (t_providers s)\<rparr>"
proof (cases b)
  case True
  with assms obtain u where "clear_default now P s = Some u" and "run_all fs u = Some t"
    by (auto split: option.splits)
  moreover from this(1) True have "u = s\<lparr>t_providers := cleared b now P (t_providers s)\<rparr>"
    by (simp add: clear_default_def providers_stmt_update_Some cleared_def)
  ultimately show thesis using that by blast
next
  case False
  then have "s = s\<lparr>t_providers := cleared b now P (t_providers s)\<rparr>" by (simp add: cleared_def)
  with False assms that show thesis by simp
qed

lemma setDefaultProvider_Inr:
  assumes run: "setDefaultProvider env pid s = (Inr p, t)" and inv: "db_inv s"
  shows "\<exists>now now'. t_providers t = map (\<lambda>r. if p_id r = pid then r\<lparr>p_is_default := 1, p_updated_at := now\<rparr>
            else if p_is_default r = 1 then r\<lparr>p_is_default := 0, p_updated_at := now'\<rparr> else r) (t_providers s)"
    and "found_provider pid False t = Some p"
proof -
  have "\<exists>now. t_providers t = update_where (\<lambda>r. p_id r = pid) (\<lambda>r. r\<lparr>p_is_default := 1, p_updated_at := now\<rparr>)
      (update_where (\<lambda>r. p_is_default r = 1) (\<lambda>r. r\<lparr>p_is_default := 0, p_updated_at := now\<rparr>) (t_providers s)) \<and>
     found_provider pid False t = Some p"
    using run unfolding setDefaultProvider_def
    apply (elim run_elims)
    apply (drule log_keeps_providers(1))
    apply (unfold clear_default_def providers_stmt_update_Some)
    apply (rule exI, rule conjI, simp)
    apply simp
    done
  then obtain now where now: "t_providers t = update_where (\<lambda>r. p_id r = pid) (\<lambda>r. r\<lparr>p_is_default := 1, p_updated_at := now\<rparr>)
      (update_where (\<lambda>r. p_is_default r = 1) (\<lambda>r. r\<lparr>p_is_default := 0, p_updated_at := now\<rparr>) (t_providers s))"
    and "found_provider pid False t = Some p" by blast
  then show "found_provider pid False t = Some p" by simp
  show "\<exists>now now'. t_providers t = map (\<lambda>r. if p_id r = pid then r\<lparr>p_is_default := 1, p_updated_at := now\<rparr>
            else if p_is_default r = 1 then r\<lparr>p_is_default := 0, p_updated_at := now'\<rparr> else r) (t_providers s)"
    unfolding now by (intro exI [of _ now]) (simp add: update_where_def)
qed

lemma deleteProvider_Inr:
  assumes "deleteProvider env pid s = (Inr x, t)"
  shows "(\<exists>r \<in> set (t_providers s). p_id r = pid) \<and>
     t_providers t = filter (\<lambda>r. p_id r \<noteq> pid) (t_providers s) \<and>
     t_provider_users t = filter (\<lambda>r. pu_provider_id r \<noteq> pid) (t_provider_users s)"
proof -
  have "found_provider pid False s \<noteq> None \<and>
     t_providers t = filter (\<lambda>r. p_id r \<noteq> pid) (t_providers s) \<and>
     t_provider_users t = filter (\<lambda>r. pu_provider_id r \<noteq> pid) (t_provider_users s)"
    using assms unfolding deleteProvider_def
    apply (elim run_elims)
    apply (frule log_keeps_providers(2), drule log_keeps_provider_users(2))
    apply (simp add: delete_where_def)
    done
  then show ?thesis using found_provider_SomeD by fastforce
qed

lemma createProvider_Inr:
  assumes run: "createProvider env input s = (Inr p, t)" and inv: "db_inv s"
  shows "\<exists>row u rows. t_providers t = rows @ [row] \<and> t_provider_users t = t_provider_users s @ [u] \<and>
     map p_id rows = map p_id (t_providers s) \<and> p_uniq (rows @ [row]) \<and> p_row_ok row \<and>
     found_provider (p_id row) False t = Some p \<and> p_name row = trim (ci_name input) \<and>
     p_route row = normalizeRoute (ci_route input) \<and> p_route row \<noteq> [] \<and> \<not> isRouteReserved (p_route row) \<and>
     Inr (p_host row) = normalizeHost env (ci_host input) \<and>
     p_is_default row = (if ci_is_default input = Some True then 1 else 0) \<and>
     pu_provider_id u = p_id row \<and> pu_username u = trim (ci_local_username input) \<and> pu_enabled u = 1 \<and>
     made_verifier env (ci_local_password input) (pu_password_hash u)"
    using run unfolding createProvider_def Let_def
    apply (elim run_elims)
    apply (frule log_keeps_providers(1), drule log_keeps_provider_users(1))
    apply (unfold providers_stmt_insert_Some insert_provider_user_Some)
    apply (rule exI, rule exI, rule exI, rule conjI, simp, rule conjI, simp)
    apply (intro conjI)
    apply (simp; fail)+
    done

subsection \<open>Resolution\<close>

definition first_segment :: "string \<Rightarrow> string" where
  "first_segment path = takeWhile (\<lambda>c. c \<noteq> CHR ''/'') (dropWhile (\<lambda>c. c = CHR ''/'') (trim path))"

definition route_match :: "string \<Rightarrow> ('w, 'z) db_scheme \<Rightarrow> provider option" where
  "route_match path s = (if normalizeRoute (first_segment path) = [] then None
     else find (\<lambda>r. p_route r = normalizeRoute (first_segment path) \<and> p_enabled r = 1) (t_providers s))"

definition default_match :: "('w, 'z) db_scheme \<Rightarrow> provider option" where
  "default_match s = find (\<lambda>r. p_is_default r = 1 \<and> p_enabled r = 1) (t_providers s)"

lemma splitOn_first: "splitOn d s = takeWhile (\<lambda>c. c \<noteq> d) s # drop 1 (splitOn d s)"
  by (induction s) (auto split: list.splits)

lemma normalizeRoute_Nil [simp]: "normalizeRoute [] = []"
  by (simp add: normalizeRoute_def strip_char_def toLowerCase_def)

definition remaining_path :: "string \<Rightarrow> string" where
  "remaining_path path = join ''/'' (drop 1 (splitOn (CHR ''/'') (dropWhile (\<lambda>c. c = CHR ''/'') (trim path))))"

definition target_url :: "provider \<Rightarrow> string \<Rightarrow> string" where
  "target_url p path = (if path \<noteq> [] then p_host p @ ''/'' @ path else p_host p)"

lemma first_of_split:
  "(case (if t \<noteq> [] then splitOn (CHR ''/'') t else []) of
      seg # _ \<Rightarrow> if seg \<noteq> [] then normalizeRoute seg else [] | [] \<Rightarrow> []) =
   normalizeRoute (takeWhile (\<lambda>c. c \<noteq> CHR ''/'') t)"
proof (cases "t = []")
  case False
  then show ?thesis by (subst splitOn_first) simp
qed simp

lemma segments_split:
  "normalizeRoute (takeWhile Q t) \<noteq> [] \<Longrightarrow> (if t \<noteq> [] then splitOn d t else []) = splitOn d t"
  by (cases "t = []") simp_all

lemma resolveProviderByPath_run:
  "resolveProviderByPath path s = (Inr (case route_match path s of
     Some p \<Rightarrow> \<lparr>rs_provider = Some (shown_provider p True s), rs_matchedBy = ByRoute,
        rs_remainingPath = ''/'' @ remaining_path path,
        rs_resolvedTargetUrl = Some (target_url p (remaining_path path))\<rparr>
   | None \<Rightarrow> (case default_match s of
       Some p \<Rightarrow> \<lparr>rs_provider = Some (shown_provider p True s), rs_matchedBy = ByDefault,
          rs_remainingPath = ''/'' @ dropWhile (\<lambda>c. c = CHR ''/'') (trim path),
          rs_resolvedTargetUrl = Some (target_url p (dropWhile (\<lambda>c. c = CHR ''/'') (trim path)))\<rparr>
     | None \<Rightarrow> \<lparr>rs_provider = None, rs_matchedBy = ByNone,
          rs_remainingPath = ''/'' @ dropWhile (\<lambda>c. c = CHR ''/'') (trim path), rs_resolvedTargetUrl = None\<rparr>)), s)"
proof -
  let ?t = "dropWhile (\<lambda>c. c = CHR ''/'') (trim path)"
  have first: "(case (if ?t \<noteq> [] then splitOn (CHR ''/'') ?t else []) of
      seg # _ \<Rightarrow> if seg \<noteq> [] then normalizeRoute seg else [] | [] \<Rightarrow> []) = normalizeRoute (first_segment path)"
    unfolding first_segment_def by (rule first_of_split)
  have seg: "normalizeRoute (first_segment path) \<noteq> [] \<Longrightarrow>
      (if ?t \<noteq> [] then splitOn (CHR ''/'') ?t else []) = splitOn (CHR ''/'') ?t"
    unfolding first_segment_def by (rule segments_split)
  have host: "p_host (shown_provider p b s) = p_host p" for p b
    by (simp add: shown_provider_def rowToProvider_def)
  have fallback: "andThen (gets (\<lambda>s. filter (\<lambda>r. p_is_default r = 1 \<and> p_enabled r = 1) (t_providers s))) (\<lambda>rows.
            case rows of
              row # _ \<Rightarrow>
                andThen (attachUsers (rowToProvider row True) True) (\<lambda>provider.
                ret \<lparr>rs_provider = Some provider, rs_matchedBy = ByDefault, rs_remainingPath = ''/'' @ ?t,
                     rs_resolvedTargetUrl = Some (if ?t \<noteq> [] then p_host provider @ ''/'' @ ?t else p_host provider)\<rparr>)
            | [] \<Rightarrow> ret \<lparr>rs_provider = None, rs_matchedBy = ByNone, rs_remainingPath = ''/'' @ ?t,
                        rs_resolvedTargetUrl = None\<rparr>) s =
      (Inr (case default_match s of
       Some p \<Rightarrow> \<lparr>rs_provider = Some (shown_provider p True s), rs_matchedBy = ByDefault,
          rs_remainingPath = ''/'' @ ?t, rs_resolvedTargetUrl = Some (target_url p ?t)\<rparr>
     | None \<Rightarrow> \<lparr>rs_provider = None, rs_matchedBy = ByNone,
          rs_remainingPath = ''/'' @ ?t, rs_resolvedTargetUrl = None\<rparr>), s)"
  proof (cases "filter (\<lambda>r. p_is_default r = 1 \<and> p_enabled r = 1) (t_providers s)")
    case (Cons row rows)
    then show ?thesis using filter_ConsD [OF Cons]
      by (simp add: andThen_run attachUsers_run default_match_def find_filter host target_url_def)
  qed (simp add: andThen_run default_match_def find_filter)
  show ?thesis
  proof (cases "normalizeRoute (first_segment path) = []")
    case True
    then show ?thesis
      unfolding resolveProviderByPath_def Let_def first
      by (simp only: simp_thms if_False if_True fallback route_match_def option.case)
  next
    case False
    show ?thesis
    proof (cases "filter (\<lambda>r. p_route r = normalizeRoute (first_segment path) \<and> p_enabled r = 1) (t_providers s)")
      case (Cons row rows)
      then have step: "andThen (gets (\<lambda>s. filter (\<lambda>r. p_route r = normalizeRoute (first_segment path) \<and>
          p_enabled r = 1) (t_providers s))) k s = k (row # rows) s" for k :: "_ \<Rightarrow> (('a, 'b) db_scheme, resolution) act"
        by (simp add: andThen_run)
      have attach: "andThen (attachUsers (rowToProvider row True) True) k s = k (shown_provider row True s) s"
        for k :: "_ \<Rightarrow> (('a, 'b) db_scheme, resolution) act"
        using filter_ConsD [OF Cons] by (simp add: andThen_run attachUsers_run)
      show ?thesis using False
        unfolding resolveProviderByPath_def Let_def first
        by (simp only: simp_thms if_True if_False step list.case attach seg ret_run host target_url_def
            remaining_path_def route_match_def find_filter Cons option.case)
    next
      case Nil
      then have step: "andThen (gets (\<lambda>s. filter (\<lambda>r. p_route r = normalizeRoute (first_segment path) \<and>
          p_enabled r = 1) (t_providers s))) k s = k [] s" for k :: "_ \<Rightarrow> (('a, 'b) db_scheme, resolution) act"
        by (simp add: andThen_run)
      show ?thesis using False
        unfolding resolveProviderByPath_def Let_def first
        by (simp only: simp_thms if_True if_False step list.case fallback route_match_def find_filter Nil option.case)
    qed
  qed
qed

subsection \<open>Properties\<close>

text \<open>Every normalised route consists of lower-case letters, digits, underscores and dashes, has no
  two adjacent dashes and at most 64 characters.\<close>

theorem normalizeRoute_shape:
  "list_all route_char (normalizeRoute r) \<and> no_double (normalizeRoute r) \<and> length (normalizeRoute r) \<le> 64"
  using normalizeRoute_chars normalizeRoute_no_double normalizeRoute_length by (auto simp: list_all_iff)

text \<open>For an input whose trimmed text has at most 64 characters (the request schema's bound),
  normalising twice is normalising once: a stored route is found again by its own name.\<close>

theorem normalizeRoute_idempotent:
  assumes "length (trim r) \<le> 64"
  shows "normalizeRoute (normalizeRoute r) = normalizeRoute r"
  using assms by (rule normalizeRoute_idem)

theorem normalizeRoute_idempotent_witness:
  "normalizeRoute (normalizeRoute ''/My Route!/'') = normalizeRoute ''/My Route!/''"
  by (rule normalizeRoute_idempotent) (simp add: trim_def trimStart_def trimEnd_def char_eval)

text \<open>Every operation on providers leads from a consistent database to a consistent one, whether it
  returns or throws: keys and routes stay unique, at most one provider is the default, every user has its
  provider, no plain-text password is stored, the cache duration stays within a day.\<close>

theorem provider_operations_keep_integrity:
  "keeps db_inv (createProvider env input) \<and> keeps db_inv (updateProvider env pid changes) \<and>
   keeps db_inv (setDefaultProvider env pid) \<and> keeps db_inv (deleteProvider env pid)"
  by (intro conjI keeps_createProvider keeps_updateProvider keeps_setDefaultProvider keeps_deleteProvider)

text \<open>C9: A returned \<open>createProvider\<close> has stored one new provider under a non-empty, unreserved route
  that no provider had, with exactly one user whose verifier is made from the given password; if it is the
  default, no other provider is. What it returns is the stored provider with its secrets masked.\<close>

theorem createProvider_stores:
  assumes inv: "db_inv s" and run: "createProvider env input s = (Inr p, t)"
  shows "\<exists>row u. row \<in> set (t_providers t) \<and> p = shown_provider row False t \<and>
     p_id row \<notin> set (map p_id (t_providers s)) \<and>
     p_route row = normalizeRoute (ci_route input) \<and> p_route row \<noteq> [] \<and> \<not> isRouteReserved (p_route row) \<and>
     (\<forall>q \<in> set (t_providers t). q \<noteq> row \<longrightarrow> p_route q \<noteq> p_route row \<and>
        (ci_is_default input = Some True \<longrightarrow> p_is_default q \<noteq> 1)) \<and>
     filter (\<lambda>v. pu_provider_id v = p_id row) (t_provider_users t) = [u] \<and>
     pu_username u = trim (ci_local_username input) \<and>
     made_verifier env (ci_local_password input) (pu_password_hash u)"
proof -
  obtain row u rows where r: "t_providers t = rows @ [row]" "t_provider_users t = t_provider_users s @ [u]"
     "map p_id rows = map p_id (t_providers s)" "p_uniq (rows @ [row])"
     "found_provider (p_id row) False t = Some p"
     "p_route row = normalizeRoute (ci_route input)" "p_route row \<noteq> []" "\<not> isRouteReserved (p_route row)"
     "p_is_default row = (if ci_is_default input = Some True then 1 else 0)"
     "pu_provider_id u = p_id row" "pu_username u = trim (ci_local_username input)"
     "made_verifier env (ci_local_password input) (pu_password_hash u)"
    using createProvider_Inr [OF run inv] by blast
  have new: "p_id row \<notin> set (map p_id (t_providers s))"
    using r(4) unfolding r(3) [symmetric] by (auto simp: p_uniq_def)
  then have "filter (\<lambda>v. pu_provider_id v = p_id row) (t_provider_users s) = []"
    using inv unfolding db_inv_def list_all_iff filter_empty_conv by metis
  then have users: "filter (\<lambda>v. pu_provider_id v = p_id row) (t_provider_users t) = [u]"
    using r by simp
  have member: "row \<in> set (t_providers t)" using r by simp
  have "p = shown_provider row False t"
    using found_provider_member [of t row False] r member by simp
  moreover have "p_route q \<noteq> p_route row \<and> (ci_is_default input = Some True \<longrightarrow> p_is_default q \<noteq> 1)"
    if "q \<in> set (t_providers t)" "q \<noteq> row" for q
  proof -
    have "q \<in> set rows" using that r(1) by auto
    moreover have "p_is_default q = 1 \<Longrightarrow> p_is_default row = 1 \<Longrightarrow> q = row"
      using single_default [OF r(4)] that r(1) by simp
    moreover have "p_route row \<notin> set (map p_route rows)" using r(4) by (simp add: p_uniq_def)
    ultimately show ?thesis using r(9) that(2) by (metis in_set_conv_nth length_map nth_map nth_mem)
  qed
  ultimately show ?thesis using member new users r by blast
qed

definition demo_provider_input :: create_provider_input where
  "demo_provider_input = \<lparr>ci_name = ''Two'', ci_host = ''http://h/'', ci_route = ''Two'',
     ci_upstream_username = ''u'', ci_upstream_password = ''v'', ci_local_username = ''w'',
     ci_local_password = ''x'', ci_is_default = Some True, ci_cache_duration_hours = None, ci_enabled = None\<rparr>"

lemmas provider_eval = call_def normalizeHost_def demo_url_def isRouteReserved_def
  normalizeRoute_def strip_char_def toLowerCase_def route_char_def RESERVED_ROUTES_def
  trim_def trimStart_def trimEnd_def char_eval clamp_def
  providers_stmt_update_Some providers_stmt_insert_Some clear_default_def providers_stmt_def on_table_def
  sql_insert_def sql_update_def p_uniq_def p_row_ok_def cache_ok_def local_password_ok_def
  insert_provider_user_def pu_row_ok_def pu_uniq_def ALGORITHM_def
  andThen_run ext_run hashProviderPassword_run batch_def getProviderById_run
  log_info_def log_warn_def logged_def writeLog_eq log_uniq_def Let_def
  demo_db_def demo_provider_def empty_db_def

lemma demo_provider_created: "\<exists>p t. createProvider demo_env demo_provider_input demo_db = (Inr p, t)"
  by (simp add: createProvider_def demo_provider_input_def provider_eval)

theorem createProvider_stores_witness:
  "\<exists>p t. createProvider demo_env demo_provider_input demo_db = (Inr p, t) \<and>
     (\<exists>q \<in> set (t_providers t). p = shown_provider q False t \<and> p_route q = normalizeRoute ''Two'')"
proof -
  obtain p t where run: "createProvider demo_env demo_provider_input demo_db = (Inr p, t)"
    using demo_provider_created by blast
  from createProvider_stores [OF demo_db_inv this] run show ?thesis
    by (auto simp: demo_provider_input_def)
qed

text \<open>C10: A returned \<open>setDefaultProvider\<close> leaves exactly the requested provider as the default.\<close>

theorem setDefaultProvider_effect:
  assumes inv: "db_inv s" and run: "setDefaultProvider env pid s = (Inr p, t)"
  shows "map p_id (t_providers t) = map p_id (t_providers s) \<and> pid \<in> set (map p_id (t_providers t)) \<and>
     list_all (\<lambda>r. p_is_default r = 1 \<longleftrightarrow> p_id r = pid) (t_providers t) \<and> p_id p = pid \<and> p_is_default p = 1"
proof -
  obtain now now' where t: "t_providers t = map (\<lambda>r. if p_id r = pid then r\<lparr>p_is_default := 1, p_updated_at := now\<rparr>
            else if p_is_default r = 1 then r\<lparr>p_is_default := 0, p_updated_at := now'\<rparr> else r) (t_providers s)"
    and p: "found_provider pid False t = Some p"
    using setDefaultProvider_Inr [OF run inv] by blast
  have "map p_id (t_providers t) = map p_id (t_providers s)" unfolding t by simp
  moreover have all: "list_all (\<lambda>r. p_is_default r = 1 \<longleftrightarrow> p_id r = pid) (t_providers t)"
    unfolding t by (simp add: list_all_length)
  moreover obtain row where "row \<in> set (t_providers t)" "p_id row = pid" "p = shown_provider row False t"
    using found_provider_SomeD [OF p] by blast
  moreover from this have "pid \<in> set (map p_id (t_providers t))" by auto
  moreover from calculation have "p_is_default row = 1" by (simp add: list_all_iff)
  ultimately show ?thesis by (simp only: shown_provider_def rowToProvider_def) simp
qed

lemma demo_default_set: "\<exists>p t. setDefaultProvider demo_env ''p1'' demo_db = (Inr p, t)"
  by (simp add: setDefaultProvider_def provider_eval)

theorem setDefaultProvider_effect_witness:
  "\<exists>p t. setDefaultProvider demo_env ''p1'' demo_db = (Inr p, t) \<and> p_is_default p = 1"
  using demo_default_set setDefaultProvider_effect [OF demo_db_inv] by blast

text \<open>A returned \<open>deleteProvider\<close> has removed the provider and, by the foreign key, exactly its client
  users; nothing can look the provider up afterwards.\<close>

theorem deleteProvider_cascades:
  assumes "deleteProvider env pid s = (Inr x, t)"
  shows "pid \<in> set (map p_id (t_providers s)) \<and>
     t_providers t = filter (\<lambda>r. p_id r \<noteq> pid) (t_providers s) \<and>
     t_provider_users t = filter (\<lambda>r. pu_provider_id r \<noteq> pid) (t_provider_users s) \<and>
     fst (getProviderById pid b t) = Inr None"
  using deleteProvider_Inr [OF assms] by (auto simp: getProviderById_run find_filter)

lemma demo_provider_deleted: "\<exists>t. deleteProvider demo_env ''p1'' demo_db_user = (Inr (), t)"
  by (simp add: deleteProvider_def demo_db_user_def provider_eval)

theorem deleteProvider_cascades_witness:
  "\<exists>t. deleteProvider demo_env ''p1'' demo_db_user = (Inr (), t) \<and> t_provider_users t = []"
proof -
  obtain t where run: "deleteProvider demo_env ''p1'' demo_db_user = (Inr (), t)"
    using demo_provider_deleted by blast
  from deleteProvider_cascades [OF this] run show ?thesis by (auto simp: demo_db_user_def demo_row_def)
qed

text \<open>Path resolution never throws and changes nothing: an enabled provider whose route is the
  normalised first segment wins and gets the rest of the path; otherwise the enabled default provider gets
  the whole path; otherwise nobody does.\<close>

theorem resolution_priority:
  "\<exists>r. resolveProviderByPath path s = (Inr r, s) \<and>
     rs_provider r = map_option (\<lambda>p. shown_provider p True s)
        (case route_match path s of Some p \<Rightarrow> Some p | None \<Rightarrow> default_match s) \<and>
     rs_matchedBy r = (case route_match path s of Some p \<Rightarrow> ByRoute
        | None \<Rightarrow> (case default_match s of Some p \<Rightarrow> ByDefault | None \<Rightarrow> ByNone)) \<and>
     rs_remainingPath r = ''/'' @ (case route_match path s of Some p \<Rightarrow> remaining_path path
        | None \<Rightarrow> dropWhile (\<lambda>c. c = CHR ''/'') (trim path))"
  by (auto simp: resolveProviderByPath_run split: option.splits)

text \<open>C23: A request below the route of an enabled provider reaches that provider, whatever the default is:
  the rest of the path is appended to its host.\<close>

theorem resolve_by_route:
  assumes "db_inv s" and "p \<in> set (t_providers s)" and "p_enabled p = 1"
    and "normalizeRoute seg = p_route p" and "seg \<noteq> []" and "p_route p \<noteq> []" and "CHR ''/'' \<notin> set seg"
    and "trim (''/'' @ seg @ ''/'' @ rest) = ''/'' @ seg @ ''/'' @ rest"
  shows "resolveProviderByPath (''/'' @ seg @ ''/'' @ rest) s =
     (Inr \<lparr>rs_provider = Some (shown_provider p True s), rs_matchedBy = ByRoute, rs_remainingPath = ''/'' @ rest,
           rs_resolvedTargetUrl = Some (if rest \<noteq> [] then p_host p @ ''/'' @ rest else p_host p)\<rparr>, s)"
proof -
  let ?path = "''/'' @ seg @ ''/'' @ rest"
  have tail: "dropWhile (\<lambda>c. c = CHR ''/'') (trim ?path) = seg @ CHR ''/'' # rest"
    using assms(5,7,8) by (cases seg) auto
  have "takeWhile (\<lambda>c. c \<noteq> CHR ''/'') (seg @ CHR ''/'' # rest) = seg"
    using assms(7) by (intro takeWhile_all) auto
  then have first: "first_segment ?path = seg" unfolding first_segment_def tail .
  have rest: "remaining_path ?path = rest"
    unfolding remaining_path_def tail using assms(7) by (simp add: splitOn_append join_splitOn)
  have "p_uniq (t_providers s)" using assms(1) by (simp add: db_inv_def)
  then have "distinct (map p_route (t_providers s))" by (simp add: p_uniq_def)
  from filter_key_singleton [OF this assms(2)]
  have "filter (\<lambda>r. p_enabled r = 1) (filter (\<lambda>r. p_route r = p_route p) (t_providers s)) = [p]"
    using assms(3) by simp
  then have "filter (\<lambda>r. p_route r = normalizeRoute seg \<and> p_enabled r = 1) (t_providers s) = [p]"
    unfolding assms(4) by (simp add: conj_commute)
  then have "route_match ?path s = Some p"
    unfolding route_match_def first using assms(4,6) by (simp add: find_filter)
  then show ?thesis unfolding resolveProviderByPath_run rest by (simp add: target_url_def)
qed

theorem resolve_by_route_witness:
  "resolveProviderByPath (''/'' @ ''ONE'' @ ''/'' @ ''live'') demo_db =
     (Inr \<lparr>rs_provider = Some (shown_provider demo_provider True demo_db), rs_matchedBy = ByRoute,
           rs_remainingPath = ''/'' @ ''live'', rs_resolvedTargetUrl = Some ''http://up/live''\<rparr>, demo_db)"
  using resolve_by_route [OF demo_db_inv, of demo_provider "''ONE''" "''live''"]
  by (simp add: provider_eval)

subsection \<open>Observations\<close>

text \<open>
  Four reserved names contain a dot, which no normalised route has: their entries never match.
\<close>

lemma dotted_reserved_names_never_match:
  "normalizeRoute r \<notin> {''favicon.ico'', ''player_api.php'', ''get.php'', ''xmltv.php''}"
proof -
  have "CHR ''.'' \<notin> set (normalizeRoute r)"
    using normalizeRoute_chars [of "CHR ''.''" r]
    by (auto simp: route_char_def is_lower_def is_digit_def in_range_def)
  then show ?thesis by auto
qed

text \<open>
  A longer input can normalise to a text that ends in a dash, which normalising again shortens: the route
  as stored is then not found by its own name.
\<close>

lemma long_route_not_idempotent:
  "normalizeRoute (replicate 63 (CHR ''a'') @ ''-b'') = replicate 63 (CHR ''a'') @ ''-'' \<and>
   normalizeRoute (replicate 63 (CHR ''a'') @ ''-'') = replicate 63 (CHR ''a'')"
proof -
  have "normalizeRoute (replicate 63 (CHR ''a'') @ ''-b'') =
      take 64 (strip_char (CHR ''-'') (replicate 63 (CHR ''a'') @ ''-b''))"
    by (rule normalizeRoute_clean) (auto simp: route_char_def char_eval no_double_replicate)
  also have "strip_char (CHR ''-'') (replicate 63 (CHR ''a'') @ ''-b'') = replicate 63 (CHR ''a'') @ ''-b''"
    by (rule strip_char_id) (simp add: hd_append)
  finally have long: "normalizeRoute (replicate 63 (CHR ''a'') @ ''-b'') = replicate 63 (CHR ''a'') @ ''-''"
    by simp
  have "normalizeRoute (replicate 63 (CHR ''a'') @ ''-'') =
      take 64 (strip_char (CHR ''-'') (replicate 63 (CHR ''a'') @ ''-''))"
    by (rule normalizeRoute_clean) (auto simp: route_char_def char_eval no_double_replicate)
  then show ?thesis using long by (simp add: strip_char_def)
qed

lemma run_all_one_elim [run_elims]:
  assumes "run_all [f] s = Some t"
  obtains "f s = Some t"
  using assms by (auto split: option.splits)

definition route_after :: "update_provider_input \<Rightarrow> 'a provider_scheme \<Rightarrow> string" where
  "route_after input old = (case ui_route input of None \<Rightarrow> p_route old | Some r \<Rightarrow> normalizeRoute r)"

definition host_after :: "'w env \<Rightarrow> update_provider_input \<Rightarrow> 'a provider_scheme \<Rightarrow> failure + string" where
  "host_after env input old = (case ui_host input of None \<Rightarrow> Inr (p_host old) | Some h \<Rightarrow> normalizeHost env h)"

text \<open>The row after an update: every named field takes its value, and every other keeps its own.\<close>

definition updated_provider :: "update_provider_input \<Rightarrow> string \<Rightarrow> timestamp \<Rightarrow> provider \<Rightarrow> provider" where
  "updated_provider input host now old = old\<lparr>
     p_name := chosen (map_option trim (ui_name input)) (p_name old), p_host := host, p_route := route_after input old,
     p_upstream_username := chosen (map_option trim (ui_upstream_username input)) (p_upstream_username old),
     p_upstream_password := chosen (unmasked (ui_upstream_password input)) (p_upstream_password old),
     p_is_default := chosen (map_option (\<lambda>b. if b then 1 else 0) (ui_is_default input)) (p_is_default old),
     p_cache_duration_hours := chosen (map_option (clamp 0 24) (ui_cache_duration_hours input)) (p_cache_duration_hours old),
     p_enabled := chosen (map_option (\<lambda>b. if b then 1 else 0) (ui_enabled input)) (p_enabled old),
     p_local_password := [], p_updated_at := now\<rparr>"

lemma route_choice_elim [run_elims]:
  assumes "(case r of None \<Rightarrow> ret d | Some q \<Rightarrow> if f q = [] then throw a else if g q then throw (b q)
     else andThen (gets (k q)) (\<lambda>c. if c \<noteq> [] then throw (e q) else ret (f q))) u = (Inr x, v)"
  obtains "x = (case r of None \<Rightarrow> d | Some q \<Rightarrow> f q)" and "v = u"
  using assms by (auto simp: act_simps split: option.splits if_splits)

lemma host_choice_elim [run_elims]:
  assumes "(case r of None \<Rightarrow> ret d | Some q \<Rightarrow> call (f q)) u = (Inr x, v)"
  obtains "Inr x = (case r of None \<Rightarrow> Inr d | Some q \<Rightarrow> f q)" and "v = u"
  using assms by (auto simp: act_simps call_def split: option.splits)

lemma cond_False: "cond False m = ret ()"
  by (simp add: cond_def)

lemma shown_columns [simp]:
  "p_name (shown_provider r b s) = p_name r" "p_host (shown_provider r b s) = p_host r"
  "p_route (shown_provider r b s) = p_route r" "p_upstream_username (shown_provider r b s) = p_upstream_username r"
  "p_is_default (shown_provider r b s) = p_is_default r" "p_enabled (shown_provider r b s) = p_enabled r"
  "p_cache_duration_hours (shown_provider r b s) = p_cache_duration_hours r"
  "p_upstream_password (shown_provider r True s) = p_upstream_password r"
  by (simp_all add: shown_provider_def rowToProvider_def)

lemma updateProvider_run:
  assumes run: "updateProvider env pid input s = (Inr p, t)"
    and alone: "ui_local_username input = None" "unmasked (ui_local_password input) = None"
  shows "\<exists>old now host. found_provider pid True s = Some old \<and> host_after env input old = Inr host \<and>
     t_provider_users t = t_provider_users s \<and> found_provider pid False t = Some p \<and>
     t_providers t = update_where (\<lambda>r. p_id r = pid) (\<lambda>r. r\<lparr>p_name := chosen (map_option trim (ui_name input)) (p_name old),
         p_host := host, p_route := route_after input old,
         p_upstream_username := chosen (map_option trim (ui_upstream_username input)) (p_upstream_username old),
         p_upstream_password := chosen (unmasked (ui_upstream_password input)) (p_upstream_password old),
         p_is_default := chosen (map_option (\<lambda>b. if b then 1 else 0) (ui_is_default input)) (p_is_default old),
         p_cache_duration_hours := chosen (map_option (clamp 0 24) (ui_cache_duration_hours input)) (p_cache_duration_hours old),
         p_enabled := chosen (map_option (\<lambda>b. if b then 1 else 0) (ui_enabled input)) (p_enabled old),
         p_local_password := [], p_updated_at := now\<rparr>)
       (cleared (ui_is_default input = Some True) now (\<lambda>r. p_id r \<noteq> pid) (t_providers s))"
  using run unfolding updateProvider_def Let_def alone
  apply (simp only: simp_thms cond_False)
  apply (elim run_elims)
  apply (frule log_keeps_providers(1), drule log_keeps_provider_users(1))
  apply (unfold providers_stmt_update_Some host_after_def route_after_def)
  apply hypsubst
  apply (rule exI, rule exI, rule exI, rule conjI, erule sym, rule conjI, erule sym)
  apply (intro conjI)
  apply simp
  apply (erule sym)
  apply simp
  done

lemma cleared_member: "r \<in> set (t_providers s) \<Longrightarrow> p_id r = pid \<Longrightarrow> r \<in> set (cleared b now (\<lambda>r. p_id r \<noteq> pid) (t_providers s))"
  by (cases "p_id r = pid") (force simp: cleared_def update_where_def)+

lemma cleared_memberD:
  "r \<in> set (cleared b now (\<lambda>r. p_id r \<noteq> pid) (t_providers s)) \<Longrightarrow> p_id r = pid \<Longrightarrow> r \<in> set (t_providers s)"
  by (auto simp: cleared_def update_where_def split: if_splits)

lemma updateProvider_Inr:
  assumes run: "updateProvider env pid input s = (Inr p, t)" and inv: "db_inv s"
    and alone: "ui_local_username input = None" "unmasked (ui_local_password input) = None"
  shows "\<exists>old \<in> set (t_providers s). \<exists>now host. p_id old = pid \<and> host_after env input old = Inr host \<and>
     t_provider_users t = t_provider_users s \<and> found_provider pid False t = Some p \<and>
     t_providers t = update_where (\<lambda>r. p_id r = pid) (\<lambda>_. updated_provider input host now old)
       (cleared (ui_is_default input = Some True) now (\<lambda>r. p_id r \<noteq> pid) (t_providers s))"
proof -
  obtain ex now host where ex: "found_provider pid True s = Some ex" and host: "host_after env input ex = Inr host"
    and users: "t_provider_users t = t_provider_users s" "found_provider pid False t = Some p"
    and rows: "t_providers t = update_where (\<lambda>r. p_id r = pid) (\<lambda>r. r\<lparr>p_name := chosen (map_option trim (ui_name input)) (p_name ex),
         p_host := host, p_route := route_after input ex,
         p_upstream_username := chosen (map_option trim (ui_upstream_username input)) (p_upstream_username ex),
         p_upstream_password := chosen (unmasked (ui_upstream_password input)) (p_upstream_password ex),
         p_is_default := chosen (map_option (\<lambda>b. if b then 1 else 0) (ui_is_default input)) (p_is_default ex),
         p_cache_duration_hours := chosen (map_option (clamp 0 24) (ui_cache_duration_hours input)) (p_cache_duration_hours ex),
         p_enabled := chosen (map_option (\<lambda>b. if b then 1 else 0) (ui_enabled input)) (p_enabled ex),
         p_local_password := [], p_updated_at := now\<rparr>)
       (cleared (ui_is_default input = Some True) now (\<lambda>r. p_id r \<noteq> pid) (t_providers s))"
    using updateProvider_run [OF run alone] by blast
  obtain old where old: "old \<in> set (t_providers s)" "p_id old = pid" and shown: "ex = shown_provider old True s"
    using found_provider_SomeD [OF ex] by blast
  have same: "r = old" if "r \<in> set (cleared b now (\<lambda>r. p_id r \<noteq> pid) (t_providers s))" "p_id r = pid" for r b
    using cleared_memberD [OF that] old inv that(2) by (auto simp: db_inv_def p_uniq_def distinct_map dest: inj_onD)
  let ?new = "\<lambda>r. if p_id r = pid then r\<lparr>p_name := chosen (map_option trim (ui_name input)) (p_name ex),
         p_host := host, p_route := route_after input ex,
         p_upstream_username := chosen (map_option trim (ui_upstream_username input)) (p_upstream_username ex),
         p_upstream_password := chosen (unmasked (ui_upstream_password input)) (p_upstream_password ex),
         p_is_default := chosen (map_option (\<lambda>b. if b then 1 else 0) (ui_is_default input)) (p_is_default ex),
         p_cache_duration_hours := chosen (map_option (clamp 0 24) (ui_cache_duration_hours input)) (p_cache_duration_hours ex),
         p_enabled := chosen (map_option (\<lambda>b. if b then 1 else 0) (ui_enabled input)) (p_enabled ex),
         p_local_password := [], p_updated_at := now\<rparr> else r"
  have "t_providers t = update_where (\<lambda>r. p_id r = pid) (\<lambda>_. updated_provider input host now old)
       (cleared (ui_is_default input = Some True) now (\<lambda>r. p_id r \<noteq> pid) (t_providers s))"
    unfolding rows update_where_def
  proof (rule map_cong [OF refl])
    fix r
    assume r: "r \<in> set (cleared (ui_is_default input = Some True) now (\<lambda>r. p_id r \<noteq> pid) (t_providers s))"
    show "?new r = (if p_id r = pid then updated_provider input host now old else r)"
    proof (cases "p_id r = pid")
      case True
      have "r = old" by (rule same [OF r True])
      then show ?thesis using True unfolding updated_provider_def shown route_after_def shown_columns by (simp only: if_True)
    qed simp
  qed
  moreover have "host_after env input old = Inr host" using host unfolding host_after_def shown shown_columns .
  ultimately show ?thesis using old users by blast
qed



definition demo_update :: update_provider_input where
  "demo_update = \<lparr>ui_name = Some '' New'', ui_host = None, ui_route = None, ui_upstream_username = None,
     ui_upstream_password = Some MASK, ui_local_username = None, ui_local_password = None, ui_is_default = Some True,
     ui_cache_duration_hours = Some 99, ui_enabled = None\<rparr>"

lemma demo_provider_updated: "\<exists>p t. updateProvider demo_env ''p1'' demo_update demo_db = (Inr p, t)"
  by (simp add: updateProvider_def demo_update_def unmasked_def chosen_def MASK_def provider_eval)


end
