(* ===== verification/Settings.thy ===== *)
theory Settings
  imports Integrity
begin

section \<open>Application settings\<close>

text \<open>
  \<open>lib/services/settings.service.ts\<close>: the one settings row, which also stores the state of the VPN. An
  update names the columns it sets: a field of \<open>vpn_update\<close> is \<open>None\<close> where the call leaves the column
  alone.
\<close>

definition rowToSettings :: "app_settings \<Rightarrow> app_settings" where
  "rowToSettings row = row\<lparr>
     active_vpn_profile_id := truthy (active_vpn_profile_id row),
     active_vpn_label := truthy (active_vpn_label row),
     vpn_last_error := truthy (vpn_last_error row),
     vpn_public_ip := truthy (vpn_public_ip row),
     vpn_country := truthy (vpn_country row)\<rparr>"

definition getSettings :: "(('w, 'z) db_scheme, app_settings) act" where
  "getSettings = (\<lambda>s. case t_settings s of
      None \<Rightarrow> (Inl (Err ''Global application settings row is missing.''), s)
    | Some row \<Rightarrow> (Inr (rowToSettings row), s))"

text \<open>\<open>UPDATE app_settings SET ... WHERE id = 'global'\<close>.\<close>

definition update_settings_row :: "(app_settings \<Rightarrow> app_settings) \<Rightarrow> (('w, 'z) db_scheme, unit) act" where
  "update_settings_row f = modify (\<lambda>s. s\<lparr>t_settings := map_option f (t_settings s)\<rparr>)"

definition updateSettings :: "'w env \<Rightarrow> int option \<Rightarrow> (('w, 'z) db_scheme, app_settings) act" where
  "updateSettings env log_retention =
     andThen (ext (Date_now env)) (\<lambda>now.
     andThen (case log_retention of
         None \<Rightarrow> ret ()
       | Some requested \<Rightarrow>
           let days = clamp 1 365 requested in
           andThen (update_settings_row (\<lambda>g. g\<lparr>log_retention_days := days, settings_updated_at := now\<rparr>)) (\<lambda>_.
           andThen (log_info env SrcSystem ''settings''
               (''Updated log retention to '' @ show_int days @ '' days.'') None) (\<lambda>_.
           andThen (pruneOldLogs env days) (\<lambda>_. ret ())))) (\<lambda>_.
     getSettings))"

record vpn_update =
  vu_type :: "vpn_type option"
  vu_profile_id :: "string option option"
  vu_label :: "string option option"
  vu_status :: "vpn_status option"
  vu_last_error :: "string option option"
  vu_connected_at :: "timestamp option option"
  vu_public_ip :: "string option option"
  vu_country :: "string option option"

definition set_to :: "'a option \<Rightarrow> 'a \<Rightarrow> 'a" where
  "set_to v old = (case v of Some x \<Rightarrow> x | None \<Rightarrow> old)"

definition apply_vpn_update :: "vpn_update \<Rightarrow> timestamp \<Rightarrow> app_settings \<Rightarrow> app_settings" where
  "apply_vpn_update u now g = g\<lparr>
     settings_updated_at := now,
     active_vpn_type := set_to (vu_type u) (active_vpn_type g),
     active_vpn_profile_id := set_to (vu_profile_id u) (active_vpn_profile_id g),
     active_vpn_label := set_to (vu_label u) (active_vpn_label g),
     vpn_status := set_to (vu_status u) (vpn_status g),
     vpn_last_error := set_to (vu_last_error u) (vpn_last_error g),
     vpn_connected_at := set_to (vu_connected_at u) (vpn_connected_at g),
     vpn_public_ip := set_to (vu_public_ip u) (vpn_public_ip g),
     vpn_country := set_to (vu_country u) (vpn_country g)\<rparr>"

definition updateVpnState :: "'w env \<Rightarrow> vpn_update \<Rightarrow> (('w, 'z) db_scheme, unit) act" where
  "updateVpnState env u =
     andThen (ext (Date_now env)) (\<lambda>now. update_settings_row (apply_vpn_update u now))"

subsection \<open>The stored VPN state\<close>

text \<open>
  What the columns say together: direct traffic carries no leftovers, a connection attempt and a
  connection name a tunnel and no error, and only a connection has a start and an address.
\<close>

fun vpn_ok :: "vpn_type \<Rightarrow> vpn_status \<Rightarrow> app_settings \<Rightarrow> bool" where
  "vpn_ok ty StatusOff g \<longleftrightarrow> ty = TypeOff \<and> active_vpn_profile_id g = None \<and> active_vpn_label g = None \<and>
     vpn_last_error g = None \<and> vpn_connected_at g = None \<and> vpn_public_ip g = None \<and> vpn_country g = None"
| "vpn_ok ty StatusConnecting g \<longleftrightarrow> ty \<noteq> TypeOff \<and> vpn_last_error g = None \<and>
     vpn_connected_at g = None \<and> vpn_public_ip g = None \<and> vpn_country g = None"
| "vpn_ok ty StatusConnected g \<longleftrightarrow> ty \<noteq> TypeOff \<and> vpn_last_error g = None \<and> vpn_connected_at g \<noteq> None"
| "vpn_ok ty StatusError g \<longleftrightarrow> vpn_last_error g \<noteq> None \<and>
     vpn_connected_at g = None \<and> vpn_public_ip g = None \<and> vpn_country g = None"

definition settings_ok :: "('w, 'z) db_scheme \<Rightarrow> bool" where
  "settings_ok s = (case t_settings s of None \<Rightarrow> True
     | Some g \<Rightarrow> vpn_ok (active_vpn_type g) (vpn_status g) g)"

definition settings_tunnel :: "('w, 'z) db_scheme \<Rightarrow> bool" where
  "settings_tunnel s \<longleftrightarrow> settings_ok s \<and>
     (case t_settings s of None \<Rightarrow> True | Some g \<Rightarrow> active_vpn_type g \<noteq> TypeOff)"

text \<open>A predicate on the settings row alone.\<close>

definition settings_only :: "(('w, 'z) db_scheme \<Rightarrow> bool) \<Rightarrow> bool" where
  "settings_only I \<longleftrightarrow> (\<forall>s t. t_settings s = t_settings t \<longrightarrow> I s = I t)"

lemma settings_only_ok: "settings_only settings_ok"
  by (simp add: settings_only_def settings_ok_def)

lemma settings_only_tunnel: "settings_only settings_tunnel"
  by (simp add: settings_only_def settings_tunnel_def settings_ok_def)

lemma settings_only_eq: "settings_only I \<Longrightarrow> t_settings s = t_settings t \<Longrightarrow> I s = I t"
  unfolding settings_only_def by (drule spec, drule spec, erule mp)

lemma settings_onlyD:
  assumes "settings_only I" and "I s" and "t_settings t = t_settings s"
  shows "I t"
  unfolding settings_only_eq [OF assms(1,3)] by (rule assms(2))

lemma settings_only_log_free: "settings_only I \<Longrightarrow> log_free I"
  unfolding log_free_def ext_free_def by (intro conjI allI; erule settings_only_eq; simp)

lemma keeps_getSettings [keeps_intros]: "keeps I getSettings"
  by (simp add: keeps_def getSettings_def split: option.splits)

lemma keeps_delete_logs: "(\<And>s t. I s \<Longrightarrow> I (s\<lparr>t_logs := t\<rparr>)) \<Longrightarrow> keeps I (delete_logs P)"
  by (simp add: keeps_def delete_logs_def)

lemma keeps_pruneOldLogs: "log_free I \<Longrightarrow> keeps I (pruneOldLogs env days)"
  unfolding pruneOldLogs_def Let_def
  by (intro keeps_intros keeps_ext keeps_delete_logs) (auto simp: log_free_def)

lemma triple_updateVpnState:
  assumes "settings_only Q"
    and "\<And>s g now. P s \<Longrightarrow> t_settings s = Some g \<Longrightarrow> Q (s\<lparr>t_settings := Some (apply_vpn_update u now g)\<rparr>)"
    and "\<And>s. P s \<Longrightarrow> t_settings s = None \<Longrightarrow> Q s"
  shows "triple P (updateVpnState env u) (\<lambda>_. Q) E"
proof (rule tripleI)
  fix s
  assume P: "P s"
  let ?t = "snd (updateVpnState env u s)"
  obtain now w where d: "Date_now env (outer s) = (now, w)" by fastforce
  have run: "updateVpnState env u s =
      (Inr (), s\<lparr>outer := w, t_settings := map_option (apply_vpn_update u now) (t_settings s)\<rparr>)"
    by (simp add: updateVpnState_def act_simps update_settings_row_def d)
  have "Q (s\<lparr>outer := w, t_settings := map_option (apply_vpn_update u now) (t_settings s)\<rparr>)"
  proof (cases "t_settings s")
    case None
    show ?thesis by (rule settings_onlyD [OF assms(1) assms(3) [OF P None]]) (simp add: None)
  next
    case (Some g)
    show ?thesis by (rule settings_onlyD [OF assms(1) assms(2) [OF P Some]]) (simp add: Some)
  qed
  then show "case updateVpnState env u s of (Inl e, t) \<Rightarrow> E t | (Inr x, t) \<Rightarrow> Q t"
    by (simp add: run)
qed

lemma settings_ok_Some:
  "settings_ok (s\<lparr>t_settings := Some g\<rparr>) = vpn_ok (active_vpn_type g) (vpn_status g) g"
  by (simp add: settings_ok_def)

subsection \<open>Properties\<close>

text \<open>Retention settings: the stored number of days is between 1 and 365 whatever is asked for, the
  VPN columns are untouched, and what is returned is the stored row.\<close>

theorem updateSettings_clamps:
  assumes "updateSettings env (Some d) s = (Inr g, t)"
  shows "\<exists>old row. t_settings s = Some old \<and> t_settings t = Some row \<and> g = rowToSettings row \<and>
     log_retention_days g = clamp 1 365 d \<and>
     row = old\<lparr>log_retention_days := clamp 1 365 d, settings_updated_at := settings_updated_at row\<rparr>"
proof -
  have prune: "pruneOldLogs env n u = (r, v) \<Longrightarrow> t_settings v = t_settings u" for n and u v :: "('a, 'b) db_scheme" and r
    by (rule keepsD_run [OF keeps_pruneOldLogs [of "\<lambda>x. t_settings x = t_settings u"]])
      (simp_all add: log_free_def ext_free_def)
  show ?thesis
    using assms unfolding updateSettings_def update_settings_row_def Let_def
    apply (simp only: option.case)
    apply (elim run_elims)
    apply (drule log_keeps_settings(1))
    apply (drule prune)
    apply (auto simp: getSettings_def rowToSettings_def split: option.splits)
    done
qed

definition demo_settings :: app_settings where
  "demo_settings = \<lparr>active_vpn_type = TypeOff, active_vpn_profile_id = None, active_vpn_label = None,
     vpn_status = StatusOff, vpn_last_error = None, vpn_connected_at = None, vpn_public_ip = None,
     vpn_country = None, log_retention_days = 7, initial_setup_completed = 1, settings_updated_at = 0\<rparr>"

definition demo_settings_db :: "nat db" where
  "demo_settings_db = (empty_db 0)\<lparr>t_settings := Some demo_settings\<rparr>"

theorem updateSettings_clamps_witness:
  "\<exists>g t. updateSettings demo_env (Some 0) demo_settings_db = (Inr g, t) \<and> log_retention_days g = 1"
proof -
  obtain g t where run: "updateSettings demo_env (Some 0) demo_settings_db = (Inr g, t)"
    by (simp add: updateSettings_def update_settings_row_def act_simps demo_settings_db_def empty_db_def
        log_info_def logged_def writeLog_eq log_uniq_def pruneOldLogs_def delete_logs_def getSettings_def Let_def)
  from updateSettings_clamps [OF this] run show ?thesis by (auto simp: clamp_def)
qed

end
