(* ===== verification/Provider_Routes.thy ===== *)
theory Provider_Routes imports Auth_Routes Providers Settings begin

section \<open>The routes of the providers, their users and the settings\<close>

text \<open>
  \<open>app/api/providers\<close>, \<open>app/api/internal/providers\<close>, \<open>app/api/settings\<close> and
  \<open>lib/services/provider-registry-sync.service.ts\<close>. A request schema is the function that parses the body,
  as in \<open>Auth_Routes\<close>; a schema function returns \<open>None\<close> for a value it rejects, and an optional field that
  is absent is \<open>Some None\<close>. Numbers of a body are integers in the model.
\<close>

subsection \<open>Routes with a session\<close>

definition route_or :: "nat \<Rightarrow> ('s, reply) act \<Rightarrow> ('s, reply) act" where
  "route_or code m = catch m (\<lambda>e. ret (error_json code (message e)))"

definition with_session :: "'w env \<Rightarrow> request \<Rightarrow> (('w, 'z) app_scheme, reply) act \<Rightarrow> (('w, 'z) app_scheme, reply) act" where
  "with_session env req m = andThen (getSessionUser env req) (\<lambda>user. case user of
     None \<Rightarrow> ret (error_json 401 ''Unauthorized'') | Some _ \<Rightarrow> m)"

definition session_get ::
  "'w env \<Rightarrow> request \<Rightarrow> nat \<Rightarrow> (('w, 'z) app_scheme, reply) act \<Rightarrow> (('w, 'z) app_scheme, reply) act" where
  "session_get env req code m = route_or code (with_session env req m)"

definition session_mutation ::
  "'w env \<Rightarrow> request \<Rightarrow> nat \<Rightarrow> (('w, 'z) app_scheme, reply) act \<Rightarrow> (('w, 'z) app_scheme, reply) act" where
  "session_mutation env req code m = route_or code (guarded env req (with_session env req m))"

definition parse_body ::
  "'w env \<Rightarrow> request \<Rightarrow> string \<Rightarrow> (json \<Rightarrow> 'a option) \<Rightarrow> ('a \<Rightarrow> ('s, reply) act) \<Rightarrow> ('s, reply) act" where
  "parse_body env req name schema m = andThen (read_body req) (\<lambda>body. case schema body of
     None \<Rightarrow> ret (error_json 400 (zod_issue env name body)) | Some x \<Rightarrow> m x)"

definition success_json :: "nat \<Rightarrow> (string \<times> json) list \<Rightarrow> reply" where
  "success_json code kvs = reply_json code ((''success'', JBool True) # kvs)"

subsection \<open>Schemas\<close>

definition required :: "(json \<Rightarrow> 'a option) \<Rightarrow> string \<Rightarrow> json \<Rightarrow> 'a option" where
  "required parse k body = (case get_field k body of None \<Rightarrow> None | Some v \<Rightarrow> parse v)"

definition optional :: "(json \<Rightarrow> 'a option) \<Rightarrow> string \<Rightarrow> json \<Rightarrow> 'a option option" where
  "optional parse k body = (case get_field k body of None \<Rightarrow> Some None | Some v \<Rightarrow> map_option Some (parse v))"

definition text_value :: "nat \<Rightarrow> nat \<Rightarrow> json \<Rightarrow> string option" where
  "text_value lo hi v = (case v of JStr s \<Rightarrow> bounded lo hi (Some s) | _ \<Rightarrow> None)"

definition trimmed_value :: "nat \<Rightarrow> nat \<Rightarrow> json \<Rightarrow> string option" where
  "trimmed_value lo hi v = (case v of JStr s \<Rightarrow> bounded lo hi (Some (trim s)) | _ \<Rightarrow> None)"

definition url_value :: "'w env \<Rightarrow> nat \<Rightarrow> json \<Rightarrow> string option" where
  "url_value env hi v = (case trimmed_value 0 hi v of
     None \<Rightarrow> None | Some s \<Rightarrow> if parse_url env s = None then None else Some s)"

definition bool_value :: "json \<Rightarrow> bool option" where
  "bool_value v = (case v of JBool b \<Rightarrow> Some b | _ \<Rightarrow> None)"

definition int_value :: "int \<Rightarrow> int \<Rightarrow> json \<Rightarrow> int option" where
  "int_value lo hi v = (case v of JNum i \<Rightarrow> if lo \<le> i \<and> i \<le> hi then Some i else None | _ \<Rightarrow> None)"

definition is_object :: "json \<Rightarrow> bool" where
  "is_object v = (case v of JObj _ \<Rightarrow> True | _ \<Rightarrow> False)"

definition createProviderSchema :: "'w env \<Rightarrow> json \<Rightarrow> create_provider_input option" where
  "createProviderSchema env body =
     Option.bind (required (trimmed_value 1 128) ''name'' body) (\<lambda>name.
     Option.bind (required (url_value env 2048) ''host'' body) (\<lambda>host.
     Option.bind (required (trimmed_value 1 64) ''route'' body) (\<lambda>route.
     Option.bind (required (trimmed_value 1 512) ''upstream_username'' body) (\<lambda>upstream_username.
     Option.bind (required (text_value 1 4096) ''upstream_password'' body) (\<lambda>upstream_password.
     Option.bind (required (trimmed_value 1 512) ''local_username'' body) (\<lambda>local_username.
     Option.bind (required (text_value 1 4096) ''local_password'' body) (\<lambda>local_password.
     Option.bind (optional bool_value ''is_default'' body) (\<lambda>is_default.
     Option.bind (optional (int_value 0 24) ''cache_duration_hours'' body) (\<lambda>cache_duration_hours.
     Option.bind (optional bool_value ''enabled'' body) (\<lambda>enabled.
     Some \<lparr>ci_name = name, ci_host = host, ci_route = route, ci_upstream_username = upstream_username,
           ci_upstream_password = upstream_password, ci_local_username = local_username,
           ci_local_password = local_password, ci_is_default = is_default,
           ci_cache_duration_hours = cache_duration_hours, ci_enabled = enabled\<rparr>))))))))))"

definition updateProviderSchema :: "'w env \<Rightarrow> json \<Rightarrow> update_provider_input option" where
  "updateProviderSchema env body =
     (if \<not> is_object body then None else
     Option.bind (optional (trimmed_value 1 128) ''name'' body) (\<lambda>name.
     Option.bind (optional (url_value env 2048) ''host'' body) (\<lambda>host.
     Option.bind (optional (trimmed_value 1 64) ''route'' body) (\<lambda>route.
     Option.bind (optional (trimmed_value 1 512) ''upstream_username'' body) (\<lambda>upstream_username.
     Option.bind (optional (text_value 0 4096) ''upstream_password'' body) (\<lambda>upstream_password.
     Option.bind (optional (trimmed_value 1 512) ''local_username'' body) (\<lambda>local_username.
     Option.bind (optional (text_value 0 4096) ''local_password'' body) (\<lambda>local_password.
     Option.bind (optional bool_value ''is_default'' body) (\<lambda>is_default.
     Option.bind (optional (int_value 0 24) ''cache_duration_hours'' body) (\<lambda>cache_duration_hours.
     Option.bind (optional bool_value ''enabled'' body) (\<lambda>enabled.
     Some \<lparr>ui_name = name, ui_host = host, ui_route = route, ui_upstream_username = upstream_username,
           ui_upstream_password = upstream_password, ui_local_username = local_username,
           ui_local_password = local_password, ui_is_default = is_default,
           ui_cache_duration_hours = cache_duration_hours, ui_enabled = enabled\<rparr>)))))))))))"

definition createUserSchema :: "json \<Rightarrow> create_provider_user_input option" where
  "createUserSchema body =
     Option.bind (required (trimmed_value 1 512) ''username'' body) (\<lambda>username.
     Option.bind (required (text_value 1 4096) ''password'' body) (\<lambda>password.
     Option.bind (optional bool_value ''enabled'' body) (\<lambda>enabled.
     Some \<lparr>cu_username = username, cu_password = password, cu_enabled = enabled\<rparr>)))"

definition updateUserSchema :: "json \<Rightarrow> update_provider_user_input option" where
  "updateUserSchema body =
     (if \<not> is_object body then None else
     Option.bind (optional (trimmed_value 1 512) ''username'' body) (\<lambda>username.
     Option.bind (optional (text_value 0 4096) ''password'' body) (\<lambda>password.
     Option.bind (optional bool_value ''enabled'' body) (\<lambda>enabled.
     Some \<lparr>uu_username = username, uu_password = password, uu_enabled = enabled\<rparr>))))"

definition resolveSchema :: "json \<Rightarrow> string option" where
  "resolveSchema body = required (trimmed_value 1 4096) ''path'' body"

definition updateSettingsSchema :: "json \<Rightarrow> int option option" where
  "updateSettingsSchema body = (if is_object body then optional (int_value 1 365) ''log_retention_days'' body else None)"

subsection \<open>Bodies of the replies\<close>

definition provider_user_json :: "provider_user \<Rightarrow> json" where
  "provider_user_json u = JObj [(''id'', JStr (pu_id u)), (''provider_id'', JStr (pu_provider_id u)),
     (''username'', JStr (pu_username u)), (''password_hash'', JStr (pu_password_hash u)),
     (''enabled'', JNum (pu_enabled u)), (''created_at'', JNum (int (pu_created_at u))),
     (''updated_at'', JNum (int (pu_updated_at u)))]"

definition provider_json :: "iptv_provider \<Rightarrow> json" where
  "provider_json p = JObj ([(''id'', JStr (p_id p)), (''name'', JStr (p_name p)), (''host'', JStr (p_host p)),
     (''route'', JStr (p_route p)), (''upstream_username'', JStr (p_upstream_username p)),
     (''upstream_password'', JStr (p_upstream_password p)), (''local_username'', JStr (p_local_username p)),
     (''local_password'', JStr (p_local_password p)), (''is_default'', JNum (p_is_default p)),
     (''cache_duration_hours'', JNum (p_cache_duration_hours p)), (''enabled'', JNum (p_enabled p)),
     (''created_at'', JNum (int (p_created_at p))), (''updated_at'', JNum (int (p_updated_at p)))] @
     (case p_users p of None \<Rightarrow> [] | Some us \<Rightarrow> [(''users'', JArr (map provider_user_json us))]))"

definition text_or_null :: "string option \<Rightarrow> json" where
  "text_or_null v = (case v of None \<Rightarrow> JNull | Some s \<Rightarrow> JStr s)"

definition matched_json :: "matched_by \<Rightarrow> json" where
  "matched_json m = JStr (case m of ByRoute \<Rightarrow> ''route'' | ByDefault \<Rightarrow> ''default'' | ByNone \<Rightarrow> ''none'')"

definition resolution_json :: "resolution \<Rightarrow> json" where
  "resolution_json r = JObj [
     (''provider'', case rs_provider r of None \<Rightarrow> JNull | Some p \<Rightarrow> provider_json (toPublicProvider p)),
     (''matchedBy'', matched_json (rs_matchedBy r)), (''remainingPath'', JStr (rs_remainingPath r)),
     (''resolvedTargetUrl'', text_or_null (rs_resolvedTargetUrl r))]"

subsection \<open>The registry of the Go core\<close>

definition GO_REFRESH_URL :: string where "GO_REFRESH_URL = ''http://127.0.0.1:8080/internal/providers/refresh''"

definition refreshGoProviderRegistry :: "'w env \<Rightarrow> (('w, 'z) db_scheme, bool) act" where
  "refreshGoProviderRegistry env = (case getenv_trim env ''INTERNAL_API_TOKEN'' of
     None \<Rightarrow> ret False
   | Some token \<Rightarrow> catch
       (andThen (ext (fetch env GO_REFRESH_URL)) (\<lambda>response. case response of
          None \<Rightarrow> throw ''fetch failed''
        | Some r \<Rightarrow> if \<not> r_ok r then throw (''Go core returned HTTP '' @ show_nat (r_status r)) else ret True))
       (\<lambda>e. andThen (log_warn env SrcProvider ''registry_refresh_failed''
              ''Provider changes were saved, but the Go registry could not be refreshed immediately.''
              (Some (JObj [(''error'', JStr (message e))]))) (\<lambda>_. ret False)))"

definition refreshed :: "'w env \<Rightarrow> nat \<Rightarrow> (string \<times> json) list \<Rightarrow> (('w, 'z) db_scheme, reply) act" where
  "refreshed env code kvs = andThen (refreshGoProviderRegistry env) (\<lambda>b.
     ret (success_json code (kvs @ [(''registryRefreshed'', JBool b)])))"

subsection \<open>Providers\<close>

definition providers_GET :: "'w env \<Rightarrow> request \<Rightarrow> (('w, 'z) app_scheme, reply) act" where
  "providers_GET env req = session_get env req 500
     (andThen (getAllProviders False) (\<lambda>ps. ret (success_json 200 [(''data'', JArr (map provider_json ps))])))"

definition providers_POST :: "'w env \<Rightarrow> request \<Rightarrow> (('w, 'z) app_scheme, reply) act" where
  "providers_POST env req = session_mutation env req 400
     (parse_body env req ''createProvider'' (createProviderSchema env) (\<lambda>inp.
      andThen (createProvider env inp) (\<lambda>p. refreshed env 201 [(''data'', provider_json p)])))"

definition provider_GET :: "'w env \<Rightarrow> request \<Rightarrow> string \<Rightarrow> (('w, 'z) app_scheme, reply) act" where
  "provider_GET env req pid = session_get env req 500
     (andThen (getProviderById pid False) (\<lambda>found. ret (case found of
        None \<Rightarrow> error_json 404 ''Provider not found''
      | Some p \<Rightarrow> success_json 200 [(''data'', provider_json p)])))"

definition provider_PUT :: "'w env \<Rightarrow> request \<Rightarrow> string \<Rightarrow> (('w, 'z) app_scheme, reply) act" where
  "provider_PUT env req pid = session_mutation env req 400
     (parse_body env req ''updateProvider'' (updateProviderSchema env) (\<lambda>inp.
      andThen (updateProvider env pid inp) (\<lambda>p. refreshed env 200 [(''data'', provider_json p)])))"

definition provider_DELETE :: "'w env \<Rightarrow> request \<Rightarrow> string \<Rightarrow> (('w, 'z) app_scheme, reply) act" where
  "provider_DELETE env req pid = session_mutation env req 400
     (andThen (deleteProvider env pid) (\<lambda>_.
      refreshed env 200 [(''message'', JStr ''Provider deleted successfully'')]))"

definition provider_default_POST :: "'w env \<Rightarrow> request \<Rightarrow> string \<Rightarrow> (('w, 'z) app_scheme, reply) act" where
  "provider_default_POST env req pid = session_mutation env req 400
     (andThen (setDefaultProvider env pid) (\<lambda>p. refreshed env 200 [(''data'', provider_json p)]))"

definition resolve_POST :: "'w env \<Rightarrow> request \<Rightarrow> (('w, 'z) app_scheme, reply) act" where
  "resolve_POST env req = session_mutation env req 500
     (parse_body env req ''resolve'' resolveSchema (\<lambda>path.
      andThen (resolveProviderByPath path) (\<lambda>r. ret (success_json 200 [(''data'', resolution_json r)]))))"

text \<open>The internal route has no \<open>try\<close>; it asks for the token of the Go core instead of a session.\<close>

definition internal_providers_GET :: "'w env \<Rightarrow> request \<Rightarrow> (('w, 'z) app_scheme, reply) act" where
  "internal_providers_GET env req =
     (if \<not> hasInternalApiAccess env req then ret (error_json 401 ''Unauthorized'')
      else andThen (getAllProviders True) (\<lambda>ps.
        ret (success_json 200 [(''data'', JArr (map provider_json (filter (\<lambda>p. p_enabled p = 1) ps)))])))"

subsection \<open>Client users\<close>

definition users_GET :: "'w env \<Rightarrow> request \<Rightarrow> string \<Rightarrow> (('w, 'z) app_scheme, reply) act" where
  "users_GET env req pid = session_get env req 400
     (andThen (getUsers pid False) (\<lambda>us. ret (success_json 200 [(''data'', JArr (map provider_user_json us))])))"

definition users_POST :: "'w env \<Rightarrow> request \<Rightarrow> string \<Rightarrow> (('w, 'z) app_scheme, reply) act" where
  "users_POST env req pid = session_mutation env req 400
     (parse_body env req ''createUser'' createUserSchema (\<lambda>inp.
      andThen (createUser env pid inp) (\<lambda>u. refreshed env 201 [(''data'', provider_user_json u)])))"

definition user_PUT :: "'w env \<Rightarrow> request \<Rightarrow> string \<Rightarrow> string \<Rightarrow> (('w, 'z) app_scheme, reply) act" where
  "user_PUT env req pid uid = session_mutation env req 400
     (parse_body env req ''updateUser'' updateUserSchema (\<lambda>inp.
      andThen (updateUser env pid uid inp) (\<lambda>u. refreshed env 200 [(''data'', provider_user_json u)])))"

definition user_DELETE :: "'w env \<Rightarrow> request \<Rightarrow> string \<Rightarrow> string \<Rightarrow> (('w, 'z) app_scheme, reply) act" where
  "user_DELETE env req pid uid = session_mutation env req 400
     (andThen (deleteUser env pid uid) (\<lambda>_. refreshed env 200 []))"

subsection \<open>Settings\<close>

definition time_or_null :: "timestamp option \<Rightarrow> json" where
  "time_or_null v = (case v of None \<Rightarrow> JNull | Some t \<Rightarrow> JNum (int t))"

definition vpn_type_json :: "vpn_type \<Rightarrow> json" where
  "vpn_type_json ty = JStr (case ty of TypeOff \<Rightarrow> ''off'' | TypeWireguard \<Rightarrow> ''wireguard'' | TypeOpenvpn \<Rightarrow> ''openvpn''
     | TypeWarp \<Rightarrow> ''warp'')"

definition vpn_status_json :: "vpn_status \<Rightarrow> json" where
  "vpn_status_json st = JStr (case st of StatusOff \<Rightarrow> ''off'' | StatusConnecting \<Rightarrow> ''connecting''
     | StatusConnected \<Rightarrow> ''connected'' | StatusError \<Rightarrow> ''error'')"

definition settings_json :: "app_settings \<Rightarrow> json" where
  "settings_json g = JObj [(''id'', JStr ''global''), (''active_vpn_type'', vpn_type_json (active_vpn_type g)),
     (''active_vpn_profile_id'', text_or_null (active_vpn_profile_id g)),
     (''active_vpn_label'', text_or_null (active_vpn_label g)), (''vpn_status'', vpn_status_json (vpn_status g)),
     (''vpn_last_error'', text_or_null (vpn_last_error g)), (''vpn_connected_at'', time_or_null (vpn_connected_at g)),
     (''vpn_public_ip'', text_or_null (vpn_public_ip g)), (''vpn_country'', text_or_null (vpn_country g)),
     (''log_retention_days'', JNum (log_retention_days g)),
     (''initial_setup_completed'', JNum (initial_setup_completed g)),
     (''updated_at'', JNum (int (settings_updated_at g)))]"

definition settings_GET :: "'w env \<Rightarrow> request \<Rightarrow> (('w, 'z) app_scheme, reply) act" where
  "settings_GET env req = session_get env req 500
     (andThen getSettings (\<lambda>g. ret (success_json 200 [(''data'', settings_json g)])))"

definition settings_PUT :: "'w env \<Rightarrow> request \<Rightarrow> (('w, 'z) app_scheme, reply) act" where
  "settings_PUT env req = session_mutation env req 400
     (parse_body env req ''updateSettings'' updateSettingsSchema (\<lambda>days.
      andThen (updateSettings env days) (\<lambda>g. ret (success_json 200 [(''data'', settings_json g)]))))"

end
