(* ===== verification/Log_Routes.thy ===== *)
theory Log_Routes imports Provider_Routes begin

section \<open>The routes of the logs and the live stream\<close>

text \<open>
  \<open>app/api/logs\<close>, \<open>app/api/logs/[id]\<close> and \<open>app/api/logs/stream\<close>. The stream is a state machine: the database
  tail, the process's own log events, heartbeats and the client's disconnect drive it.
\<close>

definition management :: "'w env \<Rightarrow> request \<Rightarrow> (('w, 'z) app_scheme, reply) act \<Rightarrow> (('w, 'z) app_scheme, reply) act" where
  "management env req m = andThen (hasManagementAccess env req) (\<lambda>ok.
     if \<not> ok then ret (error_json 401 ''Unauthorized'') else m)"

definition ALLOWED_LEVELS :: "string list" where
  "ALLOWED_LEVELS = [''debug'', ''info'', ''warning'', ''error'', ''all'']"
definition ALLOWED_ORDERS :: "string list" where "ALLOWED_ORDERS = [''ASC'', ''DESC'']"
definition ALLOWED_GROUPS :: "string list" where
  "ALLOWED_GROUPS = [''all'', ''traffic'', ''cache'', ''streams'', ''vpn'', ''providers'', ''auth'', ''system'']"

definition listed :: "string list \<Rightarrow> string option \<Rightarrow> string option" where
  "listed allowed v = (case truthy v of None \<Rightarrow> None | Some x \<Rightarrow> if x \<in> set allowed then Some x else None)"

definition cut :: "nat \<Rightarrow> string option \<Rightarrow> string option" where
  "cut n v = truthy (map_option (take n) v)"

definition int_param :: "string option \<Rightarrow> string \<Rightarrow> int option" where
  "int_param v fallback = parseInt (case truthy v of Some x \<Rightarrow> x | None \<Rightarrow> fallback)"

definition log_query_of :: "request \<Rightarrow> log_query" where
  "log_query_of req =
     (let rawOrder = toUpperCase (case truthy (rq_param req ''order'') of Some o' \<Rightarrow> o' | None \<Rightarrow> ''DESC'');
          order = (if rawOrder \<in> set ALLOWED_ORDERS then rawOrder else ''DESC'') in
      \<lparr>q_level = listed ALLOWED_LEVELS (rq_param req ''level''), q_source = cut 64 (rq_param req ''source''),
       q_category = cut 128 (rq_param req ''category''), q_group = listed ALLOWED_GROUPS (rq_param req ''group''),
       q_search = cut 200 (rq_param req ''search''), q_limit = int_param (rq_param req ''limit'') ''100'',
       q_offset = int_param (rq_param req ''offset'') ''0'', q_asc = (order = ''ASC'')\<rparr>)"

definition level_value :: "json \<Rightarrow> log_level option" where
  "level_value v = (case v of JStr s \<Rightarrow> find (\<lambda>l. level_name l = s) [Debug, Info, Warning, Error] | _ \<Rightarrow> None)"

definition source_of_value :: "json \<Rightarrow> log_source option" where
  "source_of_value v = (case v of
     JStr s \<Rightarrow> find (\<lambda>l. source_name l = s) [SrcAuth, SrcProvider, SrcVpn, SrcWireguard, SrcOpenvpn, SrcWarp,
       SrcVpngate, SrcSystem, SrcProxy]
   | _ \<Rightarrow> None)"

definition metadata_value :: "json \<Rightarrow> json option option" where
  "metadata_value v = (case v of JNull \<Rightarrow> Some None | JObj _ \<Rightarrow> Some (Some v) | _ \<Rightarrow> None)"

record log_write =
  lw_level :: log_level
  lw_source :: log_source
  lw_category :: string
  lw_message :: string
  lw_metadata :: "json option"

definition logWriteSchema :: "json \<Rightarrow> log_write option" where
  "logWriteSchema body =
     Option.bind (required level_value ''level'' body) (\<lambda>level.
     Option.bind (required source_of_value ''source'' body) (\<lambda>src.
     Option.bind (required (trimmed_value 1 128) ''category'' body) (\<lambda>category.
     Option.bind (required (text_value 1 8000) ''message'' body) (\<lambda>msg.
     Option.bind (optional metadata_value ''metadata'' body) (\<lambda>metadata.
     Some \<lparr>lw_level = level, lw_source = src, lw_category = category, lw_message = msg,
           lw_metadata = (case metadata of Some m \<Rightarrow> m | None \<Rightarrow> None)\<rparr>)))))"

definition update_keys :: "string list" where
  "update_keys = [''level'', ''source'', ''category'', ''message'', ''metadata'']"

definition logUpdateSchema :: "json \<Rightarrow> log_update option" where
  "logUpdateSchema body =
     (if \<not> is_object body then None else
     Option.bind (optional level_value ''level'' body) (\<lambda>level.
     Option.bind (optional source_of_value ''source'' body) (\<lambda>src.
     Option.bind (optional (trimmed_value 1 128) ''category'' body) (\<lambda>category.
     Option.bind (optional (text_value 1 8000) ''message'' body) (\<lambda>msg.
     Option.bind (optional metadata_value ''metadata'' body) (\<lambda>metadata.
     if list_all (\<lambda>k. get_field k body = None) update_keys then None
     else Some \<lparr>lu_level = level, lu_source = src, lu_category = category, lu_message = msg,
                lu_metadata = metadata\<rparr>))))))"

definition log_json :: "log_entry \<Rightarrow> json" where
  "log_json e = JObj [(''id'', JStr (l_id e)), (''timestamp'', JNum (int (l_timestamp e))),
     (''level'', JStr (level_name (l_level e))), (''source'', JStr (source_name (l_source e))),
     (''category'', JStr (l_category e)), (''message'', JStr (l_message e)),
     (''metadata_json'', text_or_null (l_metadata_json e)), (''created_at'', JNum (int (l_created_at e)))]"

definition logs_GET :: "'w env \<Rightarrow> request \<Rightarrow> (('w, 'z) app_scheme, reply) act" where
  "logs_GET env req = route_or 500 (management env req (
     andThen (queryLogs (log_query_of req)) (\<lambda>(logs, total).
     ret (success_json 200 [(''data'', JArr (map log_json logs)), (''total'', JNum (int total))]))))"

definition logs_POST :: "'w env \<Rightarrow> request \<Rightarrow> (('w, 'z) app_scheme, reply) act" where
  "logs_POST env req = route_or 500 (guarded env req (management env req (
     parse_body env req ''logWrite'' logWriteSchema (\<lambda>d.
     andThen (writeLog env (lw_level d) (lw_source d) (lw_category d) (lw_message d) (lw_metadata d)) (\<lambda>e.
     ret (success_json 201 [(''data'', log_json e)]))))))"

definition logs_DELETE :: "'w env \<Rightarrow> request \<Rightarrow> (('w, 'z) app_scheme, reply) act" where
  "logs_DELETE env req = route_or 500 (guarded env req (management env req (
     andThen clearAllLogs (\<lambda>n. ret (success_json 200 [(''deleted'', JNum (int n))])))))"

definition found_log :: "log_entry option \<Rightarrow> reply" where
  "found_log e = (case e of None \<Rightarrow> error_json 404 ''Log entry not found''
     | Some x \<Rightarrow> success_json 200 [(''data'', log_json x)])"

definition log_GET :: "'w env \<Rightarrow> request \<Rightarrow> string \<Rightarrow> (('w, 'z) app_scheme, reply) act" where
  "log_GET env req lid = route_or 500 (management env req (andThen (getLog lid) (\<lambda>e. ret (found_log e))))"

definition log_PUT :: "'w env \<Rightarrow> request \<Rightarrow> string \<Rightarrow> (('w, 'z) app_scheme, reply) act" where
  "log_PUT env req lid = route_or 500 (guarded env req (management env req (
     parse_body env req ''logUpdate'' logUpdateSchema (\<lambda>d.
     andThen (updateLog lid d) (\<lambda>e. ret (found_log e))))))"

definition log_DELETE :: "'w env \<Rightarrow> request \<Rightarrow> string \<Rightarrow> (('w, 'z) app_scheme, reply) act" where
  "log_DELETE env req lid = route_or 500 (guarded env req (management env req (
     andThen (deleteLog lid) (\<lambda>deleted.
     ret (if deleted then success_json 200 [] else error_json 404 ''Log entry not found'')))))"

subsection \<open>The live stream\<close>

text \<open>What is written to the client: the events and the heartbeat comment.\<close>

datatype sse = Connected_event | Log_event log_entry | Heartbeat

record stream =
  st_lastRowId :: nat
  st_seen :: "string list"
  st_sent :: "sse list"
  st_closed :: bool
  st_listening :: bool

text \<open>\<open>controller.enqueue\<close> throws once the client is gone; \<open>alive\<close> says whether it succeeds.\<close>

definition send :: "bool \<Rightarrow> sse \<Rightarrow> stream \<Rightarrow> stream" where
  "send alive ev st =
     (if st_closed st then st
      else if alive then st\<lparr>st_sent := st_sent st @ [ev]\<rparr> else st\<lparr>st_closed := True\<rparr>)"

definition max_rowid :: "(nat \<times> log_entry) list \<Rightarrow> nat" where
  "max_rowid rows = foldr max (map fst rows) 0"

definition open_stream :: "(nat \<times> log_entry) list \<Rightarrow> stream" where
  "open_stream rows = send True Connected_event
     \<lparr>st_lastRowId = max_rowid rows, st_seen = [], st_sent = [], st_closed = False, st_listening = True\<rparr>"

definition onNewLog :: "bool \<Rightarrow> log_entry \<Rightarrow> stream \<Rightarrow> stream" where
  "onNewLog alive e st =
     (if l_id e \<in> set (st_seen st) then st
      else send alive (Log_event e) (st\<lparr>st_seen := st_seen st @ [l_id e]\<rparr>))"

definition tail_row :: "bool \<Rightarrow> stream \<Rightarrow> nat \<times> log_entry \<Rightarrow> stream" where
  "tail_row alive st row =
     onNewLog alive (rowToLog row) (st\<lparr>st_lastRowId := max (st_lastRowId st) (fst row)\<rparr>)"

definition tail_rows :: "nat \<Rightarrow> (nat \<times> log_entry) list \<Rightarrow> (nat \<times> log_entry) list" where
  "tail_rows from rows = take 200 (sort_key fst (filter (\<lambda>r. from < fst r) rows))"

definition databaseTail :: "bool \<Rightarrow> (nat \<times> log_entry) list \<Rightarrow> stream \<Rightarrow> stream" where
  "databaseTail alive rows st = foldl (tail_row alive) st (tail_rows (st_lastRowId st) rows)"

definition heartbeat :: "bool \<Rightarrow> stream \<Rightarrow> stream" where
  "heartbeat alive st = send alive Heartbeat st"

definition cleanup :: "stream \<Rightarrow> stream" where
  "cleanup st = st\<lparr>st_closed := True, st_listening := False\<rparr>"

text \<open>
  One connected client and the log table: this process's own writes, which are also events, writes of the Go
  core, which are not, the two timers, removals, and the disconnect, which detaches the listener and the timers.
\<close>

inductive stream_step :: "(nat \<times> log_entry) list \<times> stream \<Rightarrow> (nat \<times> log_entry) list \<times> stream \<Rightarrow> bool" where
  own_write: "l_id e \<notin> l_id ` snd ` set rows \<Longrightarrow>
    stream_step (rows, st) (rows @ [(next_rowid rows, e)], if st_listening st then onNewLog alive e st else st)"
| core_write: "l_id e \<notin> l_id ` snd ` set rows \<Longrightarrow>
    stream_step (rows, st) (rows @ [(next_rowid rows, e)], st)"
| tail: "st_listening st \<Longrightarrow> stream_step (rows, st) (rows, databaseTail alive rows st)"
| beat: "st_listening st \<Longrightarrow> stream_step (rows, st) (rows, heartbeat alive st)"
| removal: "stream_step (rows, st) (delete_where P rows, st)"
| disconnect: "st_listening st \<Longrightarrow> stream_step (rows, st) (rows, cleanup st)"

inductive_cases stream_stepE: "stream_step p q"

definition log_ids :: "sse list \<Rightarrow> string list" where
  "log_ids evs = concat (map (\<lambda>ev. case ev of Log_event e \<Rightarrow> [l_id e] | _ \<Rightarrow> []) evs)"

lemma log_ids_simps [simp]:
  "log_ids [] = []"
  "log_ids (ev # evs) = (case ev of Log_event e \<Rightarrow> [l_id e] | _ \<Rightarrow> []) @ log_ids evs"
  "log_ids (evs @ evs') = log_ids evs @ log_ids evs'"
  by (simp_all add: log_ids_def)

text \<open>The ids sent are a prefix of the ids seen, and all of them while the stream is open.\<close>

definition stream_inv :: "stream \<Rightarrow> bool" where
  "stream_inv st \<longleftrightarrow> distinct (st_seen st) \<and>
     (if st_closed st then \<exists>unsent. st_seen st = log_ids (st_sent st) @ unsent
      else st_seen st = log_ids (st_sent st))"

lemma inv_onNewLog: "stream_inv st \<Longrightarrow> stream_inv (onNewLog alive e st)"
  unfolding stream_inv_def onNewLog_def send_def by auto

lemma inv_send_other:
  "stream_inv st \<Longrightarrow> (\<And>e. ev \<noteq> Log_event e) \<Longrightarrow> stream_inv (send alive ev st)"
  unfolding stream_inv_def send_def by (cases ev) auto

lemma inv_tail_row: "stream_inv st \<Longrightarrow> stream_inv (tail_row alive st row)"
  unfolding tail_row_def by (rule inv_onNewLog) (simp add: stream_inv_def)

lemma inv_tail: "stream_inv st \<Longrightarrow> stream_inv (foldl (tail_row alive) st rs)"
  by (induction rs arbitrary: st) (auto intro: inv_tail_row)

lemma inv_open: "stream_inv (open_stream rows)"
  by (simp add: open_stream_def send_def stream_inv_def)

lemma inv_cleanup: "stream_inv st \<Longrightarrow> stream_inv (cleanup st)"
  by (auto simp: stream_inv_def cleanup_def split: if_splits)

lemma inv_step: "stream_step p q \<Longrightarrow> stream_inv (snd p) \<Longrightarrow> stream_inv (snd q)"
  by (induction rule: stream_step.induct)
    (simp_all add: databaseTail_def heartbeat_def inv_onNewLog inv_tail inv_send_other inv_cleanup)

lemma inv_reachable: "stream_step\<^sup>*\<^sup>* p q \<Longrightarrow> stream_inv (snd p) \<Longrightarrow> stream_inv (snd q)"
  by (induction rule: rtranclp_induct) (blast intro: inv_step)+

lemma distinct_sent: "stream_inv st \<Longrightarrow> distinct (log_ids (st_sent st))"
  unfolding stream_inv_def by (auto split: if_splits)


subsection \<open>What the tail delivers\<close>

text \<open>Steps that keep every row of the table, and the rows the tail has passed.\<close>

definition keeping_step :: "(nat \<times> log_entry) list \<times> stream \<Rightarrow> (nat \<times> log_entry) list \<times> stream \<Rightarrow> bool" where
  "keeping_step p q \<longleftrightarrow> stream_step p q \<and> set (fst p) \<subseteq> set (fst q)"

definition passed :: "nat \<Rightarrow> (nat \<times> log_entry) list \<times> stream \<Rightarrow> bool" where
  "passed base p \<longleftrightarrow> st_lastRowId (snd p) \<le> max_rowid (fst p) \<and>
     (\<forall>r \<in> set (fst p). base < fst r \<and> fst r \<le> st_lastRowId (snd p) \<longrightarrow> l_id (snd r) \<in> set (st_seen (snd p)))"

lemma le_max_rowid: "r \<in> set rows \<Longrightarrow> fst r \<le> max_rowid rows"
  unfolding max_rowid_def by (induction rows) auto

lemma max_rowid_attained: "rows \<noteq> [] \<Longrightarrow> \<exists>r \<in> set rows. fst r = max_rowid rows"
proof (induction rows)
  case (Cons a rows)
  then show ?case
    by (cases "rows = []") (auto simp: max_rowid_def max_def)
qed simp

lemma onNewLog_last [simp]: "st_lastRowId (onNewLog alive e st) = st_lastRowId st"
  by (simp add: onNewLog_def send_def)

lemma onNewLog_seen [simp]: "set (st_seen (onNewLog alive e st)) = insert (l_id e) (set (st_seen st))"
  by (auto simp: onNewLog_def send_def)

lemma tail_last: "st_lastRowId (foldl (tail_row alive) st rs) = max (st_lastRowId st) (max_rowid rs)"
  unfolding max_rowid_def by (induction rs arbitrary: st) (auto simp: tail_row_def)

lemma rowToLog_id [simp]: "l_id (rowToLog r) = l_id (snd r)"
  by (simp add: rowToLog_def Let_def)

lemma tail_seen: "set (st_seen (foldl (tail_row alive) st rs)) = set (st_seen st) \<union> (\<lambda>r. l_id (snd r)) ` set rs"
  by (induction rs arbitrary: st) (auto simp: tail_row_def)

lemma take_sorted_downward:
  assumes "sorted (map fst xs)" "distinct (map fst xs)" "r \<in> set xs" "r' \<in> set (take n xs)" "fst r \<le> fst r'"
  shows "r \<in> set (take n xs)"
proof (rule ccontr)
  assume "r \<notin> set (take n xs)"
  then have d: "r \<in> set (drop n xs)"
    using assms(3) by (metis Un_iff append_take_drop_id set_append)
  have "sorted (map fst (take n xs @ drop n xs))" and "distinct (map fst (take n xs @ drop n xs))"
    using assms(1,2) by simp_all
  then have "fst r' \<le> fst r" and "fst r' \<noteq> fst r"
    using d assms(4) by (auto simp: sorted_append simp del: append_take_drop_id)
  then show False using assms(5) by simp
qed

lemma next_is_larger: "next_rowid rows = Suc (max_rowid rows)"
  by (simp add: next_rowid_def max_rowid_def)

lemma max_rowid_append: "max_rowid (rows @ rs) = max (max_rowid rows) (max_rowid rs)"
  unfolding max_rowid_def by (induction rows) auto

lemma max_rowid_mono: "set rows \<subseteq> set rows' \<Longrightarrow> max_rowid rows \<le> max_rowid rows'"
proof (cases "rows = []")
  case False
  then obtain r where "r \<in> set rows" "fst r = max_rowid rows" using max_rowid_attained by blast
  moreover assume "set rows \<subseteq> set rows'"
  ultimately show ?thesis using le_max_rowid[of r rows'] by auto
qed (simp add: max_rowid_def)

lemma tail_rows_max: "max_rowid (tail_rows from rows) \<le> max_rowid rows"
  by (rule max_rowid_mono) (auto simp: tail_rows_def dest: in_set_takeD)

lemma in_tail_rows:
  assumes "distinct (map fst rows)" "r \<in> set rows" "from < fst r" "fst r \<le> max_rowid (tail_rows from rows)"
  shows "r \<in> set (tail_rows from rows)"
proof -
  let ?xs = "sort_key fst (filter (\<lambda>r. from < fst r) rows)"
  have "tail_rows from rows \<noteq> []" using assms(3,4) by (auto simp: max_rowid_def)
  then obtain r' where r': "r' \<in> set (take 200 ?xs)" "fst r' = max_rowid (tail_rows from rows)"
    using max_rowid_attained unfolding tail_rows_def by metis
  have "distinct (map fst (filter (\<lambda>r. from < fst r) rows))"
    using assms(1) by (simp add: distinct_map inj_on_def)
  then have "distinct (map fst ?xs)"
    by (simp add: distinct_map inj_on_def)
  then show ?thesis
    unfolding tail_rows_def by (rule take_sorted_downward[OF sorted_sort_key _ _ r'(1)]) (use assms r' in auto)
qed

lemma passed_tail:
  assumes "passed base (rows, st)" "distinct (map fst rows)"
  shows "passed base (rows, databaseTail alive rows st)"
  unfolding passed_def databaseTail_def
proof (intro conjI ballI impI; simp only: fst_conv snd_conv tail_last tail_seen)
  show "max (st_lastRowId st) (max_rowid (tail_rows (st_lastRowId st) rows)) \<le> max_rowid rows"
    using assms(1) tail_rows_max[of "st_lastRowId st" rows] by (simp add: passed_def)
  fix r assume r: "r \<in> set rows" and
    b: "base < fst r \<and> fst r \<le> max (st_lastRowId st) (max_rowid (tail_rows (st_lastRowId st) rows))"
  show "l_id (snd r) \<in> set (st_seen st) \<union> (\<lambda>r. l_id (snd r)) ` set (tail_rows (st_lastRowId st) rows)"
  proof (cases "fst r \<le> st_lastRowId st")
    case True
    then show ?thesis using assms(1) r b by (simp add: passed_def)
  next
    case False
    then show ?thesis using in_tail_rows[OF assms(2) r] b by auto
  qed
qed

lemma passed_same_tail:
  "passed base (rows, st) \<Longrightarrow> st_lastRowId st' = st_lastRowId st \<Longrightarrow> set (st_seen st) \<subseteq> set (st_seen st') \<Longrightarrow>
   passed base (rows, st')"
  by (auto simp: passed_def)

lemma passed_append:
  "passed base (rows, st) \<Longrightarrow> passed base (rows @ [(next_rowid rows, e)], st)"
  by (auto simp: passed_def max_rowid_append next_is_larger)

lemma passed_removal:
  "passed base (rows, st) \<Longrightarrow> set rows \<subseteq> set (delete_where P rows) \<Longrightarrow> passed base (delete_where P rows, st)"
  using max_rowid_mono[of rows "delete_where P rows"]
  by (auto simp: passed_def) (auto simp: delete_where_def)

lemma distinct_rowids_append:
  "distinct (map fst rows) \<Longrightarrow> distinct (map fst (rows @ [(next_rowid rows, e)]))"
  using le_max_rowid[of _ rows] by (fastforce simp: next_is_larger)

lemma step_rowids:
  "stream_step p q \<Longrightarrow> distinct (map fst (fst p)) \<Longrightarrow> distinct (map fst (fst q))"
proof (induction rule: stream_step.induct)
  case (removal rows st P)
  then show ?case by (simp add: delete_where_def distinct_map inj_on_def)
qed (simp_all only: fst_conv distinct_rowids_append)

lemma passed_step:
  "stream_step p q \<Longrightarrow> set (fst p) \<subseteq> set (fst q) \<Longrightarrow> passed base p \<Longrightarrow> distinct (map fst (fst p)) \<Longrightarrow> passed base q"
proof (induction rule: stream_step.induct)
  case (own_write e rows st alive)
  have "passed base (rows, if st_listening st then onNewLog alive e st else st)"
    by (rule passed_same_tail[OF own_write(3)]) auto
  then show ?case by (rule passed_append)
next
  case (core_write e rows st)
  then show ?case by (intro passed_append)
next
  case (tail st rows alive)
  then show ?case by (intro passed_tail) simp_all
next
  case (beat st rows alive)
  show ?case by (rule passed_same_tail[OF beat(3)]) (simp_all add: heartbeat_def send_def)
next
  case (removal rows st P)
  then show ?case by (intro passed_removal) simp_all
next
  case (disconnect st rows)
  show ?case by (rule passed_same_tail[OF disconnect(3)]) (simp_all add: cleanup_def)
qed

lemma passed_run:
  "keeping_step\<^sup>*\<^sup>* p q \<Longrightarrow> passed base p \<Longrightarrow> distinct (map fst (fst p)) \<Longrightarrow>
   passed base q \<and> distinct (map fst (fst q)) \<and> stream_step\<^sup>*\<^sup>* p q"
proof (induction rule: rtranclp_induct)
  case (step q r)
  then have q: "passed base q" "distinct (map fst (fst q))" "stream_step\<^sup>*\<^sup>* p q" by simp_all
  have st: "stream_step q r" and sub: "set (fst q) \<subseteq> set (fst r)"
    using step.hyps(2) by (simp_all add: keeping_step_def)
  show ?case
    using passed_step[OF st sub q(1,2)] step_rowids[OF st q(2)] q(3) st by (simp add: rtranclp.rtrancl_into_rtrancl)
qed simp

lemma all_tailed:
  assumes "length (filter (\<lambda>r. from < fst r) rows) \<le> 200"
  shows "set (tail_rows from rows) = {r \<in> set rows. from < fst r}"
  using assms by (simp add: tail_rows_def)

lemma sent_while_open:
  "stream_inv st \<Longrightarrow> \<not> st_closed st \<Longrightarrow> log_ids (st_sent st) = st_seen st"
  by (simp add: stream_inv_def)

lemma tail_row_open: "\<not> st_closed st \<Longrightarrow> \<not> st_closed (tail_row True st row)"
  by (simp add: tail_row_def onNewLog_def send_def)

lemma tail_open: "\<not> st_closed st \<Longrightarrow> \<not> st_closed (foldl (tail_row True) st rs)"
  by (induction rs arbitrary: st) (simp_all add: tail_row_open)

lemma passed_opened: "passed (max_rowid rows) (rows, open_stream rows)"
  by (simp add: passed_def open_stream_def send_def)


text \<open>A cleared table hands out its row numbers again, so that the tail skips what the core then writes.\<close>

definition sample_entry :: "string \<Rightarrow> log_entry" where
  "sample_entry i = \<lparr>l_id = i, l_timestamp = 0, l_level = Info, l_source = SrcProxy, l_category = ''c'',
     l_message = ''m'', l_metadata_json = None, l_created_at = 0\<rparr>"

lemma sample_id [simp]: "l_id (sample_entry i) = i" by (simp add: sample_entry_def)



lemma tail_misses_after_clear:
  "stream_step\<^sup>*\<^sup>* ([(1, sample_entry ''a'')], open_stream [(1, sample_entry ''a'')])
     ([(1, sample_entry ''b'')], open_stream [(1, sample_entry ''a'')]) \<and>
   tail_rows (st_lastRowId (open_stream [(1, sample_entry ''a'')])) [(1, sample_entry ''b'')] = []"
proof -
  let ?st = "open_stream [(1, sample_entry ''a'')]"
  have "stream_step ([(1, sample_entry ''a'')], ?st) ([], ?st)"
    using removal[of "[(1, sample_entry ''a'')]" ?st "\<lambda>_. True"] by (simp add: delete_where_def)
  moreover have "stream_step ([], ?st) ([(1, sample_entry ''b'')], ?st)"
    using core_write[of "sample_entry ''b''" "[]" ?st] by (simp add: next_is_larger max_rowid_def)
  ultimately show ?thesis
    by (auto simp: tail_rows_def open_stream_def send_def max_rowid_def intro: rtranclp.rtrancl_into_rtrancl)
qed

end
