(* ===== verification/Wireguard.thy ===== *)
theory Wireguard
  imports Settings Http
begin

section \<open>WireGuard profiles and tunnels\<close>

text \<open>
  \<open>lib/services/vpn/wireguard.ts\<close>: validation of a configuration, the configuration that is given to
  \<open>wg setconf\<close>, the profiles' table and the tunnel. The commands \<open>ip\<close>, \<open>wg\<close> and \<open>getent\<close> are external
  calls; a command that fails throws.
\<close>

definition RUNTIME_DIR :: string where "RUNTIME_DIR = ''/tmp/vpn/wireguard''"
definition WG_INTERFACE :: string where "WG_INTERFACE = ''wg0''"
definition CONFIG_PATH :: string where "CONFIG_PATH = RUNTIME_DIR @ ''/'' @ WG_INTERFACE @ ''.conf''"
definition WG_SETCONF_PATH :: string where "WG_SETCONF_PATH = RUNTIME_DIR @ ''/'' @ WG_INTERFACE @ ''.setconf''"
definition ENDPOINT_ROUTE_PATH :: string where
  "ENDPOINT_ROUTE_PATH = RUNTIME_DIR @ ''/'' @ WG_INTERFACE @ ''.endpoint-route''"

definition FORBIDDEN_DIRECTIVES :: "string list" where
  "FORBIDDEN_DIRECTIVES = [''preup'', ''postup'', ''predown'', ''postdown'']"

subsection \<open>The configuration\<close>

record wg_validation =
  wv_valid :: bool
  wv_error :: string
  wv_address :: "string option"
  wv_endpoint :: "string option"
  wv_hasPrivateKey :: bool

record wg_runtime =
  wr_setconf :: string
  wr_addresses :: "string list"
  wr_mtu :: int
  wr_endpointHost :: "string option"
  wr_allowedIps :: "string list"

text \<open>\<open>line.match(/^([A-Za-z][A-Za-z0-9]*)\s*=/)\<close>, in lower case.\<close>

definition directiveName :: "string \<Rightarrow> string option" where
  "directiveName line = (case line of
     [] \<Rightarrow> None
   | c # cs \<Rightarrow>
       if is_alpha c then
         (case dropWhile is_ws (dropWhile is_alnum cs) of
            [] \<Rightarrow> None
          | e # _ \<Rightarrow> if e = CHR ''='' then Some (toLowerCase (c # takeWhile is_alnum cs)) else None)
       else None)"

definition directiveValue :: "string \<Rightarrow> string" where
  "directiveValue line = trim (join ''='' (drop 1 (splitOn (CHR ''='') line)))"

definition blank_or_comment :: "string \<Rightarrow> bool" where
  "blank_or_comment line = (line = [] \<or> startsWith line ''#'')"

definition forbidden :: "string option \<Rightarrow> bool" where
  "forbidden directive = (case directive of None \<Rightarrow> False | Some d \<Rightarrow> d \<in> set FORBIDDEN_DIRECTIVES)"

record wg_seen =
  ws_interface :: bool
  ws_peer :: bool
  ws_key :: bool
  ws_address :: string
  ws_endpoint :: string

definition invalid_wg :: "string \<Rightarrow> bool \<Rightarrow> wg_validation" where
  "invalid_wg e key = \<lparr>wv_valid = False, wv_error = e, wv_address = None, wv_endpoint = None,
     wv_hasPrivateKey = key\<rparr>"

text \<open>The effect of one line on what has been seen; the loop below stops at a hook.\<close>

definition see_line :: "string \<Rightarrow> wg_seen \<Rightarrow> wg_seen" where
  "see_line line seen =
     (let lower = toLowerCase line; directive = directiveName line in
      seen\<lparr>ws_interface := ws_interface seen \<or> lower = ''[interface]'',
           ws_peer := ws_peer seen \<or> lower = ''[peer]'',
           ws_key := ws_key seen \<or> directive = Some ''privatekey'',
           ws_address := (if directive = Some ''address'' then directiveValue line else ws_address seen),
           ws_endpoint := (if directive = Some ''endpoint'' then directiveValue line else ws_endpoint seen)\<rparr>)"

fun validate_lines :: "string list \<Rightarrow> wg_seen \<Rightarrow> wg_validation" where
  "validate_lines [] seen =
     (if \<not> ws_interface seen then
        invalid_wg ''Configuration must contain an [Interface] section.'' (ws_key seen)
      else if \<not> ws_peer seen then
        invalid_wg ''Configuration must contain at least one [Peer] section.'' (ws_key seen)
      else if \<not> ws_key seen then
        invalid_wg ''Configuration is missing the Interface PrivateKey.'' False
      else \<lparr>wv_valid = True, wv_error = [], wv_address = Some (ws_address seen),
            wv_endpoint = Some (ws_endpoint seen), wv_hasPrivateKey = True\<rparr>)"
| "validate_lines (line # lines) seen =
     (if blank_or_comment line then validate_lines lines seen
      else if forbidden (directiveName line) then
        invalid_wg (the (directiveName line) @
          '' hooks are not allowed because VPN profiles must not execute shell commands.'') (ws_key seen)
      else validate_lines lines (see_line line seen))"

definition validateWireguardConfig :: "string \<Rightarrow> wg_validation" where
  "validateWireguardConfig rawConfig =
     (if length rawConfig > 256000 then invalid_wg ''WireGuard configuration is too large.'' False
      else validate_lines (map trim (splitLines rawConfig))
        \<lparr>ws_interface = False, ws_peer = False, ws_key = False, ws_address = [], ws_endpoint = []\<rparr>)"

text \<open>The host of an endpoint: \<open>/^\[([^\]]+)\]:(\d+)$/\<close>, then \<open>/^(.+):(\d+)$/\<close>, then all of it.\<close>

definition bracketed_host :: "string \<Rightarrow> string option" where
  "bracketed_host e = (case e of
     [] \<Rightarrow> None
   | c # rest \<Rightarrow>
       (let host = takeWhile (\<lambda>x. x \<noteq> CHR '']'') rest; after = dropWhile (\<lambda>x. x \<noteq> CHR '']'') rest in
        if c = CHR ''['' \<and> host \<noteq> [] \<and> startsWith after '']:'' \<and> drop 2 after \<noteq> [] \<and>
           list_all is_digit (drop 2 after)
        then Some host else None))"

definition regular_host :: "string \<Rightarrow> string option" where
  "regular_host e = (case dropWhile is_digit (rev e) of
     [] \<Rightarrow> None
   | c # before \<Rightarrow>
       if c = CHR '':'' \<and> takeWhile is_digit (rev e) \<noteq> [] \<and> before \<noteq> [] \<and>
          list_all (\<lambda>x. x \<noteq> LF \<and> x \<noteq> CR) before
       then Some (rev before) else None)"

definition endpoint_host :: "string \<Rightarrow> string" where
  "endpoint_host e = (case bracketed_host e of Some h \<Rightarrow> h | None \<Rightarrow>
     (case regular_host e of Some h \<Rightarrow> h | None \<Rightarrow> e))"

definition listed_values :: "string \<Rightarrow> string list" where
  "listed_values line = filter (\<lambda>v. v \<noteq> []) (map trim (splitOn (CHR '','') (directiveValue line)))"

text \<open>One round of the loop: the lines kept so far and the collected values.\<close>

record wg_acc =
  wa_setconf :: "string list"
  wa_addresses :: "string list"
  wa_allowedIps :: "string list"
  wa_mtu :: int
  wa_endpointHost :: "string option"

definition keep_line :: "string \<Rightarrow> wg_acc \<Rightarrow> wg_acc" where
  "keep_line line acc = acc\<lparr>wa_setconf := wa_setconf acc @ [line]\<rparr>"

definition build_line :: "wg_acc \<Rightarrow> string \<Rightarrow> wg_acc" where
  "build_line acc originalLine =
     (let line = trim originalLine; directive = directiveName line in
      if blank_or_comment line then keep_line originalLine acc
      else if forbidden directive then acc
      else if directive = Some ''address'' then
        acc\<lparr>wa_addresses := wa_addresses acc @ listed_values line\<rparr>
      else if directive = Some ''dns'' \<or> directive = Some ''table'' then acc
      else if directive = Some ''mtu'' then
        (case parseInt (directiveValue line) of
           Some n \<Rightarrow> if 576 \<le> n \<and> n \<le> 9000 then acc\<lparr>wa_mtu := n\<rparr> else acc
         | None \<Rightarrow> acc)
      else if directive = Some ''endpoint'' then
        keep_line originalLine (acc\<lparr>wa_endpointHost := Some (endpoint_host (directiveValue line))\<rparr>)
      else if directive = Some ''allowedips'' then
        keep_line originalLine (acc\<lparr>wa_allowedIps := wa_allowedIps acc @ listed_values line\<rparr>)
      else keep_line originalLine acc)"

definition build_acc :: "string \<Rightarrow> wg_acc" where
  "build_acc rawConfig = foldl build_line
     \<lparr>wa_setconf = [], wa_addresses = [], wa_allowedIps = [], wa_mtu = 1420, wa_endpointHost = None\<rparr>
     (splitLines rawConfig)"

definition buildRuntimeConfig :: "string \<Rightarrow> failure + wg_runtime" where
  "buildRuntimeConfig rawConfig =
     (let acc = build_acc rawConfig in
      if wa_addresses acc = [] then Inl (Err ''WireGuard configuration must include an Interface Address.'')
      else if wa_allowedIps acc = [] then Inl (Err ''WireGuard configuration must include Peer AllowedIPs.'')
      else Inr \<lparr>wr_setconf = trim (join [LF] (wa_setconf acc)), wr_addresses = wa_addresses acc,
                wr_mtu = wa_mtu acc, wr_endpointHost = wa_endpointHost acc, wr_allowedIps = wa_allowedIps acc\<rparr>)"

subsection \<open>Commands\<close>

definition run :: "'w env \<Rightarrow> string \<Rightarrow> string list \<Rightarrow> (('w, 'z) db_scheme, string) act" where
  "run env command args = andThen (ext_try (execFile env command args)) (\<lambda>stdout. ret (trim stdout))"

text \<open>\<open>try { ... } catch {}\<close>.\<close>

definition ignoring :: "('s, 'a) act \<Rightarrow> ('s, unit) act" where
  "ignoring m = catch (andThen m (\<lambda>_. ret ())) (\<lambda>_. ret ())"

definition first_line :: "string \<Rightarrow> string option" where
  "first_line output = find (\<lambda>l. l \<noteq> []) (map trim (splitOn LF output))"

definition is_ipv4 :: "string \<Rightarrow> bool" where
  "is_ipv4 host = (let parts = splitOn (CHR ''.'') host in
     length parts = 4 \<and> list_all (\<lambda>p. 1 \<le> length p \<and> length p \<le> 3 \<and> list_all is_digit p) parts)"

definition resolveEndpointIpv4 :: "'w env \<Rightarrow> string \<Rightarrow> (('w, 'z) db_scheme, string option) act" where
  "resolveEndpointIpv4 env host =
     (if is_ipv4 host then ret (Some host)
      else catch
        (andThen (run env ''getent'' [''ahostsv4'', host]) (\<lambda>output.
         ret (case first_line output of None \<Rightarrow> None | Some l \<Rightarrow> truthy (Some (hd (splitWs l))))))
        (\<lambda>_. ret None))"

text \<open>\<open>/\bkw\s+(\S+)/\<close>: the word after a keyword.\<close>

definition is_word :: "char \<Rightarrow> bool" where
  "is_word c = (is_alnum c \<or> c = CHR ''_'')"

fun word_after :: "string \<Rightarrow> bool \<Rightarrow> string \<Rightarrow> string option" where
  "word_after kw boundary [] = None"
| "word_after kw boundary (c # cs) =
     (let rest = drop (length kw) (c # cs); word = takeWhile (\<lambda>x. \<not> is_ws x) (dropWhile is_ws rest) in
      if boundary \<and> startsWith (c # cs) kw \<and> rest \<noteq> [] \<and> is_ws (hd rest) \<and> word \<noteq> [] then Some word
      else word_after kw (is_word c \<noteq> is_word (hd (cs @ [CHR '' '']))) cs)"

definition getDefaultRoute :: "'w env \<Rightarrow> (('w, 'z) db_scheme, string option \<times> string option) act" where
  "getDefaultRoute env =
     andThen (run env ''ip'' [''-4'', ''route'', ''show'', ''default'']) (\<lambda>output.
     let line = (case first_line output of None \<Rightarrow> [] | Some l \<Rightarrow> l) in
     ret (word_after ''via'' True line, word_after ''dev'' True line))"

definition addEndpointBypassRoute :: "'w env \<Rightarrow> string option \<Rightarrow> (('w, 'z) db_scheme, unit) act" where
  "addEndpointBypassRoute env endpointHost = (case truthy endpointHost of
     None \<Rightarrow> ret ()
   | Some host \<Rightarrow>
       if CHR '':'' \<in> set host then ret ()
       else
         andThen (resolveEndpointIpv4 env host) (\<lambda>endpointIp. case endpointIp of
           None \<Rightarrow> throw (''Unable to resolve WireGuard endpoint '' @ host @ ''.'')
         | Some ip \<Rightarrow>
         andThen (getDefaultRoute env) (\<lambda>(gateway, device). case device of
           None \<Rightarrow> throw ''Unable to determine the container default network interface.''
         | Some dev \<Rightarrow>
         andThen (run env ''ip'' ([''-4'', ''route'', ''replace'', ip @ ''/32''] @
             (case gateway of Some g \<Rightarrow> [''via'', g] | None \<Rightarrow> []) @ [''dev'', dev])) (\<lambda>_.
         ext_try (fs_write env ENDPOINT_ROUTE_PATH ip)))))"

definition route_via_wg :: "'w env \<Rightarrow> string \<Rightarrow> (('w, 'z) db_scheme, unit) act" where
  "route_via_wg env cidr =
     andThen (run env ''ip'' [''-4'', ''route'', ''replace'', cidr, ''dev'', WG_INTERFACE]) (\<lambda>_. ret ())"

definition installAllowedIpRoutes :: "'w env \<Rightarrow> string list \<Rightarrow> (('w, 'z) db_scheme, unit) act" where
  "installAllowedIpRoutes env allowedIps = forEach (\<lambda>cidr.
     if CHR '':'' \<in> set cidr then ret ()
     else if cidr = ''0.0.0.0/0'' then
       andThen (route_via_wg env ''0.0.0.0/1'') (\<lambda>_. route_via_wg env ''128.0.0.0/1'')
     else route_via_wg env cidr) allowedIps"

definition read_file :: "'w env \<Rightarrow> string \<Rightarrow> (('w, 'z) db_scheme, string) act" where
  "read_file env path = andThen (ext_read (fs_read env path)) (\<lambda>c. case c of
     None \<Rightarrow> throw (''ENOENT: '' @ path) | Some content \<Rightarrow> ret content)"

definition cleanupRuntimeNetwork :: "'w env \<Rightarrow> (('w, 'z) db_scheme, unit) act" where
  "cleanupRuntimeNetwork env =
     andThen (ignoring (run env ''ip'' [''link'', ''delete'', ''dev'', WG_INTERFACE])) (\<lambda>_.
     andThen (ignoring
       (andThen (ext_read (fs_exists env ENDPOINT_ROUTE_PATH)) (\<lambda>present.
        cond present
          (andThen (read_file env ENDPOINT_ROUTE_PATH) (\<lambda>content.
           cond (trim content \<noteq> [])
             (ignoring (run env ''ip'' [''-4'', ''route'', ''delete'', trim content @ ''/32''])))))) ) (\<lambda>_.
     forEach (\<lambda>file. ignoring
       (andThen (ext_read (fs_exists env file)) (\<lambda>present.
        cond present (ext_try (fs_unlink env file)))))
       [CONFIG_PATH, WG_SETCONF_PATH, ENDPOINT_ROUTE_PATH]))"

subsection \<open>Profiles\<close>

definition wg_toSummary :: "wireguard_profile \<Rightarrow> wireguard_profile_summary" where
  "wg_toSummary profile =
     (let validation = validateWireguardConfig (wg_config profile) in
      \<lparr>wgs_id = wg_id profile, wgs_name = wg_name profile, wgs_address = truthy (wv_address validation),
       wgs_endpoint = truthy (wv_endpoint validation), wgs_enabled = wg_enabled profile,
       wgs_created_at = wg_created_at profile, wgs_updated_at = wg_updated_at profile\<rparr>)"

definition wg_getAllProfiles :: "(('w, 'z) db_scheme, wireguard_profile list) act" where
  "wg_getAllProfiles = gets (\<lambda>s. sort_key wg_name (t_wireguard s))"

definition wg_getAllProfileSummaries :: "(('w, 'z) db_scheme, wireguard_profile_summary list) act" where
  "wg_getAllProfileSummaries = andThen wg_getAllProfiles (\<lambda>ps. ret (map wg_toSummary ps))"

definition wg_getProfileById :: "string \<Rightarrow> (('w, 'z) db_scheme, wireguard_profile option) act" where
  "wg_getProfileById profileId = gets (\<lambda>s. find (\<lambda>r. wg_id r = profileId) (t_wireguard s))"

definition wg_createProfile ::
  "'w env \<Rightarrow> string \<Rightarrow> string \<Rightarrow> (('w, 'z) db_scheme, wireguard_profile) act" where
  \<open>wg_createProfile env name config =
     (let validation = validateWireguardConfig config in
      if \<not> wv_valid validation then throw (''Invalid WireGuard configuration: '' @ wv_error validation)
      else
      andThen (ext (randomUUID env)) (\<lambda>profileId.
      andThen (ext (Date_now env)) (\<lambda>now.
      let cleanName = trim name in
      if cleanName = [] then throw ''Profile name is required.''
      else
      andThen (run_sql t_wireguard (\<lambda>t s. s\<lparr>t_wireguard := t\<rparr>) (sql_insert wg_uniq (\<lambda>_. True)
         \<lparr>wg_id = profileId, wg_name = cleanName, wg_config = trim config, wg_enabled = 1,
          wg_created_at = now, wg_updated_at = now\<rparr>)) (\<lambda>_.
      andThen (log_info env SrcWireguard ''profile'' (''WireGuard profile "'' @ cleanName @ ''" created.'')
         (Some (JObj [(''profile_id'', JStr profileId),
            (''endpoint'', JStr (case wv_endpoint validation of Some e \<Rightarrow> e | None \<Rightarrow> []))]))) (\<lambda>_.
      andThen (wg_getProfileById profileId) (\<lambda>created. case created of
        None \<Rightarrow> throw ''WireGuard profile could not be reloaded.''
      | Some p \<Rightarrow> ret p))))))\<close>

definition wg_updateProfile ::
  "'w env \<Rightarrow> string \<Rightarrow> string option \<Rightarrow> string option \<Rightarrow> bool option \<Rightarrow> (('w, 'z) db_scheme, wireguard_profile) act" where
  \<open>wg_updateProfile env profileId name config enabled =
     andThen (wg_getProfileById profileId) (\<lambda>found. case found of
       None \<Rightarrow> throw ''WireGuard profile not found.''
     | Some existing \<Rightarrow>
     if (case config of Some c \<Rightarrow> \<not> wv_valid (validateWireguardConfig c) | None \<Rightarrow> False)
     then throw (''Invalid WireGuard configuration: '' @ wv_error (validateWireguardConfig (the config)))
     else
     let newName = set_to (map_option trim name) (wg_name existing);
         newConfig = set_to (map_option trim config) (wg_config existing);
         newEnabled = set_to (map_option (\<lambda>b. if b then 1 else 0) enabled) (wg_enabled existing)
     in
     if newName = [] then throw ''Profile name cannot be empty.''
     else
     andThen (ext (Date_now env)) (\<lambda>now.
     andThen (run_sql t_wireguard (\<lambda>t s. s\<lparr>t_wireguard := t\<rparr>)
        (sql_update wg_uniq (\<lambda>_. True) (\<lambda>r. wg_id r = profileId)
          (\<lambda>r. r\<lparr>wg_name := newName, wg_config := newConfig, wg_enabled := newEnabled, wg_updated_at := now\<rparr>))) (\<lambda>_.
     andThen (log_info env SrcWireguard ''profile'' (''WireGuard profile "'' @ newName @ ''" updated.'')
        (Some (JObj [(''profile_id'', JStr profileId)]))) (\<lambda>_.
     andThen (wg_getProfileById profileId) (\<lambda>updated. case updated of
       None \<Rightarrow> throw ''WireGuard profile could not be reloaded.''
     | Some p \<Rightarrow> ret p)))))\<close>

definition wg_deleteProfile :: "'w env \<Rightarrow> string \<Rightarrow> (('w, 'z) db_scheme, unit) act" where
  \<open>wg_deleteProfile env profileId =
     andThen (wg_getProfileById profileId) (\<lambda>found. case found of
       None \<Rightarrow> throw ''WireGuard profile not found.''
     | Some existing \<Rightarrow>
     andThen (modify (\<lambda>s. s\<lparr>t_wireguard := delete_where (\<lambda>r. wg_id r = profileId) (t_wireguard s)\<rparr>)) (\<lambda>_.
     log_warn env SrcWireguard ''profile'' (''WireGuard profile "'' @ wg_name existing @ ''" deleted.'')
       (Some (JObj [(''profile_id'', JStr profileId)]))))\<close>

subsection \<open>The tunnel\<close>

text \<open>The answers \<open>{ success: true }\<close> and \<open>{ success: false, error }\<close>.\<close>

datatype outcome = Success | Failure string

definition json_option :: "string option \<Rightarrow> json" where
  "json_option v = (case v of None \<Rightarrow> JNull | Some s \<Rightarrow> JStr s)"

definition wg_startConnection :: "'w env \<Rightarrow> wireguard_profile \<Rightarrow> (('w, 'z) db_scheme, outcome) act" where
  "wg_startConnection env profile = catch
     (andThen (ext_try (fs_mkdir env RUNTIME_DIR)) (\<lambda>_.
      andThen (cleanupRuntimeNetwork env) (\<lambda>_.
      andThen (\<lambda>s. (buildRuntimeConfig (wg_config profile), s)) (\<lambda>runtime.
      andThen (ext_try (fs_write env CONFIG_PATH (trim (wg_config profile)))) (\<lambda>_.
      andThen (ext_try (fs_write env WG_SETCONF_PATH (wr_setconf runtime))) (\<lambda>_.
      andThen (addEndpointBypassRoute env (wr_endpointHost runtime)) (\<lambda>_.
      andThen (run env ''ip'' [''link'', ''add'', WG_INTERFACE, ''type'', ''wireguard'']) (\<lambda>_.
      andThen (run env ''wg'' [''setconf'', WG_INTERFACE, WG_SETCONF_PATH]) (\<lambda>_.
      andThen (forEach (\<lambda>address.
          cond (CHR '':'' \<notin> set address)
            (andThen (run env ''ip'' [''-4'', ''address'', ''add'', address, ''dev'', WG_INTERFACE]) (\<lambda>_. ret ())))
          (wr_addresses runtime)) (\<lambda>_.
      andThen (run env ''ip'' [''link'', ''set'', ''mtu'', show_int (wr_mtu runtime), ''up'', ''dev'', WG_INTERFACE]) (\<lambda>_.
      andThen (installAllowedIpRoutes env (wr_allowedIps runtime)) (\<lambda>_.
      andThen (run env ''ip'' [''link'', ''show'', ''dev'', WG_INTERFACE]) (\<lambda>_.
      andThen (log_info env SrcWireguard ''connect''
          (''WireGuard interface '' @ WG_INTERFACE @ '' started without wg-quick policy sysctls.'')
          (Some (JObj [(''profile_id'', JStr (wg_id profile)), (''endpoint'', json_option (wr_endpointHost runtime)),
                       (''addresses'', JArr (map JStr (wr_addresses runtime)))]))) (\<lambda>_.
      ret Success))))))))))))))
     (\<lambda>e. andThen (cleanupRuntimeNetwork env) (\<lambda>_.
          ret (Failure (''WireGuard startup failed: '' @ message e))))"

definition wg_isConnectionActive :: "'w env \<Rightarrow> (('w, 'z) db_scheme, bool) act" where
  "wg_isConnectionActive env = catch
     (andThen (run env ''ip'' [''link'', ''show'', ''dev'', WG_INTERFACE]) (\<lambda>_. ret True)) (\<lambda>_. ret False)"

definition recent_line :: "int \<Rightarrow> int \<Rightarrow> string \<Rightarrow> bool" where
  "recent_line nowSeconds maxAgeSeconds line =
     (case parseInt (case truthy (Some (last (splitWs (trim line)))) of Some w \<Rightarrow> w | None \<Rightarrow> ''0'') of
        Some timestamp \<Rightarrow> timestamp > 0 \<and> nowSeconds - timestamp \<le> maxAgeSeconds
      | None \<Rightarrow> False)"

definition hasRecentHandshake :: "'w env \<Rightarrow> (('w, 'z) db_scheme, bool) act" where
  "hasRecentHandshake env = catch
     (andThen (run env ''wg'' [''show'', WG_INTERFACE, ''latest-handshakes'']) (\<lambda>stdout.
      andThen (ext (Date_now env)) (\<lambda>now.
      ret (list_ex (recent_line (int (now div 1000)) 180)
             (filter (\<lambda>l. l \<noteq> []) (splitOn LF (trim stdout)))))))
     (\<lambda>_. ret False)"

definition wg_stopConnection :: "'w env \<Rightarrow> (('w, 'z) db_scheme, outcome) act" where
  "wg_stopConnection env = catch
     (andThen (cleanupRuntimeNetwork env) (\<lambda>_. ret Success)) (\<lambda>e. ret (Failure (message e)))"

subsection \<open>Frames\<close>

lemma keeps_run [keeps_intros]: "ext_free I \<Longrightarrow> keeps I (run env c args)"
  unfolding run_def by (intro keeps_intros keeps_externals)

lemma keeps_ignoring [keeps_intros]: "keeps I m \<Longrightarrow> keeps I (ignoring m)"
  unfolding ignoring_def by (intro keeps_intros)

lemma safe_ignoring [safe_intros]: "safe (ignoring m)"
  unfolding ignoring_def by (intro safe_intros)

lemma keeps_read_file [keeps_intros]: "keeps I (read_file env f)"
  unfolding read_file_def by (intro keeps_intros)

lemma keeps_cleanupRuntimeNetwork: "ext_free I \<Longrightarrow> keeps I (cleanupRuntimeNetwork env)"
  unfolding cleanupRuntimeNetwork_def by (intro keeps_intros keeps_externals)

lemma safe_cleanupRuntimeNetwork [safe_intros]: "safe (cleanupRuntimeNetwork env)"
  unfolding cleanupRuntimeNetwork_def by (intro safe_intros)

lemma keeps_addEndpointBypassRoute: "ext_free I \<Longrightarrow> keeps I (addEndpointBypassRoute env h)"
  unfolding addEndpointBypassRoute_def resolveEndpointIpv4_def getDefaultRoute_def Let_def case_prod_unfold
  by (intro keeps_intros keeps_externals)

lemma keeps_installAllowedIpRoutes: "ext_free I \<Longrightarrow> keeps I (installAllowedIpRoutes env ips)"
  unfolding installAllowedIpRoutes_def route_via_wg_def by (intro keeps_intros keeps_externals)

lemma keeps_wg_startConnection: "log_free I \<Longrightarrow> keeps I (wg_startConnection env profile)"
  unfolding wg_startConnection_def
  by (intro keeps_intros keeps_externals keeps_cleanupRuntimeNetwork keeps_addEndpointBypassRoute
      keeps_installAllowedIpRoutes keeps_logged) (auto simp: keeps_def)

lemma keeps_wg_isConnectionActive: "ext_free I \<Longrightarrow> keeps I (wg_isConnectionActive env)"
  unfolding wg_isConnectionActive_def by (intro keeps_intros)

lemma keeps_hasRecentHandshake: "ext_free I \<Longrightarrow> keeps I (hasRecentHandshake env)"
  unfolding hasRecentHandshake_def by (intro keeps_intros keeps_externals)

lemma keeps_wg_stopConnection: "ext_free I \<Longrightarrow> keeps I (wg_stopConnection env)"
  unfolding wg_stopConnection_def by (intro keeps_intros keeps_cleanupRuntimeNetwork)

lemmas keeps_wg = keeps_wg_startConnection keeps_wg_isConnectionActive keeps_hasRecentHandshake
  keeps_wg_stopConnection

subsection \<open>What the runtime configuration keeps\<close>

definition kept_directive :: "string option \<Rightarrow> bool" where
  "kept_directive d \<longleftrightarrow> \<not> forbidden d \<and> d \<notin> {Some ''address'', Some ''dns'', Some ''table'', Some ''mtu''}"

definition wg_acc_ok :: "wg_acc \<Rightarrow> bool" where
  "wg_acc_ok acc \<longleftrightarrow> list_all (\<lambda>l. blank_or_comment (trim l) \<or> kept_directive (directiveName (trim l))) (wa_setconf acc) \<and>
     576 \<le> wa_mtu acc \<and> wa_mtu acc \<le> 9000 \<and>
     list_all (\<lambda>v. v \<noteq> []) (wa_addresses acc) \<and> list_all (\<lambda>v. v \<noteq> []) (wa_allowedIps acc)"

lemma build_line_ok: "wg_acc_ok acc \<Longrightarrow> wg_acc_ok (build_line acc l)"
  by (auto simp: build_line_def Let_def wg_acc_ok_def keep_line_def kept_directive_def listed_values_def
      list_all_iff split: option.splits)

lemma foldl_invariant: "P a \<Longrightarrow> (\<And>a x. P a \<Longrightarrow> P (f a x)) \<Longrightarrow> P (foldl f a xs)"
  by (induction xs arbitrary: a) auto

lemma build_acc_ok: "wg_acc_ok (build_acc raw)"
  unfolding build_acc_def
  by (rule foldl_invariant [of wg_acc_ok]) (simp add: wg_acc_ok_def, erule build_line_ok)

text \<open>C20: The configuration given to \<open>wg setconf\<close> has no shell hook and none of the fields that only
  wg-quick understands; it is made of lines of the profile, the interface gets at least one address and one
  route, and its MTU lies between 576 and 9000.\<close>

theorem runtime_config_safe:
  assumes "buildRuntimeConfig raw = Inr r"
  shows "\<exists>lines. wr_setconf r = trim (join [LF] lines) \<and> set lines \<subseteq> set (splitLines raw) \<and>
     (\<forall>l \<in> set lines. blank_or_comment (trim l) \<or> kept_directive (directiveName (trim l))) \<and>
     wr_addresses r \<noteq> [] \<and> wr_allowedIps r \<noteq> [] \<and> 576 \<le> wr_mtu r \<and> wr_mtu r \<le> 9000"
proof -
  have "set (wa_setconf (foldl build_line a ls)) \<subseteq> set (wa_setconf a) \<union> set ls" for a ls
  proof (induction ls arbitrary: a)
    case (Cons l ls)
    have "set (wa_setconf (build_line a l)) \<subseteq> insert l (set (wa_setconf a))"
      by (auto simp: build_line_def Let_def keep_line_def split: option.splits if_splits)
    then show ?case using Cons [of "build_line a l"] by auto
  qed simp
  from this [of _ "splitLines raw"] have "set (wa_setconf (build_acc raw)) \<subseteq> set (splitLines raw)"
    unfolding build_acc_def by (metis (no_types, lifting) empty_set sup_bot_left wg_acc.select_convs(1))
  then show ?thesis
    using assms build_acc_ok [of raw]
    by (intro exI [of _ "wa_setconf (build_acc raw)"])
      (auto simp: buildRuntimeConfig_def Let_def wg_acc_ok_def list_all_iff split: if_splits)
qed

definition demo_wg_config :: string where
  "demo_wg_config = join [LF] [''[Interface]'', ''PrivateKey = k'', ''Address=10.0.0.2/32'', ''PostUp = x'',
     ''MTU = 99999'', ''[Peer]'', ''AllowedIPs = 0.0.0.0/0, ::/0'', ''Endpoint = vpn.example:51820'']"

lemmas wg_eval = directiveName_def directiveValue_def blank_or_comment_def forbidden_def FORBIDDEN_DIRECTIVES_def
  toLowerCase_def trim_def trimStart_def trimEnd_def char_eval LF_def CR_def listed_values_def keep_line_def
  build_line_def build_acc_def endpoint_host_def bracketed_host_def regular_host_def

lemma demo_wg_lines: "splitLines demo_wg_config = [''[Interface]'', ''PrivateKey = k'', ''Address=10.0.0.2/32'',
     ''PostUp = x'', ''MTU = 99999'', ''[Peer]'', ''AllowedIPs = 0.0.0.0/0, ::/0'', ''Endpoint = vpn.example:51820'']"
  by (simp add: demo_wg_config_def LF_def CR_def char_eval)

lemma demo_wg_runtime: "\<exists>r. buildRuntimeConfig demo_wg_config = Inr r \<and> wr_endpointHost r = Some ''vpn.example''"
  by (simp add: buildRuntimeConfig_def demo_wg_lines wg_eval Let_def parseInt_def)

theorem runtime_config_safe_witness:
  "\<exists>r. buildRuntimeConfig demo_wg_config = Inr r \<and> wr_addresses r \<noteq> [] \<and> wr_mtu r \<le> 9000"
  using demo_wg_runtime runtime_config_safe by blast

text \<open>A configuration that passes validation has no hook in any line, so nothing is dropped from it for
  that reason at run time; and it does have a private key.\<close>

lemma validate_lines_no_hook:
  "wv_valid (validate_lines ls seen) \<Longrightarrow> l \<in> set ls \<Longrightarrow> blank_or_comment l \<or> \<not> forbidden (directiveName l)"
  by (induction ls seen rule: validate_lines.induct) (auto simp: invalid_wg_def split: if_splits)

theorem validated_config_has_no_hook:
  assumes "wv_valid (validateWireguardConfig raw)" and "l \<in> set (splitLines raw)"
  shows "(blank_or_comment (trim l) \<or> \<not> forbidden (directiveName (trim l))) \<and> length raw \<le> 256000"
  using assms validate_lines_no_hook [of "map trim (splitLines raw)" _ "trim l"]
  by (auto simp: validateWireguardConfig_def invalid_wg_def split: if_splits)

theorem validated_config_has_no_hook_witness:
  "blank_or_comment (trim ''MTU = 1280'') \<or> \<not> forbidden (directiveName (trim ''MTU = 1280''))"
proof -
  let ?raw = "join [LF] [''[Interface]'', ''PrivateKey = k'', ''MTU = 1280'', ''[Peer]'']"
  have lines: "splitLines ?raw = [''[Interface]'', ''PrivateKey = k'', ''MTU = 1280'', ''[Peer]'']"
    by (simp add: LF_def CR_def char_eval)
  have "wv_valid (validateWireguardConfig ?raw)"
    by (simp add: validateWireguardConfig_def lines wg_eval see_line_def invalid_wg_def Let_def)
  then show ?thesis
    using validated_config_has_no_hook [of ?raw "''MTU = 1280''"] lines by simp
qed

subsection \<open>Errors of the tunnel\<close>

text \<open>Starting and stopping the tunnel never throw: every failure of a command or of a file is
  answered as a failure, after the interface, the routes and the files have been cleaned up.\<close>

theorem wireguard_reports_failures:
  "safe (wg_startConnection env profile) \<and> safe (wg_stopConnection env) \<and> safe (wg_isConnectionActive env) \<and>
   safe (hasRecentHandshake env)"
  unfolding wg_startConnection_def wg_stopConnection_def wg_isConnectionActive_def hasRecentHandshake_def
  by (intro conjI safe_intros)

end
