(* ===== verification/Mutex.thy ===== *)
theory Mutex
  imports Main
begin

section \<open>The VPN lock\<close>

text \<open>
  The class \<open>Mutex\<close> of \<open>lib/services/vpn/vpn-manager.ts\<close>: a flag and a queue of waiting calls. A call that
  finds the flag clear enters at once; another one queues a continuation. \<open>release\<close> hands the lock to the
  first waiting call, or clears the flag. The callers follow the manager's pattern
  \<open>const release = await vpnLock.acquire(); try { ... } finally { release(); }\<close>: a call acquires once and
  releases once, while it is inside.
\<close>

record mutex =
  locked :: bool
  queue :: "nat list"

definition new_mutex :: mutex where
  "new_mutex = \<lparr>locked = False, queue = []\<rparr>"

text \<open>The answer of \<open>acquire\<close>: whether the call enters at once.\<close>

definition acquire :: "nat \<Rightarrow> mutex \<Rightarrow> bool \<times> mutex" where
  "acquire c m = (if \<not> locked m then (True, m\<lparr>locked := True\<rparr>) else (False, m\<lparr>queue := queue m @ [c]\<rparr>))"

text \<open>The answer of \<open>release\<close>: the waiting call that is resumed. The continuation sets the flag.\<close>

definition release :: "mutex \<Rightarrow> nat option \<times> mutex" where
  "release m = (case queue m of
     next # rest \<Rightarrow> (Some next, m\<lparr>queue := rest, locked := True\<rparr>)
   | [] \<Rightarrow> (None, m\<lparr>locked := False\<rparr>))"

definition isBusy :: "mutex \<Rightarrow> bool" where
  "isBusy m = locked m"

text \<open>
  The calls of the program and the lock: which calls are inside their critical section, the order in which
  calls have asked for the lock and the order in which they have got it.
\<close>

record lock_system =
  lk :: mutex
  inside :: "nat list"
  asked :: "nat list"
  got :: "nat list"

definition init_system :: lock_system where
  "init_system = \<lparr>lk = new_mutex, inside = [], asked = [], got = []\<rparr>"

inductive lock_step :: "lock_system \<Rightarrow> lock_system \<Rightarrow> bool" where
  enter: "c \<notin> set (asked s) \<Longrightarrow> acquire c (lk s) = (True, m) \<Longrightarrow>
     lock_step s (s\<lparr>lk := m, inside := c # inside s, asked := asked s @ [c], got := got s @ [c]\<rparr>)"
| wait: "c \<notin> set (asked s) \<Longrightarrow> acquire c (lk s) = (False, m) \<Longrightarrow>
     lock_step s (s\<lparr>lk := m, asked := asked s @ [c]\<rparr>)"
| leave: "c \<in> set (inside s) \<Longrightarrow> release (lk s) = (None, m) \<Longrightarrow>
     lock_step s (s\<lparr>lk := m, inside := remove1 c (inside s)\<rparr>)"
| handover: "c \<in> set (inside s) \<Longrightarrow> release (lk s) = (Some d, m) \<Longrightarrow>
     lock_step s (s\<lparr>lk := m, inside := d # remove1 c (inside s), got := got s @ [d]\<rparr>)"

inductive lock_reachable :: "lock_system \<Rightarrow> bool" where
  init: "lock_reachable init_system"
| step: "lock_reachable s \<Longrightarrow> lock_step s t \<Longrightarrow> lock_reachable t"

inductive_cases lock_step_cases: "lock_step s t"

text \<open>The invariant: who is inside and who waits, and first come, first served.\<close>

definition lock_inv :: "lock_system \<Rightarrow> bool" where
  "lock_inv s \<longleftrightarrow> (locked (lk s) \<longleftrightarrow> inside s \<noteq> []) \<and> length (inside s) \<le> 1 \<and>
     (queue (lk s) \<noteq> [] \<longrightarrow> locked (lk s)) \<and> asked s = got s @ queue (lk s) \<and> distinct (asked s) \<and>
     set (inside s) \<subseteq> set (got s)"

lemma lock_inv_init: "lock_inv init_system"
  by (simp add: lock_inv_def init_system_def new_mutex_def)

lemma lock_inv_step:
  assumes "lock_inv s" and "lock_step s t"
  shows "lock_inv t"
  using assms(2)
proof (cases rule: lock_step.cases)
  case (enter c m)
  with assms(1) show ?thesis by (auto simp: acquire_def lock_inv_def split: if_splits)
next
  case (wait c m)
  with assms(1) show ?thesis by (auto simp: acquire_def lock_inv_def split: if_splits)
next
  case (leave c m)
  with assms(1) show ?thesis
    by (cases "inside s") (auto simp: release_def lock_inv_def split: list.splits)
next
  case (handover c d m)
  with assms(1) show ?thesis
    by (cases "inside s") (auto simp: release_def lock_inv_def split: list.splits)
qed

lemma lock_inv_reachable: "lock_reachable s \<Longrightarrow> lock_inv s"
  by (induction rule: lock_reachable.induct) (auto intro: lock_inv_init lock_inv_step)

text \<open>C28: Mutual exclusion and fairness: in every reachable state at most one VPN operation is inside its
  critical section, the flag says whether one is, and the operations have got the lock in exactly the order
  in which they asked for it; those still waiting are the ones queued.\<close>

theorem vpn_lock_exclusive_and_fair:
  assumes "lock_reachable s"
  shows "length (inside s) \<le> 1 \<and> (isBusy (lk s) \<longleftrightarrow> inside s \<noteq> []) \<and> asked s = got s @ queue (lk s)"
  using lock_inv_reachable [OF assms] by (simp add: lock_inv_def isBusy_def)

definition demo_waiting :: lock_system where
  "demo_waiting = \<lparr>lk = \<lparr>locked = True, queue = [2]\<rparr>, inside = [1], asked = [1, 2], got = [1]\<rparr>"

lemma demo_waiting_reachable: "lock_reachable demo_waiting"
proof -
  have "lock_step init_system \<lparr>lk = \<lparr>locked = True, queue = []\<rparr>, inside = [1], asked = [1], got = [1]\<rparr>"
    using lock_step.enter [of 1 init_system "\<lparr>locked = True, queue = []\<rparr>"]
    by (simp add: init_system_def new_mutex_def acquire_def)
  moreover have "lock_step \<lparr>lk = \<lparr>locked = True, queue = []\<rparr>, inside = [1], asked = [1], got = [1]\<rparr> demo_waiting"
    using lock_step.wait [of 2 "\<lparr>lk = \<lparr>locked = True, queue = []\<rparr>, inside = [1], asked = [1], got = [1]\<rparr>"
      "\<lparr>locked = True, queue = [2]\<rparr>"]
    by (simp add: acquire_def demo_waiting_def)
  ultimately show ?thesis by (meson lock_reachable.intros)
qed

theorem vpn_lock_exclusive_and_fair_witness:
  "length (inside demo_waiting) \<le> 1 \<and> isBusy (lk demo_waiting) \<and> asked demo_waiting = [1] @ [2]"
  using vpn_lock_exclusive_and_fair [OF demo_waiting_reachable] by (simp add: demo_waiting_def)

text \<open>C29: No lost wake-up: while calls wait, the lock is held, and when the call inside releases it the
  first waiting call enters; nothing waits on a free lock.\<close>

theorem vpn_lock_progress:
  assumes "lock_reachable s" and "queue (lk s) = d # rest"
  shows "\<exists>c t. inside s = [c] \<and> lock_step s t \<and> inside t = [d] \<and> queue (lk t) = rest \<and> isBusy (lk t)"
proof -
  from lock_inv_reachable [OF assms(1)] have inv: "lock_inv s" .
  then have "inside s \<noteq> []" "length (inside s) \<le> 1" using assms(2) by (auto simp: lock_inv_def)
  then obtain c where c: "inside s = [c]" by (cases "inside s") auto
  let ?m = "(lk s)\<lparr>queue := rest, locked := True\<rparr>"
  have "lock_step s (s\<lparr>lk := ?m, inside := d # remove1 c (inside s), got := got s @ [d]\<rparr>)"
    by (rule lock_step.handover) (simp_all add: c release_def assms(2))
  with c show ?thesis by (intro exI) (auto simp: isBusy_def)
qed

theorem vpn_lock_progress_witness: "\<exists>t. lock_step demo_waiting t \<and> inside t = [2]"
  using vpn_lock_progress [OF demo_waiting_reachable, of 2 "[]"] by (auto simp: demo_waiting_def)

end
