(* ===== verification/Vpn_State.thy ===== *)
theory Vpn_State imports Wireguard Settings Session Mutex begin

section \<open>The VPN process state and polling loops\<close>

text \<open>
  The module-level variables of \<open>lib/services/vpn/*.ts\<close> and \<open>network-status.service.ts\<close> extend the
  process state: the child process handle of \<open>openvpn.ts\<close>, the server cache of \<open>vpngate.ts\<close>, the last
  reconcile warning and the lock of \<open>vpn-manager.ts\<close> (whether it is held; its queue is \<open>Mutex\<close>), and the
  cached network status. The deadline loops \<open>while (Date.now() < deadline)\<close> of three files share one
  definition with fuel; \<open>poll_fuel_enough\<close> shows that the fuel they get is never used up when the clock
  moves on.
\<close>

record network_status =
  ns_ip :: "string option"
  ns_country :: "string option"
  ns_region :: "string option"
  ns_city :: "string option"
  ns_location :: "string option"
  ns_server :: string
  ns_vpnStatus :: vpn_status
  ns_vpnType :: vpn_type
  ns_checkedAt :: timestamp

record network_cache =
  nc_value :: network_status
  nc_expiresAt :: timestamp

record 'w vpn = "'w app" +
  activeOpenvpnProcess :: bool
  cachedServers :: "vpngate_server list"
  lastFetchTimestamp :: timestamp
  lastReconcileWarning :: string
  lastReconcileWarningAt :: timestamp
  vpnLock_busy :: bool
  network_cache :: "network_cache option"

definition slice_last :: "nat \<Rightarrow> string \<Rightarrow> string" where
  "slice_last n s = drop (length s - n) s"

subsection \<open>Loops with a deadline\<close>

text \<open>
  \<open>body\<close> is one round: \<open>Some\<close> leaves the loop with a value. Every round of the program sleeps, so the
  clock has passed the deadline after at most \<open>deadline\<close> rounds of a clock that counts milliseconds.
\<close>

definition no_fuel :: string where "no_fuel = ''(no fuel)''"

fun poll :: "'w env \<Rightarrow> timestamp \<Rightarrow> (('w, 'z) db_scheme, 'a option) act \<Rightarrow> nat \<Rightarrow> (('w, 'z) db_scheme, 'a option) act" where
  "poll env deadline body 0 = throw no_fuel"
| "poll env deadline body (Suc n) =
     andThen (ext (Date_now env)) (\<lambda>now.
     if deadline \<le> now then ret None
     else andThen body (\<lambda>r. case r of Some x \<Rightarrow> ret (Some x) | None \<Rightarrow> poll env deadline body n))"

definition while_before ::
  "'w env \<Rightarrow> timestamp \<Rightarrow> (('w, 'z) db_scheme, 'a option) act \<Rightarrow> (('w, 'z) db_scheme, 'a option) act" where
  "while_before env deadline body = poll env deadline body (Suc deadline)"

definition sleep :: "'w env \<Rightarrow> nat \<Rightarrow> (('w, 'z) db_scheme, unit) act" where
  "sleep env ms = ext_do (sleep_ms env ms)"

text \<open>
  The law of the clock: it reads the instant of the world, the instant never goes back, sleeping takes
  at least its time, and no other call turns it back.
\<close>

definition clock_law :: "'w env \<Rightarrow> ('w \<Rightarrow> timestamp) \<Rightarrow> bool" where
  "clock_law env clk \<longleftrightarrow>
     (\<forall>w. fst (Date_now env w) = clk w \<and> clk w \<le> clk (snd (Date_now env w))) \<and>
     (\<forall>n w. clk w + n \<le> clk (sleep_ms env n w)) \<and>
     (\<forall>c a w. clk w \<le> clk (snd (execFile env c a w))) \<and>
     (\<forall>u w. clk w \<le> clk (snd (fetch env u w))) \<and>
     (\<forall>w. clk w \<le> clk (snd (randomUUID env w))) \<and>
     (\<forall>c a w. clk w \<le> clk (snd (proc_spawn env c a w)))"

text \<open>A round that does not end the loop takes time.\<close>

definition takes_time :: "('w \<Rightarrow> timestamp) \<Rightarrow> (('w, 'z) db_scheme, 'a option) act \<Rightarrow> bool" where
  "takes_time clk body \<longleftrightarrow> (\<forall>s t. body s = (Inr None, t) \<longrightarrow> clk (outer s) < clk (outer t))"

lemma clock_now: "clock_law env clk \<Longrightarrow> Date_now env w = (now, v) \<Longrightarrow> now = clk w \<and> clk w \<le> clk v"
  unfolding clock_law_def by (metis fst_conv snd_conv)

lemma poll_enough:
  assumes "clock_law env clk" and "takes_time clk body"
  shows "deadline \<le> clk (outer s) + n \<Longrightarrow>
     poll env deadline body (Suc n) s = poll env deadline body (Suc (n + k)) s"
proof (induction n arbitrary: s)
  case 0
  obtain now w where d: "Date_now env (outer s) = (now, w)" by fastforce
  with clock_now [OF assms(1) d] 0 show ?case by (simp add: andThen_run ext_def)
next
  case (Suc n)
  obtain now w where d: "Date_now env (outer s) = (now, w)" by fastforce
  note c = clock_now [OF assms(1) d]
  obtain r t where b: "body (s\<lparr>outer := w\<rparr>) = (r, t)" by fastforce
  show ?case
  proof (cases "r = Inr None")
    case True
    then have "clk w < clk (outer t)"
      using assms(2) b unfolding takes_time_def by fastforce
    then have "deadline \<le> clk (outer t) + n" using Suc.prems c by linarith
    from Suc.IH [OF this] show ?thesis
      using True b d by (simp add: andThen_run ext_def)
  next
    case False
    with b d show ?thesis
      by (cases r) (auto simp: andThen_run ext_def split: option.splits)
  qed
qed

lemma while_before_fuel:
  assumes "clock_law env clk" and "takes_time clk body"
  shows "while_before env deadline body s = poll env deadline body (Suc (deadline + k)) s"
  unfolding while_before_def by (rule poll_enough [OF assms]) simp

lemma keeps_poll [keeps_intros]:
  assumes "keeps I (ext (Date_now env))" and "keeps I body"
  shows "keeps I (poll env deadline body n)"
  by (induction n) (simp_all only: poll.simps, (intro keeps_intros assms | assumption)+)

lemma keeps_while_before:
  "ext_free I \<Longrightarrow> keeps I body \<Longrightarrow> keeps I (while_before env deadline body)"
  unfolding while_before_def by (intro keeps_poll keeps_ext)

lemma keeps_sleep: "ext_free I \<Longrightarrow> keeps I (sleep env ms)"
  unfolding sleep_def by (rule keeps_ext_do)

lemma safe_sleep [safe_intros]: "safe (sleep env ms)"
  unfolding sleep_def by (rule safe_ext_do)

subsection \<open>Calls and the clock\<close>

text \<open>The clock has not gone back behind \<open>c\<close>: the calls of the loop bodies keep this.\<close>

definition past :: "('w \<Rightarrow> timestamp) \<Rightarrow> timestamp \<Rightarrow> ('w, 'z) db_scheme \<Rightarrow> bool" where
  "past clk c s \<longleftrightarrow> c \<le> clk (outer s)"

lemma past_ext: "(\<And>w. clk w \<le> clk (snd (f w))) \<Longrightarrow> keeps (past clk c) (ext f)"
  by (auto simp: keeps_def past_def ext_run intro: order_trans)

lemma past_ext_try: "(\<And>w. clk w \<le> clk (snd (f w))) \<Longrightarrow> keeps (past clk c) (ext_try f)"
  unfolding keeps_def past_def ext_try_def
  by (auto split: prod.splits sum.splits) (metis order_trans snd_conv)+

lemma clock_sleep: "clock_law env clk \<Longrightarrow> clk w + ms \<le> clk (sleep_ms env ms w)"
  by (simp add: clock_law_def)

lemma past_sleep: "clock_law env clk \<Longrightarrow> keeps (past clk c) (sleep env ms)"
  unfolding keeps_def past_def sleep_def
  by (auto dest: clock_sleep [of env clk _ ms] intro: order_trans add_leD1)

lemma past_now: "clock_law env clk \<Longrightarrow> keeps (past clk c) (ext (Date_now env))"
  by (rule past_ext) (simp add: clock_law_def)

lemma past_fetch: "clock_law env clk \<Longrightarrow> keeps (past clk c) (ext (fetch env u))"
  by (rule past_ext) (simp add: clock_law_def)

lemma past_exec: "clock_law env clk \<Longrightarrow> keeps (past clk c) (ext_try (execFile env p a))"
  by (rule past_ext_try) (simp add: clock_law_def)

lemma past_spawn: "clock_law env clk \<Longrightarrow> keeps (past clk c) (ext_try (proc_spawn env p a))"
  by (rule past_ext_try) (simp add: clock_law_def)

lemma past_run: "clock_law env clk \<Longrightarrow> keeps (past clk c) (run env p a)"
  unfolding run_def by (intro keeps_intros past_exec)

lemmas past_intros = past_now past_sleep past_fetch past_exec past_spawn past_run

text \<open>A round that sleeps first, or last.\<close>

lemma takes_time_sleep_first:
  assumes "clock_law env clk" and "0 < ms" and "\<And>c. keeps (past clk c) m"
  shows "takes_time clk (andThen (sleep env ms) (\<lambda>_. m))"
  unfolding takes_time_def
proof (intro allI impI)
  fix s t
  assume run: "andThen (sleep env ms) (\<lambda>_. m) s = (Inr None, t)"
  let ?u = "s\<lparr>outer := sleep_ms env ms (outer s)\<rparr>"
  have later: "clk (outer s) < clk (outer ?u)"
    using clock_sleep [OF assms(1), of "outer s" ms] assms(2) by simp
  have "past clk (clk (outer ?u)) t"
    by (rule keepsD_run [OF assms(3), of _ ?u]) (use run in \<open>simp_all add: past_def andThen_run sleep_def\<close>)
  with later show "clk (outer s) < clk (outer t)" by (simp add: past_def)
qed

lemma takes_time_sleep_last:
  assumes "clock_law env clk" and "0 < ms" and "\<And>c. keeps (past clk c) m"
    and "\<And>x. f x = andThen (sleep env ms) (\<lambda>_. ret None) \<or> (\<forall>s t. f x s \<noteq> (Inr None, t))"
  shows "takes_time clk (andThen m f)"
  unfolding takes_time_def
proof (intro allI impI)
  fix s t
  assume run: "andThen m f s = (Inr None, t)"
  then obtain x u where m: "m s = (Inr x, u)" and fx: "f x u = (Inr None, t)" by (elim run_elims)
  have "past clk (clk (outer s)) u"
    by (rule keepsD_run [OF assms(3) _ m]) (simp add: past_def)
  moreover have "t = u\<lparr>outer := sleep_ms env ms (outer u)\<rparr>"
    using assms(4) [of x] fx by (auto simp: andThen_run sleep_def)
  ultimately show "clk (outer s) < clk (outer t)"
    using clock_sleep [OF assms(1), of "outer u" ms] assms(2) by (simp add: past_def)
qed

lemma demo_clock: "clock_law demo_env (\<lambda>w. w)"
  by (simp add: clock_law_def) (simp add: demo_env_def)

end
