(* ===== verification/Openvpn.thy ===== *)
theory Openvpn imports Vpn_State begin

section \<open>OpenVPN\<close>

text \<open>
  \<open>lib/services/vpn/openvpn.ts\<close>: validation of profiles, the configuration given to the process, the
  stored profiles, and starting, watching and stopping the process.
\<close>

definition OV_RUNTIME_DIR :: string where "OV_RUNTIME_DIR = ''/tmp/vpn/openvpn''"
definition PID_FILE :: string where "PID_FILE = path_join OV_RUNTIME_DIR ''openvpn.pid''"
definition LOG_FILE :: string where "LOG_FILE = path_join OV_RUNTIME_DIR ''openvpn.log''"
definition CONFIG_FILE :: string where "CONFIG_FILE = path_join OV_RUNTIME_DIR ''client.ovpn''"
definition AUTH_FILE :: string where "AUTH_FILE = path_join OV_RUNTIME_DIR ''auth.txt''"

definition EXECUTION_DIRECTIVES :: "string list" where
  "EXECUTION_DIRECTIVES = [''up'', ''down'', ''route-up'', ''ipchange'', ''client-connect'',
     ''client-disconnect'', ''learn-address'', ''auth-user-pass-verify'', ''tls-verify'', ''plugin'']"

definition MANAGED_DIRECTIVES :: "string list" where
  "MANAGED_DIRECTIVES = [''auth-user-pass'', ''script-security'', ''daemon'', ''writepid'', ''log'',
     ''log-append'', ''status'', ''management'', ''management-client'', ''management-query-passwords'',
     ''management-hold'', ''cd'', ''chroot'', ''user'', ''group'']"

record ov_validation =
  ovv_valid :: bool
  ovv_error :: "string option"
  ovv_remotes :: "string list"
  ovv_proto :: "string option"
  ovv_dev :: "string option"

definition firstToken :: "string \<Rightarrow> string" where
  "firstToken line = toLowerCase (hd (splitWs (trim line)))"

definition ov_skipped :: "string \<Rightarrow> bool" where
  "ov_skipped line = (line = [] \<or> startsWith line ''#'' \<or> startsWith line '';'' \<or> startsWith line ''<'')"

text \<open>\<open>parts[i]\<close> where it is a text that is not empty.\<close>

definition part :: "string list \<Rightarrow> nat \<Rightarrow> string option" where
  "part parts i = truthy (nth_opt parts i)"

record ov_seen =
  os_remotes :: "string list"
  os_proto :: string
  os_dev :: string

definition ov_see_line :: "string \<Rightarrow> ov_seen \<Rightarrow> ov_seen" where
  "ov_see_line line seen =
     (let parts = splitWs line; directive = toLowerCase (hd parts) in
      case part parts 1 of
        None \<Rightarrow> seen
      | Some arg \<Rightarrow>
          if directive = ''remote'' then
            seen\<lparr>os_remotes := os_remotes seen @
              [arg @ '':'' @ (case part parts 2 of Some port \<Rightarrow> port | None \<Rightarrow> ''1194'')]\<rparr>
          else if directive = ''proto'' then seen\<lparr>os_proto := toLowerCase arg\<rparr>
          else if directive = ''dev'' then seen\<lparr>os_dev := toLowerCase arg\<rparr>
          else seen)"

text \<open>The loop over the trimmed lines: \<open>Inl\<close> is the early return.\<close>

fun ov_lines :: "string list \<Rightarrow> ov_seen \<Rightarrow> ov_validation + ov_seen" where
  "ov_lines [] seen = Inr seen"
| "ov_lines (line # lines) seen =
     (if ov_skipped line then ov_lines lines seen
      else
        let directive = toLowerCase (hd (splitWs line)) in
        if directive \<in> set EXECUTION_DIRECTIVES then
          Inl \<lparr>ovv_valid = False,
               ovv_error = Some (''OpenVPN directive '' @ [CHR 0x22] @ directive @ [CHR 0x22] @
                 '' is not allowed because profiles may not execute external commands or plugins.''),
               ovv_remotes = os_remotes seen, ovv_proto = None, ovv_dev = None\<rparr>
        else ov_lines lines (ov_see_line line seen))"

definition validateOpenvpnConfig :: "string \<Rightarrow> ov_validation" where
  "validateOpenvpnConfig rawConfig =
     (if length rawConfig > 1000000 then
        \<lparr>ovv_valid = False, ovv_error = Some ''OpenVPN configuration is too large.'', ovv_remotes = [],
         ovv_proto = None, ovv_dev = None\<rparr>
      else
        case ov_lines (map trim (splitLines rawConfig)) \<lparr>os_remotes = [], os_proto = ''udp'', os_dev = ''tun''\<rparr> of
          Inl early \<Rightarrow> early
        | Inr seen \<Rightarrow>
            if os_remotes seen = [] \<and> \<not> includesStr rawConfig ''<connection>'' then
              \<lparr>ovv_valid = False, ovv_error = Some ''Configuration does not specify a remote server endpoint.'',
               ovv_remotes = os_remotes seen, ovv_proto = None, ovv_dev = None\<rparr>
            else if \<not> startsWith (os_dev seen) ''tun'' then
              \<lparr>ovv_valid = False, ovv_error = Some ''Only TUN-mode OpenVPN profiles are supported.'',
               ovv_remotes = os_remotes seen, ovv_proto = Some (os_proto seen), ovv_dev = Some (os_dev seen)\<rparr>
            else
              \<lparr>ovv_valid = True, ovv_error = None, ovv_remotes = os_remotes seen,
               ovv_proto = Some (os_proto seen), ovv_dev = Some (os_dev seen)\<rparr>)"

definition ov_kept_line :: "string \<Rightarrow> bool" where
  "ov_kept_line rawLine =
     (let line = trim rawLine in
      ov_skipped line \<or>
      (firstToken line \<notin> set EXECUTION_DIRECTIVES \<and> firstToken line \<notin> set MANAGED_DIRECTIVES))"

definition sanitizeRuntimeConfig :: "string \<Rightarrow> string" where
  "sanitizeRuntimeConfig rawConfig = trim (join [LF] (filter ov_kept_line (splitLines rawConfig)))"

definition ov_rowToProfile :: "bool \<Rightarrow> openvpn_profile \<Rightarrow> openvpn_profile" where
  "ov_rowToProfile includePassword row = row\<lparr>
     ov_username := truthy (ov_username row),
     ov_password := map_option (\<lambda>p. if includePassword then p else MASK) (truthy (ov_password row))\<rparr>"

definition readLogTail :: "'w env \<Rightarrow> nat \<Rightarrow> (('w, 'z) db_scheme, string) act" where
  "readLogTail env maximum = catch
     (andThen (ext_read (fs_exists env LOG_FILE)) (\<lambda>present.
      if \<not> present then ret []
      else andThen (read_file env LOG_FILE) (\<lambda>content. ret (slice_last maximum content))))
     (\<lambda>_. ret [])"

definition pidIsAlive :: "'w env \<Rightarrow> int \<Rightarrow> (('w, 'z) db_scheme, bool) act" where
  "pidIsAlive env pid = ext_read (proc_alive env pid)"

text \<open>A missing file is not an error: Node's message of a system error begins with its code.\<close>

definition removeRuntimeFile :: "'w env \<Rightarrow> string \<Rightarrow> (('w, 'z) db_scheme, unit) act" where
  "removeRuntimeFile env file = (\<lambda>s. case ext_try (fs_unlink env file) s of
      (Inl e, t) \<Rightarrow> if startsWith (message e) ''ENOENT'' then (Inr (), t) else (Inl e, t)
    | (Inr x, t) \<Rightarrow> (Inr x, t))"

subsection \<open>Profiles\<close>

definition ov_toSummary :: "openvpn_profile \<Rightarrow> openvpn_profile_summary" where
  "ov_toSummary profile =
     (let validation = validateOpenvpnConfig (ov_config profile) in
      \<lparr>ovs_id = ov_id profile, ovs_name = ov_name profile, ovs_remotes = take 3 (ovv_remotes validation),
       ovs_proto = truthy (ovv_proto validation), ovs_dev = truthy (ovv_dev validation),
       ovs_hasCredentials = (truthy (ov_username profile) \<noteq> None \<or> truthy (ov_password profile) \<noteq> None),
       ovs_source = ov_source profile, ovs_enabled = ov_enabled profile,
       ovs_created_at = ov_created_at profile, ovs_updated_at = ov_updated_at profile\<rparr>)"

definition ov_getAllProfiles :: "bool \<Rightarrow> (('w, 'z) db_scheme, openvpn_profile list) act" where
  "ov_getAllProfiles includePassword =
     gets (\<lambda>s. map (ov_rowToProfile includePassword) (sort_key ov_name (t_openvpn s)))"

definition ov_getAllProfileSummaries :: "(('w, 'z) db_scheme, openvpn_profile_summary list) act" where
  "ov_getAllProfileSummaries = andThen (ov_getAllProfiles False) (\<lambda>ps. ret (map ov_toSummary ps))"

definition ov_getProfileById :: "string \<Rightarrow> bool \<Rightarrow> (('w, 'z) db_scheme, openvpn_profile option) act" where
  "ov_getProfileById profileId includePassword =
     gets (\<lambda>s. map_option (ov_rowToProfile includePassword) (find (\<lambda>r. ov_id r = profileId) (t_openvpn s)))"

record openvpn_input =
  oi_name :: string
  oi_config :: string
  oi_username :: "string option"
  oi_password :: "string option"
  oi_source :: "openvpn_source option"

definition source_json :: "openvpn_source \<Rightarrow> json" where
  "source_json src = JStr (case src of Uploaded \<Rightarrow> ''uploaded'' | Vpngate \<Rightarrow> ''vpngate'')"

definition ov_createProfile :: "'w env \<Rightarrow> openvpn_input \<Rightarrow> (('w, 'z) db_scheme, openvpn_profile) act" where
  \<open>ov_createProfile env inp =
     (let validation = validateOpenvpnConfig (oi_config inp) in
      if \<not> ovv_valid validation then
        throw (''Invalid OpenVPN configuration: '' @ the (ovv_error validation))
      else
      andThen (ext (randomUUID env)) (\<lambda>profileId.
      andThen (ext (Date_now env)) (\<lambda>now.
      let name = trim (oi_name inp);
          src = (case oi_source inp of Some s \<Rightarrow> s | None \<Rightarrow> Uploaded) in
      if name = [] then throw ''Profile name is required.''
      else
      andThen (run_sql t_openvpn (\<lambda>t s. s\<lparr>t_openvpn := t\<rparr>) (sql_insert ov_uniq (\<lambda>_. True)
         \<lparr>ov_id = profileId, ov_name = name, ov_config = trim (oi_config inp),
          ov_username = truthy (map_option trim (oi_username inp)), ov_password = truthy (oi_password inp),
          ov_source = src, ov_enabled = 1, ov_created_at = now, ov_updated_at = now\<rparr>)) (\<lambda>_.
      andThen (log_info env SrcOpenvpn ''profile'' (''OpenVPN profile "'' @ name @ ''" created.'')
         (Some (JObj [(''profile_id'', JStr profileId), (''source'', source_json src),
            (''remotes'', JArr (map JStr (ovv_remotes validation)))]))) (\<lambda>_.
      andThen (ov_getProfileById profileId True) (\<lambda>created. case created of
        None \<Rightarrow> throw ''OpenVPN profile could not be reloaded.''
      | Some p \<Rightarrow> ret p))))))\<close>

record openvpn_patch =
  op_name :: "string option"
  op_config :: "string option"
  op_username :: "string option option"
  op_password :: "string option option"
  op_enabled :: "bool option"

definition patched_password :: "openvpn_profile \<Rightarrow> string option option \<Rightarrow> string option" where
  "patched_password existing change = (case change of
     None \<Rightarrow> ov_password existing
   | Some p \<Rightarrow> if p = Some MASK then ov_password existing else p)"

definition ov_updateProfile ::
  "'w env \<Rightarrow> string \<Rightarrow> openvpn_patch \<Rightarrow> (('w, 'z) db_scheme, openvpn_profile) act" where
  \<open>ov_updateProfile env profileId inp =
     andThen (ov_getProfileById profileId True) (\<lambda>found. case found of
       None \<Rightarrow> throw ''OpenVPN profile not found.''
     | Some existing \<Rightarrow>
     if (case op_config inp of Some c \<Rightarrow> \<not> ovv_valid (validateOpenvpnConfig c) | None \<Rightarrow> False)
     then throw (''Invalid OpenVPN configuration: '' @ the (ovv_error (validateOpenvpnConfig (the (op_config inp)))))
     else
     let name = set_to (map_option trim (op_name inp)) (ov_name existing);
         config = set_to (map_option trim (op_config inp)) (ov_config existing);
         username = (case op_username inp of Some u \<Rightarrow> truthy (map_option trim u) | None \<Rightarrow> ov_username existing);
         password = patched_password existing (op_password inp);
         enabled = set_to (map_option (\<lambda>b. if b then 1 else 0) (op_enabled inp)) (ov_enabled existing)
     in
     if name = [] then throw ''Profile name cannot be empty.''
     else
     andThen (ext (Date_now env)) (\<lambda>now.
     andThen (run_sql t_openvpn (\<lambda>t s. s\<lparr>t_openvpn := t\<rparr>)
        (sql_update ov_uniq (\<lambda>_. True) (\<lambda>r. ov_id r = profileId)
          (\<lambda>r. r\<lparr>ov_name := name, ov_config := config, ov_username := username, ov_password := password,
                 ov_enabled := enabled, ov_updated_at := now\<rparr>))) (\<lambda>_.
     andThen (log_info env SrcOpenvpn ''profile'' (''OpenVPN profile "'' @ name @ ''" updated.'')
        (Some (JObj [(''profile_id'', JStr profileId)]))) (\<lambda>_.
     andThen (ov_getProfileById profileId True) (\<lambda>updated. case updated of
       None \<Rightarrow> throw ''OpenVPN profile could not be reloaded.''
     | Some p \<Rightarrow> ret p)))))\<close>

definition ov_deleteProfile :: "'w env \<Rightarrow> string \<Rightarrow> (('w, 'z) db_scheme, unit) act" where
  \<open>ov_deleteProfile env profileId =
     andThen (ov_getProfileById profileId False) (\<lambda>found. case found of
       None \<Rightarrow> throw ''OpenVPN profile not found.''
     | Some existing \<Rightarrow>
     andThen (modify (\<lambda>s. s\<lparr>t_openvpn := delete_where (\<lambda>r. ov_id r = profileId) (t_openvpn s)\<rparr>)) (\<lambda>_.
     log_warn env SrcOpenvpn ''profile'' (''OpenVPN profile "'' @ ov_name existing @ ''" deleted.'')
       (Some (JObj [(''profile_id'', JStr profileId)]))))\<close>

subsection \<open>The process\<close>

text \<open>
  \<open>Number(value)\<close> of an environment variable: the model covers decimal integers, blank texts (zero) and
  treats every other text as \<open>NaN\<close>. \<open>None\<close> is \<open>NaN\<close>, and a deadline of \<open>NaN\<close> ends a loop before its
  first round.
\<close>

definition Number_text :: "string \<Rightarrow> int option" where
  "Number_text v =
     (let t = trim v; u = (if startsWith t ''-'' \<or> startsWith t ''+'' then drop 1 t else t) in
      if t = [] then Some 0 else if u \<noteq> [] \<and> list_all is_digit u then parseInt t else None)"

definition connect_timeout :: "'w env \<Rightarrow> nat option" where
  "connect_timeout env = (case truthy (getenv env ''VPN_CONNECT_TIMEOUT_SECONDS'') of
     None \<Rightarrow> Some 45
   | Some v \<Rightarrow> map_option (\<lambda>n. nat (max 10 (min 120 n))) (Number_text v))"

definition READY_TEXT :: string where "READY_TEXT = ''Initialization Sequence Completed''"

definition failure_texts :: "string list" where
  "failure_texts = map toLowerCase [''AUTH_FAILED'', ''Options error:'', ''Exiting due to fatal error'',
     ''Cannot load'', ''Error opening configuration'', ''TLS Error: TLS key negotiation failed'']"

definition reports_failure :: "string \<Rightarrow> bool" where
  "reports_failure tail = list_ex (includesStr (toLowerCase tail)) failure_texts"

definition tail_or :: "string \<Rightarrow> string \<Rightarrow> string" where
  "tail_or tail fallback = (if slice_last 1500 tail = [] then fallback else slice_last 1500 tail)"

text \<open>One round after the sleep: what the process has reported so far.\<close>

definition watch_process :: "'w env \<Rightarrow> (('w, 'z) db_scheme, outcome option) act" where
  "watch_process env =
     andThen (ext_read (proc_spawn_error env)) (\<lambda>spawnError. case truthy spawnError of
       Some e \<Rightarrow> ret (Some (Failure (''Unable to launch OpenVPN: '' @ e)))
     | None \<Rightarrow>
     andThen (readLogTail env 4000) (\<lambda>tail.
     if includesStr tail READY_TEXT then ret (Some Success)
     else if reports_failure tail then
       ret (Some (Failure (tail_or tail ''OpenVPN reported a connection failure.'')))
     else
     andThen (ext_read (fs_exists env PID_FILE)) (\<lambda>present.
     if \<not> present then ret None
     else
     andThen (read_file env PID_FILE) (\<lambda>content. case parseInt (trim content) of
       None \<Rightarrow> ret None
     | Some pid \<Rightarrow>
     andThen (pidIsAlive env pid) (\<lambda>alive.
     ret (if alive then None
          else Some (Failure (tail_or tail ''OpenVPN process exited before connecting.''))))))))"

definition ov_round :: "'w env \<Rightarrow> (('w, 'z) db_scheme, outcome option) act" where
  "ov_round env = andThen (sleep env 500) (\<lambda>_. watch_process env)"

definition openvpn_args :: "bool \<Rightarrow> string list" where
  "openvpn_args credentials = [''--config'', CONFIG_FILE, ''--writepid'', PID_FILE, ''--log'', LOG_FILE,
     ''--script-security'', ''1'', ''--auth-nocache'', ''--connect-retry-max'', ''2'', ''--connect-timeout'', ''10''] @
     (if credentials then [''--auth-user-pass'', AUTH_FILE] else [])"

definition ov_startConnection :: "'w env \<Rightarrow> openvpn_profile \<Rightarrow> (('w, 'z) vpn_scheme, outcome) act" where
  "ov_startConnection env profile = catch
     (andThen (ext_try (fs_mkdir env OV_RUNTIME_DIR)) (\<lambda>_.
      andThen (forEach (removeRuntimeFile env) [PID_FILE, LOG_FILE, CONFIG_FILE, AUTH_FILE]) (\<lambda>_.
      andThen (ext_try (fs_write env CONFIG_FILE (sanitizeRuntimeConfig (ov_config profile)))) (\<lambda>_.
      let credentials = (case (truthy (ov_username profile), truthy (ov_password profile)) of
            (Some u, Some p) \<Rightarrow> Some (u @ [LF] @ p @ [LF]) | _ \<Rightarrow> None) in
      andThen (case credentials of
          Some content \<Rightarrow> ext_try (fs_write env AUTH_FILE content) | None \<Rightarrow> ret ()) (\<lambda>_.
      andThen (ext_try (proc_spawn env ''openvpn'' (openvpn_args (credentials \<noteq> None)))) (\<lambda>_.
      andThen (modify (\<lambda>s. s\<lparr>activeOpenvpnProcess := True\<rparr>)) (\<lambda>_.
      andThen (ext (Date_now env)) (\<lambda>now.
      andThen (case connect_timeout env of
          None \<Rightarrow> ret None
        | Some seconds \<Rightarrow> while_before env (now + seconds * 1000) (ov_round env)) (\<lambda>result.
      case result of
        Some r \<Rightarrow> ret r
      | None \<Rightarrow>
          andThen (readLogTail env 1000) (\<lambda>tail.
          ret (Failure (trim (''OpenVPN did not become ready within '' @
            (case connect_timeout env of Some seconds \<Rightarrow> show_nat seconds | None \<Rightarrow> ''NaN'') @
            '' seconds. '' @ tail)))))))))))))
     (\<lambda>e. ret (Failure (message e)))"

definition ov_isConnectionActive :: "'w env \<Rightarrow> (('w, 'z) db_scheme, bool) act" where
  "ov_isConnectionActive env = catch
     (andThen (ext_read (fs_exists env PID_FILE)) (\<lambda>present.
      if \<not> present then ret False
      else andThen (read_file env PID_FILE) (\<lambda>content. case parseInt (trim content) of
        None \<Rightarrow> ret False
      | Some pid \<Rightarrow>
      andThen (pidIsAlive env pid) (\<lambda>alive.
      if \<not> alive then ret False
      else andThen (readLogTail env 4000) (\<lambda>tail. ret (includesStr tail READY_TEXT))))))
     (\<lambda>_. ret False)"

definition wait_for_exit :: "'w env \<Rightarrow> int \<Rightarrow> (('w, 'z) db_scheme, unit option) act" where
  "wait_for_exit env pid =
     andThen (pidIsAlive env pid) (\<lambda>alive.
     if \<not> alive then ret (Some ()) else andThen (sleep env 150) (\<lambda>_. ret None))"

definition terminate_pid :: "'w env \<Rightarrow> int \<Rightarrow> (('w, 'z) db_scheme, unit) act" where
  "terminate_pid env pid =
     andThen (pidIsAlive env pid) (\<lambda>alive.
     cond alive
       (andThen (ext_do (proc_kill env ''SIGTERM'' (Some pid))) (\<lambda>_.
        andThen (ext (Date_now env)) (\<lambda>now.
        andThen (while_before env (now + 3000) (wait_for_exit env pid)) (\<lambda>_.
        andThen (pidIsAlive env pid) (\<lambda>still.
        cond still (ext_do (proc_kill env ''SIGKILL'' (Some pid)))))))))"

definition ov_stopConnection :: "'w env \<Rightarrow> (('w, 'z) vpn_scheme, outcome) act" where
  "ov_stopConnection env = catch
     (andThen (gets activeOpenvpnProcess) (\<lambda>active.
      andThen (cond active
          (andThen (ext_do (proc_kill env ''SIGTERM'' None)) (\<lambda>_.
           modify (\<lambda>s. s\<lparr>activeOpenvpnProcess := False\<rparr>)))) (\<lambda>_.
      andThen (ext_read (fs_exists env PID_FILE)) (\<lambda>present.
      andThen (cond present
          (andThen (read_file env PID_FILE) (\<lambda>content. case parseInt (trim content) of
             None \<Rightarrow> ret () | Some pid \<Rightarrow> terminate_pid env pid))) (\<lambda>_.
      andThen (forEach (removeRuntimeFile env) [PID_FILE, CONFIG_FILE, AUTH_FILE]) (\<lambda>_.
      ret Success))))))
     (\<lambda>e. ret (Failure (message e)))"

subsection \<open>Frames\<close>

text \<open>A predicate that does not look at the variables of the VPN services either.\<close>

definition vpn_free :: "(('w, 'z) vpn_scheme \<Rightarrow> bool) \<Rightarrow> bool" where
  "vpn_free I \<longleftrightarrow> log_free I \<and> (\<forall>s x. I (s\<lparr>activeOpenvpnProcess := x\<rparr>) = I s) \<and>
     (\<forall>s x. I (s\<lparr>cachedServers := x\<rparr>) = I s) \<and> (\<forall>s x. I (s\<lparr>lastFetchTimestamp := x\<rparr>) = I s) \<and>
     (\<forall>s x. I (s\<lparr>lastReconcileWarning := x\<rparr>) = I s) \<and> (\<forall>s x. I (s\<lparr>lastReconcileWarningAt := x\<rparr>) = I s) \<and>
     (\<forall>s x. I (s\<lparr>network_cache := x\<rparr>) = I s)"

lemma vpn_free_log [intro]: "vpn_free I \<Longrightarrow> log_free I"
  by (simp add: vpn_free_def)

lemma vpn_free_ext [intro]: "vpn_free I \<Longrightarrow> ext_free I"
  by (auto simp: vpn_free_def)

lemma vpn_free_db_inv: "vpn_free db_inv"
  using log_free_db_inv by (simp add: vpn_free_def db_inv_def)

lemma keeps_readLogTail [keeps_intros]: "keeps I (readLogTail env n)"
  unfolding readLogTail_def by (intro keeps_intros)

lemma safe_readLogTail [safe_intros]: "safe (readLogTail env n)"
  unfolding readLogTail_def by (intro safe_intros)

lemma keeps_pidIsAlive [keeps_intros]: "keeps I (pidIsAlive env p)"
  unfolding pidIsAlive_def by (intro keeps_intros)

lemma keeps_removeRuntimeFile: "ext_free I \<Longrightarrow> keeps I (removeRuntimeFile env f)"
  using keeps_ext_try [of I "fs_unlink env f"]
  by (auto simp: removeRuntimeFile_def keeps_def split: prod.splits sum.splits)

lemma keeps_watch_process [keeps_intros]: "keeps I (watch_process env)"
  unfolding watch_process_def by (intro keeps_intros)

lemma keeps_ov_round: "ext_free I \<Longrightarrow> keeps I (ov_round env)"
  unfolding ov_round_def by (intro keeps_intros keeps_sleep)

lemma keeps_wait_for_exit: "ext_free I \<Longrightarrow> keeps I (wait_for_exit env p)"
  unfolding wait_for_exit_def by (intro keeps_intros keeps_sleep)

lemma keeps_terminate_pid: "ext_free I \<Longrightarrow> keeps I (terminate_pid env p)"
  unfolding terminate_pid_def
  by (intro keeps_intros keeps_externals keeps_while_before keeps_wait_for_exit)

lemma keeps_ov_startConnection:
  assumes "vpn_free I"
  shows "keeps I (ov_startConnection env p)"
proof -
  note e = vpn_free_ext [OF assms]
  have "keeps I (modify (\<lambda>s. s\<lparr>activeOpenvpnProcess := True\<rparr>))"
    using assms by (intro keeps_modify) (simp add: vpn_free_def)
  then show ?thesis
    unfolding ov_startConnection_def Let_def
    by (intro keeps_intros keeps_externals [OF e] keeps_while_before [OF e] keeps_ov_round [OF e]
        keeps_removeRuntimeFile [OF e])
qed

lemma keeps_ov_isConnectionActive [keeps_intros]: "keeps I (ov_isConnectionActive env)"
  unfolding ov_isConnectionActive_def by (intro keeps_intros)

lemma keeps_ov_stopConnection:
  assumes "vpn_free I"
  shows "keeps I (ov_stopConnection env)"
proof -
  note e = vpn_free_ext [OF assms]
  have "keeps I (modify (\<lambda>s. s\<lparr>activeOpenvpnProcess := False\<rparr>))"
    using assms by (intro keeps_modify) (simp add: vpn_free_def)
  then show ?thesis
    unfolding ov_stopConnection_def
    by (intro keeps_intros keeps_externals [OF e] keeps_terminate_pid [OF e] keeps_removeRuntimeFile [OF e])
qed

lemmas keeps_openvpn = keeps_ov_startConnection keeps_ov_isConnectionActive keeps_ov_stopConnection

subsection \<open>The configuration given to the process\<close>

lemma splitOn_snoc: "splitOn d (t @ [c]) = (if c = d then splitOn d t @ [[]]
      else butlast (splitOn d t) @ [last (splitOn d t) @ [c]])"
  by (induction t) (auto split: list.splits simp: butlast_append)

lemma trim_drop_ws: "is_ws c \<Longrightarrow> trim (c # l) = trim l"
  by (simp add: trim_def trimStart_def)

lemma trimEnd_snoc_ws: "is_ws c \<Longrightarrow> trimEnd (l @ [c]) = trimEnd l"
  by (simp add: trimEnd_def)

lemma trim_snoc_ws: "is_ws c \<Longrightarrow> trim (l @ [c]) = trim l"
  unfolding trim_def trimStart_def
  by (cases "\<forall>x \<in> set l. is_ws x") (auto simp: dropWhile_append trimEnd_snoc_ws dropWhile_eq_Nil_conv [THEN iffD2])

lemma split_trimStart:
  "l \<in> set (splitOn LF (trimStart s)) \<Longrightarrow> \<exists>m \<in> set (splitOn LF s). trim l = trim m"
proof (induction s)
  case (Cons c s)
  show ?case
  proof (cases "is_ws c")
    case True
    then have "l \<in> set (splitOn LF (trimStart s))" using Cons.prems by (simp add: trimStart_def)
    from Cons.IH [OF this] obtain m where m: "m \<in> set (splitOn LF s)" "trim l = trim m" by blast
    then show ?thesis using True trim_drop_ws [of c]
      by (cases "splitOn LF s") auto
  qed (use Cons.prems in \<open>auto simp: trimStart_def\<close>)
qed auto

lemma split_trimEnd:
  "l \<in> set (splitOn LF (trimEnd s)) \<Longrightarrow> \<exists>m \<in> set (splitOn LF s). trim l = trim m"
proof (induction s rule: rev_induct)
  case (snoc c s)
  show ?case
  proof (cases "is_ws c")
    case True
    then have "l \<in> set (splitOn LF (trimEnd s))" using snoc.prems by (simp add: trimEnd_snoc_ws)
    from snoc.IH [OF this] obtain m where m: "m \<in> set (splitOn LF s)" "trim l = trim m" by blast
    then have "m \<in> set (butlast (splitOn LF s)) \<or> m = last (splitOn LF s)"
      by (metis append_butlast_last_id empty_iff empty_set in_set_butlastD rotate1.simps(2) set_ConsD set_rotate1)
    then show ?thesis using True m trim_snoc_ws [OF True] by (auto simp: splitOn_snoc)
  qed (use snoc.prems in \<open>auto simp: trimEnd_id\<close>)
qed auto

lemma split_trim: "l \<in> set (splitOn LF (trim s)) \<Longrightarrow> \<exists>m \<in> set (splitOn LF s). trim l = trim m"
  using split_trimEnd [of l "trimStart s"] split_trimStart [of _ s] unfolding trim_def by metis

lemma kept_line_trim: "trim l = trim m \<Longrightarrow> ov_kept_line l = ov_kept_line m"
  by (simp add: ov_kept_line_def)


subsection \<open>Validation\<close>

lemma ov_lines_directives:
  "ov_lines ls seen = Inr r \<Longrightarrow> l \<in> set ls \<Longrightarrow> ov_skipped l \<or> toLowerCase (hd (splitWs l)) \<notin> set EXECUTION_DIRECTIVES"
  by (induction ls seen rule: ov_lines.induct) (auto simp: Let_def split: if_splits)

lemma ov_lines_early: "ov_lines ls seen = Inl e \<Longrightarrow> \<not> ovv_valid e"
  by (induction ls seen rule: ov_lines.induct) (auto simp: Let_def split: if_splits)

text \<open>A profile that passes validation has no line that starts with a directive running a command,
  names a remote server or a connection block, and is in TUN mode.\<close>

theorem validated_ovpn:
  assumes "ovv_valid (validateOpenvpnConfig raw)"
  shows "(\<forall>l \<in> set (splitLines raw). ov_skipped (trim l) \<or> firstToken l \<notin> set EXECUTION_DIRECTIVES) \<and>
     (ovv_remotes (validateOpenvpnConfig raw) \<noteq> [] \<or> includesStr raw ''<connection>'') \<and>
     (\<exists>dev. ovv_dev (validateOpenvpnConfig raw) = Some dev \<and> startsWith dev ''tun'')"
proof -
  from assms obtain seen where
    seen: "ov_lines (map trim (splitLines raw)) \<lparr>os_remotes = [], os_proto = ''udp'', os_dev = ''tun''\<rparr> = Inr seen"
    by (auto simp: validateOpenvpnConfig_def dest: ov_lines_early split: if_splits sum.splits)
  have "ov_skipped (trim l) \<or> firstToken l \<notin> set EXECUTION_DIRECTIVES" if "l \<in> set (splitLines raw)" for l
    using ov_lines_directives [OF seen, of "trim l"] that by (auto simp: firstToken_def)
  moreover have "(ovv_remotes (validateOpenvpnConfig raw) \<noteq> [] \<or> includesStr raw ''<connection>'') \<and>
     (\<exists>dev. ovv_dev (validateOpenvpnConfig raw) = Some dev \<and> startsWith dev ''tun'')"
    using assms seen by (auto simp: validateOpenvpnConfig_def split: if_splits)
  ultimately show ?thesis by blast
qed

definition demo_ovpn :: string where
  "demo_ovpn = join [LF] [''client'', ''remote vpn.example 443'', ''dev tun'', ''daemon'']"

lemmas ov_eval = trim_def trimStart_def trimEnd_def char_eval toLowerCase_def ov_skipped_def
  EXECUTION_DIRECTIVES_def MANAGED_DIRECTIVES_def ov_see_line_def part_def truthy_def nth_opt_def

lemma demo_ovpn_lines: "splitLines demo_ovpn = [''client'', ''remote vpn.example 443'', ''dev tun'', ''daemon'']"
  by (simp add: demo_ovpn_def LF_def CR_def)

lemma demo_ovpn_valid: "ovv_valid (validateOpenvpnConfig demo_ovpn)"
  by (simp add: validateOpenvpnConfig_def demo_ovpn_lines ov_eval Let_def) (simp add: demo_ovpn_def LF_def)

theorem validated_ovpn_witness:
  "ovv_valid (validateOpenvpnConfig demo_ovpn) \<and> (\<exists>dev. ovv_dev (validateOpenvpnConfig demo_ovpn) = Some dev)"
  using demo_ovpn_valid validated_ovpn [of demo_ovpn] by blast

text \<open>
  OpenVPN also accepts directives with the leading dashes of its command line; neither list has them.
\<close>

definition dashed_ovpn :: string where
  "dashed_ovpn = join [LF] [''remote h 1'', ''--plugin /tmp/x.so'']"

lemma dashed_directive_not_recognised:
  "ovv_valid (validateOpenvpnConfig dashed_ovpn) \<and> ov_kept_line ''--plugin /tmp/x.so''"
proof -
  have lines: "splitLines dashed_ovpn = [''remote h 1'', ''--plugin /tmp/x.so'']"
    by (simp add: dashed_ovpn_def LF_def CR_def)
  have "ovv_valid (validateOpenvpnConfig dashed_ovpn)"
    by (simp add: validateOpenvpnConfig_def lines ov_eval Let_def) (simp add: dashed_ovpn_def LF_def)
  moreover have "ov_kept_line ''--plugin /tmp/x.so''"
    by (simp add: ov_kept_line_def firstToken_def ov_eval Let_def)
  ultimately show ?thesis by simp
qed

subsection \<open>Stored profiles\<close>

lemma keeps_ov_createProfile: "keeps (db_inv :: ('w, 'z) db_scheme \<Rightarrow> bool) (ov_createProfile env inp)"
  unfolding ov_createProfile_def ov_getProfileById_def Let_def
  by (intro db_keeps keeps_run_sql) (auto simp: db_inv_def sql_insert_Some)

lemma keeps_ov_updateProfile: "keeps (db_inv :: ('w, 'z) db_scheme \<Rightarrow> bool) (ov_updateProfile env i inp)"
  unfolding ov_updateProfile_def ov_getProfileById_def Let_def
  by (intro db_keeps keeps_run_sql) (auto simp: db_inv_def sql_update_Some)

lemma keeps_ov_deleteProfile: "keeps (db_inv :: ('w, 'z) db_scheme \<Rightarrow> bool) (ov_deleteProfile env i)"
  unfolding ov_deleteProfile_def ov_getProfileById_def
  by (intro db_keeps keeps_modify) (auto simp: db_inv_def openvpn.delete_uniq)

lemma keeps_wg_createProfile: "keeps (db_inv :: ('w, 'z) db_scheme \<Rightarrow> bool) (wg_createProfile env n c)"
  unfolding wg_createProfile_def wg_getProfileById_def Let_def
  by (intro db_keeps keeps_run_sql) (auto simp: db_inv_def sql_insert_Some)

lemma keeps_wg_updateProfile: "keeps (db_inv :: ('w, 'z) db_scheme \<Rightarrow> bool) (wg_updateProfile env i n c e)"
  unfolding wg_updateProfile_def wg_getProfileById_def Let_def
  by (intro db_keeps keeps_run_sql) (auto simp: db_inv_def sql_update_Some)

lemma keeps_wg_deleteProfile: "keeps (db_inv :: ('w, 'z) db_scheme \<Rightarrow> bool) (wg_deleteProfile env i)"
  unfolding wg_deleteProfile_def wg_getProfileById_def
  by (intro db_keeps keeps_modify) (auto simp: db_inv_def wireguard.delete_uniq)

lemmas keeps_profiles = keeps_ov_createProfile keeps_ov_updateProfile keeps_ov_deleteProfile
  keeps_wg_createProfile keeps_wg_updateProfile keeps_wg_deleteProfile

text \<open>The operations on the stored VPN profiles keep the database consistent, and the tunnel operations
  do not touch it, whether they return or throw.\<close>

theorem vpn_profile_operations_keep_integrity:
  fixes env :: "'w env"
  defines "I \<equiv> (db_inv :: ('w, 'z) vpn_scheme \<Rightarrow> bool)"
  shows "keeps I (ov_createProfile env inp) \<and> keeps I (ov_updateProfile env i patch) \<and> keeps I (ov_deleteProfile env i) \<and>
     keeps I (wg_createProfile env n c) \<and> keeps I (wg_updateProfile env i n' c' e) \<and> keeps I (wg_deleteProfile env i) \<and>
     keeps I (ov_startConnection env p) \<and> keeps I (ov_stopConnection env) \<and>
     keeps I (wg_startConnection env q) \<and> keeps I (wg_stopConnection env)"
  unfolding I_def
  by (intro conjI keeps_profiles keeps_ov_startConnection keeps_ov_stopConnection keeps_wg_startConnection
      keeps_wg_stopConnection vpn_free_db_inv ext_free_db_inv log_free_db_inv)

lemma find_inserted:
  "sql_insert ov_uniq ok row t = Some t' \<Longrightarrow> find (\<lambda>r. ov_id r = ov_id row) t' = Some row"
  using openvpn.lookup_inserted [of ok row t t'] by (simp add: find_filter)

lemma ov_createProfile_Inr:
  assumes "ov_createProfile env inp s = (Inr p, t)"
  shows "\<exists>row. sql_insert ov_uniq (\<lambda>_. True) row (t_openvpn s) = Some (t_openvpn t) \<and>
     ov_getProfileById (ov_id row) True t = (Inr (Some p), t) \<and>
     ovv_valid (validateOpenvpnConfig (oi_config inp)) \<and>
     ov_name row = trim (oi_name inp) \<and> ov_name row \<noteq> [] \<and> ov_config row = trim (oi_config inp) \<and>
     ov_username row = truthy (map_option trim (oi_username inp)) \<and>
     ov_password row = truthy (oi_password inp) \<and> ov_enabled row = 1"
  using assms unfolding ov_createProfile_def ov_getProfileById_def Let_def
  apply (elim run_elims)
  apply (drule log_keeps_openvpn(1))
  apply hypsubst
  apply (rule exI)
  apply (rule conjI)
   apply simp
  apply simp
  done

text \<open>A returned \<open>createProfile\<close> has appended one row with a validated configuration. What it returns is
  that row, and a lookup without the password shows the mask in its place.\<close>

theorem ov_createProfile_stores:
  assumes "ov_createProfile env inp s = (Inr p, t)"
  shows "\<exists>row. t_openvpn t = t_openvpn s @ [row] \<and> p = ov_rowToProfile True row \<and>
     ovv_valid (validateOpenvpnConfig (oi_config inp)) \<and>
     ov_name row = trim (oi_name inp) \<and> ov_name row \<noteq> [] \<and> ov_config row = trim (oi_config inp) \<and>
     ov_password row = truthy (oi_password inp) \<and>
     ov_getProfileById (ov_id row) False t = (Inr (Some (ov_rowToProfile False row)), t) \<and>
     ov_password (ov_rowToProfile False row) \<in> {None, Some MASK}"
proof -
  obtain row where row: "sql_insert ov_uniq (\<lambda>_. True) row (t_openvpn s) = Some (t_openvpn t)"
    "ov_getProfileById (ov_id row) True t = (Inr (Some p), t)"
    "ovv_valid (validateOpenvpnConfig (oi_config inp))"
    "ov_name row = trim (oi_name inp)" "ov_name row \<noteq> []" "ov_config row = trim (oi_config inp)"
    "ov_password row = truthy (oi_password inp)"
    using ov_createProfile_Inr [OF assms] by blast
  have "t_openvpn t = t_openvpn s @ [row]" using row(1) by (simp add: sql_insert_Some)
  moreover have "ov_getProfileById (ov_id row) b t = (Inr (Some (ov_rowToProfile b row)), t)" for b
    using find_inserted [OF row(1)] by (simp add: ov_getProfileById_def)
  moreover have "ov_password (ov_rowToProfile False row) \<in> {None, Some MASK}"
    by (cases "truthy (ov_password row)") (simp_all add: ov_rowToProfile_def)
  ultimately show ?thesis using row by auto
qed

definition demo_ovpn_input :: openvpn_input where
  "demo_ovpn_input = \<lparr>oi_name = ''home'', oi_config = demo_ovpn, oi_username = Some ''u'',
     oi_password = Some ''pw'', oi_source = None\<rparr>"

theorem ov_createProfile_stores_witness:
  "\<exists>p t row. ov_createProfile demo_env demo_ovpn_input (empty_db 0) = (Inr p, t) \<and> t_openvpn t = [row] \<and>
     ov_name row = ''home'' \<and> ov_password row = Some ''pw''"
proof -
  obtain p t where run: "ov_createProfile demo_env demo_ovpn_input (empty_db 0) = (Inr p, t)"
    using demo_ovpn_valid
    by (simp add: ov_createProfile_def demo_ovpn_input_def act_simps sql_insert_def ov_uniq_def empty_db_def
        log_info_def logged_def writeLog_eq log_uniq_def ov_getProfileById_def Let_def
        trim_def trimStart_def trimEnd_def char_eval)
  from ov_createProfile_stores [OF run] run show ?thesis
    by (auto simp: demo_ovpn_input_def empty_db_def trim_def trimStart_def trimEnd_def char_eval truthy_def)
qed

definition patched :: "openvpn_patch \<Rightarrow> timestamp \<Rightarrow> openvpn_profile \<Rightarrow> openvpn_profile" where
  "patched patch now r = (let e = ov_rowToProfile True r in r\<lparr>
     ov_name := set_to (map_option trim (op_name patch)) (ov_name r),
     ov_config := set_to (map_option trim (op_config patch)) (ov_config r),
     ov_username := (case op_username patch of Some u \<Rightarrow> truthy (map_option trim u) | None \<Rightarrow> ov_username e),
     ov_password := patched_password e (op_password patch),
     ov_enabled := set_to (map_option (\<lambda>b. if b then 1 else 0) (op_enabled patch)) (ov_enabled r),
     ov_updated_at := now\<rparr>)"

lemma find_update_where:
  "find P t = Some r \<Longrightarrow> (\<And>x. P x \<Longrightarrow> P (f x)) \<Longrightarrow> find P (update_where P f t) = Some (f r)"
  by (induction t) (auto split: if_splits)

lemma ov_rowToProfile_same [simp]:
  "ov_id (ov_rowToProfile b r) = ov_id r" "ov_name (ov_rowToProfile b r) = ov_name r"
  "ov_config (ov_rowToProfile b r) = ov_config r" "ov_enabled (ov_rowToProfile b r) = ov_enabled r"
  "ov_source (ov_rowToProfile b r) = ov_source r"
  "ov_username (ov_rowToProfile b r) = truthy (ov_username r)"
  "ov_password (ov_rowToProfile True r) = truthy (ov_password r)"
  by (simp_all add: ov_rowToProfile_def option.map_ident)

lemma ov_updateProfile_Inr:
  assumes "ov_updateProfile env i patch s = (Inr p, t)"
  shows "\<exists>r now f. find (\<lambda>r. ov_id r = i) (t_openvpn s) = Some r \<and>
     t_openvpn t = update_where (\<lambda>r. ov_id r = i) f (t_openvpn s) \<and> f r = patched patch now r \<and>
     (\<forall>x. ov_id (f x) = ov_id x) \<and>
     map_option (ov_rowToProfile True) (find (\<lambda>r. ov_id r = i) (t_openvpn t)) = Some p"
  using assms unfolding ov_updateProfile_def ov_getProfileById_def Let_def
  apply (elim run_elims)
  apply (drule log_keeps_openvpn(1))
  apply (clarsimp simp: sql_update_Some)
  apply (rule exI, rule exI)
  apply (rule conjI, rule refl)
  apply (rule conjI)
   apply (simp add: patched_def Let_def)
  apply simp
  done

text \<open>A returned \<open>updateProfile\<close> changed the one row with that id and no other: every field that the
  request names has its new value, and the mask or no password leaves the stored password as it was.\<close>

theorem ov_updateProfile_effect:
  assumes "db_inv s" and "ov_updateProfile env i patch s = (Inr p, t)"
  shows "\<exists>now. t_openvpn t = update_where (\<lambda>r. ov_id r = i) (patched patch now) (t_openvpn s) \<and>
     (\<exists>r \<in> set (t_openvpn s). ov_id r = i \<and> p = ov_rowToProfile True (patched patch now r)) \<and>
     (\<forall>r. op_password patch \<in> {None, Some (Some MASK)} \<longrightarrow>
        ov_password (patched patch now r) = truthy (ov_password r))"
proof -
  obtain r now f where f: "find (\<lambda>r. ov_id r = i) (t_openvpn s) = Some r"
    "t_openvpn t = update_where (\<lambda>r. ov_id r = i) f (t_openvpn s)" "f r = patched patch now r"
    "\<And>x. ov_id (f x) = ov_id x"
    "map_option (ov_rowToProfile True) (find (\<lambda>r. ov_id r = i) (t_openvpn t)) = Some p"
    using ov_updateProfile_Inr [OF assms(2)] by blast
  have r: "r \<in> set (t_openvpn s)" "ov_id r = i" using f(1) by (auto simp: find_Some_iff)
  have u: "ov_uniq (t_openvpn s)" using assms(1) by (simp add: db_inv_def)
  have "update_where (\<lambda>r. ov_id r = i) f (t_openvpn s) =
      update_where (\<lambda>r. ov_id r = i) (patched patch now) (t_openvpn s)"
    using openvpn.update_one [OF u r(1), of "\<lambda>r. ov_id r = i" f]
      openvpn.update_one [OF u r(1), of "\<lambda>r. ov_id r = i" "patched patch now"] r(2) f(3) by simp
  moreover have "p = ov_rowToProfile True (patched patch now r)"
    using find_update_where [OF f(1), of f] f(2-5) by simp
  moreover have "\<forall>r. op_password patch \<in> {None, Some (Some MASK)} \<longrightarrow>
        ov_password (patched patch now r) = truthy (ov_password r)"
    by (auto simp: patched_def patched_password_def Let_def)
  ultimately show ?thesis using f(2) r by auto
qed

definition demo_ovpn_row :: openvpn_profile where
  "demo_ovpn_row = \<lparr>ov_id = ''o1'', ov_name = ''home'', ov_config = demo_ovpn, ov_username = Some ''u'',
     ov_password = Some ''pw'', ov_source = Uploaded, ov_enabled = 1, ov_created_at = 0, ov_updated_at = 0\<rparr>"

definition demo_patch :: openvpn_patch where
  "demo_patch = \<lparr>op_name = Some ''away'', op_config = None, op_username = None, op_password = Some (Some MASK),
     op_enabled = Some False\<rparr>"

definition demo_ovpn_db :: "nat db" where
  "demo_ovpn_db = (empty_db 0)\<lparr>t_openvpn := [demo_ovpn_row]\<rparr>"

lemma demo_ovpn_inv: "db_inv demo_ovpn_db"
  using db_inv_empty [of 0] by (simp add: demo_ovpn_db_def demo_ovpn_row_def db_inv_def empty_db_def ov_uniq_def)

theorem ov_updateProfile_effect_witness:
  "\<exists>p t. ov_updateProfile demo_env ''o1'' demo_patch demo_ovpn_db = (Inr p, t) \<and>
     map ov_name (t_openvpn t) = [''away''] \<and> map ov_password (t_openvpn t) = [Some ''pw'']"
proof -
  obtain p t where run: "ov_updateProfile demo_env ''o1'' demo_patch demo_ovpn_db = (Inr p, t)"
    by (simp add: ov_updateProfile_def demo_patch_def demo_ovpn_db_def demo_ovpn_row_def act_simps sql_update_def
        ov_uniq_def empty_db_def set_to_def log_info_def logged_def writeLog_eq log_uniq_def ov_getProfileById_def
        Let_def trim_def trimStart_def trimEnd_def char_eval)
  from ov_updateProfile_effect [OF demo_ovpn_inv run] show ?thesis
    using run by (auto simp: demo_ovpn_db_def demo_ovpn_row_def patched_def demo_patch_def set_to_def Let_def
        trim_def trimStart_def trimEnd_def char_eval truthy_def)
qed

subsection \<open>Waiting for the process\<close>

lemma takes_time_ov_round: "clock_law env clk \<Longrightarrow> takes_time clk (ov_round env)"
  unfolding ov_round_def by (rule takes_time_sleep_first) (auto intro: keeps_watch_process)

lemma takes_time_wait_for_exit: "clock_law env clk \<Longrightarrow> takes_time clk (wait_for_exit env pid)"
  unfolding wait_for_exit_def
  by (rule takes_time_sleep_last [where ms = 150]) (auto intro: keeps_pidIsAlive)

text \<open>Both waits on the OpenVPN process end: with a clock that moves on while the service sleeps,
  the loop's fuel is never used up, more fuel gives the same result.\<close>

theorem openvpn_waits_end:
  assumes "clock_law env clk"
  shows "while_before env deadline (ov_round env) s = poll env deadline (ov_round env) (Suc (deadline + k)) s \<and>
    while_before env deadline (wait_for_exit env pid) s = poll env deadline (wait_for_exit env pid) (Suc (deadline + k)) s"
  using while_before_fuel [OF assms takes_time_ov_round [OF assms]]
    while_before_fuel [OF assms takes_time_wait_for_exit [OF assms]] by blast

theorem openvpn_waits_end_witness:
  "while_before demo_env 3 (ov_round demo_env) (empty_db 0) = poll demo_env 3 (ov_round demo_env) (Suc (3 + 5)) (empty_db 0)"
  using openvpn_waits_end [OF demo_clock, of 3 "empty_db 0" 5] by blast

text \<open>Starting, watching and stopping the OpenVPN process never throw.\<close>

theorem openvpn_reports_failures:
  "safe (ov_startConnection env profile) \<and> safe (ov_stopConnection env) \<and> safe (ov_isConnectionActive env)"
  unfolding ov_startConnection_def ov_stopConnection_def ov_isConnectionActive_def
  by (intro conjI safe_intros)

end
