(* ===== verification/Vpngate.thy ===== *)
theory Vpngate imports Openvpn begin

section \<open>VPN Gate\<close>

text \<open>
  \<open>lib/services/vpn/vpngate.ts\<close>: the public server list, its CSV format and its cache.
\<close>

definition VPNGATE_API_URL :: string where "VPNGATE_API_URL = ''https://www.vpngate.net/api/iphone/''"
definition CACHE_TTL_MS :: nat where "CACHE_TTL_MS = 5 * 60 * 1000"

definition QUOTE :: char where "QUOTE = CHR 0x22"

text \<open>The loop of \<open>parseCsvLine\<close> with its state: the values so far, the current value, inside quotes.\<close>

fun csv_loop :: "string list \<Rightarrow> string \<Rightarrow> bool \<Rightarrow> string \<Rightarrow> string list" where
  "csv_loop vals current quoted [] = vals @ [current]"
| "csv_loop vals current quoted [c] =
     (if c = QUOTE then csv_loop vals current (\<not> quoted) []
      else if c = CHR '','' \<and> \<not> quoted then csv_loop (vals @ [current]) [] quoted []
      else csv_loop vals (current @ [c]) quoted [])"
| "csv_loop vals current quoted (c # d # rest) =
     (if c = QUOTE then
        (if quoted \<and> d = QUOTE then csv_loop vals (current @ [QUOTE]) quoted rest
         else csv_loop vals current (\<not> quoted) (d # rest))
      else if c = CHR '','' \<and> \<not> quoted then csv_loop (vals @ [current]) [] quoted (d # rest)
      else csv_loop vals (current @ [c]) quoted (d # rest))"

definition parseCsvLine :: "string \<Rightarrow> string list" where
  "parseCsvLine line = csv_loop [] [] False line"

definition serverId :: "'w env \<Rightarrow> string \<Rightarrow> string \<Rightarrow> string \<Rightarrow> string" where
  "serverId env ip hostname config = take 24 (sha256_hex env (ip @ ''|'' @ hostname @ ''|'' @ config))"

text \<open>\<open>headers.indexOf(name)\<close>; \<open>None\<close> is -1, and \<open>columns[-1]\<close> is undefined.\<close>

fun index_of :: "'a \<Rightarrow> 'a list \<Rightarrow> nat option" where
  "index_of x [] = None"
| "index_of x (y # ys) = (if x = y then Some 0 else map_option Suc (index_of x ys))"

definition column :: "string list \<Rightarrow> nat option \<Rightarrow> string option" where
  "column columns i = (case i of None \<Rightarrow> None | Some n \<Rightarrow> nth_opt columns n)"

definition int_column :: "string list \<Rightarrow> nat option \<Rightarrow> int" where
  "int_column columns i = (case parseInt (case truthy (column columns i) of Some v \<Rightarrow> v | None \<Rightarrow> ''0'') of
     Some n \<Rightarrow> n | None \<Rightarrow> 0)"

definition text_column :: "string \<Rightarrow> string list \<Rightarrow> nat option \<Rightarrow> string" where
  "text_column fallback columns i =
     (case truthy (map_option trim (column columns i)) of Some v \<Rightarrow> v | None \<Rightarrow> fallback)"

definition server_of :: "'w env \<Rightarrow> string list \<Rightarrow> string list \<Rightarrow> vpngate_server option" where
  "server_of env headers columns =
     (let index = (\<lambda>name. index_of name headers) in
      case (truthy (map_option trim (column columns (index ''IP''))),
            truthy (map_option trim (column columns (index ''OpenVPN_ConfigData_Base64'')))) of
        (Some ip, Some config) \<Rightarrow>
          (let hostname = text_column ip columns (index ''HostName'') in
           Some \<lparr>g_id = serverId env ip hostname config, g_ip = ip, g_hostname = hostname,
             g_countryLong = text_column ''Unknown'' columns (index ''CountryLong''),
             g_countryShort = (case truthy (map_option (\<lambda>c. toUpperCase (trim c)) (column columns (index ''CountryShort''))) of
                Some c \<Rightarrow> c | None \<Rightarrow> ''UN''),
             g_ping = int_column columns (index ''Ping''), g_speed = int_column columns (index ''Speed''),
             g_score = int_column columns (index ''Score''),
             g_sessions = int_column columns (index ''NumVpnSessions''),
             g_uptime = int_column columns (index ''Uptime''), g_ovpnConfigBase64 = config\<rparr>)
      | _ \<Rightarrow> None)"

definition csv_skipped :: "string \<Rightarrow> bool" where
  "csv_skipped line = (line = [] \<or> startsWith line ''*'' \<or> startsWith line ''#'')"

definition is_header :: "string \<Rightarrow> bool" where
  "is_header line = includesStr line ''OpenVPN_ConfigData_Base64''"

definition csv_headers :: "string \<Rightarrow> string list" where
  "csv_headers line = map trim (parseCsvLine (if startsWith line ''#'' then drop 1 line else line))"

definition parseCsv :: "'w env \<Rightarrow> string \<Rightarrow> failure + vpngate_server list" where
  "parseCsv env csvText = (case dropWhile (\<lambda>l. \<not> is_header l) (splitLines csvText) of
     [] \<Rightarrow> Inl (Err ''Malformed VPNGate CSV header.'')
   | header # rest \<Rightarrow>
       (let headers = csv_headers header in
        if index_of ''HostName'' headers = None \<or> index_of ''IP'' headers = None \<or>
           index_of ''OpenVPN_ConfigData_Base64'' headers = None
        then Inl (Err ''VPNGate CSV is missing required columns.'')
        else Inr (List.map_filter (\<lambda>l. server_of env headers (parseCsvLine l))
               (filter (\<lambda>l. \<not> csv_skipped l) (map trim rest)))))"

definition lift_result :: "failure + 'a \<Rightarrow> ('s, 'a) act" where
  "lift_result r = (\<lambda>s. (r, s))"

definition fetchServers :: "'w env \<Rightarrow> bool \<Rightarrow> (('w, 'z) vpn_scheme, vpngate_server list) act" where
  "fetchServers env forceRefresh =
     andThen (ext (Date_now env)) (\<lambda>now.
     andThen (gets cachedServers) (\<lambda>cached.
     andThen (gets lastFetchTimestamp) (\<lambda>last_fetch.
     if \<not> forceRefresh \<and> cached \<noteq> [] \<and> int now - int last_fetch < int CACHE_TTL_MS then ret cached
     else catch
       (andThen (ext (fetch env VPNGATE_API_URL)) (\<lambda>response. case response of
          None \<Rightarrow> throw ''fetch failed''
        | Some r \<Rightarrow>
        if \<not> r_ok r then throw (''VPNGate returned HTTP '' @ show_nat (r_status r) @ ''.'')
        else
        andThen (lift_result (parseCsv env (r_text r))) (\<lambda>servers.
        if servers = [] then throw ''VPNGate returned no usable OpenVPN servers.''
        else
        andThen (modify (\<lambda>s. s\<lparr>cachedServers := servers\<rparr>)) (\<lambda>_.
        andThen (ext (Date_now env)) (\<lambda>at.
        andThen (modify (\<lambda>s. s\<lparr>lastFetchTimestamp := at\<rparr>)) (\<lambda>_.
        andThen (log_info env SrcVpngate ''refresh''
          (''Fetched '' @ show_nat (length servers) @ '' VPNGate OpenVPN relays.'') None) (\<lambda>_.
        ret servers)))))))
       (\<lambda>e. andThen (log_error env SrcVpngate ''fetch'' (''Failed to refresh VPNGate servers: '' @ message e) None) (\<lambda>_.
            andThen (gets cachedServers) (\<lambda>cached.
            if cached \<noteq> [] then ret cached
            else throw (''Unable to fetch VPNGate servers: '' @ message e)))))))"

definition getPublicServers :: "'w env \<Rightarrow> bool \<Rightarrow> (('w, 'z) vpn_scheme, public_vpngate_server list) act" where
  "getPublicServers env forceRefresh =
     andThen (fetchServers env forceRefresh) (\<lambda>servers. ret (map public_vpngate_server.truncate servers))"

definition getServerById :: "'w env \<Rightarrow> string \<Rightarrow> (('w, 'z) vpn_scheme, vpngate_server option) act" where
  "getServerById env serverid =
     andThen (gets (\<lambda>s. find (\<lambda>g. g_id g = serverid) (cachedServers s))) (\<lambda>server. case server of
       Some g \<Rightarrow> ret (Some g)
     | None \<Rightarrow>
         andThen (fetchServers env False) (\<lambda>_.
         gets (\<lambda>s. find (\<lambda>g. g_id g = serverid) (cachedServers s))))"

definition decodeConfig :: "'w env \<Rightarrow> string \<Rightarrow> failure + string" where
  "decodeConfig env base64Config =
     (if base64Config = [] \<or> length base64Config > 2000000
      then Inl (Err ''Invalid VPNGate OpenVPN configuration.'')
      else if trim (base64_decode env base64Config) = []
      then Inl (Err ''VPNGate OpenVPN configuration decoded to an empty file.'')
      else Inr (base64_decode env base64Config))"

subsection \<open>Reading back a line\<close>

definition escape_quotes :: "string \<Rightarrow> string" where
  "escape_quotes v = concat (map (\<lambda>c. if c = QUOTE then [QUOTE, QUOTE] else [c]) v)"

definition quoted_value :: "string \<Rightarrow> string" where
  "quoted_value v = [QUOTE] @ escape_quotes v @ [QUOTE]"

lemma csv_quote_open: "csv_loop vs cur False (QUOTE # rest) = csv_loop vs cur True rest"
  by (cases rest) simp_all

lemma csv_quote_close: "rest = [] \<or> hd rest \<noteq> QUOTE \<Longrightarrow> csv_loop vs cur True (QUOTE # rest) = csv_loop vs cur False rest"
  by (cases rest) auto

lemma csv_escaped:
  "csv_loop vs cur True (escape_quotes v @ QUOTE # rest) = csv_loop vs (cur @ v) True (QUOTE # rest)"
proof (induction v arbitrary: cur)
  case (Cons c v)
  have "c = QUOTE \<or> c \<noteq> QUOTE" by blast
  have "\<exists>d ds. escape_quotes v @ QUOTE # rest = d # ds" by (cases "escape_quotes v @ QUOTE # rest") auto
  then obtain d ds where d: "escape_quotes v @ QUOTE # rest = d # ds" by blast
  show ?case
    using Cons.IH [of "cur @ [c]"] by (cases "c = QUOTE") (simp_all add: escape_quotes_def d [unfolded escape_quotes_def])
qed (simp add: escape_quotes_def)

lemma csv_comma: "csv_loop vs cur False (CHR '','' # rest) = csv_loop (vs @ [cur]) [] False rest"
  by (cases rest) (simp_all add: QUOTE_def)

lemma csv_join:
  "vals \<noteq> [] \<Longrightarrow> csv_loop vs [] False (join '','' (map quoted_value vals)) = vs @ vals"
proof (induction vals arbitrary: vs)
  case (Cons v vals)
  have one: "csv_loop vs [] False (quoted_value v @ rest) = csv_loop vs v False rest"
    if "rest = [] \<or> hd rest \<noteq> QUOTE" for rest
    using csv_escaped [of vs "[]" v rest] csv_quote_close [OF that]
    by (simp add: quoted_value_def csv_quote_open)
  show ?case
  proof (cases vals)
    case Nil
    then show ?thesis using one [of "[]"] by simp
  next
    case (Cons w ws)
    then show ?thesis
      using one [of "CHR '','' # join '','' (map quoted_value vals)"] Cons.IH [of "vs @ [v]"]
      by (simp add: csv_comma QUOTE_def)
  qed
qed simp

text \<open>A line of quoted values is parsed back into those values, whatever commas and quotes they
  contain.\<close>

theorem csv_roundtrip:
  assumes "vals \<noteq> []"
  shows "parseCsvLine (join '','' (map quoted_value vals)) = vals"
  using csv_join [OF assms, of "[]"] by (simp add: parseCsvLine_def)

theorem csv_roundtrip_witness:
  "parseCsvLine (join '','' (map quoted_value [''a,b'', [QUOTE]])) = [''a,b'', [QUOTE]]"
  by (rule csv_roundtrip) simp

subsection \<open>The cache\<close>

lemma keeps_lift_result [keeps_intros]: "keeps I (lift_result r)"
  by (simp add: keeps_def lift_result_def)

lemma lift_result_run [act_simps]: "lift_result r s = (r, s)"
  by (simp add: lift_result_def)

lemma keeps_fetchServers:
  assumes "vpn_free I"
  shows "keeps I (fetchServers env force)"
  unfolding fetchServers_def
  by (intro keeps_intros keeps_logged [OF vpn_free_log [OF assms]] keeps_externals [OF vpn_free_ext [OF assms]]
      keeps_modify) (use assms in \<open>simp_all add: vpn_free_def\<close>)

lemma keeps_getServerById: "vpn_free I \<Longrightarrow> keeps I (getServerById env i)"
  unfolding getServerById_def by (intro keeps_intros keeps_fetchServers)

lemma keeps_getPublicServers: "vpn_free I \<Longrightarrow> keeps I (getPublicServers env force)"
  unfolding getPublicServers_def by (intro keeps_intros keeps_fetchServers)

lemmas log_keeps_cached [dest] = log_keeps_table [where g = cachedServers, simplified]

lemma ext_keeps_cached [dest]: "ext f s = (r, t) \<Longrightarrow> cachedServers t = cachedServers s"
  by (auto simp: ext_run)

text \<open>A list that some answer of the download contains.\<close>

definition downloaded :: "'w env \<Rightarrow> vpngate_server list \<Rightarrow> bool" where
  "downloaded env servers \<longleftrightarrow> (\<exists>r w. fst (fetch env VPNGATE_API_URL w) = Some r \<and> r_ok r \<and>
     parseCsv env (r_text r) = Inr servers)"

lemma downloadedI:
  "parseCsv env (r_text r) = Inr servers \<Longrightarrow> r_ok r \<Longrightarrow> fst (fetch env VPNGATE_API_URL w) = Some r \<Longrightarrow> downloaded env servers"
  unfolding downloaded_def by blast

text \<open>What \<open>fetchServers\<close> returns is never empty and is the cache of the new state; if the server list
  cannot be downloaded, that is the cache as it was.\<close>

theorem fetchServers_cache:
  assumes "fetchServers env force s = (Inr servers, t)"
  shows "servers \<noteq> [] \<and> servers = cachedServers t \<and> (servers = cachedServers s \<or> downloaded env servers)"
  using assms unfolding fetchServers_def
  apply (auto simp: andThen_run catch_run ext_run lift_result_run intro: downloadedI
      split: prod.splits sum.splits if_splits option.splits)
   apply (drule log_keeps_cached(3), drule log_keeps_cached(1), drule (2) downloadedI, simp)+
  done

definition server_ok :: "vpngate_server \<Rightarrow> bool" where
  "server_ok g \<longleftrightarrow> g_ip g \<noteq> [] \<and> g_hostname g \<noteq> [] \<and> g_ovpnConfigBase64 g \<noteq> [] \<and> g_countryShort g \<noteq> [] \<and>
     g_countryLong g \<noteq> []"

lemma truthy_nonempty: "truthy v = Some x \<Longrightarrow> x \<noteq> []"
  by (auto simp: truthy_def split: option.splits if_splits)

lemma text_column_nonempty: "fallback \<noteq> [] \<Longrightarrow> text_column fallback cols i \<noteq> []"
  by (auto simp: text_column_def dest: truthy_nonempty split: option.splits)

lemma server_of_ok: "server_of env headers columns = Some g \<Longrightarrow> server_ok g"
  by (auto simp: server_of_def server_ok_def Let_def text_column_nonempty dest: truthy_nonempty split: option.splits)

lemma list_all_map_filter: "(\<And>x y. f x = Some y \<Longrightarrow> P y) \<Longrightarrow> list_all P (List.map_filter f xs)"
  by (induction xs) (auto simp: map_filter_simps split: option.splits)

lemma servers_from_rows: "list_all server_ok (List.map_filter (\<lambda>l. server_of env headers (row l)) rows)"
  by (rule list_all_map_filter) (rule server_of_ok)

lemma parseCsv_ok:
  assumes "parseCsv env csvText = Inr servers"
  shows "list_all server_ok servers"
proof -
  from assms obtain headers rows where
    "servers = List.map_filter (\<lambda>l. server_of env headers (parseCsvLine l)) rows"
    by (auto simp only: parseCsv_def Let_def split: list.splits if_splits)
  then show ?thesis by (simp only: servers_from_rows)
qed

definition servers_ok :: "('w, 'z) vpn_scheme \<Rightarrow> bool" where
  "servers_ok s \<longleftrightarrow> list_all server_ok (cachedServers s)"

lemma fetchServers_ok: "fetchServers env force s = (r, t) \<Longrightarrow> servers_ok s \<Longrightarrow> servers_ok t"
  unfolding fetchServers_def servers_ok_def
  by (auto simp: andThen_run catch_run ext_run lift_result_run
      split: prod.splits sum.splits if_splits option.splits)
    ((drule log_keeps_cached(3))?, (drule log_keeps_cached(1))?, (drule parseCsv_ok)?, simp)+

lemma find_server_ok: "list_all server_ok cache \<Longrightarrow> find (\<lambda>g. g_id g = i) cache = Some g \<Longrightarrow> server_ok g \<and> g_id g = i"
  by (induction cache) (auto split: if_splits)

text \<open>Every cached server has an address, a name, a country and a configuration: fetching and looking
  up keep this whatever the downloaded list contains, and a found server is such a server with that id.\<close>

theorem cached_servers_ok:
  assumes "servers_ok s" and "getServerById env i s = (Inr (Some g), t)"
  shows "server_ok g \<and> g_id g = i \<and> servers_ok t"
proof (cases "find (\<lambda>g. g_id g = i) (cachedServers s)")
  case None
  with assms(2) obtain servers where "fetchServers env False s = (Inr servers, t)"
    and "find (\<lambda>g. g_id g = i) (cachedServers t) = Some g"
    unfolding getServerById_def by (auto simp: andThen_run split: prod.splits sum.splits)
  with assms(1) show ?thesis
    using fetchServers_ok find_server_ok unfolding servers_ok_def by blast
next
  case (Some h)
  with assms(2) have "t = s" and "g = h" by (simp_all add: getServerById_def andThen_run)
  with Some assms(1) show ?thesis using find_server_ok unfolding servers_ok_def by blast
qed

definition demo_server :: vpngate_server where
  "demo_server = \<lparr>g_id = ''s1'', g_ip = ''1.2.3.4'', g_hostname = ''h'', g_countryLong = ''Japan'',
     g_countryShort = ''JP'', g_ping = 1, g_speed = 1, g_score = 1, g_sessions = 1, g_uptime = 1,
     g_ovpnConfigBase64 = ''cmVtb3Rl''\<rparr>"

definition vpn_of :: "'w db \<Rightarrow> 'w vpn" where
  "vpn_of d = \<lparr>t_users = t_users d, t_providers = t_providers d, t_provider_users = t_provider_users d,
     t_settings = t_settings d, t_wireguard = t_wireguard d, t_openvpn = t_openvpn d, t_logs = t_logs d,
     emitted = emitted d, outer = outer d, attempts = (\<lambda>_. None), cachedSecret = None, set_cookie = None,
     activeOpenvpnProcess = False, cachedServers = [], lastFetchTimestamp = 0, lastReconcileWarning = [],
     lastReconcileWarningAt = 0, vpnLock_busy = False, network_cache = None\<rparr>"

definition demo_vpn :: "nat vpn" where
  "demo_vpn = (vpn_of (empty_db 0))\<lparr>cachedServers := [demo_server]\<rparr>"

theorem cached_servers_ok_witness:
  "\<exists>g t. getServerById demo_env ''s1'' demo_vpn = (Inr (Some g), t) \<and> server_ok g \<and> servers_ok t"
proof -
  have ok: "servers_ok demo_vpn"
    by (simp add: servers_ok_def demo_vpn_def demo_server_def server_ok_def)
  have run: "getServerById demo_env ''s1'' demo_vpn = (Inr (Some demo_server), demo_vpn)"
    by (simp add: getServerById_def andThen_run demo_vpn_def demo_server_def)
  from cached_servers_ok [OF ok run] run show ?thesis by blast
qed

theorem fetchServers_cache_witness:
  "\<exists>servers t. fetchServers demo_env True demo_vpn = (Inr servers, t) \<and> servers \<noteq> [] \<and> servers = cachedServers t"
proof -
  obtain servers t where run: "fetchServers demo_env True demo_vpn = (Inr servers, t)"
    by (simp add: fetchServers_def act_simps demo_vpn_def vpn_of_def empty_db_def log_error_def logged_def
        writeLog_eq log_uniq_def CACHE_TTL_MS_def Let_def)
  from fetchServers_cache [OF run] run show ?thesis by blast
qed

end
