(* ===== verification/Warp.thy ===== *)
theory Warp imports Vpn_State begin

section \<open>Cloudflare WARP\<close>

text \<open>\<open>lib/services/vpn/warp.ts\<close>: the \<open>warp-cli\<close> client and its daemon.\<close>

record warp_status =
  ws_installed :: bool
  ws_daemonRunning :: bool
  ws_registered :: bool
  ws_connected :: bool
  ws_mode :: "string option"
  ws_accountType :: "string option"
  ws_deviceId :: "string option"
  ws_details :: string

definition no_warp :: "bool \<Rightarrow> bool \<Rightarrow> string \<Rightarrow> warp_status" where
  "no_warp installed daemon details = \<lparr>ws_installed = installed, ws_daemonRunning = daemon, ws_registered = False,
     ws_connected = False, ws_mode = None, ws_accountType = None, ws_deviceId = None, ws_details = details\<rparr>"

definition runWarp :: "'w env \<Rightarrow> string list \<Rightarrow> (('w, 'z) db_scheme, string) act" where
  "runWarp env args = andThen (ext_try (execFile env ''warp-cli'' (''--accept-tos'' # args))) (\<lambda>stdout. ret (trim stdout))"

definition isWarpInstalled :: "'w env \<Rightarrow> (('w, 'z) db_scheme, bool) act" where
  "isWarpInstalled env = catch
     (andThen (ext_try (execFile env ''which'' [''warp-cli''])) (\<lambda>_.
      andThen (ext_try (execFile env ''which'' [''warp-svc''])) (\<lambda>_. ret True)))
     (\<lambda>_. ret False)"

definition daemon_answers :: "'w env \<Rightarrow> (('w, 'z) db_scheme, bool) act" where
  "daemon_answers env = catch (andThen (runWarp env [''status'']) (\<lambda>_. ret True)) (\<lambda>_. ret False)"

fun await_daemon :: "'w env \<Rightarrow> nat \<Rightarrow> (('w, 'z) db_scheme, bool) act" where
  "await_daemon env 0 = ret False"
| "await_daemon env (Suc n) =
     andThen (sleep env 500) (\<lambda>_.
     andThen (daemon_answers env) (\<lambda>ok. if ok then ret True else await_daemon env n))"

definition ensureDaemon :: "'w env \<Rightarrow> (('w, 'z) db_scheme, bool) act" where
  "ensureDaemon env =
     andThen (isWarpInstalled env) (\<lambda>installed.
     if \<not> installed then ret False
     else
     andThen (daemon_answers env) (\<lambda>ok.
     if ok then ret True
     else catch
       (andThen (ext_try (proc_spawn env ''warp-svc'' [])) (\<lambda>_. await_daemon env 10))
       (\<lambda>_. ret False)))"

text \<open>\<open>/\bword\b/\<close> for a word of letters.\<close>

fun word_occurs :: "string \<Rightarrow> bool \<Rightarrow> string \<Rightarrow> bool" where
  "word_occurs kw within [] = False"
| "word_occurs kw within (c # cs) =
     ((\<not> within \<and> startsWith (c # cs) kw \<and>
       (case drop (length kw) (c # cs) of [] \<Rightarrow> True | d # _ \<Rightarrow> \<not> is_word d)) \<or>
      word_occurs kw (is_word c) cs)"

text \<open>
  \<open>/Key\s*Word:\s*([^\n]+)/i\<close> with the capture trimmed, and \<open>/Device\s*ID:\s*([^\s]+)/i\<close>: \<open>at_label\<close> is what
  follows the label at the head of a text, \<open>first_value\<close> the first place where label and value match.
\<close>

definition strip_ci :: "string \<Rightarrow> string \<Rightarrow> string option" where
  "strip_ci kw s = (if startsWith (toLowerCase s) kw then Some (drop (length kw) s) else None)"

definition at_label :: "string list \<Rightarrow> string \<Rightarrow> string option" where
  "at_label kws s = (case kws of
     [] \<Rightarrow> Some s
   | k # ks \<Rightarrow> fold (\<lambda>k r. case r of None \<Rightarrow> None | Some rest \<Rightarrow> strip_ci k (dropWhile is_ws rest)) ks (strip_ci k s))"

definition line_value :: "string \<Rightarrow> string option" where
  "line_value s =
     (let rest = dropWhile is_ws s in
      if rest \<noteq> [] then Some (trim (takeWhile (\<lambda>c. c \<noteq> LF) rest))
      else if list_ex (\<lambda>c. c \<noteq> LF) s then Some [] else None)"

definition word_value :: "string \<Rightarrow> string option" where
  "word_value s = truthy (Some (takeWhile (\<lambda>c. \<not> is_ws c) (dropWhile is_ws s)))"

fun first_value :: "(string \<Rightarrow> string option) \<Rightarrow> string list \<Rightarrow> string \<Rightarrow> string option" where
  "first_value value kws [] = None"
| "first_value value kws (c # cs) =
     (case (case at_label kws (c # cs) of None \<Rightarrow> None | Some rest \<Rightarrow> value rest) of
        Some v \<Rightarrow> Some v
      | None \<Rightarrow> first_value value kws cs)"

definition registration_info :: "string \<Rightarrow> bool \<times> string option \<times> string" where
  "registration_info registration =
     (\<not> includesStr (toLowerCase registration) ''not registered'' \<and> \<not> includesStr (toLowerCase registration) ''error'',
      first_value word_value [''device'', ''id:''] registration,
      (case first_value line_value [''account'', ''type:''] registration of Some a \<Rightarrow> a | None \<Rightarrow> ''Free''))"

definition warp_getStatus :: "'w env \<Rightarrow> (('w, 'z) db_scheme, warp_status) act" where
  "warp_getStatus env =
     andThen (isWarpInstalled env) (\<lambda>installed.
     if \<not> installed then ret (no_warp False False ''Cloudflare WARP client is not installed in this environment.'')
     else
     andThen (ensureDaemon env) (\<lambda>daemonRunning.
     if \<not> daemonRunning then
       ret (no_warp True False ''warp-svc is installed but its service socket is not available.'')
     else catch
       (andThen (runWarp env [''status'']) (\<lambda>statusOut.
        let lower = toLowerCase statusOut;
            connected = word_occurs ''connected'' False lower \<and> \<not> word_occurs ''disconnected'' False lower in
        andThen (catch
          (andThen (runWarp env [''registration'', ''show'']) (\<lambda>registration. ret (registration_info registration)))
          (\<lambda>_. ret (False, None, ''Free''))) (\<lambda>(registered, deviceId, accountType).
        andThen (catch
          (andThen (runWarp env [''settings'']) (\<lambda>settings. ret (first_value line_value [''mode:''] settings)))
          (\<lambda>_. ret None)) (\<lambda>mode.
        ret \<lparr>ws_installed = True, ws_daemonRunning = True, ws_registered = registered, ws_connected = connected,
             ws_mode = mode, ws_accountType = Some accountType, ws_deviceId = deviceId, ws_details = statusOut\<rparr>))))
       (\<lambda>e. ret (no_warp True True (''WARP status error: '' @ message e)))))"

definition warp_register :: "'w env \<Rightarrow> (('w, 'z) db_scheme, string) act" where
  "warp_register env =
     andThen (ensureDaemon env) (\<lambda>ok.
     if \<not> ok then throw ''Cloudflare WARP service is unavailable.''
     else
     andThen (warp_getStatus env) (\<lambda>current.
     if ws_registered current then ret ''WARP client is already registered.''
     else catch
       (andThen (runWarp env [''registration'', ''new'']) (\<lambda>output.
        andThen (ignoring (runWarp env [''mode'', ''warp''])) (\<lambda>_.
        andThen (log_info env SrcWarp ''registration'' ''Registered a new Cloudflare WARP device.'' None) (\<lambda>_.
        ret (if output = [] then ''Registration successful.'' else output)))))
       (\<lambda>e. andThen (log_error env SrcWarp ''registration'' (''Failed to register WARP device: '' @ message e) None) (\<lambda>_.
            throw (''WARP registration failed: '' @ message e)))))"

definition warp_round :: "'w env \<Rightarrow> (('w, 'z) db_scheme, unit option) act" where
  "warp_round env =
     andThen (sleep env 750) (\<lambda>_.
     andThen (warp_getStatus env) (\<lambda>status. ret (if ws_connected status then Some () else None)))"

definition warp_connect :: "'w env \<Rightarrow> (('w, 'z) db_scheme, outcome) act" where
  "warp_connect env = catch
     (andThen (ensureDaemon env) (\<lambda>ok.
      if \<not> ok then ret (Failure ''warp-svc is unavailable.'')
      else
      andThen (warp_getStatus env) (\<lambda>current.
      andThen (if ws_registered current then ret [] else warp_register env) (\<lambda>_.
      andThen (ignoring (runWarp env [''mode'', ''warp''])) (\<lambda>_.
      andThen (runWarp env [''connect'']) (\<lambda>_.
      andThen (ext (Date_now env)) (\<lambda>now.
      andThen (while_before env (now + 30000) (warp_round env)) (\<lambda>r.
      ret (case r of Some _ \<Rightarrow> Success
           | None \<Rightarrow> Failure ''Cloudflare WARP did not reach Connected state within 30 seconds.'')))))))))
     (\<lambda>e. ret (Failure (message e)))"

definition warp_disconnect :: "'w env \<Rightarrow> (('w, 'z) db_scheme, outcome) act" where
  "warp_disconnect env =
     andThen (isWarpInstalled env) (\<lambda>installed.
     if \<not> installed then ret Success
     else catch
       (andThen (ensureDaemon env) (\<lambda>ok.
        if \<not> ok then ret Success
        else andThen (runWarp env [''disconnect'']) (\<lambda>_. ret Success)))
       (\<lambda>e. ret (Failure (message e))))"

definition warp_rotate :: "'w env \<Rightarrow> (('w, 'z) db_scheme, string \<times> bool) act" where
  "warp_rotate env =
     andThen (ensureDaemon env) (\<lambda>ok.
     if \<not> ok then throw ''Cloudflare WARP service is unavailable.''
     else
     andThen (warp_getStatus env) (\<lambda>before.
     let wasConnected = ws_connected before in
     catch
       (andThen (cond wasConnected (andThen (warp_disconnect env) (\<lambda>_. ret ()))) (\<lambda>_.
        andThen (ignoring (runWarp env [''registration'', ''delete''])) (\<lambda>_.
        andThen (warp_register env) (\<lambda>_.
        andThen (cond wasConnected
          (andThen (warp_connect env) (\<lambda>reconnect. case reconnect of
             Success \<Rightarrow> ret ()
           | Failure e \<Rightarrow> throw (if e = [] then ''WARP did not reconnect after rotation.'' else e)))) (\<lambda>_.
        andThen (log_warn env SrcWarp ''rotate'' (''Cloudflare WARP registration was rotated'' @
           (if wasConnected then '' and the tunnel was reconnected'' else []) @ ''.'') None) (\<lambda>_.
        ret (''WARP registration rotated successfully.'', wasConnected)))))))
       (\<lambda>e. andThen (log_error env SrcWarp ''rotate'' (''WARP rotation failed: '' @ message e) None) (\<lambda>_.
            throw (''WARP rotation failed: '' @ message e)))))"

subsection \<open>Frames\<close>

lemma keeps_outcome [keeps_intros]:
  "keeps I m \<Longrightarrow> (\<And>e. keeps I (f e)) \<Longrightarrow> keeps I (case r of Success \<Rightarrow> m | Failure e \<Rightarrow> f e)"
  by (cases r) auto

lemma safe_outcome [safe_intros]:
  "safe m \<Longrightarrow> (\<And>e. safe (f e)) \<Longrightarrow> safe (case r of Success \<Rightarrow> m | Failure e \<Rightarrow> f e)"
  by (cases r) auto

lemma keeps_runWarp: "ext_free I \<Longrightarrow> keeps I (runWarp env args)"
  unfolding runWarp_def by (intro keeps_intros keeps_externals)

lemma keeps_isWarpInstalled: "ext_free I \<Longrightarrow> keeps I (isWarpInstalled env)"
  unfolding isWarpInstalled_def by (intro keeps_intros keeps_externals)

lemma safe_isWarpInstalled [safe_intros]: "safe (isWarpInstalled env)"
  unfolding isWarpInstalled_def by (intro safe_intros)

lemma keeps_daemon_answers: "ext_free I \<Longrightarrow> keeps I (daemon_answers env)"
  unfolding daemon_answers_def by (intro keeps_intros keeps_runWarp)

lemma safe_daemon_answers [safe_intros]: "safe (daemon_answers env)"
  unfolding daemon_answers_def by (intro safe_intros)

lemma keeps_await_daemon:
  assumes "ext_free I"
  shows "keeps I (await_daemon env n)"
  by (induction n) (simp_all only: await_daemon.simps,
    (intro keeps_intros keeps_sleep [OF assms] keeps_daemon_answers [OF assms] | assumption)+)

lemma keeps_ensureDaemon: "ext_free I \<Longrightarrow> keeps I (ensureDaemon env)"
  unfolding ensureDaemon_def
  by (intro keeps_intros keeps_externals keeps_isWarpInstalled keeps_daemon_answers keeps_await_daemon)

lemma safe_ensureDaemon [safe_intros]: "safe (ensureDaemon env)"
  unfolding ensureDaemon_def by (intro safe_intros)

lemma keeps_warp_getStatus: "ext_free I \<Longrightarrow> keeps I (warp_getStatus env)"
  unfolding warp_getStatus_def Let_def case_prod_unfold
  by (intro keeps_intros keeps_isWarpInstalled keeps_ensureDaemon keeps_runWarp)

lemma safe_warp_getStatus [safe_intros]: "safe (warp_getStatus env)"
  unfolding warp_getStatus_def by (intro safe_intros)

lemma keeps_warp_round: "ext_free I \<Longrightarrow> keeps I (warp_round env)"
  unfolding warp_round_def by (intro keeps_intros keeps_sleep keeps_warp_getStatus)

lemma keeps_warp_register: "log_free I \<Longrightarrow> keeps I (warp_register env)"
  unfolding warp_register_def
  by (intro keeps_intros keeps_ensureDaemon keeps_warp_getStatus keeps_runWarp keeps_logged) auto

lemma keeps_warp_connect: "log_free I \<Longrightarrow> keeps I (warp_connect env)"
  unfolding warp_connect_def
  by (intro keeps_intros keeps_externals keeps_ensureDaemon keeps_warp_getStatus keeps_warp_register
      keeps_runWarp keeps_while_before keeps_warp_round) auto

lemma keeps_warp_disconnect: "ext_free I \<Longrightarrow> keeps I (warp_disconnect env)"
  unfolding warp_disconnect_def by (intro keeps_intros keeps_isWarpInstalled keeps_ensureDaemon keeps_runWarp)

lemma keeps_warp_rotate: "log_free I \<Longrightarrow> keeps I (warp_rotate env)"
  unfolding warp_rotate_def Let_def
  by (intro keeps_intros keeps_ensureDaemon keeps_warp_getStatus keeps_warp_disconnect keeps_warp_register
      keeps_warp_connect keeps_runWarp keeps_logged) auto

lemmas keeps_warp = keeps_warp_getStatus keeps_warp_register keeps_warp_connect keeps_warp_disconnect
  keeps_warp_rotate

text \<open>Reading the WARP status, connecting and disconnecting never throw: every failure of the client
  or its daemon is part of the answer.\<close>

theorem warp_reports_failures:
  "safe (warp_getStatus env) \<and> safe (warp_connect env) \<and> safe (warp_disconnect env) \<and> safe (ensureDaemon env)"
  unfolding warp_connect_def warp_disconnect_def by (intro conjI safe_intros)

subsection \<open>The waits end\<close>

lemma past_warp:
  assumes "clock_law env clk"
  shows past_runWarp: "keeps (past clk c) (runWarp env args)"
    and past_isWarpInstalled: "keeps (past clk c) (isWarpInstalled env)"
    and past_daemon_answers: "keeps (past clk c) (daemon_answers env)"
  unfolding runWarp_def isWarpInstalled_def daemon_answers_def
  by (intro keeps_intros past_intros [OF assms])+

lemma past_await_daemon:
  assumes "clock_law env clk"
  shows "keeps (past clk c) (await_daemon env n)"
  by (induction n) (simp_all only: await_daemon.simps,
    (intro keeps_intros past_sleep [OF assms] past_daemon_answers [OF assms] | assumption)+)

lemma past_ensureDaemon: "clock_law env clk \<Longrightarrow> keeps (past clk c) (ensureDaemon env)"
  unfolding ensureDaemon_def by (intro keeps_intros past_warp past_await_daemon past_spawn)

lemma past_warp_getStatus: "clock_law env clk \<Longrightarrow> keeps (past clk c) (warp_getStatus env)"
  unfolding warp_getStatus_def Let_def case_prod_unfold by (intro keeps_intros past_warp past_ensureDaemon)

lemma takes_time_warp_round: "clock_law env clk \<Longrightarrow> takes_time clk (warp_round env)"
  unfolding warp_round_def
  by (rule takes_time_sleep_first) (auto intro: keeps_intros past_warp_getStatus)

text \<open>Waiting for the WARP tunnel ends: the fuel of the loop is never used up.\<close>

theorem warp_wait_ends:
  assumes "clock_law env clk"
  shows "while_before env deadline (warp_round env) s = poll env deadline (warp_round env) (Suc (deadline + k)) s"
  by (rule while_before_fuel [OF assms takes_time_warp_round [OF assms]])

theorem warp_wait_ends_witness:
  "while_before demo_env 4 (warp_round demo_env) (empty_db 0) = poll demo_env 4 (warp_round demo_env) (Suc (4 + 2)) (empty_db 0)"
  by (rule warp_wait_ends [OF demo_clock])

end
