(* ===== verification/Routing.thy ===== *)
theory Routing imports Vpn_State begin

section \<open>Bypass routing\<close>

text \<open>
  \<open>lib/services/vpn/routing.ts\<close>: the policy rules that keep the management and proxy ports and the private
  networks off the tunnel.
\<close>

definition BYPASS_TABLE :: string where "BYPASS_TABLE = ''100''"
definition RULE_PRIORITY_START :: nat where "RULE_PRIORITY_START = 100"
definition PRIVATE_NETWORKS :: "string list" where
  "PRIVATE_NETWORKS = [''10.0.0.0/8'', ''172.16.0.0/12'', ''192.168.0.0/16'']"

text \<open>\<open>Array.from(new Set(xs))\<close> keeps the first occurrences in their order.\<close>

definition set_order :: "'a list \<Rightarrow> 'a list" where
  "set_order xs = rev (remdups (rev xs))"

definition valid_port :: "int option \<Rightarrow> bool" where
  "valid_port p = (case p of None \<Rightarrow> False | Some n \<Rightarrow> n > 0 \<and> n \<le> 65535)"

definition bypassPorts :: "'w env \<Rightarrow> int list" where
  "bypassPorts env =
     (let raw = (case truthy (getenv env ''VPN_BYPASS_TCP_PORTS'') of Some v \<Rightarrow> v | None \<Rightarrow> ''3000,8080'') in
      set_order (map the (filter valid_port (map (\<lambda>part. parseInt (trim part)) (splitOn (CHR '','') raw)))))"

definition runIp :: "'w env \<Rightarrow> string list \<Rightarrow> (('w, 'z) db_scheme, string) act" where
  "runIp env args = andThen (ext_try (execFile env ''ip'' args)) (\<lambda>stdout. ret (trim stdout))"

text \<open>\<open>for (i < n) try { await m } catch { break }\<close>.\<close>

fun repeat_until_error :: "nat \<Rightarrow> ('s, 'a) act \<Rightarrow> ('s, unit) act" where
  "repeat_until_error 0 m = ret ()"
| "repeat_until_error (Suc n) m =
     andThen (catch (andThen m (\<lambda>_. ret True)) (\<lambda>_. ret False)) (\<lambda>ok. cond ok (repeat_until_error n m))"

definition del_rule_args :: "nat \<Rightarrow> string list" where
  "del_rule_args priority = [''-4'', ''rule'', ''del'', ''priority'', show_nat priority]"

definition deleteRule :: "'w env \<Rightarrow> nat \<Rightarrow> (('w, 'z) db_scheme, unit) act" where
  "deleteRule env priority = repeat_until_error 4 (runIp env (del_rule_args priority))"

definition cleanupBypassRouting :: "'w env \<Rightarrow> (('w, 'z) db_scheme, unit) act" where
  "cleanupBypassRouting env =
     (let ruleCount = length (bypassPorts env) + length PRIVATE_NETWORKS in
      andThen (forEach (\<lambda>i. deleteRule env (RULE_PRIORITY_START + i)) [0..<ruleCount]) (\<lambda>_.
      ignoring (runIp env [''-4'', ''route'', ''flush'', ''table'', BYPASS_TABLE])))"

definition direct_routes :: "string \<Rightarrow> string list" where
  "direct_routes mainRoutes = filter (\<lambda>l. \<not> includesStr l '' dev tun'' \<and> \<not> includesStr l '' dev wg'')
     (filter (\<lambda>l. l \<noteq> []) (map trim (splitOn LF mainRoutes)))"

definition add_route :: "'w env \<Rightarrow> string \<Rightarrow> (('w, 'z) db_scheme, unit) act" where
  "add_route env route = catch
     (andThen (runIp env ([''-4'', ''route'', ''add'', ''table'', BYPASS_TABLE] @ splitWs route)) (\<lambda>_. ret ()))
     (\<lambda>e. log_debug env SrcVpn ''routing'' (''Skipped direct route snapshot entry: '' @ route)
        (Some (JObj [(''reason'', JStr (message e))])))"

definition port_rule_args :: "nat \<Rightarrow> int \<Rightarrow> string list" where
  "port_rule_args priority port = [''-4'', ''rule'', ''add'', ''priority'', show_nat priority, ''ipproto'', ''tcp'',
     ''sport'', show_int port, ''lookup'', BYPASS_TABLE]"

definition network_rule_args :: "nat \<Rightarrow> string \<Rightarrow> string list" where
  "network_rule_args priority network = [''-4'', ''rule'', ''add'', ''priority'', show_nat priority, ''to'', network,
     ''lookup'', BYPASS_TABLE]"

definition prepareBypassRouting :: "'w env \<Rightarrow> (('w, 'z) db_scheme, unit) act" where
  "prepareBypassRouting env = catch
     (andThen (cleanupBypassRouting env) (\<lambda>_.
      andThen (runIp env [''-4'', ''route'', ''show'', ''table'', ''main'']) (\<lambda>mainRoutes.
      andThen (forEach (add_route env) (direct_routes mainRoutes)) (\<lambda>_.
      andThen (forEach (\<lambda>(priority, port). andThen (runIp env (port_rule_args priority port)) (\<lambda>_. ret ()))
         (enumerate RULE_PRIORITY_START (bypassPorts env))) (\<lambda>_.
      andThen (forEach (\<lambda>(priority, network). andThen (runIp env (network_rule_args priority network)) (\<lambda>_. ret ()))
         (enumerate (RULE_PRIORITY_START + length (bypassPorts env)) PRIVATE_NETWORKS)) (\<lambda>_.
      log_debug env SrcVpn ''routing'' ''Installed VPN bypass policy routes.''
        (Some (JObj [(''table'', JStr BYPASS_TABLE), (''tcp_ports'', JArr (map JNum (bypassPorts env)))]))))))))
     (\<lambda>e. andThen (log_error env SrcVpn ''routing'' (''Failed to prepare VPN bypass routing: '' @ message e) None) (\<lambda>_.
          throw (''Unable to preserve inbound service routing: '' @ message e)))"

subsection \<open>Frames\<close>

lemma keeps_runIp: "ext_free I \<Longrightarrow> keeps I (runIp env args)"
  unfolding runIp_def by (intro keeps_intros keeps_externals)

lemma keeps_repeat [keeps_intros]:
  assumes "keeps I m"
  shows "keeps I (repeat_until_error n m)"
  by (induction n) (simp_all only: repeat_until_error.simps, (intro keeps_intros assms | assumption)+)

lemma safe_repeat [safe_intros]: "safe (repeat_until_error n m)"
  by (induction n) (simp_all only: repeat_until_error.simps, (intro safe_intros | assumption)+)

lemma keeps_cleanupBypassRouting: "ext_free I \<Longrightarrow> keeps I (cleanupBypassRouting env)"
  unfolding cleanupBypassRouting_def deleteRule_def Let_def
  by (intro keeps_intros keeps_runIp)

lemma safe_cleanupBypassRouting [safe_intros]: "safe (cleanupBypassRouting env)"
  unfolding cleanupBypassRouting_def deleteRule_def Let_def by (intro safe_intros)

lemma keeps_prepareBypassRouting: "log_free I \<Longrightarrow> keeps I (prepareBypassRouting env)"
  unfolding prepareBypassRouting_def add_route_def case_prod_unfold
  by (intro keeps_intros keeps_runIp keeps_cleanupBypassRouting keeps_logged) auto

lemmas keeps_routing = keeps_cleanupBypassRouting keeps_prepareBypassRouting

end
