(* ===== verification/Vpn_Manager.thy ===== *)
theory Vpn_Manager imports Vpngate Warp Routing begin

section \<open>The VPN manager\<close>

text \<open>
  \<open>lib/services/vpn/vpn-manager.ts\<close>: the connection attempts and the disconnect, the reconciliation of the
  stored state with the tunnels that are really up, and the connectivity probes. Every operation that holds
  the lock is one action here: \<open>vpnLock_busy\<close> is its \<open>isBusy\<close>, and the queue of waiting operations is the
  subject of \<open>Mutex\<close>.
\<close>

subsection \<open>Probes\<close>

record public_ip_info =
  ip_address :: string
  ip_country :: "string option"
  ip_loc :: "string option"

text \<open>A field of a JSON answer that is a text which is not empty.\<close>

definition json_text :: "json \<Rightarrow> string \<Rightarrow> string option" where
  "json_text j name = (case j of
     JObj kvs \<Rightarrow> (case map_of (rev kvs) name of Some (JStr v) \<Rightarrow> truthy (Some v) | _ \<Rightarrow> None)
   | _ \<Rightarrow> None)"

definition json_ip_info :: "json \<Rightarrow> public_ip_info option" where
  "json_ip_info j = (case json_text j ''ip'' of
     None \<Rightarrow> None
   | Some ip \<Rightarrow> Some \<lparr>ip_address = ip, ip_country = json_text j ''country'',
       ip_loc = (case (json_text j ''city'', json_text j ''country'') of
          (Some city, Some country) \<Rightarrow> Some (city @ '', '' @ country) | _ \<Rightarrow> None)\<rparr>)"

text \<open>
  \<open>text.match(/^key=(.+)$/m)?.[1]?.trim()\<close>: the first line that is the key and at least one more character.
  A line ends at a line feed or a carriage return.
\<close>

definition text_lines :: "string \<Rightarrow> string list" where
  "text_lines s = splitOn LF (map (\<lambda>c. if c = CR then LF else c) s)"

definition trace_field :: "string \<Rightarrow> string \<Rightarrow> string option" where
  "trace_field key text =
     map_option (\<lambda>l. trim (drop (length key) l))
       (find (\<lambda>l. startsWith l key \<and> length key < length l) (text_lines text))"

definition trace_ip_info :: "string \<Rightarrow> public_ip_info option" where
  "trace_ip_info text = (case truthy (trace_field ''ip='' text) of
     None \<Rightarrow> None
   | Some ip \<Rightarrow> Some \<lparr>ip_address = ip, ip_country = trace_field ''loc='' text, ip_loc = None\<rparr>)"

datatype probe_kind = ProbeJson | ProbeTrace

definition PROBE_ENDPOINTS :: "(string \<times> probe_kind) list" where
  "PROBE_ENDPOINTS = [(''https://ipinfo.io/json'', ProbeJson),
     (''https://api.ipify.org?format=json'', ProbeJson),
     (''https://www.cloudflare.com/cdn-cgi/trace'', ProbeTrace)]"

definition probe_answer :: "probe_kind \<Rightarrow> response option \<Rightarrow> public_ip_info option" where
  "probe_answer kind response = (case response of
     None \<Rightarrow> None
   | Some r \<Rightarrow>
       if \<not> r_ok r then None
       else (case kind of
          ProbeJson \<Rightarrow> (case r_json r of None \<Rightarrow> None | Some j \<Rightarrow> json_ip_info j)
        | ProbeTrace \<Rightarrow> trace_ip_info (r_text r)))"

fun probe_all :: "'w env \<Rightarrow> (string \<times> probe_kind) list \<Rightarrow> (('w, 'z) db_scheme, public_ip_info option) act" where
  "probe_all env [] = ret None"
| "probe_all env ((url, kind) # rest) =
     andThen (ext (fetch env url)) (\<lambda>response.
     case probe_answer kind response of Some info \<Rightarrow> ret (Some info) | None \<Rightarrow> probe_all env rest)"

definition verifyConnectivity :: "'w env \<Rightarrow> (('w, 'z) db_scheme, public_ip_info option) act" where
  "verifyConnectivity env = probe_all env PROBE_ENDPOINTS"

subsection \<open>Tunnels\<close>

definition tunnel_name :: "vpn_type \<Rightarrow> string" where
  "tunnel_name ty = (case ty of TypeOff \<Rightarrow> ''off'' | TypeWireguard \<Rightarrow> ''wireguard'' | TypeOpenvpn \<Rightarrow> ''openvpn''
     | TypeWarp \<Rightarrow> ''warp'')"

definition status_name :: "vpn_status \<Rightarrow> string" where
  "status_name st = (case st of StatusOff \<Rightarrow> ''off'' | StatusConnecting \<Rightarrow> ''connecting''
     | StatusConnected \<Rightarrow> ''connected'' | StatusError \<Rightarrow> ''error'')"

definition active_tunnels :: "bool \<Rightarrow> bool \<Rightarrow> bool \<Rightarrow> vpn_type list" where
  "active_tunnels wireguard openvpn warp =
     (if wireguard then [TypeWireguard] else []) @ (if openvpn then [TypeOpenvpn] else []) @
     (if warp then [TypeWarp] else [])"

text \<open>\<open>Promise.all\<close>: the three questions, here one after the other.\<close>

definition getRuntimeTunnels :: "'w env \<Rightarrow> (('w, 'z) db_scheme, vpn_type list) act" where
  "getRuntimeTunnels env =
     andThen (catch (wg_isConnectionActive env) (\<lambda>_. ret False)) (\<lambda>wireguard.
     andThen (catch (ov_isConnectionActive env) (\<lambda>_. ret False)) (\<lambda>openvpn.
     andThen (catch (andThen (warp_getStatus env) (\<lambda>status. ret (ws_connected status))) (\<lambda>_. ret False)) (\<lambda>warp.
     ret (active_tunnels wireguard openvpn warp))))"

definition stopAllTunnels :: "'w env \<Rightarrow> (('w, 'z) vpn_scheme, unit) act" where
  "stopAllTunnels env =
     andThen (wg_stopConnection env) (\<lambda>_.
     andThen (ov_stopConnection env) (\<lambda>_.
     andThen (warp_disconnect env) (\<lambda>_.
     sleep env 400)))"

definition prepareForConnection :: "'w env \<Rightarrow> (('w, 'z) vpn_scheme, public_ip_info option) act" where
  "prepareForConnection env =
     andThen (stopAllTunnels env) (\<lambda>_.
     andThen (cleanupBypassRouting env) (\<lambda>_.
     andThen (verifyConnectivity env) (\<lambda>baseline.
     andThen (prepareBypassRouting env) (\<lambda>_.
     ret baseline))))"

subsection \<open>The stored state\<close>

text \<open>The column updates of the operations.\<close>

definition no_update :: vpn_update where
  "no_update = \<lparr>vu_type = None, vu_profile_id = None, vu_label = None, vu_status = None, vu_last_error = None,
     vu_connected_at = None, vu_public_ip = None, vu_country = None\<rparr>"

definition off_update :: vpn_update where
  "off_update = \<lparr>vu_type = Some TypeOff, vu_profile_id = Some None, vu_label = Some None,
     vu_status = Some StatusOff, vu_last_error = Some None, vu_connected_at = Some None,
     vu_public_ip = Some None, vu_country = Some None\<rparr>"

definition error_update :: "string \<Rightarrow> vpn_update" where
  "error_update msg = no_update\<lparr>vu_status := Some StatusError, vu_last_error := Some (Some msg),
     vu_connected_at := Some None, vu_public_ip := Some None, vu_country := Some None\<rparr>"

definition connecting_update :: "vpn_type \<Rightarrow> string option \<Rightarrow> string \<Rightarrow> vpn_update" where
  "connecting_update ty profileId label = \<lparr>vu_type = Some ty, vu_profile_id = Some profileId,
     vu_label = Some (Some label), vu_status = Some StatusConnecting, vu_last_error = Some None,
     vu_connected_at = Some None, vu_public_ip = Some None, vu_country = Some None\<rparr>"

definition connected_update :: "timestamp \<Rightarrow> string \<Rightarrow> string option \<Rightarrow> vpn_update" where
  "connected_update now ip country = no_update\<lparr>vu_status := Some StatusConnected,
     vu_connected_at := Some (Some now), vu_public_ip := Some (Some ip), vu_country := Some country,
     vu_last_error := Some None\<rparr>"

definition markError ::
  "'w env \<Rightarrow> vpn_type \<Rightarrow> string option \<Rightarrow> string option \<Rightarrow> string \<Rightarrow> (('w, 'z) db_scheme, unit) act" where
  "markError env ty profileId label msg = updateVpnState env
     ((error_update msg)\<lparr>vu_type := Some ty, vu_profile_id := Some profileId, vu_label := Some label\<rparr>)"

text \<open>The template text of metadata that is absent is \<open>{}\<close>.\<close>

definition warnReconcileOnce :: "'w env \<Rightarrow> string \<Rightarrow> json option \<Rightarrow> (('w, 'z) vpn_scheme, unit) act" where
  "warnReconcileOnce env msg metadata =
     (let key = msg @ '':'' @ stringify (case metadata of Some j \<Rightarrow> j | None \<Rightarrow> JObj []) in
      andThen (ext (Date_now env)) (\<lambda>now.
      andThen (gets (\<lambda>s. (lastReconcileWarning s, lastReconcileWarningAt s))) (\<lambda>(last_key, last_at).
      if key = last_key \<and> int now - int last_at < 10000 then ret ()
      else
      andThen (modify (\<lambda>s. s\<lparr>lastReconcileWarning := key, lastReconcileWarningAt := now\<rparr>)) (\<lambda>_.
      log_warn env SrcVpn ''reconcile'' msg metadata))))"

definition recovered_update :: "app_settings \<Rightarrow> vpn_type \<Rightarrow> public_ip_info option \<Rightarrow> timestamp \<Rightarrow> vpn_update" where
  "recovered_update current actual ipInfo now =
     (let same = active_vpn_type current = actual in
      \<lparr>vu_type = Some actual,
       vu_profile_id = Some (if same then active_vpn_profile_id current else None),
       vu_label = Some (if same then active_vpn_label current
         else if actual = TypeWarp then Some ''Cloudflare WARP''
         else Some (''Recovered '' @ tunnel_name actual)),
       vu_status = Some StatusConnected,
       vu_last_error = Some None,
       vu_connected_at = Some (Some (case vpn_connected_at current of Some at \<Rightarrow> at | None \<Rightarrow> now)),
       vu_public_ip = Some (case ipInfo of Some info \<Rightarrow> Some (ip_address info) | None \<Rightarrow> vpn_public_ip current),
       vu_country = Some (case map_option ip_country ipInfo of
          Some (Some c) \<Rightarrow> (if c = [] then vpn_country current else Some c) | _ \<Rightarrow> vpn_country current)\<rparr>)"

definition multiple_message :: "vpn_type list \<Rightarrow> string" where
  "multiple_message runtime = ''Multiple VPN tunnels are active at runtime ('' @ join '', '' (map tunnel_name runtime) @
     ''). Manual disconnect is required.''"

definition lost_message :: string where
  "lost_message = ''Stored VPN state was connected, but the tunnel process/interface is no longer active.''"

definition detected_message :: "vpn_type \<Rightarrow> string" where
  "detected_message actual = ''Detected an active '' @ tunnel_name actual @
     '' tunnel that did not match stored VPN state; state was reconciled.''"

definition reconcileRuntimeState :: "'w env \<Rightarrow> (('w, 'z) vpn_scheme, app_settings) act" where
  "reconcileRuntimeState env =
     andThen getSettings (\<lambda>current.
     andThen (getRuntimeTunnels env) (\<lambda>runtime.
     case runtime of
       [] \<Rightarrow>
         if vpn_status current = StatusConnected then
           andThen (updateVpnState env (error_update lost_message)) (\<lambda>_.
           andThen (warnReconcileOnce env lost_message
             (Some (JObj [(''type'', JStr (tunnel_name (active_vpn_type current)))]))) (\<lambda>_.
           getSettings))
         else ret current
     | actual # others \<Rightarrow>
         if others \<noteq> [] then
           andThen (updateVpnState env (error_update (multiple_message runtime))) (\<lambda>_.
           andThen (warnReconcileOnce env (multiple_message runtime)
             (Some (JObj [(''runtime'', JArr (map (\<lambda>ty. JStr (tunnel_name ty)) runtime))]))) (\<lambda>_.
           getSettings))
         else if vpn_status current \<noteq> StatusConnected \<or> active_vpn_type current \<noteq> actual then
           andThen (verifyConnectivity env) (\<lambda>ipInfo.
           andThen (if vpn_connected_at current = None then ext (Date_now env) else ret 0) (\<lambda>now.
           andThen (updateVpnState env (recovered_update current actual ipInfo now)) (\<lambda>_.
           andThen (warnReconcileOnce env (detected_message actual)
             (Some (JObj [(''actual'', JStr (tunnel_name actual)),
                (''stored'', JStr (tunnel_name (active_vpn_type current))),
                (''storedStatus'', JStr (status_name (vpn_status current)))]))) (\<lambda>_.
           getSettings))))
         else ret current))"

text \<open>\<open>current.active_vpn_label || current.active_vpn_type || runtime[0]\<close>: the type is never empty.\<close>

definition settings_label :: "app_settings \<Rightarrow> string" where
  "settings_label current = (case truthy (active_vpn_label current) of Some l \<Rightarrow> l
     | None \<Rightarrow> tunnel_name (active_vpn_type current))"

definition assertCanStartConnection :: "'w env \<Rightarrow> (('w, 'z) vpn_scheme, unit) act" where
  "assertCanStartConnection env =
     andThen (reconcileRuntimeState env) (\<lambda>current.
     andThen (getRuntimeTunnels env) (\<lambda>runtime.
     if vpn_status current = StatusConnecting then
       throw_conflict ''A VPN connection is already being established. Wait for it to finish or disconnect it first.''
     else if runtime \<noteq> [] \<or> vpn_status current = StatusConnected then
       throw_conflict (settings_label current @
         '' is already connected. Disconnect the current VPN before connecting another one.'')
     else ret ()))"

definition assertWarpMaintenanceAllowed :: "'w env \<Rightarrow> string \<Rightarrow> (('w, 'z) vpn_scheme, unit) act" where
  "assertWarpMaintenanceAllowed env action =
     andThen (gets vpnLock_busy) (\<lambda>busy.
     if busy then throw_conflict ''Another VPN operation is already in progress.''
     else
     andThen (reconcileRuntimeState env) (\<lambda>current.
     andThen (getRuntimeTunnels env) (\<lambda>runtime.
     if vpn_status current = StatusConnecting \<or> runtime \<noteq> [] \<or> vpn_status current = StatusConnected then
       throw_conflict (''Cannot '' @ action @ '' Cloudflare WARP while '' @ settings_label current @
         '' is active. Disconnect the current VPN first.'')
     else ret ())))"

subsection \<open>Operations under the lock\<close>

text \<open>\<open>const release = await vpnLock.acquire(); try { ... } finally { release(); }\<close> with nobody waiting.\<close>

definition with_lock :: "(('w, 'z) vpn_scheme, 'a) act \<Rightarrow> (('w, 'z) vpn_scheme, 'a) act" where
  "with_lock m = (\<lambda>s. case m (s\<lparr>vpnLock_busy := True\<rparr>) of (r, t) \<Rightarrow> (r, t\<lparr>vpnLock_busy := False\<rparr>))"

definition disconnect :: "'w env \<Rightarrow> string \<Rightarrow> (('w, 'z) vpn_scheme, outcome) act" where
  "disconnect env reason = with_lock (catch
     (andThen getSettings (\<lambda>current.
      andThen (cond (vpn_status current \<noteq> StatusOff \<or> active_vpn_type current \<noteq> TypeOff)
          (log_info env SrcVpn ''disconnect'' (''Disconnecting '' @ settings_label current @ ''.'')
             (Some (JObj [(''reason'', JStr reason)])))) (\<lambda>_.
      andThen (stopAllTunnels env) (\<lambda>_.
      andThen (cleanupBypassRouting env) (\<lambda>_.
      andThen (updateVpnState env off_update) (\<lambda>_.
      andThen (log_info env SrcVpn ''disconnected''
          ''VPN disconnected. Traffic is using the direct container route.'' None) (\<lambda>_.
      ret Success)))))))
     (\<lambda>e. andThen (log_error env SrcVpn ''disconnect'' (''VPN disconnect failed: '' @ message e) None) (\<lambda>_.
          ret (Failure (message e)))))"

text \<open>
  The \<open>catch\<close> of the four connection attempts: a conflict leaves the running tunnel alone, every other
  error stops what the attempt had started.
\<close>

definition connect_failed :: "'w env \<Rightarrow> log_source \<Rightarrow> (('w, 'z) vpn_scheme, unit) act \<Rightarrow> vpn_type \<Rightarrow> string option \<Rightarrow>
    string \<Rightarrow> string \<Rightarrow> json option \<Rightarrow> failure \<Rightarrow> (('w, 'z) vpn_scheme, outcome) act" where
  "connect_failed env src stop ty profileId label what metadata e =
     (if is_conflict e then
        andThen (log_warn env src ''connection_blocked'' (message e) metadata) (\<lambda>_. ret (Failure (message e)))
      else
        andThen stop (\<lambda>_.
        andThen (cleanupBypassRouting env) (\<lambda>_.
        andThen (markError env ty profileId (Some label) (message e)) (\<lambda>_.
        andThen (log_error env src ''connection_failure'' (what @ message e) metadata) (\<lambda>_.
        ret (Failure (message e)))))))"

definition outcome_or :: "string \<Rightarrow> outcome \<Rightarrow> (('s, unit) act)" where
  "outcome_or fallback started = (case started of
     Success \<Rightarrow> ret () | Failure e \<Rightarrow> throw (if e = [] then fallback else e))"

definition opt_field :: "string \<Rightarrow> string option \<Rightarrow> (string \<times> json) list" where
  "opt_field name v = (case v of None \<Rightarrow> [] | Some s \<Rightarrow> [(name, JStr s)])"

definition dropping :: "('s, 'a) act \<Rightarrow> ('s, unit) act" where
  "dropping m = andThen m (\<lambda>_. ret ())"

text \<open>The last steps of an attempt: the probe and the stored connection.\<close>

definition store_connected ::
  "'w env \<Rightarrow> public_ip_info \<Rightarrow> string option \<Rightarrow> (('w, 'z) db_scheme, unit) act" where
  "store_connected env info country =
     andThen (ext (Date_now env)) (\<lambda>now.
     updateVpnState env (connected_update now (ip_address info) country))"

text \<open>A loop with a deadline that keeps its variables in \<open>acc\<close>; the flag is the \<open>break\<close>.\<close>

fun poll_var ::
  "'w env \<Rightarrow> timestamp \<Rightarrow> ('b \<Rightarrow> (('w, 'z) db_scheme, bool \<times> 'b) act) \<Rightarrow> nat \<Rightarrow> 'b \<Rightarrow> (('w, 'z) db_scheme, 'b) act" where
  "poll_var env deadline body 0 acc = throw no_fuel"
| "poll_var env deadline body (Suc n) acc =
     andThen (ext (Date_now env)) (\<lambda>now.
     if deadline \<le> now then ret acc
     else andThen (body acc) (\<lambda>(stop, acc'). if stop then ret acc' else poll_var env deadline body n acc'))"

definition other_ip :: "public_ip_info option \<Rightarrow> public_ip_info \<Rightarrow> bool" where
  "other_ip baseline info = (case baseline of None \<Rightarrow> True | Some b \<Rightarrow> ip_address info \<noteq> ip_address b)"

definition handshake_round :: "'w env \<Rightarrow> public_ip_info option \<Rightarrow> public_ip_info option \<times> bool \<Rightarrow>
    (('w, 'z) db_scheme, bool \<times> (public_ip_info option \<times> bool)) act" where
  "handshake_round env baseline acc =
     andThen (verifyConnectivity env) (\<lambda>ipInfo.
     andThen (hasRecentHandshake env) (\<lambda>handshake.
     if (case ipInfo of None \<Rightarrow> False | Some info \<Rightarrow> handshake \<or> other_ip baseline info)
     then ret (True, (ipInfo, handshake))
     else andThen (sleep env 700) (\<lambda>_. ret (False, (ipInfo, handshake)))))"

definition await_handshake ::
  "'w env \<Rightarrow> public_ip_info option \<Rightarrow> (('w, 'z) db_scheme, public_ip_info option \<times> bool) act" where
  "await_handshake env baseline =
     andThen (ext (Date_now env)) (\<lambda>now.
     poll_var env (now + 15000) (handshake_round env baseline) (Suc (now + 15000)) (None, False))"

definition connectWireguard_body :: "'w env \<Rightarrow> string \<Rightarrow> wireguard_profile \<Rightarrow> (('w, 'z) vpn_scheme, outcome) act" where
  \<open>connectWireguard_body env profileId profile =
     andThen (assertCanStartConnection env) (\<lambda>_.
     andThen (log_info env SrcWireguard ''connecting'' (''Connecting WireGuard profile "'' @ wg_name profile @ ''".'') None) (\<lambda>_.
     andThen (prepareForConnection env) (\<lambda>baseline.
     andThen (updateVpnState env (connecting_update TypeWireguard (Some profileId) (wg_name profile))) (\<lambda>_.
     andThen (wg_startConnection env profile) (\<lambda>started.
     andThen (outcome_or ''WireGuard failed to start.'' started) (\<lambda>_.
     andThen (await_handshake env baseline) (\<lambda>(ipInfo, handshake).
     andThen (wg_isConnectionActive env) (\<lambda>active.
     if \<not> active then throw ''WireGuard interface disappeared after startup.''
     else case ipInfo of
       None \<Rightarrow> throw ''WireGuard is up but external connectivity could not be verified.''
     | Some info \<Rightarrow>
     if \<not> handshake \<and> \<not> other_ip baseline info then
       throw ''WireGuard is up, but no peer handshake or VPN egress change was verified.''
     else
     andThen (store_connected env info (truthy (ip_country info))) (\<lambda>_.
     andThen (log_info env SrcWireguard ''connected'' (''WireGuard connected to "'' @ wg_name profile @ ''".'')
        (Some (JObj ([(''profile_id'', JStr profileId), (''public_ip'', JStr (ip_address info))] @
           opt_field ''country'' (ip_country info) @ [(''handshake_verified'', JBool handshake)])))) (\<lambda>_.
     ret Success))))))))))\<close>

definition connectWireguard :: "'w env \<Rightarrow> string \<Rightarrow> (('w, 'z) vpn_scheme, outcome) act" where
  "connectWireguard env profileId =
     (let failed = (\<lambda>label. connect_failed env SrcWireguard (dropping (wg_stopConnection env)) TypeWireguard
            (Some profileId) label ''WireGuard connection failed: '' (Some (JObj [(''profile_id'', JStr profileId)]))) in
      with_lock (andThen (wg_getProfileById profileId) (\<lambda>found. case found of
        None \<Rightarrow> failed ''WireGuard'' (Err ''WireGuard profile not found.'')
      | Some profile \<Rightarrow>
          if wg_enabled profile = 0 then failed ''WireGuard'' (Err ''WireGuard profile is disabled.'')
          else catch (connectWireguard_body env profileId profile) (failed (wg_name profile)))))"

text \<open>The OpenVPN process for a stored profile and for a VPN Gate server.\<close>

definition run_openvpn ::
  "'w env \<Rightarrow> openvpn_profile \<Rightarrow> string \<Rightarrow> string \<Rightarrow> string \<Rightarrow> (('w, 'z) vpn_scheme, public_ip_info) act" where
  "run_openvpn env profile not_started not_remained not_verified =
     andThen (prepareForConnection env) (\<lambda>_.
     andThen (updateVpnState env (connecting_update TypeOpenvpn (Some (ov_id profile)) (ov_name profile))) (\<lambda>_.
     andThen (ov_startConnection env profile) (\<lambda>started.
     andThen (outcome_or not_started started) (\<lambda>_.
     andThen (ov_isConnectionActive env) (\<lambda>active.
     if \<not> active then throw not_remained
     else
     andThen (verifyConnectivity env) (\<lambda>ipInfo. case ipInfo of
       None \<Rightarrow> throw not_verified | Some info \<Rightarrow> ret info))))))"

definition connectOpenvpn_body :: "'w env \<Rightarrow> string \<Rightarrow> openvpn_profile \<Rightarrow> (('w, 'z) vpn_scheme, outcome) act" where
  \<open>connectOpenvpn_body env profileId profile =
     andThen (assertCanStartConnection env) (\<lambda>_.
     andThen (log_info env SrcOpenvpn ''connecting'' (''Connecting OpenVPN profile "'' @ ov_name profile @ ''".'') None) (\<lambda>_.
     andThen (run_openvpn env profile ''OpenVPN failed to start.'' ''OpenVPN process did not remain connected.''
        ''OpenVPN connected but external connectivity could not be verified.'') (\<lambda>info.
     andThen (store_connected env info (truthy (ip_country info))) (\<lambda>_.
     andThen (log_info env SrcOpenvpn ''connected'' (''OpenVPN connected to "'' @ ov_name profile @ ''".'')
        (Some (JObj ([(''profile_id'', JStr profileId), (''public_ip'', JStr (ip_address info))] @
           opt_field ''country'' (ip_country info))))) (\<lambda>_.
     ret Success)))))\<close>

definition connectOpenvpn :: "'w env \<Rightarrow> string \<Rightarrow> (('w, 'z) vpn_scheme, outcome) act" where
  "connectOpenvpn env profileId =
     (let failed = (\<lambda>label. connect_failed env SrcOpenvpn (dropping (ov_stopConnection env)) TypeOpenvpn
            (Some profileId) label ''OpenVPN connection failed: '' (Some (JObj [(''profile_id'', JStr profileId)]))) in
      with_lock (andThen (ov_getProfileById profileId True) (\<lambda>found. case found of
        None \<Rightarrow> failed ''OpenVPN'' (Err ''OpenVPN profile not found.'')
      | Some profile \<Rightarrow>
          if ov_enabled profile = 0 then failed ''OpenVPN'' (Err ''OpenVPN profile is disabled.'')
          else catch (connectOpenvpn_body env profileId profile) (failed (ov_name profile)))))"

definition attempt :: "('s, 'a) act \<Rightarrow> ('s, failure + 'a) act" where
  "attempt m = catch (andThen m (\<lambda>x. ret (Inr x))) (\<lambda>e. ret (Inl e))"

definition vpngate_label :: "vpngate_server \<Rightarrow> string" where
  "vpngate_label server = ''VPNGate '' @ g_countryShort server @ '' '' @ g_ip server"

definition connectVpnGate_body ::
  "'w env \<Rightarrow> string \<Rightarrow> vpngate_server \<Rightarrow> (('w, 'z) vpn_scheme, outcome) act" where
  "connectVpnGate_body env sid server =
     (let label = vpngate_label server in
      andThen (ext (Date_now env)) (\<lambda>now.
      andThen (lift_result (decodeConfig env (g_ovpnConfigBase64 server))) (\<lambda>config.
      let profile = \<lparr>ov_id = ''vpngate:'' @ sid, ov_name = label, ov_config = config, ov_username = Some ''vpn'',
            ov_password = Some ''vpn'', ov_source = Vpngate, ov_enabled = 1, ov_created_at = now, ov_updated_at = now\<rparr> in
      andThen (assertCanStartConnection env) (\<lambda>_.
      andThen (log_info env SrcVpngate ''connecting'' (''Connecting directly to '' @ label @ ''.'')
         (Some (JObj [(''server_id'', JStr sid)]))) (\<lambda>_.
      andThen (run_openvpn env profile ''VPNGate OpenVPN connection failed to start.''
         ''VPNGate OpenVPN process did not remain connected.''
         ''VPNGate connected but external connectivity could not be verified.'') (\<lambda>info.
      andThen (store_connected env info
         (Some (case ip_country info of Some c \<Rightarrow> (if c = [] then g_countryShort server else c) | None \<Rightarrow> g_countryShort server))) (\<lambda>_.
      andThen (log_info env SrcVpngate ''connected'' (''Connected to '' @ label @ ''.'')
         (Some (JObj [(''server_id'', JStr sid), (''public_ip'', JStr (ip_address info))]))) (\<lambda>_.
      ret Success))))))))"

definition connectVpnGateServer :: "'w env \<Rightarrow> string \<Rightarrow> (('w, 'z) vpn_scheme, outcome) act" where
  "connectVpnGateServer env sid =
     (let failed = (\<lambda>label. connect_failed env SrcVpngate (dropping (ov_stopConnection env)) TypeOpenvpn
            (Some (''vpngate:'' @ sid)) label ''VPNGate connection failed: '' (Some (JObj [(''server_id'', JStr sid)]))) in
      with_lock (andThen (attempt (getServerById env sid)) (\<lambda>found. case found of
        Inl e \<Rightarrow> failed ''VPNGate'' e
      | Inr None \<Rightarrow> failed ''VPNGate'' (Err ''VPNGate server is no longer available. Refresh the server list.'')
      | Inr (Some server) \<Rightarrow> catch (connectVpnGate_body env sid server) (failed (vpngate_label server)))))"

definition connectWarp_body :: "'w env \<Rightarrow> (('w, 'z) vpn_scheme, outcome) act" where
  "connectWarp_body env =
     andThen (assertCanStartConnection env) (\<lambda>_.
     andThen (log_info env SrcWarp ''connecting'' ''Connecting Cloudflare WARP.'' None) (\<lambda>_.
     andThen (prepareForConnection env) (\<lambda>_.
     andThen (updateVpnState env (connecting_update TypeWarp None ''Cloudflare WARP'')) (\<lambda>_.
     andThen (warp_connect env) (\<lambda>started.
     andThen (outcome_or ''Cloudflare WARP failed to connect.'' started) (\<lambda>_.
     andThen (warp_getStatus env) (\<lambda>warpStatus.
     if \<not> ws_connected warpStatus then throw ''warp-cli did not report Connected state.''
     else
     andThen (verifyConnectivity env) (\<lambda>ipInfo. case ipInfo of
       None \<Rightarrow> throw ''WARP connected but external connectivity could not be verified.''
     | Some info \<Rightarrow>
     andThen (store_connected env info (truthy (ip_country info))) (\<lambda>_.
     andThen (log_info env SrcWarp ''connected'' ''Cloudflare WARP connected.''
        (Some (JObj ([(''public_ip'', JStr (ip_address info))] @ opt_field ''country'' (ip_country info))))) (\<lambda>_.
     ret Success))))))))))"

definition connectWarp :: "'w env \<Rightarrow> (('w, 'z) vpn_scheme, outcome) act" where
  "connectWarp env = with_lock (catch (connectWarp_body env)
     (connect_failed env SrcWarp (dropping (warp_disconnect env)) TypeWarp None ''Cloudflare WARP''
        ''Cloudflare WARP connection failed: '' None))"

record vpn_summary =
  vs_status :: vpn_status
  vs_type :: vpn_type
  vs_profileId :: "string option"
  vs_profileName :: "string option"
  vs_connectedSince :: "timestamp option"
  vs_publicIp :: "string option"
  vs_country :: "string option"
  vs_lastError :: "string option"
  vs_isBusy :: bool

definition profile_name :: "app_settings \<Rightarrow> (('w, 'z) vpn_scheme, string option) act" where
  "profile_name settings = (case truthy (active_vpn_label settings) of
     Some l \<Rightarrow> ret (Some l)
   | None \<Rightarrow> (case (active_vpn_type settings, truthy (active_vpn_profile_id settings)) of
       (TypeWireguard, Some pid) \<Rightarrow>
         andThen (wg_getProfileById pid) (\<lambda>p. ret (truthy (map_option wg_name p)))
     | (TypeOpenvpn, Some pid) \<Rightarrow>
         if startsWith pid ''vpngate:'' then ret None
         else andThen (ov_getProfileById pid False) (\<lambda>p. ret (truthy (map_option ov_name p)))
     | (TypeWarp, _) \<Rightarrow> ret (Some ''Cloudflare WARP'')
     | _ \<Rightarrow> ret None))"

definition getVpnStatusSummary :: "'w env \<Rightarrow> (('w, 'z) vpn_scheme, vpn_summary) act" where
  "getVpnStatusSummary env =
     andThen (reconcileRuntimeState env) (\<lambda>settings.
     andThen (profile_name settings) (\<lambda>name.
     gets (\<lambda>s. \<lparr>vs_status = vpn_status settings, vs_type = active_vpn_type settings,
       vs_profileId = active_vpn_profile_id settings, vs_profileName = name,
       vs_connectedSince = vpn_connected_at settings, vs_publicIp = vpn_public_ip settings,
       vs_country = vpn_country settings, vs_lastError = vpn_last_error settings,
       vs_isBusy = vpnLock_busy s\<rparr>)))"

end
