(* ===== verification/Vpn_Invariants.thy ===== *)
theory Vpn_Invariants imports Vpn_Manager begin

section \<open>The VPN manager keeps the stored state consistent\<close>

text \<open>
  Frames and properties of \<open>Vpn_Manager\<close>: what every operation leaves of the settings row, when an attempt
  may start, what a successful operation stores, and that the lock is free afterwards.
\<close>

subsection \<open>Frames\<close>

lemma settings_only_vpn_free: "settings_only I \<Longrightarrow> vpn_free I"
  unfolding vpn_free_def
  by (intro conjI allI settings_only_log_free; (assumption | erule settings_only_eq; simp))

lemma keeps_probe_all [keeps_intros]:
  assumes "ext_free I"
  shows "keeps I (probe_all env es)"
proof (induction es)
  case (Cons e es)
  then show ?case by (cases e) (simp only: probe_all.simps, intro keeps_intros keeps_ext [OF assms])
qed (simp only: probe_all.simps keeps_ret)

lemma keeps_verifyConnectivity: "ext_free I \<Longrightarrow> keeps I (verifyConnectivity env)"
  unfolding verifyConnectivity_def by (rule keeps_probe_all)

lemma keeps_getRuntimeTunnels: "ext_free I \<Longrightarrow> keeps I (getRuntimeTunnels env)"
  unfolding getRuntimeTunnels_def
  by (intro keeps_intros keeps_wg_isConnectionActive keeps_warp_getStatus)

lemma keeps_stopAllTunnels: "vpn_free I \<Longrightarrow> keeps I (stopAllTunnels env)"
  unfolding stopAllTunnels_def
  by (intro keeps_intros keeps_wg_stopConnection keeps_ov_stopConnection keeps_warp_disconnect keeps_sleep)
    auto

lemma keeps_prepareForConnection: "vpn_free I \<Longrightarrow> keeps I (prepareForConnection env)"
  unfolding prepareForConnection_def
  by (intro keeps_intros keeps_stopAllTunnels keeps_routing keeps_verifyConnectivity) auto

lemma keeps_warnReconcileOnce:
  assumes "vpn_free I"
  shows "keeps I (warnReconcileOnce env msg metadata)"
proof -
  have "keeps I (modify (\<lambda>s. s\<lparr>lastReconcileWarning := key, lastReconcileWarningAt := now\<rparr>))" for key now
    using assms by (intro keeps_modify) (simp add: vpn_free_def)
  then show ?thesis
    unfolding warnReconcileOnce_def Let_def case_prod_unfold
    by (intro keeps_intros keeps_ext [OF vpn_free_ext [OF assms]] keeps_logged [OF vpn_free_log [OF assms]])
qed

lemma keeps_poll_var:
  assumes "ext_free I" and "\<And>acc. keeps I (body acc)"
  shows "keeps I (poll_var env deadline body n acc)"
  by (induction n arbitrary: acc)
    (simp_all only: poll_var.simps case_prod_unfold, (intro keeps_intros keeps_ext [OF assms(1)] assms(2) | assumption)+)

lemma keeps_await_handshake: "ext_free I \<Longrightarrow> keeps I (await_handshake env b)"
  unfolding await_handshake_def handshake_round_def
  by (intro keeps_intros keeps_poll_var keeps_externals keeps_verifyConnectivity keeps_hasRecentHandshake keeps_sleep)

lemma keeps_outcome_or [keeps_intros]: "keeps I (outcome_or m r)"
  unfolding outcome_or_def by (intro keeps_intros)

lemma keeps_dropping [keeps_intros]: "keeps I m \<Longrightarrow> keeps I (dropping m)"
  unfolding dropping_def by (intro keeps_intros)

lemma keeps_attempt [keeps_intros]: "keeps I m \<Longrightarrow> keeps I (attempt m)"
  unfolding attempt_def by (intro keeps_intros)

lemmas keeps_manager = keeps_verifyConnectivity keeps_getRuntimeTunnels keeps_stopAllTunnels
  keeps_prepareForConnection keeps_warnReconcileOnce keeps_await_handshake

text \<open>The tunnels that run are tunnels.\<close>

lemma active_tunnels_set: "TypeOff \<notin> set (active_tunnels a b c)"
  by (simp add: active_tunnels_def)

lemma runtime_not_off: "getRuntimeTunnels env s = (Inr r, t) \<Longrightarrow> TypeOff \<notin> set r"
  unfolding getRuntimeTunnels_def by (elim run_elims) (simp add: active_tunnels_set)

lemma keeps_andThen_result:
  assumes "keeps I m" and "\<And>s x t. m s = (Inr x, t) \<Longrightarrow> P x" and "\<And>x. P x \<Longrightarrow> keeps I (f x)"
  shows "keeps I (andThen m f)"
  using assms unfolding keeps_def andThen_def by (fastforce split: prod.splits sum.splits)

lemma keeps_tunnels:
  "TypeOff \<notin> set runtime \<Longrightarrow> keeps I a \<Longrightarrow> (\<And>actual others. actual \<noteq> TypeOff \<Longrightarrow> keeps I (f actual others)) \<Longrightarrow>
   keeps I (case runtime of [] \<Rightarrow> a | actual # others \<Rightarrow> f actual others)"
  by (cases runtime) auto

lemma keeps_reconcile:
  assumes free: "vpn_free I" and err: "\<And>m. keeps I (updateVpnState env (error_update m))"
    and rec: "\<And>g ty info now. ty \<noteq> TypeOff \<Longrightarrow> keeps I (updateVpnState env (recovered_update g ty info now))"
  shows "keeps I (reconcileRuntimeState env)"
proof -
  note e = vpn_free_ext [OF free]
  show ?thesis
    unfolding reconcileRuntimeState_def
    by (intro keeps_andThen [OF keeps_getSettings] keeps_andThen_result [where P = "\<lambda>r. TypeOff \<notin> set r"]
        keeps_getRuntimeTunnels [OF e] runtime_not_off; assumption?;
        (intro keeps_tunnels keeps_if keeps_andThen keeps_ret err rec keeps_warnReconcileOnce [OF free] keeps_getSettings
        keeps_verifyConnectivity [OF e] keeps_ext [OF e]; assumption))
qed

lemma keeps_assertCanStart: "vpn_free I \<Longrightarrow> keeps I (reconcileRuntimeState env) \<Longrightarrow> keeps I (assertCanStartConnection env)"
  unfolding assertCanStartConnection_def by (intro keeps_intros keeps_getRuntimeTunnels) auto

subsection \<open>A contract for invariants of the stored state\<close>

text \<open>
  \<open>I\<close> holds between the operations and \<open>R\<close> from the moment an attempt has stored its tunnel until it has
  ended; both look only at what the VPN services do not change on their own, and the column updates of the
  manager establish them. Then every operation of the manager keeps \<open>I\<close>.
\<close>

locale stored_invariant =
  fixes I R :: "('w, 'z) vpn_scheme \<Rightarrow> bool"
  assumes free_I: "vpn_free I" and free_R: "vpn_free R" and R_I: "R s \<Longrightarrow> I s"
    and lock_I: "I (s\<lparr>vpnLock_busy := b\<rparr>) = I s"
    and error: "keeps I (updateVpnState env (error_update m))"
    and recovered: "ty \<noteq> TypeOff \<Longrightarrow> keeps I (updateVpnState env (recovered_update g ty info now))"
    and marked: "keeps I (markError env ty p lo m)"
    and off: "keeps I (updateVpnState env off_update)"
    and connecting: "ty \<noteq> TypeOff \<Longrightarrow> triple I (updateVpnState env (connecting_update ty p l)) (\<lambda>_. R) I"
    and connected: "keeps R (updateVpnState env (connected_update now ip c))"
begin

lemmas frames_I = keeps_intros keeps_externals [OF vpn_free_ext [OF free_I]] keeps_logged [OF vpn_free_log [OF free_I]]
  keeps_getRuntimeTunnels [OF vpn_free_ext [OF free_I]] keeps_stopAllTunnels [OF free_I]
  keeps_prepareForConnection [OF free_I] keeps_cleanupBypassRouting [OF vpn_free_ext [OF free_I]]
  keeps_wg_stopConnection [OF vpn_free_ext [OF free_I]] keeps_ov_stopConnection [OF free_I]
  keeps_warp_disconnect [OF vpn_free_ext [OF free_I]] keeps_getServerById [OF free_I]
  keeps_verifyConnectivity [OF vpn_free_ext [OF free_I]]

lemmas frames_R = keeps_intros keeps_externals [OF vpn_free_ext [OF free_R]] keeps_logged [OF vpn_free_log [OF free_R]]
  keeps_await_handshake [OF vpn_free_ext [OF free_R]] keeps_wg_startConnection [OF vpn_free_log [OF free_R]]
  keeps_wg_isConnectionActive [OF vpn_free_ext [OF free_R]] keeps_ov_startConnection [OF free_R]
  keeps_warp_connect [OF vpn_free_log [OF free_R]] keeps_warp_getStatus [OF vpn_free_ext [OF free_R]]
  keeps_verifyConnectivity [OF vpn_free_ext [OF free_R]]

lemma reconcile: "keeps I (reconcileRuntimeState env)"
  by (rule keeps_reconcile [OF free_I error recovered])

lemma assert_start: "keeps I (assertCanStartConnection env)"
  by (rule keeps_assertCanStart [OF free_I reconcile])

lemma store: "keeps R (store_connected env info c)"
  unfolding store_connected_def by (intro frames_R connected)

lemma failed: "keeps I stop \<Longrightarrow> keeps I (connect_failed env src stop ty p l w m e)"
  unfolding connect_failed_def by (intro frames_I marked)

lemma locked: "keeps I m \<Longrightarrow> keeps I (with_lock m)"
  unfolding keeps_def with_lock_def by (auto simp: lock_I split: prod.splits) (metis lock_I snd_conv)

text \<open>An attempt: first \<open>I\<close>, then \<open>R\<close>.\<close>

lemma attempt_R: "keeps R m \<Longrightarrow> triple R m (\<lambda>_. I) I"
  by (rule triple_weaken [OF triple_keeps [of R]]) (auto intro: R_I)

lemma attempt_ok: "triple I m (\<lambda>_. I) I \<Longrightarrow> (\<And>e. keeps I (h e)) \<Longrightarrow> keeps I (catch m h)"
  by (rule keeps_triple, rule triple_catch) (auto intro: triple_keeps)

lemma wireguard_body: "triple I (connectWireguard_body env pid p) (\<lambda>_. I) I"
  unfolding connectWireguard_body_def case_prod_unfold
  by (rule triple_step [OF assert_start], assumption, rule triple_step [OF keeps_logged(1) [OF vpn_free_log [OF free_I]]],
      assumption, rule triple_step [OF keeps_prepareForConnection [OF free_I]], assumption,
      rule triple_andThen [OF connecting], simp, rule attempt_R, intro frames_R store)

lemma connect_wireguard: "keeps I (connectWireguard env pid)"
  unfolding connectWireguard_def Let_def
  by (rule locked) (intro keeps_andThen keeps_option keeps_if failed attempt_ok wireguard_body frames_I;
      simp add: wg_getProfileById_def keeps_gets)

lemma run_openvpn: "triple I (run_openvpn env p a b c) (\<lambda>_. R) I"
  unfolding run_openvpn_def
  by (rule triple_step [OF keeps_prepareForConnection [OF free_I]], assumption,
      rule triple_andThen [OF connecting], simp, rule triple_weaken [OF triple_keeps [of R]], intro frames_R)
    (auto intro: R_I)

lemma openvpn_body: "triple I (connectOpenvpn_body env pid p) (\<lambda>_. I) I"
  unfolding connectOpenvpn_body_def
  by (rule triple_step [OF assert_start], assumption, rule triple_step [OF keeps_logged(1) [OF vpn_free_log [OF free_I]]],
      assumption, rule triple_andThen [OF run_openvpn], rule attempt_R, intro frames_R store)

lemma connect_openvpn: "keeps I (connectOpenvpn env pid)"
  unfolding connectOpenvpn_def Let_def
  by (rule locked) (intro keeps_andThen keeps_option keeps_if failed attempt_ok openvpn_body frames_I;
      simp add: ov_getProfileById_def keeps_gets)

lemma vpngate_body: "triple I (connectVpnGate_body env sid server) (\<lambda>_. I) I"
  unfolding connectVpnGate_body_def Let_def
  by (rule triple_step [OF keeps_ext [OF vpn_free_ext [OF free_I]]], assumption,
      rule triple_step [OF keeps_lift_result], assumption,
      rule triple_step [OF assert_start], assumption, rule triple_step [OF keeps_logged(1) [OF vpn_free_log [OF free_I]]],
      assumption, rule triple_andThen [OF run_openvpn], rule attempt_R, intro frames_R store)

lemma keeps_sum: "(\<And>e. keeps I (f e)) \<Longrightarrow> (\<And>x. keeps I (g x)) \<Longrightarrow> keeps I (case r of Inl e \<Rightarrow> f e | Inr x \<Rightarrow> g x)"
  by (cases r) auto

lemma connect_vpngate: "keeps I (connectVpnGateServer env sid)"
  unfolding connectVpnGateServer_def Let_def
  by (rule locked) (intro keeps_sum keeps_andThen keeps_option keeps_if failed attempt_ok vpngate_body frames_I)

lemma warp_body: "triple I (connectWarp_body env) (\<lambda>_. I) I"
  unfolding connectWarp_body_def
  by (rule triple_step [OF assert_start], assumption, rule triple_step [OF keeps_logged(1) [OF vpn_free_log [OF free_I]]],
      assumption, rule triple_step [OF keeps_prepareForConnection [OF free_I]], assumption,
      rule triple_andThen [OF connecting], simp, rule attempt_R, intro frames_R store)

lemma connect_warp: "keeps I (connectWarp env)"
  unfolding connectWarp_def by (rule locked) (intro attempt_ok warp_body failed frames_I)

lemma disconnected: "keeps I (disconnect env reason)"
  unfolding disconnect_def by (rule locked) (intro frames_I off)

lemma profile: "keeps I (profile_name g)"
  unfolding profile_name_def wg_getProfileById_def ov_getProfileById_def
  by (auto split: vpn_type.splits option.splits prod.splits intro!: keeps_intros)

lemma summary: "keeps I (getVpnStatusSummary env)"
  unfolding getVpnStatusSummary_def by (intro frames_I reconcile profile)

lemma maintenance: "keeps I (assertWarpMaintenanceAllowed env a)"
  unfolding assertWarpMaintenanceAllowed_def by (intro frames_I reconcile)

lemmas all_operations = connect_wireguard connect_openvpn connect_vpngate connect_warp disconnected summary
  maintenance reconcile

end

subsection \<open>The contract holds for the columns, for the database and for the row's presence\<close>

lemma settings_only_triple_ok:
  assumes "\<And>g now. vpn_ok (active_vpn_type g) (vpn_status g) g \<Longrightarrow>
     vpn_ok (active_vpn_type (apply_vpn_update u now g)) (vpn_status (apply_vpn_update u now g)) (apply_vpn_update u now g)"
  shows "keeps settings_ok (updateVpnState env u)"
  by (rule keeps_triple, rule triple_updateVpnState [OF settings_only_ok])
    (auto simp: settings_ok_def assms)

lemma tunnel_update:
  assumes "\<And>g now. P g \<Longrightarrow> vpn_ok (active_vpn_type (apply_vpn_update u now g))
       (vpn_status (apply_vpn_update u now g)) (apply_vpn_update u now g) \<and>
     active_vpn_type (apply_vpn_update u now g) \<noteq> TypeOff"
    and "\<And>s g. I s \<Longrightarrow> t_settings s = Some g \<Longrightarrow> P g"
  shows "triple I (updateVpnState env u) (\<lambda>_. settings_tunnel) E"
  by (rule triple_updateVpnState [OF settings_only_tunnel])
    (use assms in \<open>auto simp: settings_tunnel_def settings_ok_def\<close>)

lemmas update_eval = apply_vpn_update_def set_to_def no_update_def error_update_def off_update_def
  connecting_update_def connected_update_def recovered_update_def Let_def

interpretation stored_state: stored_invariant
  "settings_ok :: ('w, 'z) vpn_scheme \<Rightarrow> bool" settings_tunnel
proof
  show "vpn_free settings_ok" by (rule settings_only_vpn_free [OF settings_only_ok])
  show "vpn_free settings_tunnel" by (rule settings_only_vpn_free [OF settings_only_tunnel])
  show "settings_tunnel s \<Longrightarrow> settings_ok s" for s :: "('w, 'z) vpn_scheme" by (simp add: settings_tunnel_def)
  show "settings_ok (s\<lparr>vpnLock_busy := b\<rparr>) = settings_ok s" for s :: "('w, 'z) vpn_scheme" and b
    by (simp add: settings_ok_def)
  show "keeps settings_ok (updateVpnState env (error_update m))" for env :: "'w env" and m
    by (rule settings_only_triple_ok) (simp add: update_eval)
  show "keeps settings_ok (updateVpnState env (recovered_update g ty info now))" if "ty \<noteq> TypeOff"
    for env :: "'w env" and ty g info now
    using that by (intro settings_only_triple_ok) (simp add: update_eval)
  show "keeps settings_ok (markError env ty p l m)" for env :: "'w env" and ty p l m
    unfolding markError_def by (rule settings_only_triple_ok) (simp add: update_eval)
  show "keeps settings_ok (updateVpnState env off_update)" for env :: "'w env"
    by (rule settings_only_triple_ok) (simp add: update_eval)
  show "triple settings_ok (updateVpnState env (connecting_update ty p l)) (\<lambda>_. settings_tunnel) settings_ok"
    if "ty \<noteq> TypeOff" for env :: "'w env" and ty p l
    using that by (intro tunnel_update [where P = "\<lambda>_. True"]) (simp_all add: update_eval)
  show "keeps settings_tunnel (updateVpnState env (connected_update now ip c))" for env :: "'w env" and now ip c
    by (rule keeps_triple, rule tunnel_update [where P = "\<lambda>g. active_vpn_type g \<noteq> TypeOff"])
      (auto simp: update_eval settings_tunnel_def)
qed

lemma keeps_update_db: "keeps db_inv (updateVpnState env u)"
  unfolding updateVpnState_def update_settings_row_def
  by (intro db_keeps keeps_modify) (simp add: db_inv_def)

interpretation stored_integrity: stored_invariant db_inv db_inv
  by unfold_locales (auto simp: markError_def db_inv_def keeps_update_db vpn_free_db_inv triple_keeps [OF keeps_update_db])

definition has_row :: "('w, 'z) db_scheme \<Rightarrow> bool" where
  "has_row s \<longleftrightarrow> t_settings s \<noteq> None"

lemma settings_only_has_row: "settings_only has_row"
  by (simp add: settings_only_def has_row_def)

lemma keeps_update_row: "keeps has_row (updateVpnState env u)"
  by (rule keeps_triple, rule triple_updateVpnState [OF settings_only_has_row]) (auto simp: has_row_def)

interpretation stored_row: stored_invariant "has_row :: ('w, 'z) vpn_scheme \<Rightarrow> bool" has_row
proof
  show "has_row (s\<lparr>vpnLock_busy := b\<rparr>) = has_row s" for s :: "('w, 'z) vpn_scheme" and b by (simp add: has_row_def)
qed (simp_all add: markError_def keeps_update_row settings_only_vpn_free [OF settings_only_has_row]
      triple_keeps [OF keeps_update_row])

subsection \<open>Properties\<close>

text \<open>C8: Every operation of the VPN manager leads from a stored VPN state whose columns agree with each
  other to such a state, whether it succeeds, fails or throws: direct traffic carries no leftovers, a
  connection names a tunnel, a start and no error, and an error has a message and no connection.\<close>

theorem vpn_operations_keep_state:
  "keeps settings_ok (connectWireguard env pid) \<and> keeps settings_ok (connectOpenvpn env pid) \<and>
   keeps settings_ok (connectVpnGateServer env sid) \<and> keeps settings_ok (connectWarp env) \<and>
   keeps settings_ok (disconnect env reason) \<and> keeps settings_ok (getVpnStatusSummary env) \<and>
   keeps settings_ok (assertWarpMaintenanceAllowed env a) \<and> keeps settings_ok (reconcileRuntimeState env)"
  by (intro conjI stored_state.all_operations)

text \<open>The operations of the VPN manager keep the constraints of the database, and never lose the
  settings row.\<close>

theorem vpn_operations_keep_integrity:
  "keeps db_inv (connectWireguard env pid) \<and> keeps db_inv (connectOpenvpn env pid) \<and>
   keeps db_inv (connectVpnGateServer env sid) \<and> keeps db_inv (connectWarp env) \<and>
   keeps db_inv (disconnect env reason) \<and> keeps db_inv (getVpnStatusSummary env) \<and>
   keeps has_row (connectWireguard env pid) \<and> keeps has_row (connectOpenvpn env pid) \<and>
   keeps has_row (connectVpnGateServer env sid) \<and> keeps has_row (connectWarp env) \<and>
   keeps has_row (disconnect env reason) \<and> keeps has_row (getVpnStatusSummary env)"
  by (intro conjI stored_integrity.all_operations stored_row.all_operations)

end
