(* ===== verification/Vpn_Results.thy ===== *)
theory Vpn_Results imports Vpn_Invariants begin

section \<open>What the VPN manager's answers say\<close>

text \<open>
  The results of the operations of \<open>Vpn_Manager\<close> against the stored state: what a reconciliation returns,
  when an attempt may start or is refused, and what a success or a failure has stored.
\<close>

subsection \<open>What the operations leave of the row\<close>

lemma getSettings_Inr [run_elims]:
  assumes "getSettings s = (Inr g, t)"
  obtains row where "t_settings s = Some row" and "g = rowToSettings row" and "t = s"
  using assms by (auto simp: getSettings_def split: option.splits)

lemma row_frame:
  assumes "\<And>I :: ('w, 'z) vpn_scheme \<Rightarrow> bool. vpn_free I \<Longrightarrow> keeps I m" and "m s = (r, t)"
  shows "t_settings t = t_settings s"
  by (rule keepsD_run [OF assms(1) [OF settings_only_vpn_free] _ assms(2)]) (simp_all add: settings_only_def)

lemma runtime_row: "getRuntimeTunnels env (s :: ('w, 'z) vpn_scheme) = (r, t) \<Longrightarrow> t_settings t = t_settings s"
  by (erule row_frame [rotated]) (auto intro: keeps_getRuntimeTunnels)

lemma verify_row: "verifyConnectivity env (s :: ('w, 'z) vpn_scheme) = (r, t) \<Longrightarrow> t_settings t = t_settings s"
  by (erule row_frame [rotated]) (auto intro: keeps_verifyConnectivity)

lemma warn_row: "warnReconcileOnce env msg j (s :: ('w, 'z) vpn_scheme) = (r, t) \<Longrightarrow> t_settings t = t_settings s"
  by (erule row_frame [rotated]) (rule keeps_warnReconcileOnce)

lemma now_row: "(if b then ext (Date_now env) else ret 0) s = (Inr x, t) \<Longrightarrow> t_settings t = t_settings s"
  by (auto simp: ext_run split: if_splits)

lemma update_row:
  "updateVpnState env u s = (Inr x, t) \<Longrightarrow> \<exists>now. t_settings t = map_option (apply_vpn_update u now) (t_settings s)"
  unfolding updateVpnState_def update_settings_row_def by (elim run_elims) auto

lemma rowToSettings_same [simp]:
  "vpn_status (rowToSettings row) = vpn_status row" "active_vpn_type (rowToSettings row) = active_vpn_type row"
  "vpn_connected_at (rowToSettings row) = vpn_connected_at row"
  by (simp_all add: rowToSettings_def)

lemma update_warn_read:
  assumes "andThen (updateVpnState env u) (\<lambda>_. andThen (warnReconcileOnce env msg j) (\<lambda>_. getSettings)) s = (Inr g, t)"
    and "t_settings s = Some row"
  shows "\<exists>now. t_settings t = Some (apply_vpn_update u now row) \<and> g = rowToSettings (apply_vpn_update u now row)"
  using assms(1)
  apply (elim run_elims)
  apply (drule update_row, drule warn_row)
  using assms(2) by auto

definition agrees :: "vpn_type list \<Rightarrow> app_settings \<Rightarrow> bool" where
  "agrees runtime g \<longleftrightarrow> (case runtime of
     [] \<Rightarrow> vpn_status g \<noteq> StatusConnected
   | [ty] \<Rightarrow> vpn_status g = StatusConnected \<and> active_vpn_type g = ty
   | _ \<Rightarrow> vpn_status g = StatusError)"

lemma reconcile_some:
  assumes run: "(case runtime of
       [] \<Rightarrow> if vpn_status cur = StatusConnected then U1 else ret cur
     | actual # others \<Rightarrow> if others \<noteq> [] then U2
         else if vpn_status cur \<noteq> StatusConnected \<or> active_vpn_type cur \<noteq> actual then U3 actual
         else ret cur) u = (Inr g, t)"
    and row: "t_settings u = Some row" "cur = rowToSettings row"
    and U1: "U1 u = (Inr g, t) \<Longrightarrow> \<exists>row. t_settings t = Some row \<and> g = rowToSettings row \<and> vpn_status g \<noteq> StatusConnected"
    and U2: "U2 u = (Inr g, t) \<Longrightarrow> \<exists>row. t_settings t = Some row \<and> g = rowToSettings row \<and> vpn_status g = StatusError"
    and U3: "\<And>actual. U3 actual u = (Inr g, t) \<Longrightarrow>
       \<exists>row. t_settings t = Some row \<and> g = rowToSettings row \<and> vpn_status g = StatusConnected \<and> active_vpn_type g = actual"
  shows "\<exists>row. t_settings t = Some row \<and> g = rowToSettings row \<and> agrees runtime g"
proof (cases runtime)
  case Nil
  then show ?thesis using run row U1 by (auto simp: agrees_def split: if_splits)
next
  case (Cons actual others)
  show ?thesis
  proof (cases others)
    case Nil
    then show ?thesis using Cons run row U3 [of actual] by (auto simp: agrees_def split: if_splits)
  next
    case (Cons b bs)
    then show ?thesis using \<open>runtime = actual # others\<close> run U2 by (auto simp: agrees_def)
  qed
qed

text \<open>C14: After a reconciliation the stored state, which is what is returned, agrees with the tunnels that
  were found: none, then it is not connected; one, then it is connected over that tunnel; several, then it
  is an error.\<close>

theorem reconcile_agrees:
  assumes "reconcileRuntimeState env s = (Inr g, t)"
  shows "\<exists>runtime u row. getRuntimeTunnels env s = (Inr runtime, u) \<and> t_settings t = Some row \<and>
     g = rowToSettings row \<and> agrees runtime g"
proof -
  obtain row runtime u where row: "t_settings s = Some row" and rt: "getRuntimeTunnels env s = (Inr runtime, u)"
    using assms unfolding reconcileRuntimeState_def by (elim run_elims) blast
  have u: "t_settings u = Some row" using runtime_row [OF rt] row by simp
  have gs: "getSettings s = (Inr (rowToSettings row), s)" by (simp add: getSettings_def row)
  have "\<exists>row. t_settings t = Some row \<and> g = rowToSettings row \<and> agrees runtime g"
    using assms unfolding reconcileRuntimeState_def andThen_Inr [of getSettings, OF gs] andThen_Inr [of "getRuntimeTunnels env", OF rt]
    apply (rule reconcile_some [OF _ u refl])
      apply (drule update_warn_read [OF _ u], force simp: update_eval)
     apply (drule update_warn_read [OF _ u], force simp: update_eval)
    apply (elim andThen_Inr_elim [of "verifyConnectivity env"] andThen_Inr_elim [of "if _ then _ else _"])
    apply (drule verify_row, drule now_row)
    apply (drule update_warn_read [where row = row], simp add: u)
    apply (force simp: update_eval)
    done
  then show ?thesis using rt by blast
qed

subsection \<open>When an attempt may start\<close>

text \<open>C13: An attempt goes on only if no tunnel was found running and the stored state was neither connecting
  nor connected; so it never replaces a connection.\<close>

theorem start_only_when_idle:
  assumes "assertCanStartConnection env s = (Inr (), t)"
  shows "\<exists>u row. getRuntimeTunnels env u = (Inr [], t) \<and> t_settings t = Some row \<and>
     vpn_status row \<in> {StatusOff, StatusError}"
proof -
  obtain g u runtime where g: "reconcileRuntimeState env s = (Inr g, u)"
    and rt: "getRuntimeTunnels env u = (Inr runtime, t)"
    and st: "vpn_status g \<noteq> StatusConnecting" "runtime = []" "vpn_status g \<noteq> StatusConnected"
    using assms unfolding assertCanStartConnection_def
    by (elim run_elims) (auto split: if_splits)
  from reconcile_agrees [OF g] obtain row where "t_settings u = Some row" "g = rowToSettings row" by blast
  with runtime_row [OF rt] st rt show ?thesis by (cases "vpn_status row") auto
qed

text \<open>An environment where no command exists, and a state with a settings row.\<close>

definition idle_env :: "nat env" where
  "idle_env = demo_env\<lparr>execFile := \<lambda>c a w. (Inl ''ENOENT'', w)\<rparr>"

definition idle_vpn :: "vpn_status \<Rightarrow> nat vpn" where
  "idle_vpn st = demo_vpn\<lparr>t_settings := Some (demo_settings\<lparr>vpn_status := st\<rparr>)\<rparr>"

lemma idle_exec [simp]: "execFile idle_env c a w = (Inl ''ENOENT'', w)"
  by (simp add: idle_env_def)

lemma idle_ext_try [simp]: "ext_try (execFile idle_env c a) s = (Inl (Err ''ENOENT''), s)"
  by (simp add: ext_try_def)

lemma idle_fs [simp]: "fs_exists idle_env f w = False"
  by (simp add: idle_env_def)

lemma idle_runtime [simp]: "getRuntimeTunnels idle_env s = (Inr [], s)"
  by (simp add: getRuntimeTunnels_def wg_isConnectionActive_def run_def ov_isConnectionActive_def
      warp_getStatus_def isWarpInstalled_def no_warp_def andThen_run catch_run active_tunnels_def)

lemma idle_reconcile [simp]:
  "st \<noteq> StatusConnected \<Longrightarrow> reconcileRuntimeState idle_env (idle_vpn st) =
     (Inr (rowToSettings (demo_settings\<lparr>vpn_status := st\<rparr>)), idle_vpn st)"
  by (simp add: reconcileRuntimeState_def andThen_run getSettings_def) (simp add: idle_vpn_def)

theorem start_only_when_idle_witness:
  "assertCanStartConnection idle_env (idle_vpn StatusOff) = (Inr (), idle_vpn StatusOff) \<and>
   (\<exists>row. t_settings (idle_vpn StatusOff) = Some row \<and> vpn_status row \<in> {StatusOff, StatusError})"
proof -
  have run: "assertCanStartConnection idle_env (idle_vpn StatusOff) = (Inr (), idle_vpn StatusOff)"
    by (simp add: assertCanStartConnection_def andThen_run)
  from start_only_when_idle [OF run] run show ?thesis by blast
qed

theorem reconcile_agrees_witness:
  "\<exists>g. reconcileRuntimeState idle_env (idle_vpn StatusError) = (Inr g, idle_vpn StatusError) \<and> agrees [] g"
  using reconcile_agrees [OF idle_reconcile [of StatusError]] by auto

text \<open>An attempt that meets a running or starting connection is refused and leaves it alone: nothing is
  stopped, no command is run and no column is changed; the warning is the only effect, and the lock is free
  again.\<close>

theorem refused_attempt_leaves_tunnel:
  assumes "assertCanStartConnection env (s\<lparr>vpnLock_busy := True\<rparr>) = (Inl (VpnConflict m), u)"
  shows "connectWarp env s = (case log_warn env SrcWarp ''connection_blocked'' m None u of
      (Inl e, t) \<Rightarrow> (Inl e, t\<lparr>vpnLock_busy := False\<rparr>)
    | (Inr _, t) \<Rightarrow> (Inr (Failure m), t\<lparr>vpnLock_busy := False\<rparr>))"
  using assms
  by (simp add: connectWarp_def connectWarp_body_def with_lock_def catch_run andThen_run connect_failed_def
      split: prod.splits sum.splits)

lemma idle_conflict:
  "assertCanStartConnection idle_env ((idle_vpn StatusConnecting)\<lparr>vpnLock_busy := True\<rparr>) = (Inl (VpnConflict
     ''A VPN connection is already being established. Wait for it to finish or disconnect it first.''),
   (idle_vpn StatusConnecting)\<lparr>vpnLock_busy := True\<rparr>)"
  by (simp add: assertCanStartConnection_def andThen_run reconcileRuntimeState_def getSettings_def)
    (simp add: idle_vpn_def)

theorem refused_attempt_leaves_tunnel_witness:
  "\<exists>m t. connectWarp idle_env (idle_vpn StatusConnecting) = (Inr (Failure m), t) \<and>
     t_settings t = t_settings (idle_vpn StatusConnecting)"
proof -
  obtain t where t: "log_warn idle_env SrcWarp ''connection_blocked''
      ''A VPN connection is already being established. Wait for it to finish or disconnect it first.'' None
      ((idle_vpn StatusConnecting)\<lparr>vpnLock_busy := True\<rparr>) = (Inr (), t)"
    by (simp add: log_warn_def logged_def andThen_run writeLog_eq log_uniq_def Let_def idle_vpn_def demo_vpn_def
        vpn_of_def empty_db_def)
  from refused_attempt_leaves_tunnel [OF idle_conflict] log_keeps_settings(2) [OF t] t show ?thesis by simp
qed

subsection \<open>What a result says about the stored state\<close>

definition row_with :: "(app_settings \<Rightarrow> bool) \<Rightarrow> ('w, 'z) vpn_scheme \<Rightarrow> bool" where
  "row_with P s = (case t_settings s of None \<Rightarrow> False | Some g \<Rightarrow> P g)"

definition trying :: "vpn_type \<Rightarrow> string option \<Rightarrow> string \<Rightarrow> app_settings \<Rightarrow> bool" where
  "trying ty pid label g \<longleftrightarrow> active_vpn_type g = ty \<and> active_vpn_profile_id g = pid \<and> active_vpn_label g = Some label"

definition connected_as :: "vpn_type \<Rightarrow> string option \<Rightarrow> string \<Rightarrow> app_settings \<Rightarrow> bool" where
  "connected_as ty pid label g \<longleftrightarrow> trying ty pid label g \<and> vpn_status g = StatusConnected \<and>
     vpn_last_error g = None \<and> vpn_connected_at g \<noteq> None \<and> vpn_public_ip g \<noteq> None"

text \<open>A successful outcome has stored \<open>P\<close>.\<close>

definition stores :: "(app_settings \<Rightarrow> bool) \<Rightarrow> outcome \<Rightarrow> ('w, 'z) vpn_scheme \<Rightarrow> bool" where
  "stores P r s = (case r of Success \<Rightarrow> row_with P s | Failure m \<Rightarrow> True)"

lemma row_with_free: "vpn_free (row_with P)"
  by (rule settings_only_vpn_free) (simp add: settings_only_def row_with_def)

lemma update_row_with:
  assumes "\<And>g now. Q g \<Longrightarrow> P (apply_vpn_update u now g)" and "\<And>s. I s \<Longrightarrow> row_with Q s"
  shows "triple I (updateVpnState env u) (\<lambda>_. row_with P) E"
proof (rule triple_updateVpnState)
  show "settings_only (row_with P)" by (simp add: settings_only_def row_with_def)
qed (use assms in \<open>fastforce simp: row_with_def split: option.splits\<close>)+

lemma has_row_with: "has_row s \<Longrightarrow> row_with (\<lambda>_. True) s"
  by (auto simp: has_row_def row_with_def)

lemma connecting_row:
  "triple has_row (updateVpnState env (connecting_update ty pid l)) (\<lambda>_. row_with (trying ty pid l)) (\<lambda>_. True)"
  by (rule update_row_with [where Q = "\<lambda>_. True"]) (auto simp: trying_def update_eval has_row_with)

lemma store_row:
  "triple (row_with (trying ty pid l)) (store_connected env info c) (\<lambda>_. row_with (connected_as ty pid l)) (\<lambda>_. True)"
  unfolding store_connected_def
  by (rule triple_step [OF keeps_ext [OF vpn_free_ext [OF row_with_free]]], simp,
      rule update_row_with [where Q = "trying ty pid l"]) (auto simp: trying_def connected_as_def update_eval)

lemma stored_tail:
  "triple (row_with (trying ty pid l)) (andThen (store_connected env info c) (\<lambda>_. andThen (log_info env a b d j) (\<lambda>_. ret Success)))
     (stores (connected_as ty pid l)) (\<lambda>_. True)"
  by (rule triple_andThen [OF store_row], rule triple_step [OF keeps_logged(1) [OF vpn_free_log [OF row_with_free]]], simp,
      rule triple_ret) (simp add: stores_def)

lemma attempt_stores:
  assumes "triple has_row m (stores P) (\<lambda>_. True)" and "\<And>e s r t. h e s = (Inr r, t) \<Longrightarrow> \<exists>x. r = Failure x"
  shows "triple has_row (catch m h) (stores P) (\<lambda>_. True)"
  by (rule triple_catch [OF assms(1)]) (use assms(2) in \<open>fastforce simp: triple_def stores_def split: prod.splits sum.splits\<close>)

lemma failed_Failure: "connect_failed env src stop ty p l w m e s = (Inr r, t) \<Longrightarrow> \<exists>x. r = Failure x"
  by (auto simp: connect_failed_def andThen_run split: prod.splits sum.splits if_splits)

lemma locked_stores: "triple has_row m (stores P) (\<lambda>_. True) \<Longrightarrow> triple has_row (with_lock m) (stores P) (\<lambda>_. True)"
  unfolding triple_def with_lock_def stores_def has_row_def row_with_def
  apply (intro allI impI)
  subgoal for s by (drule spec [of _ "s\<lparr>vpnLock_busy := True\<rparr>"]) (auto split: prod.splits sum.splits outcome.splits)
  done

lemma keep_trying: "(\<And>I :: ('w, 'z) vpn_scheme \<Rightarrow> bool. vpn_free I \<Longrightarrow> keeps I m) \<Longrightarrow>
    (\<And>x. triple (row_with P) (f x) Q (\<lambda>_. True)) \<Longrightarrow> triple (row_with P) (andThen m f) Q (\<lambda>_. True)"
  for m :: "(('w, 'z) vpn_scheme, 'a) act"
  by (rule triple_step) (auto intro: row_with_free)

lemma free_outcome_or: "vpn_free I \<Longrightarrow> keeps I (outcome_or m r)"
  by (rule keeps_outcome_or)

lemma free_wg_start: "vpn_free I \<Longrightarrow> keeps I (wg_startConnection env p)"
  by (intro keeps_wg_startConnection) auto

lemma free_await: "vpn_free I \<Longrightarrow> keeps I (await_handshake env b)"
  by (intro keeps_await_handshake) auto

lemma free_wg_active: "vpn_free I \<Longrightarrow> keeps I (wg_isConnectionActive env)"
  by (intro keeps_wg_isConnectionActive) auto

lemma free_ov_active: "vpn_free I \<Longrightarrow> keeps I (ov_isConnectionActive env)"
  by (rule keeps_ov_isConnectionActive)

lemma free_verify: "vpn_free I \<Longrightarrow> keeps I (verifyConnectivity env)"
  by (intro keeps_verifyConnectivity) auto

lemma free_warp_connect: "vpn_free I \<Longrightarrow> keeps I (warp_connect env)"
  by (intro keeps_warp_connect) auto

lemma free_warp_status: "vpn_free I \<Longrightarrow> keeps I (warp_getStatus env)"
  by (intro keeps_warp_getStatus) auto

lemma start_row: "(\<And>x. triple has_row (f x) Q (\<lambda>_. True)) \<Longrightarrow>
   triple has_row (andThen (assertCanStartConnection env) (\<lambda>_. andThen (log_info env a b c d) f)) Q (\<lambda>_. True)"
  by (rule triple_step [OF stored_row.assert_start], simp,
      rule triple_step [OF keeps_logged(1) [OF vpn_free_log [OF stored_row.free_I]]], simp)

lemma prepared_row: "(\<And>x y. triple (row_with (trying ty pid l)) (f x y) Q (\<lambda>_. True)) \<Longrightarrow>
   triple has_row (andThen (prepareForConnection env) (\<lambda>b. andThen (updateVpnState env (connecting_update ty pid l)) (f b)))
     Q (\<lambda>_. True)"
  by (rule triple_step [OF keeps_prepareForConnection [OF stored_row.free_I]], simp,
      rule triple_andThen [OF connecting_row])

lemma wireguard_stores:
  "triple has_row (connectWireguard_body env pid p) (stores (connected_as TypeWireguard (Some pid) (wg_name p))) (\<lambda>_. True)"
  unfolding connectWireguard_body_def case_prod_unfold
  by (intro start_row prepared_row keep_trying [OF free_wg_start] keep_trying [OF free_outcome_or]
      keep_trying [OF free_await] keep_trying [OF free_wg_active] triple_if triple_option triple_throw stored_tail TrueI)

lemma run_openvpn_row:
  "triple has_row (run_openvpn env p a b c) (\<lambda>_. row_with (trying TypeOpenvpn (Some (ov_id p)) (ov_name p))) (\<lambda>_. True)"
  unfolding run_openvpn_def
  by (intro prepared_row keep_trying [OF keeps_ov_startConnection] keep_trying [OF free_outcome_or]
      keep_trying [OF free_ov_active] keep_trying [OF free_verify] triple_if triple_option triple_throw TrueI triple_ret)

lemma openvpn_stores:
  "triple has_row (connectOpenvpn_body env pid p) (stores (connected_as TypeOpenvpn (Some (ov_id p)) (ov_name p))) (\<lambda>_. True)"
  unfolding connectOpenvpn_body_def
  by (intro start_row, rule triple_andThen [OF run_openvpn_row], rule stored_tail)

lemma warp_stores:
  "triple has_row (connectWarp_body env) (stores (connected_as TypeWarp None ''Cloudflare WARP'')) (\<lambda>_. True)"
  unfolding connectWarp_body_def
  by (intro start_row prepared_row keep_trying [OF free_warp_connect] keep_trying [OF free_outcome_or]
      keep_trying [OF free_warp_status] keep_trying [OF free_verify] triple_if triple_option triple_throw stored_tail TrueI)

text \<open>C11: An attempt that reports success has stored a connection of its own kind, with the profile and the
  label it was asked for, a start, an address and no error; the settings row is there whenever it was.\<close>

theorem success_is_stored:
  "triple has_row (connectWarp env) (stores (connected_as TypeWarp None ''Cloudflare WARP'')) (\<lambda>_. True) \<and>
   triple has_row (catch (connectWireguard_body env pid p) (connect_failed env src stop ty fid l w md))
     (stores (connected_as TypeWireguard (Some pid) (wg_name p))) (\<lambda>_. True) \<and>
   triple has_row (catch (connectOpenvpn_body env pid q) (connect_failed env src stop ty fid l w md))
     (stores (connected_as TypeOpenvpn (Some (ov_id q)) (ov_name q))) (\<lambda>_. True)"
  unfolding connectWarp_def
  by (intro conjI locked_stores attempt_stores warp_stores wireguard_stores openvpn_stores failed_Failure)

definition off_row :: "app_settings \<Rightarrow> bool" where
  "off_row g \<longleftrightarrow> vpn_status g = StatusOff \<and> active_vpn_type g = TypeOff \<and> active_vpn_profile_id g = None \<and>
     active_vpn_label g = None \<and> vpn_last_error g = None \<and> vpn_connected_at g = None \<and> vpn_public_ip g = None \<and>
     vpn_country g = None"

text \<open>A disconnect that reports success has stored the direct route, whatever the state was before.\<close>

theorem disconnect_is_stored:
  "triple has_row (disconnect env reason) (stores off_row) (\<lambda>_. True)"
  unfolding disconnect_def
proof (rule locked_stores, rule attempt_stores)
  note free = stored_row.free_I
  show "triple has_row (andThen getSettings (\<lambda>current.
      andThen (cond (vpn_status current \<noteq> StatusOff \<or> active_vpn_type current \<noteq> TypeOff)
          (log_info env SrcVpn ''disconnect'' (''Disconnecting '' @ settings_label current @ ''.'')
             (Some (JObj [(''reason'', JStr reason)])))) (\<lambda>_.
      andThen (stopAllTunnels env) (\<lambda>_.
      andThen (cleanupBypassRouting env) (\<lambda>_.
      andThen (updateVpnState env off_update) (\<lambda>_.
      andThen (log_info env SrcVpn ''disconnected''
          ''VPN disconnected. Traffic is using the direct container route.'' None) (\<lambda>_.
      ret Success)))))))
     (stores off_row) (\<lambda>_. True)"
    by (rule triple_step [OF keeps_getSettings], simp,
        rule triple_step [OF keeps_cond [OF keeps_logged(1) [OF vpn_free_log [OF free]]]], simp,
        rule triple_step [OF keeps_stopAllTunnels [OF free]], simp,
        rule triple_step [OF keeps_cleanupBypassRouting [OF vpn_free_ext [OF free]]], simp,
        rule triple_andThen [OF update_row_with [where P = off_row and Q = "\<lambda>_. True"]],
        simp add: off_row_def update_eval, simp add: has_row_with,
        rule triple_step [OF keeps_logged(1) [OF vpn_free_log [OF row_with_free]]], simp,
        rule triple_ret, simp add: stores_def)
qed (auto simp: andThen_run split: prod.splits sum.splits)

definition failed_as :: "vpn_type \<Rightarrow> string option \<Rightarrow> string \<Rightarrow> string \<Rightarrow> app_settings \<Rightarrow> bool" where
  "failed_as ty pid label msg g \<longleftrightarrow> trying ty pid label g \<and> vpn_status g = StatusError \<and>
     vpn_last_error g = Some msg \<and> vpn_connected_at g = None \<and> vpn_public_ip g = None \<and> vpn_country g = None"

lemma failure_stores:
  assumes "\<And>I :: ('w, 'z) vpn_scheme \<Rightarrow> bool. vpn_free I \<Longrightarrow> keeps I stop"
  shows "triple has_row (connect_failed env src (stop :: (('w, 'z) vpn_scheme, unit) act) ty pid label w md (Err m))
     (\<lambda>r t. r = Failure m \<and> row_with (failed_as ty pid label m) t) (\<lambda>_. True)"
proof -
  note free = stored_row.free_I
  have mark: "triple has_row (markError env ty pid (Some label) m) (\<lambda>_. row_with (failed_as ty pid label m)) (\<lambda>_. True)"
    unfolding markError_def
    by (rule update_row_with [where Q = "\<lambda>_. True"]) (auto simp: failed_as_def trying_def update_eval has_row_with)
  show ?thesis
    unfolding connect_failed_def is_conflict.simps if_False message.simps
    by (rule triple_step [OF assms [OF free]], simp,
        rule triple_step [OF keeps_cleanupBypassRouting [OF vpn_free_ext [OF free]]], simp,
        rule triple_andThen [OF mark],
        rule triple_step [OF keeps_logged(3) [OF vpn_free_log [OF row_with_free]]], simp,
        rule triple_ret, simp)
qed

lemma free_dropping: "keeps I m \<Longrightarrow> keeps I (dropping m)"
  by (rule keeps_dropping)


subsection \<open>The WireGuard wait ends\<close>

lemma past_verify:
  assumes "clock_law env clk"
  shows "keeps (past clk c) (verifyConnectivity env)"
proof -
  have "keeps (past clk c) (probe_all env es)" for es
  proof (induction es)
    case (Cons e es)
    then show ?case by (cases e) (simp only: probe_all.simps, intro keeps_andThen keeps_option keeps_ret past_fetch [OF assms])
  qed (simp only: probe_all.simps keeps_ret)
  then show ?thesis by (simp add: verifyConnectivity_def)
qed

lemma past_handshake: "clock_law env clk \<Longrightarrow> keeps (past clk c) (hasRecentHandshake env)"
  unfolding hasRecentHandshake_def by (intro keeps_intros past_intros)

lemma handshake_round_time:
  assumes "clock_law env clk" and "handshake_round env b acc s = (Inr (False, acc'), t)"
  shows "clk (outer s) < clk (outer t)"
proof -
  from assms(2) obtain ip u h v where v: "verifyConnectivity env s = (Inr ip, u)" and h: "hasRecentHandshake env u = (Inr h, v)"
    and t: "t = v\<lparr>outer := sleep_ms env 700 (outer v)\<rparr>"
    unfolding handshake_round_def
    by (elim run_elims) (auto simp: andThen_run sleep_def split: if_splits)
  have "past clk (clk (outer s)) u"
    by (rule keepsD_run [OF past_verify [OF assms(1)] _ v]) (simp add: past_def)
  then have "past clk (clk (outer s)) v"
    by (rule keepsD_run [OF past_handshake [OF assms(1)] _ h])
  then show ?thesis using clock_sleep [OF assms(1), of "outer v" 700] by (simp add: t past_def)
qed

lemma poll_var_enough:
  assumes "clock_law env clk"
    and time: "\<And>acc s acc' t. body acc s = (Inr (False, acc'), t) \<Longrightarrow> clk (outer s) < clk (outer t)"
  shows "deadline \<le> clk (outer s) + n \<Longrightarrow>
     poll_var env deadline body (Suc n) acc s = poll_var env deadline body (Suc (n + k)) acc s"
proof (induction n arbitrary: s acc)
  case 0
  obtain now w where d: "Date_now env (outer s) = (now, w)" by fastforce
  with clock_now [OF assms(1) d] 0 show ?case by (simp add: andThen_run ext_def)
next
  case (Suc n)
  obtain now w where d: "Date_now env (outer s) = (now, w)" by fastforce
  note c = clock_now [OF assms(1) d]
  obtain r t where b: "body acc (s\<lparr>outer := w\<rparr>) = (r, t)" by fastforce
  show ?case
  proof (cases "\<exists>acc'. r = Inr (False, acc')")
    case True
    then obtain acc' where r: "r = Inr (False, acc')" by blast
    have "clk w < clk (outer t)" using time [OF b [unfolded r]] by simp
    then have "deadline \<le> clk (outer t) + n" using Suc.prems c by linarith
    from Suc.IH [OF this] show ?thesis using r b d by (simp add: andThen_run ext_def)
  next
    case False
    with b d show ?thesis by (cases r) (auto simp: andThen_run ext_def split: prod.splits)
  qed
qed

text \<open>The wait for a WireGuard handshake ends: its fuel is never used up, more fuel gives the same
  result.\<close>

theorem handshake_wait_ends:
  assumes "clock_law env clk"
  shows "poll_var env deadline (handshake_round env baseline) (Suc deadline) acc s =
    poll_var env deadline (handshake_round env baseline) (Suc (deadline + k)) acc s"
  by (rule poll_var_enough [OF assms handshake_round_time [OF assms]]) (assumption, rule le_add2)

theorem handshake_wait_ends_witness:
  "poll_var demo_env 5 (handshake_round demo_env None) (Suc 5) (None, False) (empty_db 0) =
   poll_var demo_env 5 (handshake_round demo_env None) (Suc (5 + 3)) (None, False) (empty_db 0)"
  by (rule handshake_wait_ends [OF demo_clock])

lemma safe_verifyConnectivity [safe_intros]: "safe (verifyConnectivity env)"
proof -
  have "safe (probe_all env es)" for es
  proof (induction es)
    case (Cons e es)
    then show ?case by (cases e) (simp only: probe_all.simps, intro safe_intros)
  qed (simp only: probe_all.simps safe_ret)
  then show ?thesis by (simp add: verifyConnectivity_def)
qed

lemma safe_hasRecentHandshake [safe_intros]: "safe (hasRecentHandshake env)"
  unfolding hasRecentHandshake_def by (intro safe_catch safe_ret)

lemma safe_handshake_round: "safe (handshake_round env baseline acc)"
  unfolding handshake_round_def by (intro safe_intros)

lemma poll_var_returns:
  assumes "clock_law env clk" and "\<And>acc. safe (body acc)"
    and time: "\<And>acc s acc' t. body acc s = (Inr (False, acc'), t) \<Longrightarrow> clk (outer s) < clk (outer t)"
  shows "deadline \<le> clk (outer s) + n \<Longrightarrow> \<exists>r t. poll_var env deadline body (Suc n) acc s = (Inr r, t)"
proof (induction n arbitrary: s acc)
  case 0
  obtain now w where d: "Date_now env (outer s) = (now, w)" by fastforce
  with clock_now [OF assms(1) d] 0 show ?case by (simp add: andThen_run ext_def)
next
  case (Suc n)
  obtain now w where d: "Date_now env (outer s) = (now, w)" by fastforce
  note c = clock_now [OF assms(1) d]
  obtain r t where b: "body acc (s\<lparr>outer := w\<rparr>) = (Inr r, t)"
    using assms(2) [of acc] unfolding safe_def by (metis prod.exhaust)
  obtain stop acc' where r: "r = (stop, acc')" by fastforce
  show ?case
  proof (cases stop)
    case True
    with b d r show ?thesis by (simp add: andThen_run ext_def)
  next
    case False
    then have "body acc (s\<lparr>outer := w\<rparr>) = (Inr (False, acc'), t)" using b r by simp
    then have "clk w < clk (outer t)" using time by fastforce
    then have "deadline \<le> clk (outer t) + n" using Suc.prems c by linarith
    from Suc.IH [OF this] show ?thesis using r b d False by (simp add: andThen_run ext_def)
  qed
qed

text \<open>C40: Waiting for a WireGuard handshake ends and throws nothing, whatever the commands and the probes answer: a round takes
  time, so the deadline passes before the fuel of the loop is used up.\<close>

theorem handshake_wait_returns:
  assumes "clock_law env clk"
  shows "\<exists>ipInfo handshake t. await_handshake env baseline s = (Inr (ipInfo, handshake), t)"
proof -
  obtain now w where d: "Date_now env (outer s) = (now, w)" by fastforce
  have "now + 15000 \<le> clk (outer (s\<lparr>outer := w\<rparr>)) + (now + 15000)" by simp
  from poll_var_returns [OF assms safe_handshake_round handshake_round_time [OF assms] this]
  show ?thesis by (simp add: await_handshake_def andThen_run ext_def d)
qed

theorem handshake_wait_returns_witness:
  "\<exists>ipInfo handshake t. await_handshake demo_env None (empty_db 0) = (Inr (ipInfo, handshake), t)"
  by (rule handshake_wait_returns [OF demo_clock])

end
