(* ===== verification/Network_Status.thy ===== *)
theory Network_Status imports Vpn_Results begin

section \<open>The outbound network status\<close>

text \<open>\<open>lib/services/network-status.service.ts\<close>: the egress probes and the cached status the pages show.\<close>

definition NETWORK_CACHE_TTL_MS :: nat where "NETWORK_CACHE_TTL_MS = 8000"

record probe_result =
  pr_ip :: string
  pr_country :: "string option"
  pr_region :: "string option"
  pr_city :: "string option"

definition ip_info_probe :: "json \<Rightarrow> probe_result option" where
  "ip_info_probe j = (case json_text j ''ip'' of
     None \<Rightarrow> None
   | Some ip \<Rightarrow> Some \<lparr>pr_ip = ip, pr_country = json_text j ''country'', pr_region = json_text j ''region'',
       pr_city = json_text j ''city''\<rparr>)"

definition trace_probe :: "string \<Rightarrow> probe_result option" where
  "trace_probe text = (case truthy (trace_field ''ip='' text) of
     None \<Rightarrow> None
   | Some ip \<Rightarrow> Some \<lparr>pr_ip = ip, pr_country = truthy (trace_field ''loc='' text), pr_region = None, pr_city = None\<rparr>)"

definition ipify_probe :: "json \<Rightarrow> probe_result option" where
  "ipify_probe j = map_option (\<lambda>ip. \<lparr>pr_ip = ip, pr_country = None, pr_region = None, pr_city = None\<rparr>)
     (json_text j ''ip'')"

text \<open>\<open>fetch\<close>, then what the probe makes of an \<open>ok\<close> answer; every error is \<open>null\<close>.\<close>

definition probe_with ::
  "'w env \<Rightarrow> string \<Rightarrow> (response \<Rightarrow> probe_result option) \<Rightarrow> (('w, 'z) db_scheme, probe_result option) act" where
  "probe_with env url read_answer =
     andThen (ext (fetch env url)) (\<lambda>response. ret (case response of
       None \<Rightarrow> None | Some r \<Rightarrow> if r_ok r then read_answer r else None))"

definition probeIpInfo :: "'w env \<Rightarrow> (('w, 'z) db_scheme, probe_result option) act" where
  "probeIpInfo env = probe_with env ''https://ipinfo.io/json''
     (\<lambda>r. case r_json r of None \<Rightarrow> None | Some j \<Rightarrow> ip_info_probe j)"

definition probeCloudflare :: "'w env \<Rightarrow> (('w, 'z) db_scheme, probe_result option) act" where
  "probeCloudflare env = probe_with env ''https://www.cloudflare.com/cdn-cgi/trace'' (\<lambda>r. trace_probe (r_text r))"

definition probeIpify :: "'w env \<Rightarrow> (('w, 'z) db_scheme, probe_result option) act" where
  "probeIpify env = probe_with env ''https://api.ipify.org?format=json''
     (\<lambda>r. case r_json r of None \<Rightarrow> None | Some j \<Rightarrow> ipify_probe j)"

text \<open>\<open>a || b\<close> of two probes: the second runs only if the first found nothing.\<close>

definition or_probe :: "('s, 'a option) act \<Rightarrow> ('s, 'a option) act \<Rightarrow> ('s, 'a option) act" where
  "or_probe a b = andThen a (\<lambda>r. case r of Some x \<Rightarrow> ret (Some x) | None \<Rightarrow> b)"

definition probeCurrentEgress :: "'w env \<Rightarrow> (('w, 'z) db_scheme, probe_result option) act" where
  "probeCurrentEgress env = or_probe (or_probe (probeIpInfo env) (probeCloudflare env)) (probeIpify env)"

definition present :: "string option list \<Rightarrow> string list" where
  "present vs = List.map_filter truthy vs"

definition buildLocation :: "probe_result option \<Rightarrow> string option" where
  "buildLocation probe = (case probe of
     None \<Rightarrow> None
   | Some p \<Rightarrow>
       (let parts = present [pr_city p, pr_region p, pr_country p] in
        if parts = [] then None else Some (join '', '' parts)))"

definition status_server :: "app_settings \<Rightarrow> string" where
  "status_server settings =
     (if vpn_status settings = StatusConnected \<or> vpn_status settings = StatusConnecting then
        (case truthy (active_vpn_label settings) of Some l \<Rightarrow> l
         | None \<Rightarrow> toUpperCase (tunnel_name (active_vpn_type settings)))
      else (case (vpn_status settings, truthy (active_vpn_label settings)) of
         (StatusError, Some l) \<Rightarrow> l @ '' (ERROR)''
       | _ \<Rightarrow> ''DIRECT / HOST NETWORK''))"

definition network_value :: "app_settings \<Rightarrow> probe_result option \<Rightarrow> timestamp \<Rightarrow> network_status" where
  "network_value settings probe now =
     (let from_probe = (\<lambda>f. case probe of None \<Rightarrow> None | Some p \<Rightarrow> f p) in
      \<lparr>ns_ip = or_else (map_option pr_ip probe) (truthy (vpn_public_ip settings)),
       ns_country = or_else (from_probe pr_country) (truthy (vpn_country settings)),
       ns_region = truthy (from_probe pr_region), ns_city = truthy (from_probe pr_city),
       ns_location = or_else (buildLocation probe) (truthy (vpn_country settings)),
       ns_server = status_server settings, ns_vpnStatus = vpn_status settings,
       ns_vpnType = active_vpn_type settings, ns_checkedAt = now\<rparr>)"

definition invalidateCache :: "(('w, 'z) vpn_scheme, unit) act" where
  "invalidateCache = modify (\<lambda>s. s\<lparr>network_cache := None\<rparr>)"

definition refresh_status :: "'w env \<Rightarrow> (('w, 'z) vpn_scheme, network_status) act" where
  "refresh_status env =
     andThen getSettings (\<lambda>settings.
     andThen (probeCurrentEgress env) (\<lambda>probe.
     andThen (ext (Date_now env)) (\<lambda>checked.
     let value = network_value settings probe checked in
     andThen (ext (Date_now env)) (\<lambda>now.
     andThen (modify (\<lambda>s. s\<lparr>network_cache := Some \<lparr>nc_value = value, nc_expiresAt = now + NETWORK_CACHE_TTL_MS\<rparr>\<rparr>)) (\<lambda>_.
     ret value)))))"

definition getCurrent :: "'w env \<Rightarrow> bool \<Rightarrow> (('w, 'z) vpn_scheme, network_status) act" where
  "getCurrent env forceRefresh =
     andThen (gets network_cache) (\<lambda>cached. case (forceRefresh, cached) of
       (False, Some c) \<Rightarrow>
         andThen (ext (Date_now env)) (\<lambda>now.
         if nc_expiresAt c > now then ret (nc_value c) else refresh_status env)
     | _ \<Rightarrow> refresh_status env)"

subsection \<open>Properties\<close>

lemma keeps_probe_with: "ext_free I \<Longrightarrow> keeps I (probe_with env u f)"
  unfolding probe_with_def by (intro keeps_intros keeps_ext)

lemma keeps_probeCurrentEgress: "ext_free I \<Longrightarrow> keeps I (probeCurrentEgress env)"
  unfolding probeCurrentEgress_def or_probe_def probeIpInfo_def probeCloudflare_def probeIpify_def
  by (intro keeps_intros keeps_probe_with)

lemma keeps_getCurrent:
  assumes "vpn_free I"
  shows "keeps I (getCurrent env force)"
proof -
  have "keeps I (refresh_status env)"
    unfolding refresh_status_def Let_def
    by (intro keeps_intros keeps_ext [OF vpn_free_ext [OF assms]] keeps_probeCurrentEgress [OF vpn_free_ext [OF assms]]
        keeps_modify) (use assms in \<open>simp add: vpn_free_def\<close>)
  then show ?thesis
    unfolding getCurrent_def
    by (intro keeps_andThen keeps_gets)
      (auto split: bool.splits option.splits intro!: keeps_intros keeps_ext [OF vpn_free_ext [OF assms]])
qed

lemma refresh_Inr:
  assumes "refresh_status env s = (Inr v, t)"
  shows "\<exists>row probe checked e. t_settings s = Some row \<and> v = network_value (rowToSettings row) probe checked \<and>
     network_cache t = Some \<lparr>nc_value = v, nc_expiresAt = e\<rparr>"
  using assms unfolding refresh_status_def Let_def
  by (elim run_elims) auto

text \<open>The status that is returned is cached, and until it expires it is returned again without a probe or
  a look at the database; a forced call computes a new one from the stored settings.\<close>

theorem network_status_cached:
  assumes "getCurrent env True s = (Inr v, t)"
  shows "\<exists>row probe checked e. t_settings s = Some row \<and> v = network_value (rowToSettings row) probe checked \<and>
     network_cache t = Some \<lparr>nc_value = v, nc_expiresAt = e\<rparr> \<and>
     (\<forall>u. network_cache u = network_cache t \<and> fst (Date_now env (outer u)) < e \<longrightarrow>
        getCurrent env False u = (Inr v, u\<lparr>outer := snd (Date_now env (outer u))\<rparr>))"
proof -
  have "refresh_status env s = (Inr v, t)" using assms by (simp add: getCurrent_def andThen_run)
  from refresh_Inr [OF this] obtain row probe checked e where
    r: "t_settings s = Some row" "v = network_value (rowToSettings row) probe checked"
      "network_cache t = Some \<lparr>nc_value = v, nc_expiresAt = e\<rparr>" by blast
  have "\<forall>u. network_cache u = network_cache t \<and> fst (Date_now env (outer u)) < e \<longrightarrow>
        getCurrent env False u = (Inr v, u\<lparr>outer := snd (Date_now env (outer u))\<rparr>)"
    by (simp add: getCurrent_def andThen_run ext_run r(3))
  with r show ?thesis by blast
qed

theorem network_status_cached_witness:
  "\<exists>v t. getCurrent idle_env True (idle_vpn StatusOff) = (Inr v, t) \<and> ns_server v = ''DIRECT / HOST NETWORK''"
proof -
  obtain v t where run: "getCurrent idle_env True (idle_vpn StatusOff) = (Inr v, t)"
    by (simp add: getCurrent_def refresh_status_def act_simps getSettings_def idle_vpn_def idle_env_def
        probeCurrentEgress_def or_probe_def probeIpInfo_def probeCloudflare_def probeIpify_def probe_with_def Let_def)
  from network_status_cached [OF run] obtain row probe checked where
    "t_settings (idle_vpn StatusOff) = Some row" "v = network_value (rowToSettings row) probe checked" by blast
  then have "ns_server v = ''DIRECT / HOST NETWORK''"
    by (auto simp: network_value_def status_server_def idle_vpn_def Let_def)
  with run show ?thesis by blast
qed

end
