(* ===== verification/Vpn_Routes.thy ===== *)
theory Vpn_Routes imports Provider_Routes Network_Status begin

section \<open>The routes of the VPN and of the network status\<close>

text \<open>\<open>app/api/vpn\<close> without the speed test, and \<open>app/api/network/status\<close>.\<close>

text \<open>A field that is optional and nullable: \<open>Some (Some None)\<close> is \<open>null\<close>.\<close>

definition nullable :: "(json \<Rightarrow> 'a option) \<Rightarrow> json \<Rightarrow> 'a option option" where
  "nullable parse v = (case v of JNull \<Rightarrow> Some None | _ \<Rightarrow> map_option Some (parse v))"

definition wireguard_summary_json :: "wireguard_profile_summary \<Rightarrow> json" where
  "wireguard_summary_json p = JObj [(''id'', JStr (wgs_id p)), (''name'', JStr (wgs_name p)),
     (''address'', text_or_null (wgs_address p)), (''endpoint'', text_or_null (wgs_endpoint p)),
     (''enabled'', JNum (wgs_enabled p)), (''created_at'', JNum (int (wgs_created_at p))),
     (''updated_at'', JNum (int (wgs_updated_at p)))]"

definition wireguard_json :: "wireguard_profile \<Rightarrow> json" where
  "wireguard_json p = JObj [(''id'', JStr (wg_id p)), (''name'', JStr (wg_name p)), (''config'', JStr (wg_config p)),
     (''enabled'', JNum (wg_enabled p)), (''created_at'', JNum (int (wg_created_at p))),
     (''updated_at'', JNum (int (wg_updated_at p)))]"

definition openvpn_summary_json :: "openvpn_profile_summary \<Rightarrow> json" where
  "openvpn_summary_json p = JObj [(''id'', JStr (ovs_id p)), (''name'', JStr (ovs_name p)),
     (''remotes'', JArr (map JStr (ovs_remotes p))), (''proto'', text_or_null (ovs_proto p)),
     (''dev'', text_or_null (ovs_dev p)), (''hasCredentials'', JBool (ovs_hasCredentials p)),
     (''source'', source_json (ovs_source p)), (''enabled'', JNum (ovs_enabled p)),
     (''created_at'', JNum (int (ovs_created_at p))), (''updated_at'', JNum (int (ovs_updated_at p)))]"

definition openvpn_json :: "openvpn_profile \<Rightarrow> json" where
  "openvpn_json p = JObj [(''id'', JStr (ov_id p)), (''name'', JStr (ov_name p)), (''config'', JStr (ov_config p)),
     (''username'', text_or_null (ov_username p)), (''password'', text_or_null (ov_password p)),
     (''source'', source_json (ov_source p)), (''enabled'', JNum (ov_enabled p)),
     (''created_at'', JNum (int (ov_created_at p))), (''updated_at'', JNum (int (ov_updated_at p)))]"

definition summary_json :: "vpn_summary \<Rightarrow> json" where
  "summary_json v = JObj [(''status'', vpn_status_json (vs_status v)), (''type'', vpn_type_json (vs_type v)),
     (''profileId'', text_or_null (vs_profileId v)), (''profileName'', text_or_null (vs_profileName v)),
     (''connectedSince'', time_or_null (vs_connectedSince v)), (''publicIp'', text_or_null (vs_publicIp v)),
     (''country'', text_or_null (vs_country v)), (''lastError'', text_or_null (vs_lastError v)),
     (''isBusy'', JBool (vs_isBusy v))]"

definition server_json :: "public_vpngate_server \<Rightarrow> json" where
  "server_json g = JObj [(''id'', JStr (g_id g)), (''hostname'', JStr (g_hostname g)), (''ip'', JStr (g_ip g)),
     (''score'', JNum (g_score g)), (''ping'', JNum (g_ping g)), (''speed'', JNum (g_speed g)),
     (''countryLong'', JStr (g_countryLong g)), (''countryShort'', JStr (g_countryShort g)),
     (''sessions'', JNum (g_sessions g)), (''uptime'', JNum (g_uptime g))]"

definition warp_json :: "warp_status \<Rightarrow> json" where
  "warp_json w = JObj ([(''installed'', JBool (ws_installed w)), (''daemonRunning'', JBool (ws_daemonRunning w)),
     (''registered'', JBool (ws_registered w)), (''connected'', JBool (ws_connected w))] @
     opt_field ''accountType'' (ws_accountType w) @ opt_field ''deviceId'' (ws_deviceId w) @
     opt_field ''mode'' (ws_mode w) @ [(''details'', JStr (ws_details w))])"

definition network_json :: "network_status \<Rightarrow> json" where
  "network_json n = JObj [(''ip'', text_or_null (ns_ip n)), (''country'', text_or_null (ns_country n)),
     (''region'', text_or_null (ns_region n)), (''city'', text_or_null (ns_city n)),
     (''location'', text_or_null (ns_location n)), (''server'', JStr (ns_server n)),
     (''vpnStatus'', vpn_status_json (ns_vpnStatus n)), (''vpnType'', vpn_type_json (ns_vpnType n)),
     (''checkedAt'', JNum (int (ns_checkedAt n)))]"

definition error_with :: "nat \<Rightarrow> string \<Rightarrow> (string \<times> json) list \<Rightarrow> reply" where
  "error_with code msg kvs = reply_json code ([(''success'', JBool False), (''error'', JStr msg)] @ kvs)"

definition busy_reply :: reply where
  "busy_reply = error_json 409 ''Another VPN operation is already in progress.''"

text \<open>The error reply that also tells the current state, or \<open>null\<close> when even that fails.\<close>

definition route_or_state :: "'w env \<Rightarrow> nat \<Rightarrow> (('w, 'z) vpn_scheme, reply) act \<Rightarrow> (('w, 'z) vpn_scheme, reply) act" where
  "route_or_state env code m = catch m (\<lambda>e.
     andThen (catch (andThen (getVpnStatusSummary env) (\<lambda>v. ret (summary_json v))) (\<lambda>_. ret JNull)) (\<lambda>state.
     ret (error_with code (message e) [(''data'', state)])))"

definition state_reply :: "'w env \<Rightarrow> (('w, 'z) vpn_scheme, reply) act" where
  "state_reply env = andThen (getVpnStatusSummary env) (\<lambda>v. ret (success_json 200 [(''data'', summary_json v)]))"

subsection \<open>Connect, disconnect, status\<close>

datatype connect_type = ConnectWireguard | ConnectOpenvpn | ConnectWarp

definition connect_type_value :: "json \<Rightarrow> connect_type option" where
  "connect_type_value v = (if v = JStr ''wireguard'' then Some ConnectWireguard
     else if v = JStr ''openvpn'' then Some ConnectOpenvpn
     else if v = JStr ''warp'' then Some ConnectWarp else None)"

definition connectSchema :: "json \<Rightarrow> (connect_type \<times> string option) option" where
  "connectSchema body =
     Option.bind (required connect_type_value ''type'' body) (\<lambda>ty.
     Option.bind (optional (trimmed_value 1 256) ''profileId'' body) (\<lambda>profileId. Some (ty, profileId)))"

definition conflict_texts :: "string list" where
  "conflict_texts = [''already connected'', ''disconnect the current vpn'', ''already being established'']"

definition is_conflict_text :: "string \<Rightarrow> bool" where
  "is_conflict_text e = list_ex (includesStr (toLowerCase e)) conflict_texts"

definition connect_result :: "'w env \<Rightarrow> outcome \<Rightarrow> (('w, 'z) vpn_scheme, reply) act" where
  "connect_result env result =
     andThen (getVpnStatusSummary env) (\<lambda>state. ret (case result of
       Success \<Rightarrow> success_json 200 [(''data'', summary_json state)]
     | Failure e \<Rightarrow> error_with (if vs_status state = StatusConnected \<or> is_conflict_text e then 409 else 500)
         (if e = [] then ''VPN connection failed.'' else e) [(''data'', summary_json state)]))"

definition connect_POST :: "'w env \<Rightarrow> request \<Rightarrow> (('w, 'z) vpn_scheme, reply) act" where
  "connect_POST env req = route_or_state env 500 (guarded env req (with_session env req (
     andThen (gets vpnLock_busy) (\<lambda>busy.
     if busy then ret busy_reply
     else parse_body env req ''connect'' connectSchema (\<lambda>(ty, profileId).
       let missing = ret (error_json 400 ''profileId is required.'') in
       case ty of
         ConnectWireguard \<Rightarrow> (case profileId of None \<Rightarrow> missing
           | Some pid \<Rightarrow> andThen (connectWireguard env pid) (connect_result env))
       | ConnectOpenvpn \<Rightarrow> (case profileId of None \<Rightarrow> missing
           | Some pid \<Rightarrow> andThen (connectOpenvpn env pid) (connect_result env))
       | ConnectWarp \<Rightarrow> andThen (connectWarp env) (connect_result env))))))"

definition disconnect_POST :: "'w env \<Rightarrow> request \<Rightarrow> (('w, 'z) vpn_scheme, reply) act" where
  "disconnect_POST env req = session_mutation env req 500 (
     andThen (gets vpnLock_busy) (\<lambda>busy.
     if busy then ret busy_reply
     else andThen (disconnect env ''User requested disconnect'') (\<lambda>result. case result of
       Failure e \<Rightarrow> ret (error_json 500 (if e = [] then ''VPN disconnection failed.'' else e))
     | Success \<Rightarrow> state_reply env)))"

definition vpn_status_GET :: "'w env \<Rightarrow> request \<Rightarrow> (('w, 'z) vpn_scheme, reply) act" where
  "vpn_status_GET env req = session_get env req 500 (state_reply env)"

definition network_status_GET :: "'w env \<Rightarrow> request \<Rightarrow> (('w, 'z) vpn_scheme, reply) act" where
  "network_status_GET env req = session_get env req 500 (
     andThen (getCurrent env (rq_param req ''refresh'' = Some ''true'')) (\<lambda>n.
     ret (success_json 200 [(''data'', network_json n)])))"

subsection \<open>Profiles\<close>

definition assertNotActive :: "'w env \<Rightarrow> vpn_type \<Rightarrow> string \<Rightarrow> string \<Rightarrow> (('w, 'z) vpn_scheme, string option) act" where
  "assertNotActive env ty kind profileId =
     andThen (getVpnStatusSummary env) (\<lambda>state. ret (
       if (vs_status state = StatusConnected \<or> vs_status state = StatusConnecting) \<and> vs_type state = ty \<and>
          vs_profileId state = Some profileId
       then Some (''Disconnect this '' @ kind @ '' profile before editing or deleting it.'') else None))"

definition if_not_active ::
  "'w env \<Rightarrow> vpn_type \<Rightarrow> string \<Rightarrow> string \<Rightarrow> (('w, 'z) vpn_scheme, reply) act \<Rightarrow> (('w, 'z) vpn_scheme, reply) act" where
  "if_not_active env ty kind profileId m =
     andThen (assertNotActive env ty kind profileId) (\<lambda>active. case active of
       Some e \<Rightarrow> ret (error_json 409 e) | None \<Rightarrow> m)"

definition wireguardCreateSchema :: "json \<Rightarrow> (string \<times> string) option" where
  "wireguardCreateSchema body = both (required (trimmed_value 1 128) ''name'' body)
     (required (text_value 1 256000) ''config'' body)"

definition wireguardUpdateSchema :: "json \<Rightarrow> (string option \<times> string option \<times> bool option) option" where
  "wireguardUpdateSchema body =
     (if \<not> is_object body then None else
     Option.bind (optional (trimmed_value 1 128) ''name'' body) (\<lambda>name.
     Option.bind (optional (text_value 1 256000) ''config'' body) (\<lambda>config.
     Option.bind (optional bool_value ''enabled'' body) (\<lambda>enabled. Some (name, config, enabled)))))"

definition wireguard_list_GET :: "'w env \<Rightarrow> request \<Rightarrow> (('w, 'z) vpn_scheme, reply) act" where
  "wireguard_list_GET env req = session_get env req 500 (
     andThen wg_getAllProfileSummaries (\<lambda>ps. ret (success_json 200 [(''data'', JArr (map wireguard_summary_json ps))])))"

definition wireguard_POST :: "'w env \<Rightarrow> request \<Rightarrow> (('w, 'z) vpn_scheme, reply) act" where
  "wireguard_POST env req = session_mutation env req 400 (
     parse_body env req ''createWireguard'' wireguardCreateSchema (\<lambda>(name, config).
     andThen (wg_createProfile env name config) (\<lambda>p.
     ret (success_json 201 [(''data'', wireguard_summary_json (wg_toSummary p))]))))"

definition wireguard_GET :: "'w env \<Rightarrow> request \<Rightarrow> string \<Rightarrow> (('w, 'z) vpn_scheme, reply) act" where
  "wireguard_GET env req pid = session_get env req 500 (
     andThen (wg_getProfileById pid) (\<lambda>found. ret (case found of
       None \<Rightarrow> error_json 404 ''Profile not found'' | Some p \<Rightarrow> success_json 200 [(''data'', wireguard_json p)])))"

definition wireguard_PUT :: "'w env \<Rightarrow> request \<Rightarrow> string \<Rightarrow> (('w, 'z) vpn_scheme, reply) act" where
  "wireguard_PUT env req pid = session_mutation env req 400 (
     if_not_active env TypeWireguard ''WireGuard'' pid (
     parse_body env req ''updateWireguard'' wireguardUpdateSchema (\<lambda>(name, config, enabled).
     andThen (wg_updateProfile env pid name config enabled) (\<lambda>p.
     ret (success_json 200 [(''data'', wireguard_summary_json (wg_toSummary p))])))))"

definition wireguard_DELETE :: "'w env \<Rightarrow> request \<Rightarrow> string \<Rightarrow> (('w, 'z) vpn_scheme, reply) act" where
  "wireguard_DELETE env req pid = session_mutation env req 400 (
     if_not_active env TypeWireguard ''WireGuard'' pid (
     andThen (wg_deleteProfile env pid) (\<lambda>_. ret (success_json 200 [(''message'', JStr ''WireGuard profile deleted'')]))))"

definition source_value :: "json \<Rightarrow> openvpn_source option" where
  "source_value v = (if v = JStr ''uploaded'' then Some Uploaded else if v = JStr ''vpngate'' then Some Vpngate else None)"

definition flat_option :: "'a option option \<Rightarrow> 'a option" where
  "flat_option v = (case v of Some x \<Rightarrow> x | None \<Rightarrow> None)"

definition openvpnCreateSchema :: "json \<Rightarrow> openvpn_input option" where
  "openvpnCreateSchema body =
     Option.bind (required (trimmed_value 1 128) ''name'' body) (\<lambda>name.
     Option.bind (required (text_value 1 1000000) ''config'' body) (\<lambda>config.
     Option.bind (optional (nullable (trimmed_value 0 512)) ''username'' body) (\<lambda>username.
     Option.bind (optional (nullable (text_value 0 4096)) ''password'' body) (\<lambda>password.
     Option.bind (optional source_value ''source'' body) (\<lambda>src.
     Some \<lparr>oi_name = name, oi_config = config, oi_username = flat_option username,
           oi_password = flat_option password, oi_source = src\<rparr>)))))"

definition openvpnUpdateSchema :: "json \<Rightarrow> openvpn_patch option" where
  "openvpnUpdateSchema body =
     (if \<not> is_object body then None else
     Option.bind (optional (trimmed_value 1 128) ''name'' body) (\<lambda>name.
     Option.bind (optional (text_value 1 1000000) ''config'' body) (\<lambda>config.
     Option.bind (optional (nullable (trimmed_value 0 512)) ''username'' body) (\<lambda>username.
     Option.bind (optional (nullable (text_value 0 4096)) ''password'' body) (\<lambda>password.
     Option.bind (optional bool_value ''enabled'' body) (\<lambda>enabled.
     Some \<lparr>op_name = name, op_config = config, op_username = username, op_password = password,
           op_enabled = enabled\<rparr>))))))"

definition openvpn_list_GET :: "'w env \<Rightarrow> request \<Rightarrow> (('w, 'z) vpn_scheme, reply) act" where
  "openvpn_list_GET env req = session_get env req 500 (
     andThen ov_getAllProfileSummaries (\<lambda>ps. ret (success_json 200 [(''data'', JArr (map openvpn_summary_json ps))])))"

definition openvpn_POST :: "'w env \<Rightarrow> request \<Rightarrow> (('w, 'z) vpn_scheme, reply) act" where
  "openvpn_POST env req = session_mutation env req 400 (
     parse_body env req ''createOpenvpn'' openvpnCreateSchema (\<lambda>inp.
     andThen (ov_createProfile env inp) (\<lambda>p.
     ret (success_json 201 [(''data'', openvpn_summary_json (ov_toSummary p))]))))"

definition openvpn_GET :: "'w env \<Rightarrow> request \<Rightarrow> string \<Rightarrow> (('w, 'z) vpn_scheme, reply) act" where
  "openvpn_GET env req pid = session_get env req 500 (
     andThen (ov_getProfileById pid False) (\<lambda>found. ret (case found of
       None \<Rightarrow> error_json 404 ''Profile not found'' | Some p \<Rightarrow> success_json 200 [(''data'', openvpn_json p)])))"

definition openvpn_PUT :: "'w env \<Rightarrow> request \<Rightarrow> string \<Rightarrow> (('w, 'z) vpn_scheme, reply) act" where
  "openvpn_PUT env req pid = session_mutation env req 400 (
     if_not_active env TypeOpenvpn ''OpenVPN'' pid (
     parse_body env req ''updateOpenvpn'' openvpnUpdateSchema (\<lambda>patch.
     andThen (ov_updateProfile env pid patch) (\<lambda>p.
     ret (success_json 200 [(''data'', openvpn_summary_json (ov_toSummary p))])))))"

definition openvpn_DELETE :: "'w env \<Rightarrow> request \<Rightarrow> string \<Rightarrow> (('w, 'z) vpn_scheme, reply) act" where
  "openvpn_DELETE env req pid = session_mutation env req 400 (
     if_not_active env TypeOpenvpn ''OpenVPN'' pid (
     andThen (ov_deleteProfile env pid) (\<lambda>_. ret (success_json 200 [(''message'', JStr ''OpenVPN profile deleted'')]))))"

subsection \<open>VPN Gate\<close>

datatype vpngate_action = SaveServer | ConnectServer

definition vpngate_action_value :: "json \<Rightarrow> vpngate_action option" where
  "vpngate_action_value v = (if v = JStr ''save'' then Some SaveServer
     else if v = JStr ''connect'' then Some ConnectServer else None)"

definition vpngateSchema :: "json \<Rightarrow> (vpngate_action \<times> string \<times> string option) option" where
  "vpngateSchema body =
     Option.bind (required vpngate_action_value ''action'' body) (\<lambda>action.
     Option.bind (required (text_value 8 128) ''serverId'' body) (\<lambda>sid.
     Option.bind (optional (trimmed_value 1 128) ''name'' body) (\<lambda>name. Some (action, sid, name))))"

definition vpngate_GET :: "'w env \<Rightarrow> request \<Rightarrow> (('w, 'z) vpn_scheme, reply) act" where
  "vpngate_GET env req = session_get env req 502 (
     andThen (getPublicServers env (rq_param req ''refresh'' = Some ''true'')) (\<lambda>servers.
     andThen (ext (Date_now env)) (\<lambda>now.
     ret (success_json 200 [(''data'', JArr (map server_json servers)), (''count'', JNum (int (length servers))),
       (''timestamp'', JNum (int now))]))))"

text \<open>The retry candidate: the same country first, then the fastest.\<close>

definition retry_rank :: "string \<Rightarrow> vpngate_server \<Rightarrow> int \<times> int" where
  "retry_rank country g = (if g_countryShort g = country then 0 else 1, - g_speed g)"

definition retry_server :: "vpngate_server \<Rightarrow> vpngate_server list \<Rightarrow> vpngate_server option" where
  "retry_server server refreshed_list =
     (case sort_key (retry_rank (g_countryShort server)) (filter (\<lambda>g. g_id g \<noteq> g_id server) refreshed_list) of
        [] \<Rightarrow> None | g # _ \<Rightarrow> Some g)"

definition retried_field :: "vpngate_server \<Rightarrow> string \<times> json" where
  "retried_field g = (''retriedServer'', JObj [(''id'', JStr (g_id g)), (''ip'', JStr (g_ip g)),
     (''countryShort'', JStr (g_countryShort g))])"

definition vpngate_connect :: "'w env \<Rightarrow> vpngate_server \<Rightarrow> (('w, 'z) vpn_scheme, reply) act" where
  "vpngate_connect env server =
     andThen (connectVpnGateServer env (g_id server)) (\<lambda>first.
     andThen (getVpnStatusSummary env) (\<lambda>state.
     case first of
       Success \<Rightarrow> ret (success_json 200 [(''data'', summary_json state), (''attempts'', JNum 1)])
     | Failure e1 \<Rightarrow>
         if vs_status state = StatusConnected \<or> is_conflict_text e1 then
           ret (error_with 409 (if e1 = [] then ''VPNGate connection failed.'' else e1) [(''data'', summary_json state)])
         else
         andThen (fetchServers env True) (\<lambda>servers. case retry_server server servers of
           None \<Rightarrow> ret (error_with 500 (if e1 = [] then ''VPNGate connection failed and no retry relay was available.'' else e1)
               [(''data'', summary_json state), (''attempts'', JNum 1)])
         | Some retry \<Rightarrow>
         andThen (connectVpnGateServer env (g_id retry)) (\<lambda>second.
         andThen (getVpnStatusSummary env) (\<lambda>state2. ret (case second of
           Failure e2 \<Rightarrow> error_with 500 (if e2 \<noteq> [] then e2 else if e1 \<noteq> [] then e1 else ''VPNGate connection failed after retry.'')
               [(''data'', summary_json state2), (''attempts'', JNum 2), retried_field retry]
         | Success \<Rightarrow> success_json 200 [(''data'', summary_json state2), (''attempts'', JNum 2), retried_field retry]))))))"

definition vpngate_save :: "'w env \<Rightarrow> vpngate_server \<Rightarrow> string option \<Rightarrow> (('w, 'z) vpn_scheme, reply) act" where
  "vpngate_save env server name =
     andThen (lift_result (decodeConfig env (g_ovpnConfigBase64 server))) (\<lambda>config.
     andThen (ov_createProfile env \<lparr>oi_name = (case name of Some n \<Rightarrow> n
            | None \<Rightarrow> ''VPNGate '' @ g_countryLong server @ '' ('' @ g_ip server @ '')''),
          oi_config = config, oi_username = Some ''vpn'', oi_password = Some ''vpn'', oi_source = Some Vpngate\<rparr>) (\<lambda>p.
     ret (success_json 201 [(''data'', openvpn_summary_json (ov_toSummary p))])))"

definition vpngate_POST :: "'w env \<Rightarrow> request \<Rightarrow> (('w, 'z) vpn_scheme, reply) act" where
  "vpngate_POST env req = route_or_state env 400 (guarded env req (with_session env req (
     parse_body env req ''vpngate'' vpngateSchema (\<lambda>(action, sid, name).
     andThen (getServerById env sid) (\<lambda>found. case found of
       None \<Rightarrow> ret (error_json 404
         ''That VPNGate server is no longer in the current server list. Refresh and try again.'')
     | Some server \<Rightarrow> (case action of
         ConnectServer \<Rightarrow> andThen (gets vpnLock_busy) (\<lambda>busy. if busy then ret busy_reply else vpngate_connect env server)
       | SaveServer \<Rightarrow> vpngate_save env server name))))))"

subsection \<open>WARP\<close>

datatype warp_action = WarpRegister | WarpConnect | WarpDisconnect | WarpRotate

definition warp_action_value :: "json \<Rightarrow> warp_action option" where
  "warp_action_value v = (if v = JStr ''register'' then Some WarpRegister
     else if v = JStr ''connect'' then Some WarpConnect
     else if v = JStr ''disconnect'' then Some WarpDisconnect
     else if v = JStr ''rotate'' then Some WarpRotate else None)"

definition warp_GET :: "'w env \<Rightarrow> request \<Rightarrow> (('w, 'z) vpn_scheme, reply) act" where
  "warp_GET env req = session_get env req 500 (
     andThen (warp_getStatus env) (\<lambda>w. ret (success_json 200 [(''data'', warp_json w)])))"

definition warp_do_register :: "'w env \<Rightarrow> (('w, 'z) vpn_scheme, reply) act" where
  "warp_do_register env =
     andThen (getVpnStatusSummary env) (\<lambda>summary.
     if vs_status summary = StatusConnected \<or> vs_status summary = StatusConnecting then
       ret (error_json 409 ''Disconnect the current VPN before registering Cloudflare WARP.'')
     else
     andThen (warp_getStatus env) (\<lambda>status.
     if ws_registered status then ret (error_json 409 ''Cloudflare WARP is already registered.'')
     else
     andThen (warp_register env) (\<lambda>msg.
     andThen (warp_getStatus env) (\<lambda>after.
     ret (success_json 200 [(''message'', JStr msg), (''data'', warp_json after)])))))"

definition rotated_update :: "timestamp \<Rightarrow> public_ip_info option \<Rightarrow> vpn_update" where
  "rotated_update now ipInfo = \<lparr>vu_type = Some TypeWarp, vu_profile_id = Some None,
     vu_label = Some (Some ''Cloudflare WARP''), vu_status = Some StatusConnected, vu_last_error = Some None,
     vu_connected_at = Some (Some now), vu_public_ip = Some (map_option ip_address ipInfo),
     vu_country = Some (case ipInfo of None \<Rightarrow> None | Some info \<Rightarrow> truthy (ip_country info))\<rparr>"

definition warp_do_rotate :: "'w env \<Rightarrow> (('w, 'z) vpn_scheme, reply) act" where
  "warp_do_rotate env =
     andThen (getVpnStatusSummary env) (\<lambda>before.
     if vs_status before = StatusConnecting then
       ret (error_json 409 ''Wait for the current VPN operation to finish before rotating WARP.'')
     else if vs_status before = StatusConnected \<and> vs_type before \<noteq> TypeWarp then
       ret (error_json 409 (''Cannot rotate Cloudflare WARP while '' @
         (case truthy (vs_profileName before) of Some n \<Rightarrow> n | None \<Rightarrow> tunnel_name (vs_type before)) @ '' is connected.''))
     else
     andThen (warp_getStatus env) (\<lambda>status.
     if \<not> ws_registered status then ret (error_json 409 ''Cloudflare WARP is not registered.'')
     else
     andThen (warp_rotate env) (\<lambda>(msg, reconnected).
     andThen (cond reconnected
       (andThen (verifyConnectivity env) (\<lambda>ipInfo.
        andThen (ext (Date_now env)) (\<lambda>now.
        updateVpnState env (rotated_update now ipInfo))))) (\<lambda>_.
     andThen (if reconnected then andThen (getVpnStatusSummary env) (\<lambda>v. ret (summary_json v))
              else andThen (warp_getStatus env) (\<lambda>w. ret (warp_json w))) (\<lambda>data.
     ret (success_json 200 [(''message'', JStr msg), (''reconnected'', JBool reconnected), (''data'', data)]))))))"

definition warp_do_connect :: "'w env \<Rightarrow> (('w, 'z) vpn_scheme, reply) act" where
  "warp_do_connect env =
     andThen (connectWarp env) (\<lambda>result. case result of
       Failure e \<Rightarrow>
         andThen (getVpnStatusSummary env) (\<lambda>state.
         ret (error_with (if vs_status state = StatusConnected then 409 else 500) e [(''data'', summary_json state)]))
     | Success \<Rightarrow> state_reply env)"

definition warp_do_disconnect :: "'w env \<Rightarrow> (('w, 'z) vpn_scheme, reply) act" where
  "warp_do_disconnect env =
     andThen (getVpnStatusSummary env) (\<lambda>summary.
     if vs_status summary \<noteq> StatusConnected \<or> vs_type summary \<noteq> TypeWarp then
       ret (error_json 409 ''Cloudflare WARP is not the active VPN.'')
     else
     andThen (disconnect env ''Cloudflare WARP disconnect requested'') (\<lambda>result. case result of
       Failure e \<Rightarrow> ret (error_json 500 e)
     | Success \<Rightarrow> state_reply env))"

definition warp_POST :: "'w env \<Rightarrow> request \<Rightarrow> (('w, 'z) vpn_scheme, reply) act" where
  "warp_POST env req = route_or_state env 500 (guarded env req (with_session env req (
     andThen (read_body req) (\<lambda>body. case required warp_action_value ''action'' body of
       None \<Rightarrow> ret (error_json 400 ''Invalid WARP action.'')
     | Some action \<Rightarrow>
     andThen (gets vpnLock_busy) (\<lambda>busy.
     if busy then ret busy_reply
     else case action of
       WarpRegister \<Rightarrow> warp_do_register env
     | WarpRotate \<Rightarrow> warp_do_rotate env
     | WarpConnect \<Rightarrow> warp_do_connect env
     | WarpDisconnect \<Rightarrow> warp_do_disconnect env)))))"

end
