(* ===== verification/Migrations.thy ===== *)
theory Migrations imports Providers Settings Session begin

section \<open>Migrations\<close>

text \<open>
  \<open>lib/db/migrations.ts\<close>: from a database of any earlier schema to the current one. The tables of the earlier
  schemas are those of the model, with rows that need not satisfy the later constraints; whether a column exists
  yet is a flag of the state, and a column that is added gives every row its default. A statement is executed on its own, so that a
  migration can stop half-way; its number is recorded last.
\<close>

record 'w mig = "'w db" +
  t_migrations :: "(nat \<times> string \<times> timestamp) list"
  has_label :: bool
  has_session_version :: bool
  has_hash :: bool

subsection \<open>The runner\<close>

definition migrationApplied :: "nat \<Rightarrow> (('w, 'z) mig_scheme, bool) act" where
  "migrationApplied version = gets (\<lambda>s. list_ex (\<lambda>m. fst m = version) (t_migrations s))"

definition recordMigration :: "'w env \<Rightarrow> nat \<Rightarrow> string \<Rightarrow> (('w, 'z) mig_scheme, unit) act" where
  "recordMigration env version name = andThen (ext (Date_now env)) (\<lambda>now.
     run_sql t_migrations (\<lambda>t s. s\<lparr>t_migrations := t\<rparr>)
       (sql_insert (\<lambda>t. distinct (map fst t)) (\<lambda>_. True) (version, name, now)))"

definition unless_applied :: "nat \<Rightarrow> (('w, 'z) mig_scheme, unit) act \<Rightarrow> (('w, 'z) mig_scheme, unit) act" where
  "unless_applied version m = andThen (migrationApplied version) (\<lambda>done. if done then ret () else m)"

subsection \<open>The four migrations\<close>

definition migration_1 :: "'w env \<Rightarrow> (('w, 'z) mig_scheme, unit) act" where
  "migration_1 env = recordMigration env 1 ''initial_schema''"

definition add_label :: "(('w, 'z) mig_scheme, unit) act" where
  "add_label = modify (\<lambda>s. if has_label s then s
     else s\<lparr>has_label := True, t_settings := map_option (\<lambda>g. g\<lparr>active_vpn_label := None\<rparr>) (t_settings s)\<rparr>)"

definition newest_default :: "provider list \<Rightarrow> string option" where
  "newest_default t = (case sort_key (\<lambda>r. (- int (p_updated_at r), p_id r)) (filter (\<lambda>r. p_is_default r = 1) t) of
     [] \<Rightarrow> None | r # _ \<Rightarrow> Some (p_id r))"

definition one_default :: "provider list \<Rightarrow> provider list" where
  "one_default t = update_where (\<lambda>r. p_is_default r = 1 \<and> Some (p_id r) \<noteq> newest_default t)
     (\<lambda>r. r\<lparr>p_is_default := 0\<rparr>) t"

definition create_default_index :: "(('w, 'z) db_scheme, unit) act" where
  "create_default_index = (\<lambda>s.
     if length (filter (\<lambda>r. p_is_default r = 1) (t_providers s)) \<le> 1 then (Inr (), s) else (Inl (Err sql_error), s))"

definition migration_2 :: "'w env \<Rightarrow> (('w, 'z) mig_scheme, unit) act" where
  "migration_2 env =
     andThen add_label (\<lambda>_.
     andThen (modify (\<lambda>s. s\<lparr>t_providers := one_default (t_providers s)\<rparr>)) (\<lambda>_.
     andThen create_default_index (\<lambda>_.
     recordMigration env 2 ''vpn_label_and_integrity_indexes'')))"

definition add_session_version :: "(('w, 'z) mig_scheme, unit) act" where
  "add_session_version = modify (\<lambda>s. if has_session_version s then s
     else s\<lparr>has_session_version := True, t_users := map (\<lambda>r. r\<lparr>u_session_version := 1\<rparr>) (t_users s)\<rparr>)"

text \<open>The insert of the third migration: the triggers on the passwords come with the fourth.\<close>

definition insert_plain_user :: "provider_user_row \<Rightarrow> ('w, 'z) db_scheme \<Rightarrow> ('w, 'z) db_scheme option" where
  "insert_plain_user r s =
     (if pu_provider_id r \<in> set (map p_id (t_providers s))
      then on_table t_provider_users (\<lambda>t s. s\<lparr>t_provider_users := t\<rparr>) (sql_insert pu_uniq (\<lambda>_. True) r) s
      else None)"

definition copy_identity :: "'w env \<Rightarrow> provider \<Rightarrow> (('w, 'z) mig_scheme, unit) act" where
  "copy_identity env row =
     (let username = trim (p_local_username row); password = p_local_password row in
      if username = [] \<or> password = [] then ret ()
      else
      andThen (gets (\<lambda>s. filter (\<lambda>r. pu_provider_id r = p_id row \<and> pu_username r = username) (t_provider_users s))) (\<lambda>existing.
      if existing \<noteq> [] then ret ()
      else
      andThen (ext (randomUUID env)) (\<lambda>userId.
      batch [insert_plain_user
        \<lparr>pu_id = userId, pu_provider_id = p_id row, pu_username = username, pu_password_hash = [], pu_enabled = 1,
         pu_created_at = p_created_at row, pu_updated_at = p_updated_at row, pu_password = password\<rparr>])))"

definition migration_3 :: "'w env \<Rightarrow> (('w, 'z) mig_scheme, unit) act" where
  "migration_3 env =
     andThen add_session_version (\<lambda>_.
     andThen (gets t_providers) (\<lambda>providerRows.
     andThen (forEach (copy_identity env) providerRows) (\<lambda>_.
     recordMigration env 3 ''provider_users_and_session_version'')))"

definition add_hash :: "(('w, 'z) mig_scheme, unit) act" where
  "add_hash = modify (\<lambda>s. if has_hash s then s
     else s\<lparr>has_hash := True, t_provider_users := map (\<lambda>r. r\<lparr>pu_password_hash := []\<rparr>) (t_provider_users s)\<rparr>)"

definition hash_row :: "'w env \<Rightarrow> provider_user_row \<Rightarrow> (('w, 'z) mig_scheme, unit) act" where
  "hash_row env row =
     andThen (if isProviderPasswordHash env (pu_password_hash row) then ret (pu_password_hash row)
              else if pu_password row \<noteq> [] then hashProviderPassword env (pu_password row) else ret []) (\<lambda>passwordHash.
     cond (passwordHash \<noteq> []) (run_sql t_provider_users (\<lambda>t s. s\<lparr>t_provider_users := t\<rparr>)
       (sql_update pu_uniq (\<lambda>_. True) (\<lambda>r. pu_id r = pu_id row)
         (\<lambda>r. r\<lparr>pu_password_hash := passwordHash, pu_password := []\<rparr>))))"

definition migration_4 :: "'w env \<Rightarrow> (('w, 'z) mig_scheme, unit) act" where
  "migration_4 env =
     andThen add_hash (\<lambda>_.
     andThen (gets t_provider_users) (\<lambda>userRows.
     andThen (forEach (hash_row env) userRows) (\<lambda>_.
     andThen (modify (\<lambda>s. s\<lparr>t_providers := update_where (\<lambda>r. p_local_password r \<noteq> [])
        (\<lambda>r. r\<lparr>p_local_password := []\<rparr>) (t_providers s)\<rparr>)) (\<lambda>_.
     recordMigration env 4 ''hash_provider_client_passwords''))))"

subsection \<open>The rows every installation has\<close>

definition initial_settings :: "timestamp \<Rightarrow> app_settings" where
  "initial_settings now = \<lparr>active_vpn_type = TypeOff, active_vpn_profile_id = None, active_vpn_label = None,
     vpn_status = StatusOff, vpn_last_error = None, vpn_connected_at = None, vpn_public_ip = None,
     vpn_country = None, log_retention_days = 7, initial_setup_completed = 0, settings_updated_at = now\<rparr>"

definition seed_settings :: "timestamp \<Rightarrow> (('w, 'z) db_scheme, unit) act" where
  "seed_settings now = modify (\<lambda>s. if t_settings s = None then s\<lparr>t_settings := Some (initial_settings now)\<rparr> else s)"

definition complete_setup :: "timestamp \<Rightarrow> (app_settings \<Rightarrow> bool) \<Rightarrow> (('w, 'z) db_scheme, unit) act" where
  "complete_setup now P = modify (\<lambda>s. s\<lparr>t_settings := map_option (\<lambda>g. if P g
     then g\<lparr>initial_setup_completed := 1, settings_updated_at := now\<rparr> else g) (t_settings s)\<rparr>)"

definition seed_admin :: "'w env \<Rightarrow> timestamp \<Rightarrow> string \<Rightarrow> string \<Rightarrow> (('w, 'z) db_scheme, unit) act" where
  "seed_admin env now username password =
     (if length password < 8
      then throw ''INITIAL_ADMIN_PASSWORD must contain at least 8 characters when provided.''
      else
      andThen (hashPassword env password) (\<lambda>passwordHash.
      andThen (ext (randomUUID env)) (\<lambda>userId.
      andThen (run_sql t_users (\<lambda>t s. s\<lparr>t_users := t\<rparr>) (sql_insert u_uniq (\<lambda>_. True)
        \<lparr>u_id = userId, u_username = username, u_password_hash = passwordHash, u_session_version = 1,
         u_created_at = now, u_updated_at = now\<rparr>)) (\<lambda>_.
      andThen (complete_setup now (\<lambda>_. True)) (\<lambda>_.
      andThen (ext (randomUUID env)) (\<lambda>logId.
      insert_log \<lparr>l_id = logId, l_timestamp = now, l_level = Info, l_source = SrcAuth, l_category = ''setup'',
        l_message = ''Initial administrator account seeded from environment.'',
        l_metadata_json = Some (stringify (JObj [(''username'', JStr username)])), l_created_at = now\<rparr>))))))"

definition configured_password :: "'w env \<Rightarrow> string option" where
  "configured_password env = or_else (getenv_trim env ''INITIAL_ADMIN_PASSWORD'') (getenv_trim env ''ADMIN_PASSWORD'')"

definition configured_username :: "'w env \<Rightarrow> string" where
  "configured_username env =
     (case or_else (getenv_trim env ''INITIAL_ADMIN_USERNAME'') (getenv_trim env ''ADMIN_USERNAME'') of
        Some u \<Rightarrow> u | None \<Rightarrow> ''admin'')"

definition seed_users :: "'w env \<Rightarrow> timestamp \<Rightarrow> (('w, 'z) db_scheme, unit) act" where
  "seed_users env now =
     andThen (gets (\<lambda>s. length (t_users s))) (\<lambda>userCount.
     if userCount = 0 then
       (case configured_password env of
          None \<Rightarrow> ret ()
        | Some password \<Rightarrow> seed_admin env now (configured_username env) password)
     else complete_setup now (\<lambda>g. initial_setup_completed g = 0))"

definition runMigrations :: "'w env \<Rightarrow> (('w, 'z) mig_scheme, unit) act" where
  "runMigrations env =
     andThen (unless_applied 1 (migration_1 env)) (\<lambda>_.
     andThen (unless_applied 2 (migration_2 env)) (\<lambda>_.
     andThen (unless_applied 3 (migration_3 env)) (\<lambda>_.
     andThen (unless_applied 4 (migration_4 env)) (\<lambda>_.
     andThen (ext (Date_now env)) (\<lambda>now.
     andThen (seed_settings now) (\<lambda>_.
     seed_users env now))))))"

subsection \<open>What an earlier database satisfies\<close>

definition applied :: "nat \<Rightarrow> ('w, 'z) mig_scheme \<Rightarrow> bool" where
  "applied v s \<longleftrightarrow> list_ex (\<lambda>m. fst m = v) (t_migrations s)"

definition schema_1_ok :: "('w, 'z) mig_scheme \<Rightarrow> bool" where
  "schema_1_ok s \<longleftrightarrow> u_uniq (t_users s) \<and> distinct (map p_id (t_providers s)) \<and> distinct (map p_route (t_providers s)) \<and>
     list_all cache_ok (t_providers s) \<and> pu_uniq (t_provider_users s) \<and>
     list_all (\<lambda>r. pu_provider_id r \<in> set (map p_id (t_providers s))) (t_provider_users s) \<and>
     wg_uniq (t_wireguard s) \<and> ov_uniq (t_openvpn s) \<and> settings_ok s"

definition one_default_row :: "provider list \<Rightarrow> bool" where
  "one_default_row t \<longleftrightarrow> length (filter (\<lambda>r. p_is_default r = 1) t) \<le> 1"

text \<open>A client user that can still sign in: by its verifier, or by a password that gets one.\<close>

definition has_login :: "'w env \<Rightarrow> bool \<Rightarrow> provider_user_row \<Rightarrow> bool" where
  "has_login env hashed r \<longleftrightarrow> (hashed \<and> isProviderPasswordHash env (pu_password_hash r)) \<or> pu_password r \<noteq> []"

definition legacy_ok :: "'w env \<Rightarrow> ('w, 'z) mig_scheme \<Rightarrow> bool" where
  "legacy_ok env s \<longleftrightarrow> schema_1_ok s \<and> (applied 4 s \<longrightarrow> applied 3 s) \<and>
     (applied 2 s \<longrightarrow> one_default_row (t_providers s)) \<and>
     (if applied 4 s then list_all local_password_ok (t_providers s) \<and> list_all pu_row_ok (t_provider_users s)
      else list_all (has_login env (has_hash s)) (t_provider_users s))"

lemma applied_add [simp]: "applied v (s\<lparr>outer := x, t_migrations := t_migrations s @ [(w, n, now)]\<rparr>) \<longleftrightarrow> applied v s \<or> v = w"
  by (auto simp: applied_def)

lemma legacy_outer [simp]:
  "legacy_ok env (s\<lparr>outer := w\<rparr>) = legacy_ok env s" "applied v (s\<lparr>outer := w\<rparr>) = applied v s"
  by (simp_all add: legacy_ok_def schema_1_ok_def applied_def settings_ok_def)

text \<open>A recording that fails leaves what was there; one that succeeds adds the number.\<close>

lemma triple_record:
  assumes "\<And>s w. P s \<Longrightarrow> legacy_ok env (s\<lparr>outer := w\<rparr>)"
    and "\<And>s w now. P s \<Longrightarrow> Q (s\<lparr>outer := w, t_migrations := t_migrations s @ [(v, n, now)]\<rparr>)"
  shows "triple P (recordMigration env v n) (\<lambda>_. Q) (legacy_ok env)"
  using assms
  by (auto simp: triple_def recordMigration_def andThen_run ext_def run_sql_eq sql_insert_def split: prod.splits)

lemma triple_unless:
  assumes "triple (\<lambda>s. P s \<and> \<not> applied v s) m (\<lambda>_ t. P t \<and> applied v t) E"
  shows "triple P (unless_applied v m) (\<lambda>_ t. P t \<and> applied v t) E"
  using assms
  by (auto simp: triple_def unless_applied_def migrationApplied_def andThen_run applied_def split: prod.splits sum.splits)

lemma triple_modify: "(\<And>s. P s \<Longrightarrow> Q (f s)) \<Longrightarrow> triple P (modify f) (\<lambda>_. Q) E"
  by (simp add: triple_def)

subsection \<open>The migrations keep it\<close>

lemma legacy_record:
  assumes "legacy_ok env s" "v \<noteq> 2" "v \<noteq> 4"
  shows "legacy_ok env (s\<lparr>outer := w, t_migrations := t_migrations s @ [(v, n, now)]\<rparr>)"
  using assms by (auto simp: legacy_ok_def schema_1_ok_def applied_def settings_ok_def)

lemma triple_1: "triple (\<lambda>s. legacy_ok env s \<and> \<not> applied 1 s) (migration_1 env) (\<lambda>_ t. legacy_ok env t \<and> applied 1 t) (legacy_ok env)"
  unfolding migration_1_def
  by (rule triple_record) (simp_all add: legacy_record)

lemma vpn_ok_label: "vpn_ok a b g \<Longrightarrow> vpn_ok a b (g\<lparr>active_vpn_label := None\<rparr>)"
  by (cases b) simp_all

lemma legacy_add_label: "legacy_ok env s \<Longrightarrow> legacy_ok env (if has_label s then s
     else s\<lparr>has_label := True, t_settings := map_option (\<lambda>g. g\<lparr>active_vpn_label := None\<rparr>) (t_settings s)\<rparr>)"
  by (auto simp: legacy_ok_def schema_1_ok_def applied_def settings_ok_def vpn_ok_label split: option.splits)

lemma newest_default_in:
  "newest_default t = Some i \<Longrightarrow> \<exists>r \<in> set t. p_is_default r = 1 \<and> p_id r = i"
proof -
  assume n: "newest_default t = Some i"
  let ?xs = "sort_key (\<lambda>r. (- int (p_updated_at r), p_id r)) (filter (\<lambda>r. p_is_default r = 1) t)"
  obtain r rs where xs: "?xs = r # rs" "p_id r = i"
    using n by (auto simp: newest_default_def split: list.splits)
  then have "r \<in> set ?xs" by (simp only: list.set_intros)
  then show ?thesis using xs(2) by auto
qed

lemma one_default_only:
  assumes "distinct (map p_id t)"
  shows "one_default_row (one_default t)"
proof -
  have d: "p_is_default r = 1 \<and> Some (p_id r) = newest_default t" if "r \<in> set (one_default t)" "p_is_default r = 1" for r
    using that by (auto simp: one_default_def update_where_def split: if_splits)
  have ids: "distinct (map p_id (one_default t))"
    using assms by (simp add: one_default_def map_update_where)
  let ?d = "filter (\<lambda>r. p_is_default r = 1) (one_default t)"
  have sub: "set (map p_id ?d) \<subseteq> set_option (newest_default t)" using d by fastforce
  have "distinct (map p_id ?d)" using ids by (rule distinct_map_filter)
  then have "length (map p_id ?d) = card (set (map p_id ?d))" by (metis distinct_card)
  also have "\<dots> \<le> card (set_option (newest_default t))" using sub by (intro card_mono) simp_all
  also have "\<dots> \<le> 1" by (cases "newest_default t") simp_all
  finally show ?thesis by (simp add: one_default_row_def)
qed

lemma one_default_same:
  "map p_id (one_default t) = map p_id t" "map p_route (one_default t) = map p_route t"
  by (simp_all add: one_default_def map_update_where)

lemma list_all_update_same: "(\<And>r. P (f r) = P r) \<Longrightarrow> list_all P (update_where Q f t) = list_all P t"
  by (induction t) simp_all

lemma length_filter_update_same: "(\<And>r. P (f r) = P r) \<Longrightarrow> length (filter P (update_where Q f t)) = length (filter P t)"
  by (induction t) simp_all

lemma one_default_rows:
  "list_all cache_ok (one_default t) = list_all cache_ok t"
  "list_all local_password_ok (one_default t) = list_all local_password_ok t"
  unfolding one_default_def by (rule list_all_update_same; simp add: cache_ok_def local_password_ok_def)+

lemma legacy_one_default:
  "legacy_ok env s \<Longrightarrow> legacy_ok env (s\<lparr>t_providers := one_default (t_providers s)\<rparr>)"
  using one_default_only [of "t_providers s"]
  by (simp add: legacy_ok_def schema_1_ok_def applied_def settings_ok_def one_default_same one_default_rows
      flip: set_map)

lemma applied_label: "applied v (if has_label s then s
     else s\<lparr>has_label := True, t_settings := map_option (\<lambda>g. g\<lparr>active_vpn_label := None\<rparr>) (t_settings s)\<rparr>) = applied v s"
  by (simp add: applied_def)

lemma legacy_record_2:
  "legacy_ok env s \<Longrightarrow> one_default_row (t_providers s) \<Longrightarrow>
   legacy_ok env (s\<lparr>outer := w, t_migrations := t_migrations s @ [(2, n, now)]\<rparr>)"
  by (auto simp: legacy_ok_def schema_1_ok_def applied_def settings_ok_def)

lemma triple_2:
  "triple (\<lambda>s. (legacy_ok env s \<and> applied 1 s) \<and> \<not> applied 2 s) (migration_2 env)
     (\<lambda>_ t. (legacy_ok env t \<and> applied 1 t) \<and> applied 2 t) (legacy_ok env)"
proof -
  let ?P = "\<lambda>s. legacy_ok env s \<and> applied 1 s"
  let ?D = "\<lambda>s. ?P s \<and> one_default_row (t_providers s)"
  have label: "triple (\<lambda>s. ?P s \<and> \<not> applied 2 s) add_label (\<lambda>_. ?P) (legacy_ok env)"
    unfolding add_label_def by (rule triple_modify) (simp only: applied_label legacy_add_label)
  have one: "triple ?P (modify (\<lambda>s. s\<lparr>t_providers := one_default (t_providers s)\<rparr>)) (\<lambda>_. ?D) (legacy_ok env)"
  proof (rule triple_modify)
    fix s
    assume P: "?P s"
    then have "distinct (map p_id (t_providers s))" by (simp add: legacy_ok_def schema_1_ok_def)
    with P show "?D (s\<lparr>t_providers := one_default (t_providers s)\<rparr>)"
      using legacy_one_default [of env s] by (simp add: one_default_only applied_def)
  qed
  have index: "triple ?D create_default_index (\<lambda>_. ?D) (legacy_ok env)"
    by (simp add: triple_def create_default_index_def one_default_row_def)
  have rec: "triple ?D (recordMigration env 2 nm) (\<lambda>_ t. ?P t \<and> applied 2 t) (legacy_ok env)" for nm
    by (rule triple_record) (simp_all add: legacy_record_2)
  show ?thesis
    unfolding migration_2_def
    by (rule triple_andThen [OF label], rule triple_andThen [OF one], rule triple_andThen [OF index], rule rec)
qed

subsection \<open>The third migration\<close>

lemma legacy_add_version: "legacy_ok env s \<Longrightarrow> legacy_ok env (if has_session_version s then s
     else s\<lparr>has_session_version := True, t_users := map (\<lambda>r. r\<lparr>u_session_version := 1\<rparr>) (t_users s)\<rparr>)"
  by (auto simp: legacy_ok_def schema_1_ok_def applied_def settings_ok_def u_uniq_def comp_def)

lemma insert_plain_legacy:
  assumes "legacy_ok env s" and "\<not> applied 4 s" and "insert_plain_user r s = Some t" and "pu_password r \<noteq> []"
  shows "legacy_ok env t" and "applied v t = applied v s"
  using assms
  by (auto simp: insert_plain_user_def on_table_def sql_insert_Some legacy_ok_def schema_1_ok_def applied_def settings_ok_def
      has_login_def split: if_splits)

lemma copy_keeps:
  "keeps (\<lambda>s. (legacy_ok env s \<and> applied 1 s \<and> applied 2 s) \<and> \<not> applied 4 s) (copy_identity env row)"
proof -
  let ?I = "\<lambda>s. (legacy_ok env s \<and> applied 1 s \<and> applied 2 s) \<and> \<not> applied 4 s"
  have free: "ext_free ?I" by (simp add: ext_free_def)
  have b: "keeps ?I (batch [insert_plain_user r])" if "pu_password r \<noteq> []" for r
    by (rule keeps_batch) (use that in \<open>auto dest: insert_plain_legacy\<close>)
  show ?thesis
    unfolding copy_identity_def Let_def
    by (intro keeps_if keeps_ret keeps_andThen keeps_gets keeps_ext [OF free] b) simp_all
qed

lemma triple_3:
  "triple (\<lambda>s. (legacy_ok env s \<and> applied 1 s \<and> applied 2 s) \<and> \<not> applied 3 s) (migration_3 env)
     (\<lambda>_ t. (legacy_ok env t \<and> applied 1 t \<and> applied 2 t) \<and> applied 3 t) (legacy_ok env)"
proof -
  let ?P = "\<lambda>s. legacy_ok env s \<and> applied 1 s \<and> applied 2 s"
  let ?N = "\<lambda>s. ?P s \<and> \<not> applied 4 s"
  have version: "triple (\<lambda>s. ?P s \<and> \<not> applied 3 s) add_session_version (\<lambda>_. ?N) (legacy_ok env)"
    unfolding add_session_version_def
    by (rule triple_modify) (auto simp: legacy_add_version, auto simp: applied_def legacy_ok_def)
  have loop: "keeps ?N (forEach (copy_identity env) rows)" for rows
    by (intro keeps_forEach copy_keeps)
  have rec: "triple ?N (recordMigration env 3 nm) (\<lambda>_ t. ?P t \<and> applied 3 t) (legacy_ok env)" for nm
    by (rule triple_record) (simp_all add: legacy_record)
  show ?thesis
    unfolding migration_3_def
    by (rule triple_andThen [OF version], rule triple_step [OF keeps_gets], simp, rule triple_step [OF loop], simp, rule rec)
qed

subsection \<open>The fourth migration\<close>

lemma recognised_nonblank:
  assumes "isProviderPasswordHash env h"
  shows "list_ex (\<lambda>c. c \<noteq> CHR '' '') h" and "h \<noteq> []"
proof -
  show e: "list_ex (\<lambda>c. c \<noteq> CHR '' '') h"
  proof (rule ccontr)
    assume blank: "\<not> list_ex (\<lambda>c. c \<noteq> CHR '' '') h"
    have "CHR ''$'' \<notin> set h"
    proof
      assume "CHR ''$'' \<in> set h"
      then have "CHR ''$'' = CHR '' ''" using blank unfolding list_ex_iff by blast
      then show False by simp
    qed
    then have "splitOn (CHR ''$'') h = [h]" by (rule splitOn_one)
    then have "h = ALGORITHM" using assms by (simp add: isProviderPasswordHash_def nth_opt_def Let_def split: if_splits)
    with blank show False by (simp add: ALGORITHM_def)
  qed
  then show "h \<noteq> []" by auto
qed

lemma triple_gets: "triple P (gets f) (\<lambda>x s. P s \<and> x = f s) E"
  by (simp add: triple_def)

lemma triple_forEach_acc:
  assumes "\<And>x ids. x \<in> set xs \<Longrightarrow> triple (M ids) (f x) (\<lambda>_. M (insert (k x) ids)) E"
    and "\<And>ids s. M ids s \<Longrightarrow> N ids s"
  shows "triple (M ids) (forEach f xs) (\<lambda>_. M (ids \<union> k ` set xs)) E"
  using assms(1)
proof (induction xs arbitrary: ids)
  case (Cons x xs)
  have "triple (M (insert (k x) ids)) (forEach f xs) (\<lambda>_. M (insert (k x) ids \<union> k ` set xs)) E"
    by (rule Cons.IH) (simp add: Cons.prems)
  then show ?case
    unfolding forEach.simps by (intro triple_andThen [OF Cons.prems]) simp_all
qed (simp add: triple_ret)

text \<open>In the loop: the rows with an id in \<open>ids\<close> are done.\<close>

definition hashing :: "'w env \<Rightarrow> string list \<Rightarrow> string set \<Rightarrow> ('w, 'z) mig_scheme \<Rightarrow> bool" where
  "hashing env all ids s \<longleftrightarrow> (legacy_ok env s \<and> applied 1 s \<and> applied 2 s \<and> applied 3 s) \<and> \<not> applied 4 s \<and> has_hash s \<and>
     map pu_id (t_provider_users s) = all \<and> (\<forall>r \<in> set (t_provider_users s). pu_id r \<in> ids \<longrightarrow> pu_row_ok r)"

lemma hashing_outer [simp]: "hashing env all ids (s\<lparr>outer := w\<rparr>) = hashing env all ids s"
  by (simp add: hashing_def)

lemma hashing_update:
  assumes s: "hashing env all ids s" and h: "isProviderPasswordHash env h"
    and u: "sql_update pu_uniq (\<lambda>_. True) (\<lambda>r. pu_id r = i) (\<lambda>r. r\<lparr>pu_password_hash := h, pu_password := []\<rparr>)
        (t_provider_users s) = Some t"
  shows "hashing env all (insert i ids) (s\<lparr>t_provider_users := t\<rparr>)"
proof -
  have t: "t = update_where (\<lambda>r. pu_id r = i) (\<lambda>r. r\<lparr>pu_password_hash := h, pu_password := []\<rparr>) (t_provider_users s)"
    and q: "pu_uniq t" using u by (simp_all add: sql_update_Some)
  have ids: "map pu_id t = map pu_id (t_provider_users s)" by (simp add: t map_update_where)
  have rows: "pu_row_ok r" if "r \<in> set t" "pu_id r \<in> insert i ids" for r
    using that s recognised_nonblank [OF h] by (auto simp: t update_where_def hashing_def pu_row_ok_def split: if_splits)
  have login: "list_all (has_login env True) t"
    using s h by (auto simp: t update_where_def hashing_def legacy_ok_def list_all_iff has_login_def)
  have fk: "list_all (\<lambda>r. pu_provider_id r \<in> set (map p_id (t_providers s))) t"
    using s by (auto simp: t update_where_def hashing_def legacy_ok_def schema_1_ok_def list_all_iff)
  show ?thesis
    using s ids rows login fk q
    by (simp add: hashing_def legacy_ok_def schema_1_ok_def applied_def settings_ok_def flip: set_map)
qed

lemma hashing_row:
  assumes lib: "password_lib_ok env" and row: "has_login env True row"
  shows "triple (hashing env all ids) (hash_row env row) (\<lambda>_. hashing env all (insert (pu_id row) ids)) (legacy_ok env)"
proof (rule tripleI)
  fix s
  assume s: "hashing env all ids s"
  have legacy: "legacy_ok env u" if "hashing env all ids u" for u using that by (simp add: hashing_def)
  have store: "case cond (h \<noteq> []) (run_sql t_provider_users (\<lambda>t s. s\<lparr>t_provider_users := t\<rparr>)
       (sql_update pu_uniq (\<lambda>_. True) (\<lambda>r. pu_id r = pu_id row) (\<lambda>r. r\<lparr>pu_password_hash := h, pu_password := []\<rparr>))) u
     of (Inl e, t) \<Rightarrow> legacy_ok env t | (Inr x, t) \<Rightarrow> hashing env all (insert (pu_id row) ids) t"
    if "hashing env all ids u" "isProviderPasswordHash env h" for h u
    using hashing_update [OF that(1,2)] legacy [OF that(1)] recognised_nonblank(2) [OF that(2)]
    by (auto simp: cond_def run_sql_eq split: option.splits)
  show "case hash_row env row s of (Inl e, t) \<Rightarrow> legacy_ok env t | (Inr x, t) \<Rightarrow> hashing env all (insert (pu_id row) ids) t"
  proof (cases "isProviderPasswordHash env (pu_password_hash row)")
    case True
    then show ?thesis using store [OF s True] by (simp add: hash_row_def)
  next
    case False
    then have "pu_password row \<noteq> []" using row by (simp add: has_login_def)
    moreover obtain h w where h: "hashProviderPassword env (pu_password row) s = (Inr h, s\<lparr>outer := w\<rparr>)"
      by (cases "randomBytes env SALT_BYTES (outer s)") (simp add: hashProviderPassword_run)
    moreover have "isProviderPasswordHash env h" by (rule hash_recognised [OF lib h])
    ultimately show ?thesis using store [of "s\<lparr>outer := w\<rparr>" h] s False by (simp add: hash_row_def)
  qed
qed

lemma triple_4:
  fixes env :: "'w env"
  assumes lib: "password_lib_ok env"
  shows "triple (\<lambda>s :: ('w, 'z) mig_scheme. (legacy_ok env s \<and> applied 1 s \<and> applied 2 s \<and> applied 3 s) \<and> \<not> applied 4 s) (migration_4 env)
     (\<lambda>_ t. (legacy_ok env t \<and> applied 1 t \<and> applied 2 t \<and> applied 3 t) \<and> applied 4 t) (legacy_ok env)"
proof -
  let ?P = "\<lambda>s :: ('w, 'z) mig_scheme. legacy_ok env s \<and> applied 1 s \<and> applied 2 s \<and> applied 3 s"
  let ?A = "\<lambda>s :: ('w, 'z) mig_scheme. ?P s \<and> \<not> applied 4 s \<and> has_hash s"
  let ?H = "\<lambda>s :: ('w, 'z) mig_scheme. ?P s \<and> \<not> applied 4 s \<and> list_all pu_row_ok (t_provider_users s)"
  let ?L = "\<lambda>s :: ('w, 'z) mig_scheme. ?H s \<and> list_all local_password_ok (t_providers s)"
  have add: "triple (\<lambda>s. ?P s \<and> \<not> applied 4 s) add_hash (\<lambda>_. ?A) (legacy_ok env)"
    unfolding add_hash_def
    by (rule triple_modify) (auto simp: legacy_ok_def schema_1_ok_def applied_def settings_ok_def has_login_def
        list_all_iff pu_uniq_def comp_def)
  have loop: "triple (\<lambda>s. ?A s \<and> rows = t_provider_users s) (forEach (hash_row env) rows) (\<lambda>_. ?H) (legacy_ok env)" for rows
  proof (cases "list_all (has_login env True) rows")
    case True
    let ?M = "hashing env (map pu_id rows) :: string set \<Rightarrow> ('w, 'z) mig_scheme \<Rightarrow> bool"
    have t: "triple (?M {}) (forEach (hash_row env) rows) (\<lambda>_. ?M ({} \<union> pu_id ` set rows)) (legacy_ok env)"
      by (rule triple_forEach_acc [where N = "\<lambda>_ _. True"]) (use True lib in \<open>auto simp: list_all_iff intro: hashing_row\<close>)
    have "list_all pu_row_ok (t_provider_users s)" if "?M ({} \<union> pu_id ` set rows) s" for s :: "('w, 'z) mig_scheme"
    proof -
      have "pu_id ` set (t_provider_users s) = pu_id ` set rows"
        using that unfolding hashing_def by (metis set_map)
      then show ?thesis using that by (auto simp: hashing_def list_all_iff)
    qed
    then show ?thesis
      by (intro triple_weaken [OF t]) (auto simp: hashing_def)
  next
    case False
    then show ?thesis by (auto simp: triple_def legacy_ok_def)
  qed
  have clear: "triple ?H (modify (\<lambda>s. s\<lparr>t_providers := update_where (\<lambda>r. p_local_password r \<noteq> [])
        (\<lambda>r. r\<lparr>p_local_password := []\<rparr>) (t_providers s)\<rparr>)) (\<lambda>_. ?L) (legacy_ok env)"
  proof (rule triple_modify)
    fix s
    assume H: "?H s"
    let ?t = "update_where (\<lambda>r. p_local_password r \<noteq> []) (\<lambda>r. r\<lparr>p_local_password := []\<rparr>) (t_providers s)"
    have "map p_id ?t = map p_id (t_providers s)" "map p_route ?t = map p_route (t_providers s)"
      "list_all cache_ok ?t = list_all cache_ok (t_providers s)"
      by (simp_all add: map_update_where list_all_update_same cache_ok_def)
    moreover have "list_all local_password_ok ?t"
      by (auto simp: update_where_def list_all_iff local_password_ok_def)
    moreover have "length (filter (\<lambda>r. p_is_default r = 1) ?t) = length (filter (\<lambda>r. p_is_default r = 1) (t_providers s))"
      by (rule length_filter_update_same) simp
    ultimately show "?L (s\<lparr>t_providers := ?t\<rparr>)"
      using H by (simp add: legacy_ok_def schema_1_ok_def applied_def settings_ok_def one_default_row_def flip: set_map)
  qed
  have rec: "triple ?L (recordMigration env 4 nm) (\<lambda>_ t. ?P t \<and> applied 4 t) (legacy_ok env)" for nm
    by (rule triple_record) (auto simp: legacy_ok_def schema_1_ok_def applied_def settings_ok_def)
  show ?thesis
    unfolding migration_4_def
    by (rule triple_andThen [OF add], rule triple_andThen [OF triple_gets], rule triple_andThen [OF loop],
        rule triple_andThen [OF clear], rule rec)
qed

subsection \<open>The whole run\<close>

definition up_to_date :: "('w, 'z) mig_scheme \<Rightarrow> bool" where
  "up_to_date s \<longleftrightarrow> applied 1 s \<and> applied 2 s \<and> applied 3 s \<and> applied 4 s"

lemma keeps_complete_setup:
  assumes "\<And>s f. I s \<Longrightarrow> (\<And>g. vpn_ok (active_vpn_type g) (vpn_status g) g \<Longrightarrow>
      vpn_ok (active_vpn_type (f g)) (vpn_status (f g)) (f g)) \<Longrightarrow> I (s\<lparr>t_settings := map_option f (t_settings s)\<rparr>)"
  shows "keeps I (complete_setup now P)"
  unfolding complete_setup_def
proof (rule keeps_modify)
  fix s
  assume "I s"
  then show "I (s\<lparr>t_settings := map_option (\<lambda>g. if P g then g\<lparr>initial_setup_completed := 1, settings_updated_at := now\<rparr> else g)
      (t_settings s)\<rparr>)"
  proof (rule assms)
    fix g
    assume ok: "vpn_ok (active_vpn_type g) (vpn_status g) g"
    let ?g = "if P g then g\<lparr>initial_setup_completed := 1, settings_updated_at := now\<rparr> else g"
    show "vpn_ok (active_vpn_type ?g) (vpn_status ?g) ?g"
      using ok by (cases "vpn_status g") simp_all
  qed
qed

text \<open>What holds from the settings row on: the row is there and stays.\<close>

definition seeded :: "'w env \<Rightarrow> ('w, 'z) mig_scheme \<Rightarrow> bool" where
  "seeded env s \<longleftrightarrow> (legacy_ok env s \<and> up_to_date s) \<and> t_settings s \<noteq> None"

lemma seeded_settings:
  "seeded env s \<Longrightarrow> (\<And>g. vpn_ok (active_vpn_type g) (vpn_status g) g \<Longrightarrow>
      vpn_ok (active_vpn_type (f g)) (vpn_status (f g)) (f g)) \<Longrightarrow> seeded env (s\<lparr>t_settings := map_option f (t_settings s)\<rparr>)"
  by (auto simp: seeded_def up_to_date_def legacy_ok_def schema_1_ok_def applied_def settings_ok_def)

lemma seeded_log_free: "log_free (seeded env)"
  by (simp add: log_free_def ext_free_def seeded_def up_to_date_def legacy_ok_def schema_1_ok_def applied_def settings_ok_def)

lemma keeps_seed_users: "keeps (seeded env) (seed_users env now)"
proof -
  note free = log_free_ext [OF seeded_log_free]
  have user: "keeps (seeded env) (run_sql t_users (\<lambda>t s. s\<lparr>t_users := t\<rparr>) (sql_insert u_uniq (\<lambda>_. True) r))" for r
    by (rule keeps_run_sql)
      (auto simp: sql_insert_Some seeded_def up_to_date_def legacy_ok_def schema_1_ok_def applied_def settings_ok_def)
  have log: "keeps (seeded env) (insert_log e)" for e
    unfolding insert_log_def
    by (rule keeps_run_sql)
      (simp add: seeded_def up_to_date_def legacy_ok_def schema_1_ok_def applied_def settings_ok_def)
  show ?thesis
    unfolding seed_users_def seed_admin_def hashPassword_def
    by (intro keeps_intros keeps_ext [OF free] user log keeps_complete_setup seeded_settings)
qed

lemma triple_run:
  assumes lib: "password_lib_ok env"
  shows "triple (legacy_ok env) (runMigrations env) (\<lambda>_. seeded env) (legacy_ok env)"
proof -
  have one: "triple (legacy_ok env) (unless_applied 1 (migration_1 env)) (\<lambda>_ s. legacy_ok env s \<and> applied 1 s) (legacy_ok env)"
    by (rule triple_unless [OF triple_1])
  have two: "triple (\<lambda>s. legacy_ok env s \<and> applied 1 s) (unless_applied 2 (migration_2 env))
      (\<lambda>_ s. legacy_ok env s \<and> applied 1 s \<and> applied 2 s) (legacy_ok env)"
    using triple_unless [OF triple_2] by (simp only: conj_assoc)
  have three: "triple (\<lambda>s. legacy_ok env s \<and> applied 1 s \<and> applied 2 s) (unless_applied 3 (migration_3 env))
      (\<lambda>_ s. legacy_ok env s \<and> applied 1 s \<and> applied 2 s \<and> applied 3 s) (legacy_ok env)"
    using triple_unless [OF triple_3] by (simp only: conj_assoc)
  have four: "triple (\<lambda>s. legacy_ok env s \<and> applied 1 s \<and> applied 2 s \<and> applied 3 s) (unless_applied 4 (migration_4 env))
      (\<lambda>_ s. legacy_ok env s \<and> up_to_date s) (legacy_ok env)"
    using triple_unless [OF triple_4 [OF lib]] by (simp only: up_to_date_def conj_assoc)
  have clock: "keeps (\<lambda>s. legacy_ok env s \<and> up_to_date s) (ext f)" for f
    by (rule keeps_ext) (simp add: ext_free_def up_to_date_def)
  have seed: "triple (\<lambda>s. legacy_ok env s \<and> up_to_date s) (seed_settings now) (\<lambda>_. seeded env) (legacy_ok env)" for now
    unfolding seed_settings_def
    by (rule triple_modify) (auto simp: seeded_def up_to_date_def legacy_ok_def schema_1_ok_def applied_def settings_ok_def
        initial_settings_def)
  show ?thesis
    unfolding runMigrations_def
    by (rule triple_andThen [OF one], rule triple_andThen [OF two], rule triple_andThen [OF three],
        rule triple_andThen [OF four], rule triple_step [OF clock], simp, rule triple_andThen [OF seed],
        rule triple_weaken [OF triple_keeps [OF keeps_seed_users]]) (simp_all add: seeded_def)
qed

lemma seeded_inv: "seeded env s \<Longrightarrow> db_inv s \<and> settings_ok s \<and> t_settings s \<noteq> None"
  by (auto simp: seeded_def up_to_date_def legacy_ok_def schema_1_ok_def db_inv_def p_uniq_def one_default_row_def
      list_all_iff p_row_ok_def)



text \<open>A database of the first schema with two defaults and a plain-text password.\<close>

definition old_provider :: "string \<Rightarrow> provider" where
  "old_provider i = \<lparr>p_id = i, p_name = i, p_host = ''http://up'', p_route = i,
     p_upstream_username = ''a'', p_upstream_password = ''b'', p_local_username = ''bob'', p_local_password = ''secret'',
     p_is_default = 1, p_cache_duration_hours = 1, p_enabled = 1, p_created_at = 0, p_updated_at = 0\<rparr>"

definition old_db :: "nat mig" where
  "old_db = \<lparr>t_users = [], t_providers = [old_provider ''p1'', old_provider ''p2''], t_provider_users = [],
     t_settings = None, t_wireguard = [], t_openvpn = [], t_logs = [], emitted = [], outer = 0,
     t_migrations = [(1, ''initial_schema'', 0)], has_label = False, has_session_version = False, has_hash = False\<rparr>"

lemma old_db_legacy: "legacy_ok env old_db"
  by (simp add: legacy_ok_def schema_1_ok_def applied_def old_db_def old_provider_def u_uniq_def pu_uniq_def wg_uniq_def
      ov_uniq_def cache_ok_def settings_ok_def)

lemma old_db_runs: "\<exists>t. runMigrations demo_env old_db = (Inr (), t)"
  by (simp add: runMigrations_def unless_applied_def migrationApplied_def act_simps old_db_def old_provider_def
      migration_2_def add_label_def one_default_def newest_default_def update_where_def create_default_index_def
      recordMigration_def sql_insert_def)
    (simp add: migration_3_def act_simps add_session_version_def copy_identity_def trim_def trimStart_def trimEnd_def
      char_eval batch_def insert_plain_user_def on_table_def sql_insert_def pu_uniq_def recordMigration_def
      migration_4_def add_hash_def hash_row_def isProviderPasswordHash_def nth_opt_def ALGORITHM_def Let_def
      hashProviderPassword_run cond_def sql_update_def update_where_def seed_settings_def seed_users_def
      configured_password_def getenv_trim_def truthy_def or_else_def)

lemma short_env_throws:
  "\<exists>e t. runMigrations (demo_env\<lparr>getenv := (\<lambda>v. Some ''short'')\<rparr>) (old_db\<lparr>t_providers := []\<rparr>) = (Inl e, t)"
  by (simp add: runMigrations_def unless_applied_def migrationApplied_def act_simps old_db_def
      migration_2_def add_label_def one_default_def newest_default_def update_where_def create_default_index_def
      recordMigration_def sql_insert_def migration_3_def add_session_version_def migration_4_def add_hash_def
      seed_settings_def seed_users_def seed_admin_def configured_password_def configured_username_def getenv_trim_def
      truthy_def or_else_def trim_def trimStart_def trimEnd_def char_eval demo_env_def)



end
