(* ===== verification/Database.thy ===== *)
theory Database imports Migrations begin

section \<open>The database file\<close>

text \<open>
  \<open>lib/db/index.ts\<close>: where the database is, whether it exists and is healthy, the verified backup before a migration of
  an existing database and which older backups are dropped, the pragmas, the migrations and the housekeeping. What
  SQLite does with a file is the parameter \<open>sqlite\<close> of the outer world.
\<close>

definition resolveDatabasePath :: "'w env \<Rightarrow> (('w, 'z) db_scheme, string) act" where
  "resolveDatabasePath env = (case getenv_trim env ''DATABASE_PATH'' of
     Some configured \<Rightarrow> ret configured
   | None \<Rightarrow> andThen (ext_read (fs_exists env ''/data'')) (\<lambda>e.
       ret (if e then ''/data/iptv-proxy.db'' else path_join (path_join (cwd env) ''data'') ''iptv-proxy.db'')))"

definition LATEST_SCHEMA_VERSION :: nat where "LATEST_SCHEMA_VERSION = 4"
definition MAX_MIGRATION_BACKUPS :: nat where "MAX_MIGRATION_BACKUPS = 5"

text \<open>The names of the backups that go: all but the newest five.\<close>

definition pruned_backups :: "string \<Rightarrow> (string \<times> nat) list \<Rightarrow> string list" where
  "pruned_backups pre files = map fst (drop MAX_MIGRATION_BACKUPS (sort_key (\<lambda>f. - int (snd f))
     (filter (\<lambda>f. startsWith (fst f) pre \<and> endsWith (fst f) ''.db'') files)))"

definition sqlStringLiteral :: "string \<Rightarrow> string" where
  "sqlStringLiteral value =
     CHR 0x27 # concat (map (\<lambda>c. if c = CHR 0x27 then [c, c] else [c]) value) @ [CHR 0x27]"

definition pruneLogsWithoutRecursion :: "'w env \<Rightarrow> (('w, 'z) db_scheme, unit) act" where
  "pruneLogsWithoutRecursion env =
     andThen (gets (\<lambda>s. case t_settings s of None \<Rightarrow> 7
        | Some g \<Rightarrow> if log_retention_days g = 0 then 7 else log_retention_days g)) (\<lambda>setting.
     let days = max 1 (min 365 setting) in
     andThen (ext (Date_now env)) (\<lambda>now.
     andThen (delete_logs (\<lambda>r. int (l_timestamp (snd r)) < int now - days * DAY_MS)) (\<lambda>_. ret ())))"

lemma keeps_pruneLogs: "log_free I \<Longrightarrow> keeps I (pruneLogsWithoutRecursion env)"
  unfolding pruneLogsWithoutRecursion_def Let_def
  by (intro keeps_intros keeps_ext keeps_delete_logs) (auto simp: log_free_def)

text \<open>How SQLite reads a string literal: a doubled quote stands for one, a single one ends it.\<close>

fun read_quoted :: "string \<Rightarrow> (string \<times> string) option" where
  "read_quoted [] = None"
| "read_quoted [c] = (if c = CHR 0x27 then Some ([], []) else None)"
| "read_quoted (c # d # rest) =
     (if c = CHR 0x27 then
        (if d = CHR 0x27 then map_option (\<lambda>(v, r). (CHR 0x27 # v, r)) (read_quoted rest) else Some ([], d # rest))
      else map_option (\<lambda>(v, r). (c # v, r)) (read_quoted (d # rest)))"

definition read_literal :: "string \<Rightarrow> (string \<times> string) option" where
  "read_literal s = (case s of c # rest \<Rightarrow> if c = CHR 0x27 then read_quoted rest else None | [] \<Rightarrow> None)"

lemma read_plain: "c \<noteq> CHR 0x27 \<Longrightarrow> r \<noteq> [] \<Longrightarrow> read_quoted (c # r) = map_option (\<lambda>(v, q). (c # v, q)) (read_quoted r)"
  by (cases r) auto

lemma read_end: "(case rest of [] \<Rightarrow> True | d # _ \<Rightarrow> d \<noteq> CHR 0x27) \<Longrightarrow> read_quoted (CHR 0x27 # rest) = Some ([], rest)"
  by (cases rest) auto

lemma read_back:
  assumes "case rest of [] \<Rightarrow> True | d # _ \<Rightarrow> d \<noteq> CHR 0x27"
  shows "read_quoted (concat (map (\<lambda>c. if c = CHR 0x27 then [c, c] else [c]) value) @ CHR 0x27 # rest) = Some (value, rest)"
  by (induction "value") (simp_all add: read_end [OF assms] read_plain)

text \<open>A text quoted for a statement is read back as that text by SQLite, and the literal ends exactly at its end:
  a path with quotes cannot continue as SQL.\<close>

theorem sql_literal_roundtrip:
  assumes "case rest of [] \<Rightarrow> True | d # _ \<Rightarrow> d \<noteq> CHR 0x27"
  shows "read_literal (sqlStringLiteral text @ rest) = Some (text, rest)"
  using read_back [OF assms, of "text"] by (simp add: read_literal_def sqlStringLiteral_def)

theorem sql_literal_roundtrip_witness: "read_literal (sqlStringLiteral [CHR 0x27, CHR ''a''] @ '';'') = Some ([CHR 0x27, CHR ''a''], '';'')"
  by (rule sql_literal_roundtrip) simp

subsection \<open>Opening the database\<close>

text \<open>
  The rest of \<open>lib/db/index.ts\<close>: the client, the verified backup before a pending migration and the initialisation every
  service call starts with. Statements that are not about the tables (\<open>PRAGMA\<close>, \<open>VACUUM INTO\<close>) are calls of the SQLite
  library on a file; their answer is the text of its first cell. Concurrent callers of \<open>initDatabase\<close> share the promise of
  the first one, so that the model runs it as one action.
\<close>

record 'w process = "'w mig" +
  client_open :: bool
  initialized :: bool
  housekeeping_on :: bool

text \<open>\<open>toISOString\<close> of an instant before the year 10000: the civil date of the days since 1970.\<close>

definition pad :: "nat \<Rightarrow> nat \<Rightarrow> string" where
  "pad n v = (let t = show_nat v in replicate (n - length t) (CHR ''0'') @ t)"

definition civil :: "nat \<Rightarrow> nat \<times> nat \<times> nat" where
  "civil days =
     (let z = days + 719468; era = z div 146097; doe = z mod 146097;
          yoe = (doe - doe div 1460 + doe div 36524 - doe div 146096) div 365;
          doy = doe - (365 * yoe + yoe div 4 - yoe div 100); mp = (5 * doy + 2) div 153;
          d = doy - (153 * mp + 2) div 5 + 1; m = (if mp < 10 then mp + 3 else mp - 9)
      in (yoe + era * 400 + (if m \<le> 2 then 1 else 0), m, d))"

definition toISOString :: "timestamp \<Rightarrow> string" where
  "toISOString t =
     (case civil (t div 86400000) of (y, m, d) \<Rightarrow>
        pad 4 y @ ''-'' @ pad 2 m @ ''-'' @ pad 2 d @ ''T'' @ pad 2 (t div 3600000 mod 24) @ '':'' @
        pad 2 (t div 60000 mod 60) @ '':'' @ pad 2 (t div 1000 mod 60) @ ''.'' @ pad 3 (t mod 1000) @ ''Z'')"

definition basename :: "string \<Rightarrow> string" where
  "basename p = rev (takeWhile (\<lambda>c. c \<noteq> CHR ''/'') (dropWhile (\<lambda>c. c = CHR ''/'') (rev p)))"

definition prepareDatabaseDirectory :: "'w env \<Rightarrow> string \<Rightarrow> (('w, 'z) db_scheme, unit) act" where
  "prepareDatabaseDirectory env dbPath =
     andThen (ext_try (fs_mkdir env (dirname dbPath))) (\<lambda>_. ext_do (fs_chmod env (dirname dbPath)))"

definition getDb :: "'w env \<Rightarrow> (('w, 'z) process_scheme, unit) act" where
  "getDb env = andThen (gets client_open) (\<lambda>open. if open then ret ()
     else
       andThen (resolveDatabasePath env) (\<lambda>dbPath.
       andThen (prepareDatabaseDirectory env dbPath) (\<lambda>_.
       modify (\<lambda>s. s\<lparr>client_open := True\<rparr>))))"

definition statement :: "'w env \<Rightarrow> string \<Rightarrow> string \<Rightarrow> (('w, 'z) db_scheme, string) act" where
  "statement env file sql = ext_try (sqlite env file sql)"

definition QUICK_CHECK :: string where "QUICK_CHECK = ''PRAGMA quick_check;''"

definition assertDatabaseHealthy :: "'w env \<Rightarrow> string \<Rightarrow> string \<Rightarrow> (('w, 'z) db_scheme, unit) act" where
  "assertDatabaseHealthy env file label =
     andThen (statement env file QUICK_CHECK) (\<lambda>status.
     if toLowerCase status \<noteq> ''ok''
     then throw (label @ '' SQLite quick_check failed: '' @ (if status = [] then ''no result'' else status))
     else ret ())"

definition currentSchemaVersion :: "(('w, 'z) mig_scheme, nat) act" where
  "currentSchemaVersion = gets (\<lambda>s. foldr max (map fst (t_migrations s)) 0)"

definition pruneMigrationBackups :: "'w env \<Rightarrow> string \<Rightarrow> string \<Rightarrow> (('w, 'z) db_scheme, unit) act" where
  "pruneMigrationBackups env backupDir pre =
     andThen (ext_try (fs_list env backupDir)) (\<lambda>files.
     forEach (\<lambda>name. andThen (ext (fs_unlink env (path_join backupDir name))) (\<lambda>_. ret ())) (pruned_backups pre files))"

text \<open>The stem of the names of the backups, and the time stamp in them.\<close>

definition backup_prefix :: "string \<Rightarrow> string" where
  "backup_prefix dbPath =
     (let name = basename dbPath;
          stem = (if endsWith (toLowerCase name) ''.db'' then take (length name - 3) name else name) in
      (if stem = [] then ''iptv-proxy'' else stem) @ ''.pre-migration-'')"

definition backup_stamp :: "timestamp \<Rightarrow> string" where
  "backup_stamp now = map (\<lambda>c. if c = CHR '':'' \<or> c = CHR ''.'' then CHR ''-'' else c) (toISOString now)"

definition verified_backup :: "'w env \<Rightarrow> string \<Rightarrow> string \<Rightarrow> (('w, 'z) db_scheme, unit) act" where
  "verified_backup env dbPath backupPath =
     andThen (statement env dbPath (''VACUUM INTO '' @ sqlStringLiteral backupPath @ '';'')) (\<lambda>_.
     andThen (ext_do (fs_chmod env backupPath)) (\<lambda>_.
     catch (assertDatabaseHealthy env backupPath ''Migration backup'')
       (\<lambda>e. andThen (ext (fs_unlink env backupPath)) (\<lambda>_ s. (Inl e, s)))))"

definition make_backup :: "'w env \<Rightarrow> string \<Rightarrow> nat \<Rightarrow> (('w, 'z) db_scheme, unit) act" where
  "make_backup env dbPath currentVersion =
     andThen (assertDatabaseHealthy env dbPath ''Source'') (\<lambda>_.
     andThen (statement env dbPath ''PRAGMA wal_checkpoint(FULL);'') (\<lambda>_.
     let backupDir = path_join (dirname dbPath) ''backups'' in
     andThen (ext_try (fs_mkdir env backupDir)) (\<lambda>_.
     andThen (ext_do (fs_chmod env backupDir)) (\<lambda>_.
     andThen (ext (Date_now env)) (\<lambda>now.
     let backupPath = path_join backupDir (backup_prefix dbPath @ ''v'' @ show_nat currentVersion @ ''-to-v'' @
           show_nat LATEST_SCHEMA_VERSION @ ''.'' @ backup_stamp now @ ''.'' @ show_nat (process_id env) @ ''.db'') in
     andThen (verified_backup env dbPath backupPath) (\<lambda>_.
     pruneMigrationBackups env backupDir (backup_prefix dbPath)))))))"

definition backupBeforePendingMigration :: "'w env \<Rightarrow> string \<Rightarrow> bool \<Rightarrow> (('w, 'z) mig_scheme, unit) act" where
  "backupBeforePendingMigration env dbPath databaseExisted =
     (if \<not> databaseExisted then ret ()
      else andThen currentSchemaVersion (\<lambda>currentVersion.
      if LATEST_SCHEMA_VERSION \<le> currentVersion then ret () else make_backup env dbPath currentVersion))"

definition PRAGMAS :: "string list" where
  "PRAGMAS = [''PRAGMA busy_timeout = 5000;'', ''PRAGMA foreign_keys = ON;'', ''PRAGMA journal_mode = WAL;'',
     ''PRAGMA synchronous = NORMAL;'', ''PRAGMA wal_autocheckpoint = 1000;'']"

definition database_exists :: "'w env \<Rightarrow> string \<Rightarrow> 'w \<Rightarrow> bool" where
  "database_exists env dbPath w \<longleftrightarrow> fs_exists env dbPath w \<and> (case file_size env dbPath w of None \<Rightarrow> False | Some n \<Rightarrow> n > 0)"

definition startBackgroundHousekeeping :: "'w env \<Rightarrow> (('w, 'z) process_scheme, unit) act" where
  "startBackgroundHousekeeping env = andThen (gets housekeeping_on) (\<lambda>on. if on then ret ()
     else andThen (pruneLogsWithoutRecursion env) (\<lambda>_. modify (\<lambda>s. s\<lparr>housekeeping_on := True\<rparr>)))"

definition open_and_migrate :: "'w env \<Rightarrow> string \<Rightarrow> bool \<Rightarrow> (('w, 'z) process_scheme, unit) act" where
  "open_and_migrate env dbPath databaseExisted =
     andThen (getDb env) (\<lambda>_.
     andThen (forEach (\<lambda>sql. andThen (statement env dbPath sql) (\<lambda>_. ret ())) PRAGMAS) (\<lambda>_.
     andThen (backupBeforePendingMigration env dbPath databaseExisted) (\<lambda>_.
     runMigrations env)))"

definition initialize :: "'w env \<Rightarrow> string \<Rightarrow> bool \<Rightarrow> (('w, 'z) process_scheme, unit) act" where
  "initialize env dbPath databaseExisted =
     andThen (open_and_migrate env dbPath databaseExisted) (\<lambda>_.
     andThen (ext_read (fs_exists env dbPath)) (\<lambda>e.
     andThen (if e then ext_do (fs_chmod env dbPath) else ret ()) (\<lambda>_.
     andThen (modify (\<lambda>s. s\<lparr>initialized := True\<rparr>)) (\<lambda>_.
     startBackgroundHousekeeping env))))"

definition initDatabase :: "'w env \<Rightarrow> (('w, 'z) process_scheme, unit) act" where
  "initDatabase env = andThen (gets initialized) (\<lambda>done. if done then ret ()
     else
       andThen (resolveDatabasePath env) (\<lambda>dbPath.
       andThen (ext_read (database_exists env dbPath)) (\<lambda>databaseExisted.
       initialize env dbPath databaseExisted)))"

subsection \<open>Facts about the initialisation\<close>

lemma database_path_run: "\<exists>p. resolveDatabasePath env s = (Inr p, s)"
  by (auto simp: resolveDatabasePath_def andThen_run split: option.splits)

text \<open>Everything before the migrations leaves the tables as they are.\<close>

definition tables_of :: "('w, 'z) mig_scheme \<Rightarrow> (nat \<times> string \<times> timestamp) list \<times> user list \<times> provider list \<times> provider_user_row list \<times>
     app_settings option \<times> wireguard_profile list \<times> openvpn_profile list" where
  "tables_of s = (t_migrations s, t_users s, t_providers s, t_provider_users s, t_settings s, t_wireguard s, t_openvpn s)"

definition process_free :: "(('w, 'z) process_scheme \<Rightarrow> bool) \<Rightarrow> bool" where
  "process_free I \<longleftrightarrow> log_free I \<and> (\<forall>s b. I (s\<lparr>client_open := b\<rparr>) = I s) \<and>
     (\<forall>s b. I (s\<lparr>housekeeping_on := b\<rparr>) = I s)"

lemma process_free_ext: "process_free I \<Longrightarrow> ext_free I"
  by (simp add: process_free_def log_free_def)

lemma keeps_statement_call: "ext_free I \<Longrightarrow> keeps I (statement env f q)"
  unfolding statement_def by (rule keeps_ext_try)

lemma keeps_healthy: "ext_free I \<Longrightarrow> keeps I (assertDatabaseHealthy env f l)"
  unfolding assertDatabaseHealthy_def by (intro keeps_intros keeps_statement_call)

lemma keeps_resolve: "keeps I (resolveDatabasePath env)"
  unfolding resolveDatabasePath_def by (intro keeps_intros)

lemma keeps_getDb: "process_free I \<Longrightarrow> keeps I (getDb env)"
  unfolding getDb_def prepareDatabaseDirectory_def
  by (intro keeps_intros keeps_resolve keeps_externals [OF process_free_ext] keeps_modify)
    (auto simp: process_free_def)

lemma keeps_verified_backup:
  assumes "ext_free I"
  shows "keeps I (verified_backup env p q)"
proof -
  have "keeps I (\<lambda>s. (Inl e, s))" for e :: failure by (simp add: keeps_def)
  then show ?thesis
    unfolding verified_backup_def
    by (intro keeps_intros keeps_statement_call keeps_healthy keeps_externals assms)
qed

lemma keeps_backup: "ext_free I \<Longrightarrow> keeps I (backupBeforePendingMigration env p b)"
  unfolding backupBeforePendingMigration_def make_backup_def currentSchemaVersion_def pruneMigrationBackups_def
  by (intro keeps_intros keeps_statement_call keeps_healthy keeps_externals keeps_verified_backup)

lemma keeps_housekeeping: "process_free I \<Longrightarrow> keeps I (startBackgroundHousekeeping env)"
  unfolding startBackgroundHousekeeping_def
  by (intro keeps_intros keeps_pruneLogs keeps_modify) (auto simp: process_free_def)

lemma seeded_process_free: "process_free (seeded env)" and legacy_process_free: "process_free (legacy_ok env)"
  using seeded_log_free [of env] unfolding process_free_def log_free_def ext_free_def
  by (simp_all add: seeded_def legacy_ok_def up_to_date_def schema_1_ok_def applied_def settings_ok_def db_inv_def)


lemma initDatabase_run:
  "\<not> initialized s \<Longrightarrow> resolveDatabasePath env s = (Inr p, s) \<Longrightarrow>
   initDatabase env s = initialize env p (database_exists env p (outer s)) s"
  by (simp add: initDatabase_def andThen_run)

text \<open>The tables are those of an earlier schema, or, once the process says so, complete.\<close>

definition ready :: "'w env \<Rightarrow> ('w, 'z) process_scheme \<Rightarrow> bool" where
  "ready env s \<longleftrightarrow> legacy_ok env s \<and> (initialized s \<longrightarrow> seeded env s)"

lemma ready_seeded: "seeded env s \<Longrightarrow> ready env s"
  by (simp add: ready_def seeded_def)


text \<open>The migrations look after the tables only.\<close>

lemma flag_free: "process_free (\<lambda>s. initialized s = b)"
  by (simp add: process_free_def log_free_def ext_free_def)

lemma keeps_flag: "(\<And>s. initialized (f s) = initialized s) \<Longrightarrow> keeps (\<lambda>s. initialized s = b) (modify f)"
  by (rule keeps_modify) simp

lemma keeps_flag_sql: "(\<And>t s. initialized (put t s) = initialized s) \<Longrightarrow> keeps (\<lambda>s. initialized s = b) (run_sql get put st)"
  by (rule keeps_run_sql) simp

lemma keeps_flag_batch:
  "(\<And>f u v. f \<in> set fs \<Longrightarrow> f u = Some v \<Longrightarrow> initialized v = initialized u) \<Longrightarrow> keeps (\<lambda>s. initialized s = b) (batch fs)"
  by (rule keeps_batch) simp

lemma flag_plain_user: "insert_plain_user r s = Some t \<Longrightarrow> initialized t = initialized s"
  by (auto simp: insert_plain_user_def on_table_def split: option.splits if_splits)

lemma keeps_flag_migrations: "keeps (\<lambda>s. initialized s = b) (runMigrations env)"
proof -
  note ext = process_free_ext [OF flag_free]
  have rec: "keeps (\<lambda>s. initialized s = b) (recordMigration env v n)" for v n
    unfolding recordMigration_def by (intro keeps_intros keeps_ext [OF ext] keeps_flag_sql) simp
  have index: "keeps (\<lambda>s. initialized s = b) create_default_index"
    by (simp add: create_default_index_def keeps_def)
  have user: "keeps (\<lambda>s. initialized s = b) (batch [insert_plain_user r])" for r
    by (rule keeps_flag_batch) (auto dest: flag_plain_user)
  show ?thesis
    unfolding runMigrations_def unless_applied_def migrationApplied_def migration_1_def migration_2_def migration_3_def
      migration_4_def add_label_def add_session_version_def add_hash_def copy_identity_def hash_row_def
      hashProviderPassword_def seed_settings_def seed_users_def seed_admin_def complete_setup_def hashPassword_def insert_log_def
    by (intro keeps_intros keeps_ext [OF ext] keeps_flag_sql keeps_flag rec index user) (simp_all add: Let_def)
qed


lemma process_free_conj: "process_free I \<Longrightarrow> process_free J \<Longrightarrow> process_free (\<lambda>s. I s \<and> J s)"
  by (simp add: process_free_def log_free_def ext_free_def)

lemma triple_at: "triple P m Q E \<Longrightarrow> P s \<Longrightarrow> (case m s of (Inl e, t) \<Rightarrow> E t | (Inr x, t) \<Rightarrow> Q x t)"
  by (simp add: triple_def)

lemma triple_keep: "triple P m Q E \<Longrightarrow> keeps I m \<Longrightarrow> triple (\<lambda>s. P s \<and> I s) m (\<lambda>x s. Q x s \<and> I s) (\<lambda>s. E s \<and> I s)"
  unfolding triple_def keeps_def by (fastforce split: prod.splits sum.splits)

lemma triple_open:
  assumes "password_lib_ok env"
  shows "triple (\<lambda>s. legacy_ok env s \<and> initialized s = False) (open_and_migrate env p b)
     (\<lambda>_ s. seeded env s \<and> initialized s = False) (\<lambda>s. legacy_ok env s \<and> initialized s = False)"
proof -
  have free: "process_free (\<lambda>s. legacy_ok env s \<and> initialized s = False)"
    by (rule process_free_conj [OF legacy_process_free flag_free])
  show ?thesis
    unfolding open_and_migrate_def
  proof (rule triple_step [OF keeps_getDb [OF free]], assumption, rule triple_step, goal_cases)
    case 1
    show ?case by (intro keeps_intros keeps_statement_call process_free_ext free)
  next
    case (3 x)
    show ?case
      by (rule triple_step [OF keeps_backup [OF process_free_ext [OF free]]], assumption,
          rule triple_keep [OF triple_run [OF assms] keeps_flag_migrations])
  qed
qed

lemma initDatabase_opens:
  assumes "password_lib_ok env"
  shows "triple (ready env) (initDatabase env) (\<lambda>_ t. seeded env t \<and> initialized t = True) (ready env)"
proof -
  let ?S = "\<lambda>s. seeded env s \<and> initialized s = False" and ?T = "\<lambda>s. seeded env s \<and> initialized s = True"
  have free: "process_free ?S" "process_free ?T"
    by (intro process_free_conj seeded_process_free flag_free)+
  have set: "triple ?S (modify (\<lambda>s. s\<lparr>initialized := True\<rparr>)) (\<lambda>_. ?T) (ready env)"
    by (simp add: triple_def seeded_def up_to_date_def legacy_ok_def schema_1_ok_def applied_def settings_ok_def)
  have after: "triple ?T (startBackgroundHousekeeping env) (\<lambda>_. ?T) (ready env)"
    by (rule triple_weaken [OF triple_keeps [OF keeps_housekeeping [OF free(2)]]]) (auto intro: ready_seeded)
  have chmod: "keeps ?S (if e then ext_do (fs_chmod env q) else ret ())" for e q
    by (intro keeps_intros keeps_ext_do process_free_ext free)
  have S: "?S s \<Longrightarrow> ready env s" for s by (auto intro: ready_seeded)
  have rest: "triple ?S (andThen (ext_read (fs_exists env p)) (\<lambda>e.
       andThen (if e then ext_do (fs_chmod env p) else ret ()) (\<lambda>_.
       andThen (modify (\<lambda>s. s\<lparr>initialized := True\<rparr>)) (\<lambda>_. startBackgroundHousekeeping env)))) (\<lambda>_. ?T) (ready env)" for p
    by (rule triple_step [OF keeps_ext_read S], assumption, rule triple_step [OF chmod S], assumption,
        rule triple_andThen [OF set after])
  have work: "triple (\<lambda>s. legacy_ok env s \<and> initialized s = False) (initialize env p b) (\<lambda>_. ?T) (ready env)" for p b
    unfolding initialize_def
    by (rule triple_andThen [OF triple_weaken [OF triple_open [OF assms]] rest]) (auto simp: ready_def)
  show ?thesis
  proof (rule tripleI)
    fix s
    assume r: "ready env s"
    show "case initDatabase env s of (Inl e, t) \<Rightarrow> ready env t | (Inr x, t) \<Rightarrow> seeded env t \<and> initialized t = True"
    proof (cases "initialized s")
      case True
      with r show ?thesis by (simp add: initDatabase_def andThen_run ready_def)
    next
      case False
      obtain p where p: "resolveDatabasePath env s = (Inr p, s)" using database_path_run by blast
      from False r have "legacy_ok env s \<and> initialized s = False" by (simp add: ready_def)
      with work [of p "database_exists env p (outer s)"] show ?thesis
        unfolding initDatabase_run [OF False p] by (rule triple_at)
    qed
  qed
qed


subsection \<open>The backup\<close>

definition says_ok :: "'w env \<Rightarrow> string \<Rightarrow> bool" where
  "says_ok env file \<longleftrightarrow> (\<exists>w status. fst (sqlite env file QUICK_CHECK w) = Inr status \<and> toLowerCase status = ''ok'')"

lemma triple_healthy:
  assumes "ext_free P"
  shows "triple P (assertDatabaseHealthy env file label) (\<lambda>_ s. P s \<and> says_ok env file) P"
proof -
  have "triple P (statement env file QUICK_CHECK)
      (\<lambda>status s. P s \<and> (\<exists>w. fst (sqlite env file QUICK_CHECK w) = Inr status)) P"
  proof (rule tripleI)
    fix s
    assume "P s"
    with assms show "case statement env file QUICK_CHECK s of (Inl e, t) \<Rightarrow> P t
        | (Inr status, t) \<Rightarrow> P t \<and> (\<exists>w. fst (sqlite env file QUICK_CHECK w) = Inr status)"
      by (cases "sqlite env file QUICK_CHECK (outer s)"; cases "fst (sqlite env file QUICK_CHECK (outer s))")
        (auto simp: statement_def ext_try_def ext_free_def intro!: exI [of _ "outer s"])
  qed
  then show ?thesis
    unfolding assertDatabaseHealthy_def
    by (rule triple_andThen) (auto simp: triple_def throw_def ret_def says_ok_def)
qed

definition backup_of :: "string \<Rightarrow> string \<Rightarrow> bool" where
  "backup_of dbPath q \<longleftrightarrow> (\<exists>name. q = path_join (path_join (dirname dbPath) ''backups'') name \<and>
     startsWith name (backup_prefix dbPath))"



text \<open>An existing file with empty tables.\<close>

definition file_env :: "nat env" where
  "file_env = demo_env\<lparr>fs_exists := (\<lambda>f w. True), file_size := (\<lambda>f w. Some 4096)\<rparr>"

definition fresh_process :: "nat process" where
  "fresh_process = \<lparr>t_users = [], t_providers = [], t_provider_users = [], t_settings = None, t_wireguard = [],
     t_openvpn = [], t_logs = [], emitted = [], outer = 0, t_migrations = [], has_label = False,
     has_session_version = False, has_hash = False, client_open = False, initialized = False, housekeeping_on = False\<rparr>"

lemma file_env_simps [simp]:
  "fs_exists file_env f w = True" "file_size file_env f w = Some 4096" "Date_now file_env w = (w, Suc w)"
  "sqlite file_env f q w = (Inr ''ok'', w)" "fs_mkdir file_env d w = (Inr (), w)" "fs_chmod file_env d w = w"
  "fs_list file_env d w = (Inr [], w)" "getenv file_env v = None"
  by (simp_all add: file_env_def demo_env_def)

lemma fresh_fields [simp]:
  "t_migrations fresh_process = []" "client_open fresh_process = False" "initialized fresh_process = False"
  "outer fresh_process = 0" "t_settings fresh_process = None"
  by (simp_all add: fresh_process_def)

lemma housekeeping_runs:
  "\<exists>u. startBackgroundHousekeeping env t = (Inr (), u) \<and> t_settings u = t_settings t"
  by (auto simp: startBackgroundHousekeeping_def pruneLogsWithoutRecursion_def delete_logs_def act_simps Let_def split: option.splits)

lemma fresh_opens: "\<exists>t. initDatabase file_env fresh_process = (Inr (), t) \<and> t_settings t \<noteq> None"
proof -
  have path: "resolveDatabasePath file_env u = (Inr ''/data/iptv-proxy.db'', u)" for u :: "nat process"
    by (simp add: resolveDatabasePath_def andThen_run getenv_trim_def truthy_def)
  have ok: "assertDatabaseHealthy file_env f l u = (Inr (), u)" for f l and u :: "nat process"
    by (simp add: assertDatabaseHealthy_def statement_def ext_try_def andThen_run toLowerCase_def char_eval)
  have verified: "verified_backup file_env p q u = (Inr (), u)" for p q and u :: "nat process"
    by (simp add: verified_backup_def statement_def ext_try_def andThen_run catch_run ok)
  have made: "make_backup file_env p v u = (Inr (), u\<lparr>outer := Suc (outer u)\<rparr>)" for p v and u :: "nat process"
    by (simp add: make_backup_def statement_def ext_try_def andThen_run ok verified ext_run
        pruneMigrationBackups_def pruned_backups_def Let_def)
  have runs: "\<exists>t. runMigrations file_env (fresh_process\<lparr>client_open := True, outer := w\<rparr>) = (Inr (), t) \<and> t_settings t \<noteq> None" for w
    by (simp add: runMigrations_def unless_applied_def migrationApplied_def act_simps fresh_process_def
        migration_1_def migration_2_def add_label_def one_default_def newest_default_def update_where_def create_default_index_def
        recordMigration_def sql_insert_def migration_3_def add_session_version_def migration_4_def add_hash_def
        seed_settings_def seed_users_def configured_password_def getenv_trim_def truthy_def or_else_def)
  then obtain m where m: "runMigrations file_env (fresh_process\<lparr>client_open := True, outer := 1\<rparr>) = (Inr (), m)"
      "t_settings m \<noteq> None" by blast
  have "open_and_migrate file_env ''/data/iptv-proxy.db'' True fresh_process = (Inr (), m)"
    using m by (simp add: open_and_migrate_def andThen_run getDb_def path prepareDatabaseDirectory_def PRAGMAS_def statement_def
        ext_try_def backupBeforePendingMigration_def currentSchemaVersion_def LATEST_SCHEMA_VERSION_def made)
  moreover obtain u where "startBackgroundHousekeeping file_env (m\<lparr>initialized := True\<rparr>) = (Inr (), u)"
      "t_settings u = t_settings m"
    using housekeeping_runs [of file_env "m\<lparr>initialized := True\<rparr>"] by auto
  ultimately have "initialize file_env ''/data/iptv-proxy.db'' True fresh_process = (Inr (), u)"
    by (simp add: initialize_def andThen_run)
  moreover have "initDatabase file_env fresh_process = initialize file_env ''/data/iptv-proxy.db'' True fresh_process"
    using initDatabase_run [OF _ path, of fresh_process] by (simp add: database_exists_def)
  ultimately show ?thesis using m \<open>t_settings u = t_settings m\<close> by auto
qed

text \<open>C31: A returned initialisation has brought the tables to the current schema, with every constraint established and the
  settings row there; one that fails leaves tables that the next call can start from, and the process knows that it
  has to.\<close>

theorem initDatabase_ready:
  assumes "password_lib_ok env"
  shows "triple (ready env) (initDatabase env) (\<lambda>_ t. seeded env t \<and> initialized t = True) (ready env)"
  by (rule initDatabase_opens [OF assms])

theorem initDatabase_ready_witness:
  "ready demo_env (fresh_process) \<and>
   triple (ready demo_env) (initDatabase demo_env) (\<lambda>_ (t :: nat process). seeded demo_env t \<and> initialized t = True) (ready demo_env)"
  using initDatabase_ready [OF demo_password_lib]
  by (simp add: ready_def fresh_process_def legacy_ok_def schema_1_ok_def applied_def u_uniq_def pu_uniq_def wg_uniq_def
      ov_uniq_def settings_ok_def)



subsection \<open>The liveness probe\<close>

text \<open>\<open>app/api/health\<close>: the probe of the container.\<close>

definition health_GET :: "'w env \<Rightarrow> (('w, 'z) process_scheme, reply) act" where
  "health_GET env = catch
     (andThen (initDatabase env) (\<lambda>_. ret (reply_json 200 [(''ok'', JBool True)])))
     (\<lambda>_. ret (reply_json 503 [(''ok'', JBool False)]))"

lemma health_answers:
  assumes "password_lib_ok env"
  shows "triple (ready env) (health_GET env)
    (\<lambda>r t. ready env t \<and> (if rp_status r = 200 then seeded env t else rp_status r = 503)) (\<lambda>_. False)"
  unfolding health_GET_def
  by (rule triple_catch [OF triple_andThen [OF initDatabase_opens [OF assms]]])
    (auto simp: triple_def ret_def reply_json_def intro: ready_seeded)

end
