(* ===== verification/System_Routes.thy ===== *)
theory System_Routes imports Vpn_Routes Database begin

section \<open>The system routes and the provider test\<close>

text \<open>
  \<open>lib/services/system.service.ts\<close>, \<open>app/api/system\<close> and \<open>app/api/providers/[id]/test\<close>: the figures of the dashboard, the
  cache of the Go core, which is reached over HTTP, and the account test of a provider's panel. A value parsed from
  an answer is read the way JavaScript reads it: a property of \<open>null\<close> throws, a property of another value that has
  none is \<open>undefined\<close>.
\<close>

subsection \<open>Values of an answer\<close>

fun js_truthy :: "json \<Rightarrow> bool" where
  "js_truthy JNull = False"
| "js_truthy (JBool b) = b"
| "js_truthy (JNum i) = (i \<noteq> 0)"
| "js_truthy (JDec i) = (i \<noteq> 0)"
| "js_truthy (JStr s) = (s \<noteq> [])"
| "js_truthy (JArr vs) = True"
| "js_truthy (JObj kvs) = True"

definition truthy_field :: "json option \<Rightarrow> bool" where
  "truthy_field v = (case v of None \<Rightarrow> False | Some j \<Rightarrow> js_truthy j)"

definition js_get :: "string \<Rightarrow> json \<Rightarrow> ('s, json option) act" where
  "js_get k v = (case v of
     JNull \<Rightarrow> throw (''Cannot read properties of null (reading '' @ [CHR 0x27] @ k @ [CHR 0x27] @ '')'')
   | JObj kvs \<Rightarrow> ret (map_of kvs k)
   | _ \<Rightarrow> ret None)"

text \<open>\<open>value ?? null\<close>.\<close>

definition or_null :: "json option \<Rightarrow> json" where
  "or_null v = (case v of None \<Rightarrow> JNull | Some j \<Rightarrow> j)"

text \<open>\<open>Number(value) || 0\<close>, for integers and their texts, in which the core counts; an array is read as the text of its elements.\<close>

fun element_text :: "json \<Rightarrow> string" where
  "element_text JNull = []"
| "element_text (JBool b) = (if b then ''true'' else ''false'')"
| "element_text (JNum i) = show_int i"
| "element_text (JDec i) = show_hundredths i"
| "element_text (JStr s) = s"
| "element_text (JArr vs) = join '','' (map element_text vs)"
| "element_text (JObj kvs) = ''[object Object]''"

definition number_text :: "string \<Rightarrow> int" where
  "number_text s =
     (let t = trim s; u = (if startsWith t ''-'' \<or> startsWith t ''+'' then drop 1 t else t) in
      if u \<noteq> [] \<and> list_all is_digit u then (if startsWith t ''-'' then - digits_val u else digits_val u) else 0)"

definition number_or_0 :: "json option \<Rightarrow> int" where
  "number_or_0 v = (case v of
     None \<Rightarrow> 0
   | Some (JNum i) \<Rightarrow> i
   | Some (JDec i) \<Rightarrow> i div 100
   | Some (JBool b) \<Rightarrow> (if b then 1 else 0)
   | Some (JStr s) \<Rightarrow> number_text s
   | Some (JArr vs) \<Rightarrow> number_text (element_text (JArr vs))
   | Some JNull \<Rightarrow> 0
   | Some (JObj kvs) \<Rightarrow> 0)"

text \<open>\<open>(num / den).toFixed(d)\<close> for a power of two \<open>den\<close>, where the quotient is exact.\<close>

definition toFixed :: "nat \<Rightarrow> nat \<Rightarrow> nat \<Rightarrow> string" where
  "toFixed d num den =
     (let n = (2 * num * 10 ^ d + den) div (2 * den); fraction = show_nat (n mod 10 ^ d) in
      show_nat (n div 10 ^ d) @ (if d = 0 then [] else ''.'' @ replicate (d - length fraction) (CHR ''0'') @ fraction))"

subsection \<open>encodeURIComponent\<close>

text \<open>The unreserved characters stay; the others become the bytes of their UTF-8 form, of which code units below 0x100 have
  two at most.\<close>

definition url_unreserved :: "char \<Rightarrow> bool" where
  "url_unreserved c \<longleftrightarrow> is_alnum c \<or> c \<in> set ''-_.!~*()'' \<or> c = CHR 0x27"

definition HEX_DIGIT :: "nat \<Rightarrow> char" where
  "HEX_DIGIT n = (if n < 10 then char_of (48 + n) else char_of (55 + n))"

definition percent :: "nat \<Rightarrow> string" where
  "percent b = [CHR ''%'', HEX_DIGIT (b div 16), HEX_DIGIT (b mod 16)]"

definition encode_char :: "char \<Rightarrow> string" where
  "encode_char c =
     (let n = of_char c in
      if url_unreserved c then [c]
      else if n < 128 then percent n
      else percent (192 + n div 64) @ percent (128 + n mod 64))"

definition encodeURIComponent :: "string \<Rightarrow> string" where
  "encodeURIComponent s = concat (map encode_char s)"

subsection \<open>Calls of the Go core and of a panel\<close>

definition http :: "'w env \<Rightarrow> http_request \<Rightarrow> (('w, 'z) db_scheme, http_response) act" where
  "http env q = andThen (ext (http_fetch env q)) (\<lambda>answer. case answer of
     Inl f \<Rightarrow> throw (ff_message f) | Inr r \<Rightarrow> ret r)"

definition GO_CACHE_URL :: string where "GO_CACHE_URL = ''http://127.0.0.1:8080/internal/cache''"

definition bearer :: "string \<Rightarrow> (string \<times> string) list" where
  "bearer token = [(''Authorization'', ''Bearer '' @ token)]"

definition core_headers :: "'w env \<Rightarrow> ('s, (string \<times> string) list) act" where
  "core_headers env = (case getenv_trim env ''INTERNAL_API_TOKEN'' of
     None \<Rightarrow> throw ''INTERNAL_API_TOKEN is not configured.'' | Some token \<Rightarrow> ret (bearer token))"

definition core_answer :: "('z) response_scheme \<Rightarrow> json" where
  "core_answer r =
     (if r_text r = [] then JObj []
      else case r_json r of Some j \<Rightarrow> j
      | None \<Rightarrow> JObj [(''success'', JBool False),
                     (''error'', JStr (''Go cache API returned HTTP '' @ show_nat (r_status r) @ ''.''))])"

text \<open>A response with a status that allows no body cannot be built with one.\<close>

definition NULL_BODY_STATUS :: "nat list" where "NULL_BODY_STATUS = [204, 205, 304]"

definition forwarded :: "nat \<Rightarrow> json \<Rightarrow> ('s, reply) act" where
  "forwarded status body =
     (if status \<in> set NULL_BODY_STATUS
      then throw (''Response constructor: Invalid response status code '' @ show_nat status)
      else ret \<lparr>rp_status = status, rp_body = body, rp_retry_after = None\<rparr>)"

definition core_call :: "'w env \<Rightarrow> string \<Rightarrow> string \<Rightarrow> (('w, 'z) db_scheme, reply) act" where
  "core_call env mode url = route_or 503
     (andThen (core_headers env) (\<lambda>hs.
      andThen (http env \<lparr>hq_method = mode, hq_url = url, hq_headers = hs, hq_body = []\<rparr>) (\<lambda>response.
      forwarded (r_status response) (core_answer response))))"

definition cache_GET :: "'w env \<Rightarrow> request \<Rightarrow> (('w, 'z) app_scheme, reply) act" where
  "cache_GET env req = with_session env req (core_call env ''GET'' GO_CACHE_URL)"

definition cache_POST :: "'w env \<Rightarrow> request \<Rightarrow> (('w, 'z) app_scheme, reply) act" where
  "cache_POST env req = guarded env req (with_session env req (core_call env ''POST'' (GO_CACHE_URL @ ''/start'')))"

definition cache_DELETE :: "'w env \<Rightarrow> request \<Rightarrow> (('w, 'z) app_scheme, reply) act" where
  "cache_DELETE env req = guarded env req (with_session env req
     (case truthy (map_option trim (rq_param req ''key'')) of
        None \<Rightarrow> ret (error_json 400 ''Cache key is required for a single-entry refresh.'')
      | Some key \<Rightarrow> core_call env ''DELETE'' (GO_CACHE_URL @ ''?key='' @ encodeURIComponent key)))"

subsection \<open>Status of the Go core\<close>

definition GO_HEALTH_URL :: string where "GO_HEALTH_URL = ''http://127.0.0.1:8080/health''"
definition GO_STREAMS_URL :: string where "GO_STREAMS_URL = ''http://127.0.0.1:8080/internal/streams''"

definition core_running :: "'w env \<Rightarrow> (('w, 'z) db_scheme, bool) act" where
  "core_running env = andThen (http env \<lparr>hq_method = ''GET'', hq_url = GO_HEALTH_URL, hq_headers = [], hq_body = []\<rparr>) (\<lambda>response.
     let body = trim (r_text response) in ret (r_ok response \<and> toLowerCase body = ''ok''))"

definition live_streams :: "'w env \<Rightarrow> (('w, 'z) db_scheme, json list) act" where
  "live_streams env = (case truthy (getenv env ''INTERNAL_API_TOKEN'') of
     None \<Rightarrow> ret []
   | Some token \<Rightarrow> catch
       (andThen (http env \<lparr>hq_method = ''GET'', hq_url = GO_STREAMS_URL, hq_headers = bearer token, hq_body = []\<rparr>) (\<lambda>response.
        if \<not> r_ok response then ret []
        else case r_json response of
          None \<Rightarrow> throw ''Unexpected end of JSON input''
        | Some payload \<Rightarrow>
            andThen (js_get ''success'' payload) (\<lambda>ok.
            andThen (js_get ''data'' payload) (\<lambda>found. ret (case (truthy_field ok, found) of
              (True, Some (JArr streams)) \<Rightarrow> streams | _ \<Rightarrow> [])))))
       (\<lambda>_. ret []))"

fun viewers :: "int \<Rightarrow> json list \<Rightarrow> ('s, int) act" where
  "viewers watching [] = ret watching"
| "viewers watching (stream # streams) =
     andThen (js_get ''viewers'' stream) (\<lambda>v. viewers (watching + max 0 (number_or_0 v)) streams)"

definition go_json :: "bool \<Rightarrow> string \<Rightarrow> int \<Rightarrow> int \<Rightarrow> json list \<Rightarrow> reply" where
  "go_json running status latency watching streams = success_json 200 [(''data'', JObj [(''go'', JObj
     [(''running'', JBool running), (''status'', JStr status), (''latencyMs'', JNum latency),
      (''activeStreams'', JNum (int (length streams))), (''viewers'', JNum watching), (''streams'', JArr streams)])])]"

definition elapsed_since :: "'w env \<Rightarrow> timestamp \<Rightarrow> (('w, 'z) db_scheme, int) act" where
  "elapsed_since env started = andThen (ext (Date_now env)) (\<lambda>now. ret (int now - int started))"

definition system_status_GET :: "'w env \<Rightarrow> request \<Rightarrow> (('w, 'z) app_scheme, reply) act" where
  "system_status_GET env req = with_session env req
     (andThen (ext (Date_now env)) (\<lambda>started. catch
        (andThen (core_running env) (\<lambda>running.
         andThen (if running then live_streams env else ret []) (\<lambda>streams.
         andThen (elapsed_since env started) (\<lambda>latency.
         andThen (viewers 0 streams) (\<lambda>watching.
         ret (go_json running (if running then ''running'' else ''unhealthy'') latency watching streams))))))
        (\<lambda>_. andThen (elapsed_since env started) (\<lambda>latency. ret (go_json False ''offline'' latency 0 [])))))"

subsection \<open>Health of the installation\<close>

record health_report =
  hr_timestamp :: timestamp
  hr_tunAvailable :: bool
  hr_wireguardInstalled :: bool
  hr_openvpnInstalled :: bool
  hr_warpInstalled :: bool
  hr_warpServiceRunning :: bool
  hr_ipRouteInstalled :: bool
  hr_dbPath :: string
  hr_dbSizeFormatted :: string
  hr_dbWalMode :: bool
  hr_activeProviders :: int
  hr_totalProviders :: int
  hr_totalLogs :: int
  hr_uptimeSeconds :: nat

definition binaryExists :: "'w env \<Rightarrow> string \<Rightarrow> (('w, 'z) db_scheme, bool) act" where
  "binaryExists env binary = catch
     (andThen (ext_try (execFile env ''which'' [binary])) (\<lambda>_. ret True)) (\<lambda>_. ret False)"

definition db_size_text :: "nat option \<Rightarrow> string" where
  "db_size_text bytes_of = (case bytes_of of
     None \<Rightarrow> ''Unavailable''
   | Some bytes \<Rightarrow>
       if bytes < 1024 then show_nat bytes @ '' B''
       else if bytes < 1024 * 1024 then toFixed 1 bytes 1024 @ '' KB''
       else toFixed 2 bytes (1024 * 1024) @ '' MB'')"

definition getHealth :: "'w env \<Rightarrow> (('w, 'z) db_scheme, health_report) act" where
  "getHealth env =
     andThen (ext_read (fs_exists env ''/dev/net/tun'')) (\<lambda>tunAvailable.
     andThen (binaryExists env ''wg-quick'') (\<lambda>wireguardInstalled.
     andThen (binaryExists env ''openvpn'') (\<lambda>openvpnInstalled.
     andThen (binaryExists env ''ip'') (\<lambda>ipRouteInstalled.
     andThen (isWarpInstalled env) (\<lambda>warpInstalled.
     andThen (if warpInstalled then andThen (warp_getStatus env) (\<lambda>st. ret (ws_daemonRunning st)) else ret False) (\<lambda>warpServiceRunning.
     andThen (gets (\<lambda>s. (int (length (t_providers s)), sum_list (map p_enabled (t_providers s))))) (\<lambda>(count_all, active).
     andThen (gets (\<lambda>s. int (length (t_logs s)))) (\<lambda>totalLogs.
     andThen (ext_read (journal_mode env)) (\<lambda>journal.
     andThen (resolveDatabasePath env) (\<lambda>dbPath.
     andThen (ext_read (file_size env dbPath)) (\<lambda>stat_size.
     andThen (ext (Date_now env)) (\<lambda>now.
     andThen (ext_read (process_uptime env)) (\<lambda>uptime.
     ret \<lparr>hr_timestamp = now, hr_tunAvailable = tunAvailable, hr_wireguardInstalled = wireguardInstalled,
          hr_openvpnInstalled = openvpnInstalled, hr_warpInstalled = warpInstalled,
          hr_warpServiceRunning = warpServiceRunning, hr_ipRouteInstalled = ipRouteInstalled, hr_dbPath = dbPath,
          hr_dbSizeFormatted = db_size_text stat_size,
          hr_dbWalMode = (toLowerCase (case journal of None \<Rightarrow> [] | Some m \<Rightarrow> m) = ''wal''),
          hr_activeProviders = active, hr_totalProviders = count_all, hr_totalLogs = totalLogs,
          hr_uptimeSeconds = uptime\<rparr>)))))))))))))"

definition health_json :: "'w env \<Rightarrow> health_report \<Rightarrow> json" where
  "health_json env h = JObj [(''timestamp'', JNum (int (hr_timestamp h))), (''tunAvailable'', JBool (hr_tunAvailable h)),
     (''tunPath'', JStr ''/dev/net/tun''), (''wireguardInstalled'', JBool (hr_wireguardInstalled h)),
     (''openvpnInstalled'', JBool (hr_openvpnInstalled h)), (''warpInstalled'', JBool (hr_warpInstalled h)),
     (''warpServiceRunning'', JBool (hr_warpServiceRunning h)), (''ipRouteInstalled'', JBool (hr_ipRouteInstalled h)),
     (''dbPath'', JStr (hr_dbPath h)), (''dbSizeFormatted'', JStr (hr_dbSizeFormatted h)),
     (''dbWalMode'', JBool (hr_dbWalMode h)), (''activeProviders'', JNum (hr_activeProviders h)),
     (''totalProviders'', JNum (hr_totalProviders h)), (''totalLogs'', JNum (hr_totalLogs h)),
     (''environment'', (case node_process env of (version, platform, arch) \<Rightarrow> JObj [(''nodeVersion'', JStr version),
        (''platform'', JStr platform), (''arch'', JStr arch), (''uptimeSeconds'', JNum (int (hr_uptimeSeconds h)))]))]"

definition system_health_GET :: "'w env \<Rightarrow> request \<Rightarrow> (('w, 'z) app_scheme, reply) act" where
  "system_health_GET env req = session_get env req 500
     (andThen (getHealth env) (\<lambda>h. ret (success_json 200 [(''data'', health_json env h)])))"

subsection \<open>The account test of a provider\<close>

definition param_names :: "url_parts \<Rightarrow> string list" where
  "param_names u = map fst (up_query u)"

text \<open>\<open>URLSearchParams.set\<close>: the first parameter of the name gets the value, the others of the name go.\<close>

fun set_param :: "string \<Rightarrow> string \<Rightarrow> (string \<times> string) list \<Rightarrow> (string \<times> string) list" where
  "set_param k v [] = [(k, v)]"
| "set_param k v ((n, x) # ps) =
     (if n = k then (k, v) # filter (\<lambda>p. fst p \<noteq> k) ps else (n, x) # set_param k v ps)"

definition redact_param :: "string \<Rightarrow> (string \<times> string) list \<Rightarrow> (string \<times> string) list" where
  "redact_param k ps = (if k \<in> fst ` set ps then set_param k ''[redacted]'' ps else ps)"

definition redactUrl :: "'w env \<Rightarrow> string \<Rightarrow> string" where
  "redactUrl env value = (case split_url env value of
     None \<Rightarrow> value
   | Some u \<Rightarrow> join_url env (u\<lparr>up_query := redact_param ''password'' (redact_param ''username'' (up_query u))\<rparr>))"

definition diagnostic_names :: "string list" where
  "diagnostic_names = [''content-type'', ''content-length'', ''server'', ''date'', ''location'', ''via'', ''cf-ray'',
     ''cf-cache-status'', ''x-cache'', ''x-powered-by'']"

definition diagnosticHeaders :: "(string \<Rightarrow> string option) \<Rightarrow> (string \<times> json) list" where
  "diagnosticHeaders headers =
     List.map_filter (\<lambda>name. map_option (\<lambda>v. (name, JStr v)) (truthy (headers name))) diagnostic_names"

definition raw_content_type :: "http_response \<Rightarrow> string" where
  "raw_content_type response = (case truthy (r_header response ''content-type'') of Some t \<Rightarrow> t | None \<Rightarrow> ''text/plain'')"

definition responseDiagnostics :: "'w env \<Rightarrow> http_response \<Rightarrow> (string \<times> json) list" where
  "responseDiagnostics env response =
     [(''upstreamStatus'', JNum (int (r_status response))),
      (''upstreamStatusText'', text_or_null (truthy (Some (r_statusText response)))),
      (''rawContentType'', JStr (raw_content_type response)),
      (''finalUrl'', JStr (redactUrl env (r_url response))),
      (''requestMethod'', JStr ''GET''),
      (''responseHeaders'', JObj (diagnosticHeaders (r_header response)))]"

definition baseResult :: "'w env \<Rightarrow> iptv_provider \<Rightarrow> int \<Rightarrow> (('w, 'z) db_scheme, (string \<times> json) list) act" where
  "baseResult env p elapsedMs = andThen (ext (Date_now env)) (\<lambda>now. ret
     [(''provider'', JObj [(''id'', JStr (p_id p)), (''name'', JStr (p_name p)), (''host'', JStr (p_host p)), (''route'', JStr (p_route p))]),
      (''elapsedMs'', JNum elapsedMs), (''testedAt'', JNum (int now))])"

definition account_fields :: "(string \<times> string) list" where
  "account_fields = [(''username'', ''username''), (''status'', ''status''), (''expiresAt'', ''exp_date''), (''isTrial'', ''is_trial''),
     (''activeConnections'', ''active_cons''), (''createdAt'', ''created_at''), (''maxConnections'', ''max_connections'')]"

text \<open>A field of a value that is known not to be \<open>null\<close>.\<close>

definition field_or_null :: "json \<Rightarrow> string \<Rightarrow> json" where
  "field_or_null v k = (case v of JObj kvs \<Rightarrow> or_null (map_of kvs k) | _ \<Rightarrow> JNull)"

definition safeAccountInfo :: "json \<Rightarrow> json" where
  "safeAccountInfo userInfo = JObj (map (\<lambda>(shown, name). (shown, field_or_null userInfo name)) account_fields @
     [(''allowedOutputFormats'', case field_or_null userInfo ''allowed_output_formats'' of JArr vs \<Rightarrow> JArr vs | _ \<Rightarrow> JArr [])])"

definition server_fields :: "(string \<times> string) list" where
  "server_fields = [(''url'', ''url''), (''port'', ''port''), (''httpsPort'', ''https_port''), (''protocol'', ''server_protocol''),
     (''rtmpPort'', ''rtmp_port''), (''timezone'', ''timezone''), (''timestampNow'', ''timestamp_now''), (''timeNow'', ''time_now'')]"

definition safeServerInfo :: "json option \<Rightarrow> json" where
  "safeServerInfo serverInfo = (if truthy_field serverInfo
     then JObj (map (\<lambda>(shown, name). (shown, field_or_null (or_null serverInfo) name)) server_fields) else JNull)"

definition quoted :: "string \<Rightarrow> string" where
  "quoted s = [CHR 0x22] @ s @ [CHR 0x22]"

definition test_log ::
  "'w env \<Rightarrow> bool \<Rightarrow> iptv_provider \<Rightarrow> string \<Rightarrow> int \<Rightarrow> (string \<times> json) list \<Rightarrow> (('w, 'z) db_scheme, unit) act" where
  "test_log env ok p msg elapsedMs details =
     (if ok then log_info else log_warn) env SrcProvider ''account-test'' (''Provider '' @ quoted (p_name p) @ msg)
       (Some (JObj ([(''provider_id'', JStr (p_id p)), (''elapsed_ms'', JNum elapsedMs)] @ details)))"

definition refused_test ::
  "'w env \<Rightarrow> iptv_provider \<Rightarrow> int \<Rightarrow> http_response \<Rightarrow> string \<Rightarrow> (('w, 'z) db_scheme, reply) act" where
  "refused_test env p elapsedMs response msg =
     andThen (baseResult env p elapsedMs) (\<lambda>base. ret (error_with 502 msg [(''data'', JObj (base @ responseDiagnostics env response @
       [(''reachable'', JBool True), (''authenticated'', JBool False), (''rawResponse'', JStr (r_text response))]))]))"

definition failed_test :: "'w env \<Rightarrow> iptv_provider \<Rightarrow> timestamp \<Rightarrow> string \<Rightarrow> (('w, 'z) db_scheme, reply) act" where
  "failed_test env p startedAt msg =
     andThen (elapsed_since env startedAt) (\<lambda>elapsedMs.
     andThen (test_log env False p ('' account test failed: '' @ msg) elapsedMs []) (\<lambda>_.
     andThen (baseResult env p elapsedMs) (\<lambda>base. ret (error_with 502 msg [(''data'', JObj (base @
       [(''reachable'', JBool False), (''authenticated'', JBool False)]))]))))"

text \<open>\<open>userInfo.message?.trim() || ...\<close>; trimming a value that is not a text throws. A status that is not a text is shown as text.\<close>

definition refusal_text :: "json \<Rightarrow> ('s, string) act" where
  "refusal_text userInfo =
     andThen (case field_or_null userInfo ''message'' of
         JNull \<Rightarrow> ret [] | JStr m \<Rightarrow> ret (trim m) | _ \<Rightarrow> throw ''userInfo.message?.trim is not a function'') (\<lambda>m.
     let status = field_or_null userInfo ''status'' in
     ret (if m \<noteq> [] then m
          else ''Xtream authentication failed'' @
               (if js_truthy status then '' ('' @ element_text status @ '')'' else []) @ ''.''))"

definition answered_test :: "'w env \<Rightarrow> iptv_provider \<Rightarrow> int \<Rightarrow> http_response \<Rightarrow> (('w, 'z) db_scheme, reply) act" where
  "answered_test env p elapsedMs response =
     (let content_type = [(''content_type'', JStr (raw_content_type response))] in
      if \<not> r_ok response then
        andThen (test_log env False p ('' returned HTTP '' @ show_nat (r_status response) @ ''.'') elapsedMs content_type) (\<lambda>_.
        refused_test env p elapsedMs response (''Upstream returned HTTP '' @ show_nat (r_status response) @
          (if r_statusText response \<noteq> [] then '' '' @ r_statusText response else []) @ ''.''))
      else case r_json response of
        None \<Rightarrow>
          andThen (test_log env False p '' returned a non-JSON response.'' elapsedMs content_type) (\<lambda>_.
          refused_test env p elapsedMs response
            (if includesStr (toLowerCase (raw_content_type response)) ''html'' then ''Upstream returned HTML instead of Xtream JSON.''
             else ''Upstream returned a non-JSON response.''))
      | Some payload \<Rightarrow>
          andThen (js_get ''user_info'' payload) (\<lambda>found.
          if \<not> truthy_field found then refused_test env p elapsedMs response ''Upstream response did not include user_info.''
          else
            (let userInfo = or_null found; auth = field_or_null userInfo ''auth'' in
             if auth = JNum 1 \<or> auth = JStr ''1'' then
               andThen (test_log env True p '' account test succeeded.'' elapsedMs
                 [(''account_status'', field_or_null userInfo ''status'')]) (\<lambda>_.
               andThen (baseResult env p elapsedMs) (\<lambda>base.
               andThen (js_get ''server_info'' payload) (\<lambda>server.
               ret (success_json 200 [(''data'', JObj (base @ responseDiagnostics env response @
                 [(''reachable'', JBool True), (''authenticated'', JBool True), (''account'', safeAccountInfo userInfo),
                  (''server'', safeServerInfo server)]))]))))
             else
               andThen (refusal_text userInfo) (\<lambda>msg. refused_test env p elapsedMs response msg))))"

definition strip_slashes :: "string \<Rightarrow> string" where
  "strip_slashes s = rev (dropWhile (\<lambda>c. c = CHR ''/'') (rev s))"

definition test_target :: "'w env \<Rightarrow> iptv_provider \<Rightarrow> ('s, string) act" where
  "test_target env p = (case split_url env (strip_slashes (p_host p) @ ''/player_api.php'') of
     None \<Rightarrow> throw ''Invalid URL''
   | Some u \<Rightarrow> ret (join_url env (u\<lparr>up_query := set_param ''password'' (p_upstream_password p)
        (set_param ''username'' (p_upstream_username p) (up_query u))\<rparr>)))"

definition TEST_HEADERS :: "(string \<times> string) list" where
  "TEST_HEADERS = [(''Accept'', ''application/json,text/html,text/plain,*/*''), (''User-Agent'', ''IPTV-Proxy/1.0 Provider-Test'')]"

definition ask_panel :: "'w env \<Rightarrow> iptv_provider \<Rightarrow> string \<Rightarrow> (('w, 'z) db_scheme, reply) act" where
  "ask_panel env p target =
     andThen (ext (Date_now env)) (\<lambda>startedAt.
     andThen (ext (http_fetch env \<lparr>hq_method = ''GET'', hq_url = target, hq_headers = TEST_HEADERS, hq_body = []\<rparr>)) (\<lambda>answer. case answer of
       Inl f \<Rightarrow> failed_test env p startedAt
         (if ff_name f = ''TimeoutError'' then ''Provider test timed out after 15 seconds.'' else ff_message f)
     | Inr response \<Rightarrow> catch
         (andThen (elapsed_since env startedAt) (\<lambda>elapsedMs. answered_test env p elapsedMs response))
         (\<lambda>e. failed_test env p startedAt (message e))))"

definition test_POST :: "'w env \<Rightarrow> request \<Rightarrow> string \<Rightarrow> (('w, 'z) app_scheme, reply) act" where
  "test_POST env req pid = guarded env req (with_session env req
     (andThen (getProviderById pid True) (\<lambda>found. case found of
        None \<Rightarrow> ret (error_json 404 ''Provider not found.'')
      | Some p \<Rightarrow> andThen (test_target env p) (\<lambda>target. ask_panel env p target))))"

subsection \<open>What the Go core is asked\<close>

text \<open>How a server reads a query value: a plus sign is a space, a percent sign starts a byte, and the bytes are UTF-8, here
  for characters of at most two bytes.\<close>

definition hex_val :: "char \<Rightarrow> nat" where
  "hex_val c = (if is_digit c then of_char c - 48 else of_char c - 55)"

fun query_bytes :: "string \<Rightarrow> nat list" where
  "query_bytes [] = []"
| "query_bytes (c # cs) =
     (if c = CHR ''+'' then 32 # query_bytes cs
      else if c = CHR ''%'' then (case cs of a # b # r \<Rightarrow> (16 * hex_val a + hex_val b) # query_bytes r | _ \<Rightarrow> [])
      else of_char c # query_bytes cs)"

fun utf8_units :: "nat list \<Rightarrow> string" where
  "utf8_units [] = []"
| "utf8_units [b] = [char_of b]"
| "utf8_units (b # c # r) =
     (if 192 \<le> b then char_of ((b - 192) * 64 + (c - 128)) # utf8_units r else char_of b # utf8_units (c # r))"

definition query_value :: "string \<Rightarrow> string" where
  "query_value s = utf8_units (query_bytes s)"

lemma hex_val_digit: "n < 16 \<Longrightarrow> hex_val (HEX_DIGIT n) = n"
  by (simp add: hex_val_def HEX_DIGIT_def is_digit_def in_range_def)

lemma bytes_percent: "b < 256 \<Longrightarrow> query_bytes (percent b @ r) = b # query_bytes r"
  by (simp add: percent_def hex_val_digit)

lemma unreserved_small: "url_unreserved c \<Longrightarrow> of_char c < (128 :: nat)"
  by (auto simp: url_unreserved_def is_alnum_def is_alpha_def is_digit_def in_range_def)

lemma unreserved_plain: "url_unreserved c \<Longrightarrow> c \<noteq> CHR ''%'' \<and> c \<noteq> CHR ''+''"
  by (auto simp: url_unreserved_def is_alnum_def is_alpha_def is_digit_def in_range_def)

definition utf8_bytes :: "char \<Rightarrow> nat list" where
  "utf8_bytes c = (let n = of_char c in if n < 128 then [n] else [192 + n div 64, 128 + n mod 64])"

lemma of_char_small: "of_char c < (256 :: nat)"
  by (metis mod_less_divisor of_char_mod_256 zero_less_numeral)

lemma bytes_encoded: "query_bytes (encode_char c @ r) = utf8_bytes c @ query_bytes r"
proof (cases "url_unreserved c")
  case True
  then show ?thesis
    using unreserved_small [of c] unreserved_plain [of c] by (simp add: encode_char_def utf8_bytes_def)
next
  case False
  have "192 + of_char c div 64 < (256 :: nat)" using of_char_small [of c] by linarith
  then show ?thesis
    using False by (auto simp: encode_char_def utf8_bytes_def Let_def bytes_percent)
qed

lemma units_bytes: "utf8_units (utf8_bytes c @ r) = c # utf8_units r"
proof -
  have n: "of_char c < (256 :: nat)" by (rule of_char_small)
  show ?thesis
    using n by (cases r) (auto simp: utf8_bytes_def Let_def)
qed

lemma encoded_reads_back: "query_value (encodeURIComponent s) = s"
proof -
  have "query_bytes (encodeURIComponent s) = concat (map utf8_bytes s)"
    unfolding encodeURIComponent_def by (induction s) (simp_all add: bytes_encoded)
  moreover have "utf8_units (concat (map utf8_bytes s)) = s"
    by (induction s) (simp_all add: units_bytes)
  ultimately show ?thesis by (simp add: query_value_def)
qed

text \<open>What may stand in an encoded text: nothing that ends a value or starts a parameter or a fragment.\<close>

definition value_char :: "char \<Rightarrow> bool" where
  "value_char c \<longleftrightarrow> is_alnum c \<or> c \<in> set ''-_.!~*()%'' \<or> c = CHR 0x27"

lemma percent_chars:
  assumes "b < 256"
  shows "list_all value_char (percent b)"
proof -
  have h: "is_alnum (HEX_DIGIT n)" if "n < 16" for n
    using that by (auto simp: is_alnum_def is_alpha_def is_digit_def in_range_def HEX_DIGIT_def)
  then show ?thesis using assms by (simp add: percent_def value_char_def)
qed

lemma encoded_chars: "list_all value_char (encodeURIComponent s)"
proof -
  have small: "192 + of_char c div 64 < (256 :: nat)" "128 + of_char c mod 64 < (256 :: nat)" for c :: char
    using of_char_small [of c] by linarith+
  have e: "list_all value_char (encode_char c)" for c
    by (auto simp: encode_char_def Let_def percent_chars [OF small(1)] percent_chars [OF small(2)] percent_chars)
      (auto simp: value_char_def url_unreserved_def)
  show ?thesis
    unfolding encodeURIComponent_def by (induction s) (use e in auto)
qed

text \<open>The key of a single refresh reaches the Go core as it is: the encoded text reads back as the key, and it holds no
  character that could end the value, start another parameter or a fragment, or be read as a space.\<close>

theorem cache_key_reaches_core:
  "query_value (encodeURIComponent key) = key \<and> list_all value_char (encodeURIComponent key)"
  using encoded_reads_back encoded_chars by blast

subsection \<open>What a test tells of the credentials\<close>

definition blank_on :: "string set \<Rightarrow> string \<times> string \<Rightarrow> string \<times> string" where
  "blank_on S p = (fst p, if fst p \<in> S then [] else snd p)"

lemma blank_on_fst [simp]: "fst (blank_on S p) = fst p"
  by (simp add: blank_on_def)

lemma blank_on_minus: "fst p \<noteq> k \<Longrightarrow> blank_on (S - {k}) p = blank_on S p"
  by (simp add: blank_on_def)

lemma filter_blank: "filter (\<lambda>p. fst p \<noteq> k) (map (blank_on S) ps) = map (blank_on (S - {k})) (filter (\<lambda>p. fst p \<noteq> k) ps)"
  by (induction ps) (simp_all add: blank_on_minus)

lemma set_param_blank:
  "k \<in> fst ` set ps \<Longrightarrow> set_param k v (map (blank_on S) ps) = map (blank_on (S - {k})) (set_param k v ps)"
proof (induction ps)
  case (Cons p ps)
  show ?case
  proof (cases "fst p = k")
    case True
    have "set_param k v (q # qs) = (k, v) # filter (\<lambda>p. fst p \<noteq> k) qs" if "fst q = k" for q qs
      using that by (cases q) auto
    moreover have "blank_on (S - {k}) (k, v) = (k, v)" by (simp add: blank_on_def)
    ultimately show ?thesis using True filter_blank [of k S ps] by simp
  next
    case False
    then have "k \<in> fst ` set ps" using Cons.prems by auto
    moreover have "set_param k v (q # qs) = q # set_param k v qs" if "fst q \<noteq> k" for q qs
      using that by (cases q) auto
    ultimately show ?thesis
      using Cons.IH False by (simp add: blank_on_minus)
  qed
qed simp

lemma redact_blank: "redact_param k (map (blank_on S) ps) = map (blank_on (S - {k})) (redact_param k ps)"
proof (cases "k \<in> fst ` set ps")
  case True
  then show ?thesis by (simp add: redact_param_def set_param_blank image_image)
next
  case False
  then have "map (blank_on S) ps = map (blank_on (S - {k})) ps"
    by (auto simp: blank_on_def)
  with False show ?thesis by (simp add: redact_param_def image_image)
qed

definition CREDENTIALS :: "string set" where "CREDENTIALS = {''username'', ''password''}"

lemma redact_same:
  assumes "map (blank_on CREDENTIALS) ps = map (blank_on CREDENTIALS) qs"
  shows "redact_param ''password'' (redact_param ''username'' ps) = redact_param ''password'' (redact_param ''username'' qs)"
proof -
  have n: "CREDENTIALS - {''username''} - {''password''} = {}" by (auto simp: CREDENTIALS_def)
  have e: "map (blank_on {}) rs = rs" for rs by (induction rs) (auto simp: blank_on_def)
  have "redact_param ''password'' (redact_param ''username'' (map (blank_on CREDENTIALS) rs)) =
      redact_param ''password'' (redact_param ''username'' rs)" for rs
    by (simp only: redact_blank n e)
  with assms show ?thesis by metis
qed

lemma redactUrl_same:
  assumes "split_url env a = Some u" and "split_url env b = Some (u\<lparr>up_query := q\<rparr>)"
    and "map (blank_on CREDENTIALS) q = map (blank_on CREDENTIALS) (up_query u)"
  shows "redactUrl env a = redactUrl env b"
  using redact_same [OF assms(3)] by (simp add: redactUrl_def assms(1,2))

subsection \<open>What the routes keep\<close>

lemma keeps_http: "ext_free I \<Longrightarrow> keeps I (http env q)"
  unfolding http_def by (intro keeps_intros keeps_ext) (auto split: sum.splits intro: keeps_intros)

lemma keeps_js_get: "keeps I (js_get k v)"
  unfolding js_get_def by (cases v) (auto intro: keeps_intros)

lemma keeps_core_call: "ext_free I \<Longrightarrow> keeps I (core_call env mode u)"
  unfolding core_call_def route_or_def core_headers_def forwarded_def
  by (intro keeps_intros keeps_http)

lemma keeps_viewers: "keeps I (viewers n vs)"
  by (induction vs arbitrary: n) (auto intro!: keeps_intros keeps_js_get)

end
