(* ===== verification/Speedtest.thy ===== *)
theory Speedtest imports System_Routes begin

section \<open>The speed test\<close>

text \<open>
  \<open>app/api/vpn/speedtest/route.ts\<close>: a download and an upload over the current way out, one after the other. The clock
  \<open>performance.now()\<close> counts nanoseconds here, and a speed is its value with two decimals, in hundredths of a
  megabit per second: the quotient is taken exactly and rounded half up, as \<open>toFixed(2)\<close> does. An abort after twenty
  seconds is one of the failures of \<open>http_fetch\<close> and of the body.
\<close>

definition DOWNLOAD_BYTES :: nat where "DOWNLOAD_BYTES = 5000000"
definition UPLOAD_BYTES :: nat where "UPLOAD_BYTES = 2000000"

definition mbps :: "nat \<Rightarrow> int \<Rightarrow> int" where
  "mbps bytes elapsed = (if elapsed \<le> 0 then 0 else (2 * (int bytes * 800000) + elapsed) div (2 * elapsed))"

definition array_buffer :: "http_response \<Rightarrow> ('s, nat) act" where
  "array_buffer response = (case r_body response of Inl m \<Rightarrow> throw m | Inr n \<Rightarrow> ret n)"

definition runDownload :: "'w env \<Rightarrow> (('w, 'z) db_scheme, int) act" where
  "runDownload env =
     andThen (ext (performance_now env)) (\<lambda>started.
     andThen (http env \<lparr>hq_method = ''GET'',
         hq_url = ''https://speed.cloudflare.com/__down?bytes='' @ show_nat DOWNLOAD_BYTES,
         hq_headers = [(''User-Agent'', ''IPTV-Proxy-Speedtest/1.0'')], hq_body = []\<rparr>) (\<lambda>response.
     if \<not> r_ok response then throw (''Download test returned HTTP '' @ show_nat (r_status response))
     else
       andThen (array_buffer response) (\<lambda>body.
       andThen (ext (performance_now env)) (\<lambda>now.
       ret (mbps body (int now - int started))))))"

definition runUpload :: "'w env \<Rightarrow> (('w, 'z) db_scheme, int) act" where
  "runUpload env =
     andThen (ret (replicate UPLOAD_BYTES (CHR 0x61))) (\<lambda>payload.
     andThen (ext (performance_now env)) (\<lambda>started.
     andThen (http env \<lparr>hq_method = ''POST'', hq_url = ''https://speed.cloudflare.com/__up'',
         hq_headers = [(''Content-Type'', ''application/octet-stream''),
           (''Content-Length'', show_nat (length payload)), (''User-Agent'', ''IPTV-Proxy-Speedtest/1.0'')],
         hq_body = payload\<rparr>) (\<lambda>response.
     if \<not> r_ok response then throw (''Upload test returned HTTP '' @ show_nat (r_status response))
     else
       andThen (array_buffer response) (\<lambda>_.
       andThen (ext (performance_now env)) (\<lambda>now.
       ret (mbps (length payload) (int now - int started)))))))"

text \<open>A JavaScript number that is whole is written without a fraction.\<close>

definition speed_json :: "int \<Rightarrow> json" where
  "speed_json v = (if v mod 100 = 0 then JNum (v div 100) else JDec v)"

definition speedtest_POST :: "'w env \<Rightarrow> request \<Rightarrow> (('w, 'z) app_scheme, reply) act" where
  "speedtest_POST env req = catch
     (guarded env req (with_session env req
       (andThen (runDownload env) (\<lambda>downloadMbps.
        andThen (runUpload env) (\<lambda>uploadMbps.
        andThen (ext (Date_now env)) (\<lambda>now.
        let data = JObj [(''downloadMbps'', speed_json downloadMbps), (''uploadMbps'', speed_json uploadMbps),
              (''testedAt'', JNum (int now))] in
        andThen (log_info env SrcVpn ''speedtest'' (''VPN egress speed test completed: '' @ show_hundredths downloadMbps @
            '' Mbps down / '' @ show_hundredths uploadMbps @ '' Mbps up.'') (Some data)) (\<lambda>_.
        ret (success_json 200 [(''data'', data)]))))))))
     (\<lambda>e. andThen (log_error env SrcVpn ''speedtest'' (''VPN egress speed test failed: '' @ message e) None) (\<lambda>_.
        ret (error_json 502 (message e))))"

subsection \<open>The figures\<close>

text \<open>A figure is the exact speed rounded to two decimals: it is off by half a hundredth at most.\<close>

lemma mbps_rounded:
  assumes "0 < t"
  shows "2 * \<bar>mbps b t * t - int b * 800000\<bar> \<le> t"
proof -
  let ?x = "int b * 800000"
  let ?q = "(2 * ?x + t) div (2 * t)"
  have "?q * (2 * t) + (2 * ?x + t) mod (2 * t) = 2 * ?x + t" by (rule div_mult_mod_eq)
  moreover have "0 \<le> (2 * ?x + t) mod (2 * t)" "(2 * ?x + t) mod (2 * t) < 2 * t" using assms by simp_all
  ultimately have "- t \<le> 2 * (?q * t - ?x)" "2 * (?q * t - ?x) \<le> t" by (simp_all add: algebra_simps)
  then have "2 * \<bar>?q * t - ?x\<bar> \<le> t" by linarith
  moreover have "mbps b t = ?q" using assms by (simp add: mbps_def)
  ultimately show ?thesis by simp
qed

lemma mbps_nonneg: "0 \<le> mbps b t"
  by (simp add: mbps_def pos_imp_zdiv_nonneg_iff)

lemma mbps_antimono:
  assumes "0 < t" and "t \<le> t'"
  shows "mbps b t' \<le> mbps b t"
proof (cases "mbps b t' \<le> 0")
  case True
  then show ?thesis using mbps_nonneg [of b t] by linarith
next
  case False
  let ?q = "mbps b t'" and ?x = "int b * 800000"
  have q: "?q = (2 * ?x + t') div (2 * t')" using assms by (simp add: mbps_def)
  have "?q * (2 * t') + (2 * ?x + t') mod (2 * t') = 2 * ?x + t'" unfolding q by (rule div_mult_mod_eq)
  moreover have "0 \<le> (2 * ?x + t') mod (2 * t')" using assms by simp
  ultimately have "(2 * ?q - 1) * t' \<le> 2 * ?x" by (simp add: algebra_simps)
  moreover have "(2 * ?q - 1) * t \<le> (2 * ?q - 1) * t'" using assms False by (intro mult_left_mono) simp_all
  ultimately have "?q * (2 * t) \<le> 2 * ?x + t" by (simp add: algebra_simps)
  then have "?q * (2 * t) div (2 * t) \<le> (2 * ?x + t) div (2 * t)" using assms by (intro zdiv_mono1) simp_all
  then show ?thesis using assms by (simp add: mbps_def)
qed

subsection \<open>The outcome of a test\<close>

lemma keeps_speedtest:
  assumes "ext_free I"
  shows "keeps I (runDownload env)" and "keeps I (runUpload env)"
proof -
  have buffer: "keeps I (array_buffer r)" for r
    unfolding array_buffer_def by (cases "r_body r") (simp_all add: keeps_throw keeps_ret)
  show "keeps I (runDownload env)" and "keeps I (runUpload env)"
    unfolding runDownload_def runUpload_def by (intro keeps_intros keeps_ext keeps_http buffer assms)+
qed

end
