(* ===== verification/Api.thy ===== *)
theory Api imports Log_Routes Vpn_Results Speedtest begin

section \<open>The API as a whole\<close>

text \<open>
  The routes of \<open>app/api\<close> behind one dispatcher: an endpoint is a method and a path of the file tree, with the
  parameters of the path. The properties here span all components: which requests are answered to whom, and what
  every sequence of requests keeps of the stored state.
\<close>

datatype endpoint =
    Login | Logout | Me | Password | Setup
  | List_providers | Create_provider | Show_provider string | Update_provider string | Delete_provider string
  | Default_provider string | Resolve_path | Internal_providers
  | List_users string | Create_user string | Update_user string string | Delete_user string string
  | Show_settings | Update_settings
  | Vpn_connect | Vpn_disconnect | Vpn_state | Network_state
  | List_wireguard | Create_wireguard | Show_wireguard string | Update_wireguard string | Delete_wireguard string
  | List_openvpn | Create_openvpn | Show_openvpn string | Update_openvpn string | Delete_openvpn string
  | List_vpngate | Use_vpngate | Show_warp | Use_warp
  | List_logs | Write_log | Clear_logs | Show_log string | Update_log string | Delete_log string
  | Show_cache | Refresh_cache | Refresh_entry | System_state | System_health | Test_provider string | Speed_test

fun serve :: "'w env \<Rightarrow> endpoint \<Rightarrow> request \<Rightarrow> (('w, 'z) vpn_scheme, reply) act" where
  "serve env Login req = login_POST env req"
| "serve env Logout req = logout_POST env req"
| "serve env Me req = me_GET env req"
| "serve env Password req = password_PUT env req"
| "serve env Setup req = setup_POST env req"
| "serve env List_providers req = providers_GET env req"
| "serve env Create_provider req = providers_POST env req"
| "serve env (Show_provider pid) req = provider_GET env req pid"
| "serve env (Update_provider pid) req = provider_PUT env req pid"
| "serve env (Delete_provider pid) req = provider_DELETE env req pid"
| "serve env (Default_provider pid) req = provider_default_POST env req pid"
| "serve env Resolve_path req = resolve_POST env req"
| "serve env Internal_providers req = internal_providers_GET env req"
| "serve env (List_users pid) req = users_GET env req pid"
| "serve env (Create_user pid) req = users_POST env req pid"
| "serve env (Update_user pid uid) req = user_PUT env req pid uid"
| "serve env (Delete_user pid uid) req = user_DELETE env req pid uid"
| "serve env Show_settings req = settings_GET env req"
| "serve env Update_settings req = settings_PUT env req"
| "serve env Vpn_connect req = connect_POST env req"
| "serve env Vpn_disconnect req = disconnect_POST env req"
| "serve env Vpn_state req = vpn_status_GET env req"
| "serve env Network_state req = network_status_GET env req"
| "serve env List_wireguard req = wireguard_list_GET env req"
| "serve env Create_wireguard req = wireguard_POST env req"
| "serve env (Show_wireguard pid) req = wireguard_GET env req pid"
| "serve env (Update_wireguard pid) req = wireguard_PUT env req pid"
| "serve env (Delete_wireguard pid) req = wireguard_DELETE env req pid"
| "serve env List_openvpn req = openvpn_list_GET env req"
| "serve env Create_openvpn req = openvpn_POST env req"
| "serve env (Show_openvpn pid) req = openvpn_GET env req pid"
| "serve env (Update_openvpn pid) req = openvpn_PUT env req pid"
| "serve env (Delete_openvpn pid) req = openvpn_DELETE env req pid"
| "serve env List_vpngate req = vpngate_GET env req"
| "serve env Use_vpngate req = vpngate_POST env req"
| "serve env Show_warp req = warp_GET env req"
| "serve env Use_warp req = warp_POST env req"
| "serve env List_logs req = logs_GET env req"
| "serve env Write_log req = logs_POST env req"
| "serve env Clear_logs req = logs_DELETE env req"
| "serve env (Show_log lid) req = log_GET env req lid"
| "serve env (Update_log lid) req = log_PUT env req lid"
| "serve env (Delete_log lid) req = log_DELETE env req lid"
| "serve env Show_cache req = cache_GET env req"
| "serve env Refresh_cache req = cache_POST env req"
| "serve env Refresh_entry req = cache_DELETE env req"
| "serve env System_state req = system_status_GET env req"
| "serve env System_health req = system_health_GET env req"
| "serve env (Test_provider pid) req = test_POST env req pid"
| "serve env Speed_test req = speedtest_POST env req"

subsection \<open>Who is answered\<close>

text \<open>The endpoints that are there for clients without a session.\<close>

fun open_endpoint :: "endpoint \<Rightarrow> bool" where
  "open_endpoint Login = True"
| "open_endpoint Logout = True"
| "open_endpoint Me = True"
| "open_endpoint Setup = True"
| "open_endpoint _ = False"

text \<open>A reply that refuses, with the state the request's own look at the session may have left.\<close>

definition turned_away :: "'w env \<Rightarrow> request \<Rightarrow> (('w, 'z) vpn_scheme, reply) act \<Rightarrow> ('w, 'z) vpn_scheme \<Rightarrow> bool" where
  "turned_away env req m s \<longleftrightarrow> (\<exists>r t. m s = (Inr r, t) \<and> rp_status r \<in> {401, 403} \<and>
     (t = s \<or> t = snd (getSessionUser env req s)))"

lemma away_session:
  "fst (getSessionUser env req s) = Inr None \<Longrightarrow> turned_away env req (with_session env req m) s"
  unfolding turned_away_def with_session_def
  by (cases "getSessionUser env req s") (simp add: andThen_run error_json_def reply_json_def)

lemma away_guarded: "turned_away env req m s \<Longrightarrow> turned_away env req (guarded env req m) s"
  unfolding turned_away_def guarded_def by (auto simp: error_json_def reply_json_def split: option.splits)

lemma away_catch: "turned_away env req m s \<Longrightarrow> turned_away env req (catch m h) s"
  unfolding turned_away_def by (auto simp: catch_run)

lemma away_management:
  "fst (getSessionUser env req s) = Inr None \<Longrightarrow> \<not> hasInternalApiAccess env req \<Longrightarrow>
   turned_away env req (management env req m) s"
  unfolding turned_away_def management_def hasManagementAccess_def
  by (cases "getSessionUser env req s") (simp add: andThen_run error_json_def reply_json_def)

lemma away_routes:
  assumes "turned_away env req m s"
  shows "turned_away env req (route_or c m) s" and "turned_away env req (route_catch m) s"
    and "turned_away env req (route_or_state env c m) s"
  unfolding route_or_def route_catch_def route_or_state_def by (rule away_catch [OF assms])+

lemma away_kinds:
  assumes "fst (getSessionUser env req s) = Inr None"
  shows "turned_away env req (session_get env req c m) s" and "turned_away env req (session_mutation env req c m) s"
  unfolding session_get_def session_mutation_def
  by (intro away_routes away_guarded away_session assms)+

lemma away_password:
  assumes "fst (getSessionUser env req s) = Inr None"
  shows "turned_away env req (password_PUT env req) s"
  unfolding password_PUT_def
  by (intro away_routes away_guarded)
    (use assms in \<open>cases "getSessionUser env req s", simp add: turned_away_def andThen_run error_json_def reply_json_def\<close>)

lemma away_internal:
  "\<not> hasInternalApiAccess env req \<Longrightarrow> turned_away env req (internal_providers_GET env req) s"
  by (simp add: internal_providers_GET_def turned_away_def error_json_def reply_json_def)


subsection \<open>Every request is answered\<close>

lemma safe_getAllProviders [safe_intros]: "safe (getAllProviders b)"
proof -
  have m: "\<exists>ps. mapAct (\<lambda>row. attachUsers (rowToProvider row b) b) rows s = (Inr ps, s)"
    if "set rows \<subseteq> set (t_providers s)" for rows and s :: "('w, 'z) db_scheme"
    using that by (induction rows) (auto simp: andThen_run attachUsers_run)
  have "\<exists>ps. getAllProviders b s = (Inr ps, s)" for s :: "('w, 'z) db_scheme"
    using m [of "sort_key provider_rank (t_providers s)" s] by (simp add: getAllProviders_def andThen_run)
  then show ?thesis unfolding safe_def by blast
qed

lemma safe_route [safe_intros]: "safe (route_or c m)" "safe (route_catch m)" "safe (route_or_state env c m)"
  unfolding route_or_def route_catch_def route_or_state_def by (intro safe_intros)+

lemma safe_getSessionUser [safe_intros]: "safe (getSessionUser env req)"
  unfolding getSessionUser_def verifySessionToken_def
  by (intro safe_intros) (auto split: list.splits intro: safe_intros)

lemma safe_core_call [safe_intros]: "safe (core_call env mode u)"
  unfolding core_call_def route_or_def by (intro safe_intros)

lemma safe_system:
  "safe (cache_GET env req)" "safe (cache_POST env req)" "safe (cache_DELETE env req)" "safe (system_status_GET env req)"
  unfolding cache_GET_def cache_POST_def cache_DELETE_def system_status_GET_def guarded_def with_session_def elapsed_since_def
  by (intro safe_intros)+

fun answers_always :: "endpoint \<Rightarrow> bool" where
  "answers_always (Test_provider pid) = False"
| "answers_always Speed_test = False"
| "answers_always ep = True"


subsection \<open>What every request keeps\<close>

text \<open>
  An invariant of the stored state that looks at none of the caches, cookies, logs and counters of the process,
  and that each operation of the services keeps: then every request keeps it.
\<close>

locale served_state =
  fixes I :: "('w, 'z) vpn_scheme \<Rightarrow> bool"
  assumes vpn: "vpn_free I" and session: "session_free I"
    and rates: "I (s\<lparr>attempts := x\<rparr>) = I s" and cookie: "I (s\<lparr>set_cookie := c\<rparr>) = I s"
    and admin_update: "keeps I (update_user_password u h v now)"
    and admin_insert: "keeps I (create_admin env u p)"
    and provider_ops: "keeps I (createProvider env ci)" "keeps I (updateProvider env pid ui)"
      "keeps I (deleteProvider env pid)" "keeps I (setDefaultProvider env pid)"
    and user_ops: "keeps I (createUser env pid cu)" "keeps I (updateUser env pid uid uu)"
      "keeps I (deleteUser env pid uid)"
    and settings_ops: "keeps I (updateSettings env d)" "keeps I (updateVpnState env (rotated_update t' info))"
    and profile_ops: "keeps I (ov_createProfile env oi)" "keeps I (ov_updateProfile env pid op')"
      "keeps I (ov_deleteProfile env pid)" "keeps I (wg_createProfile env n cfg)"
      "keeps I (wg_updateProfile env pid n' cfg' e)" "keeps I (wg_deleteProfile env pid)"
    and vpn_ops: "keeps I (connectWireguard env pid)" "keeps I (connectOpenvpn env pid)"
      "keeps I (connectVpnGateServer env pid)" "keeps I (connectWarp env)" "keeps I (disconnect env reason)"
      "keeps I (getVpnStatusSummary env)"
begin

lemmas log = vpn_free_log [OF vpn]
lemmas outer_call = vpn_free_ext [OF vpn]

lemmas frames = keeps_intros keeps_externals [OF outer_call] keeps_logged [OF log]

lemma log_fields: "I (s\<lparr>t_logs := l\<rparr>) = I s" "I (s\<lparr>emitted := e\<rparr>) = I s"
  using log by (simp_all add: log_free_def)

lemma log_table_ops:
  "keeps I (delete_logs P)" "keeps I (updateLog lid u)" "keeps I (deleteLog lid)" "keeps I clearAllLogs"
  "keeps I (writeLog env lv src cat msg md)" "keeps I (getLog lid)" "keeps I (queryLogs q)"
proof -
  show d: "keeps I (delete_logs P)" for P by (rule keeps_delete_logs) (simp add: log_fields)
  have e: "keeps I (emit ev)" for ev unfolding emit_def by (rule keeps_modify) (simp add: log_fields)
  show g: "keeps I (getLog lid)" for lid unfolding getLog_def by (rule keeps_gets)
  show "keeps I (updateLog lid u)"
    unfolding updateLog_def Let_def by (intro keeps_intros keeps_run_sql g e) (simp add: log_fields)
  show "keeps I (deleteLog lid)" unfolding deleteLog_def by (intro keeps_intros d e)
  show "keeps I clearAllLogs" unfolding clearAllLogs_def by (rule d)
  show "keeps I (writeLog env lv src cat msg md)"
    by (rule keeps_writeLog [OF outer_call]) (simp_all add: log_fields)
  show "keeps I (queryLogs q)" unfolding queryLogs_def by (rule keeps_gets)
qed

lemma rate_ops:
  "keeps I (checkLoginRateLimit env k)" "keeps I (recordLoginFailure env k)" "keeps I (clearLoginFailures k)"
proof -
  have "keeps I (\<lambda>s. case check_bucket now k (attempts s) of (r, m) \<Rightarrow> (Inr r, s\<lparr>attempts := m\<rparr>))" for now
    by (simp add: keeps_def rates split: prod.splits)
  then show "keeps I (checkLoginRateLimit env k)"
    unfolding checkLoginRateLimit_def by (intro keeps_andThen keeps_ext [OF outer_call])
  show "keeps I (recordLoginFailure env k)"
    unfolding recordLoginFailure_def by (intro frames keeps_modify) (simp add: rates)
  show "keeps I (clearLoginFailures k)"
    unfolding clearLoginFailures_def by (intro keeps_modify) (simp add: rates)
qed

lemma cookie_ops: "keeps I (setSessionCookie env tk)" "keeps I (clearSessionCookie env)"
  unfolding setSessionCookie_def clearSessionCookie_def by (intro keeps_modify; simp add: cookie)+

lemmas session_ops = keeps_sessions [OF session]

lemma hash_op: "keeps I (hashPassword env p)"
  unfolding hashPassword_def by (intro frames)

lemma read_ops:
  "keeps I (getAllProviders b)" "keeps I (getProviderById pid b)" "keeps I (getUsers pid b)"
  "keeps I (resolveProviderByPath path)" "keeps I ov_getAllProfileSummaries" "keeps I wg_getAllProfileSummaries"
  "keeps I (ov_getProfileById pid b)" "keeps I (wg_getProfileById pid)"
proof -
  show g: "keeps I (getUsers pid b)" for pid b
    by (rule keepsI) (auto simp: getUsers_def ensureProvider_def andThen_run split: list.splits)
  show "keeps I (getProviderById pid b)" "keeps I (getAllProviders b)"
    unfolding getProviderById_def getAllProviders_def attachUsers_def by (intro keeps_intros g)+
  show "keeps I (resolveProviderByPath path)"
    by (rule keepsI) (simp add: resolveProviderByPath_run)
  show "keeps I ov_getAllProfileSummaries" "keeps I wg_getAllProfileSummaries"
    "keeps I (ov_getProfileById pid b)" "keeps I (wg_getProfileById pid)"
    unfolding ov_getAllProfileSummaries_def wg_getAllProfileSummaries_def ov_getAllProfiles_def wg_getAllProfiles_def ov_getProfileById_def
      wg_getProfileById_def by (intro keeps_intros)+
qed

lemma guards:
  "keeps I m \<Longrightarrow> keeps I (with_session env req m)" "keeps I m \<Longrightarrow> keeps I (management env req m)"
  "keeps I m \<Longrightarrow> keeps I (route_or c m)" "keeps I m \<Longrightarrow> keeps I (route_or_state env c m)"
  "(\<And>x. keeps I (f x)) \<Longrightarrow> keeps I (parse_body env req nm schema f)"
  unfolding with_session_def management_def route_or_def route_or_state_def parse_body_def
  by (intro frames session_ops vpn_ops; assumption)+

lemma registry: "keeps I (refreshed env c kvs)"
  unfolding refreshed_def refreshGoProviderRegistry_def by (intro frames)

lemma auth_routes:
  "keeps I (login_POST env req)" "keeps I (logout_POST env req)" "keeps I (me_GET env req)"
  "keeps I (password_PUT env req)" "keeps I (setup_POST env req)"
proof -
  show "keeps I (login_POST env req)"
    unfolding login_POST_def login_attempt_def Let_def
    by (intro frames rate_ops session_ops cookie_ops | simp only: case_prod_unfold)+
  show "keeps I (logout_POST env req)" "keeps I (me_GET env req)"
    unfolding logout_POST_def me_GET_def by (intro frames session_ops cookie_ops)+
  show "keeps I (password_PUT env req)"
    unfolding password_PUT_def change_password_def Let_def
    by (intro frames session_ops cookie_ops hash_op admin_update | simp only: case_prod_unfold)+
  have "keeps I (setup_checks env req)"
    unfolding setup_checks_def by (intro frames)
  then show "keeps I (setup_POST env req)"
    unfolding setup_POST_def
    by (intro frames) (auto split: sum.splits intro: keeps_ret admin_insert)
qed

lemma provider_routes:
  "keeps I (providers_GET env req)" "keeps I (providers_POST env req)" "keeps I (provider_GET env req i)"
  "keeps I (provider_PUT env req i)" "keeps I (provider_DELETE env req i)" "keeps I (provider_default_POST env req i)"
  "keeps I (resolve_POST env req)" "keeps I (internal_providers_GET env req)" "keeps I (users_GET env req i)"
  "keeps I (users_POST env req i)" "keeps I (user_PUT env req i j)" "keeps I (user_DELETE env req i j)"
  "keeps I (settings_GET env req)" "keeps I (settings_PUT env req)"
  unfolding providers_GET_def providers_POST_def provider_GET_def provider_PUT_def provider_DELETE_def
    provider_default_POST_def resolve_POST_def internal_providers_GET_def users_GET_def users_POST_def
    user_PUT_def user_DELETE_def settings_GET_def settings_PUT_def session_get_def session_mutation_def
  by (intro guards keeps_guarded keeps_intros registry read_ops provider_ops user_ops settings_ops)+

lemma state_ops:
  "keeps I (state_reply env)" "keeps I (connect_result env r)" "keeps I (assertNotActive env ty k i)"
  "keeps I m \<Longrightarrow> keeps I (if_not_active env ty k i m)"
  unfolding state_reply_def connect_result_def if_not_active_def assertNotActive_def
  by (intro keeps_intros vpn_ops; assumption?)+

lemma profile_routes:
  "keeps I (wireguard_list_GET env req)" "keeps I (wireguard_POST env req)" "keeps I (wireguard_GET env req i)"
  "keeps I (wireguard_PUT env req i)" "keeps I (wireguard_DELETE env req i)"
  "keeps I (openvpn_list_GET env req)" "keeps I (openvpn_POST env req)" "keeps I (openvpn_GET env req i)"
  "keeps I (openvpn_PUT env req i)" "keeps I (openvpn_DELETE env req i)"
  unfolding wireguard_list_GET_def wireguard_POST_def wireguard_GET_def wireguard_PUT_def wireguard_DELETE_def
    openvpn_list_GET_def openvpn_POST_def openvpn_GET_def openvpn_PUT_def openvpn_DELETE_def
    session_get_def session_mutation_def case_prod_unfold
  by (intro guards keeps_guarded state_ops keeps_intros read_ops profile_ops)+

lemma keeps_outcome_case:
  "keeps I a \<Longrightarrow> (\<And>e. keeps I (b e)) \<Longrightarrow> keeps I (case r of Success \<Rightarrow> a | Failure e \<Rightarrow> b e)"
  by (cases r) auto

lemma vpn_routes:
  "keeps I (connect_POST env req)" "keeps I (disconnect_POST env req)" "keeps I (vpn_status_GET env req)"
  "keeps I (network_status_GET env req)" "keeps I (vpngate_GET env req)" "keeps I (vpngate_POST env req)"
  "keeps I (warp_GET env req)" "keeps I (warp_POST env req)"
proof -
  show "keeps I (connect_POST env req)"
    unfolding connect_POST_def Let_def case_prod_unfold
    by (intro guards keeps_guarded keeps_intros)
      (auto split: connect_type.splits intro!: keeps_intros vpn_ops state_ops)
  show "keeps I (disconnect_POST env req)" "keeps I (vpn_status_GET env req)"
    "keeps I (network_status_GET env req)" "keeps I (vpngate_GET env req)" "keeps I (warp_GET env req)"
    unfolding disconnect_POST_def vpn_status_GET_def network_status_GET_def vpngate_GET_def warp_GET_def
      session_get_def session_mutation_def
    by (intro guards keeps_guarded frames keeps_outcome_case state_ops vpn_ops keeps_getCurrent [OF vpn]
        keeps_getPublicServers [OF vpn] keeps_warp_getStatus [OF outer_call])+
  have gate: "keeps I (vpngate_connect env server)" "keeps I (vpngate_save env server nm)" for server nm
    unfolding vpngate_connect_def vpngate_save_def
    by (intro frames keeps_outcome_case vpn_ops profile_ops keeps_fetchServers [OF vpn])+
  have act: "keeps I (case a of SaveServer \<Rightarrow> m | ConnectServer \<Rightarrow> n)" if "keeps I m" "keeps I n" for a m n
    using that by (cases a) auto
  show "keeps I (vpngate_POST env req)"
    unfolding vpngate_POST_def case_prod_unfold
    by (intro guards keeps_guarded keeps_intros act gate keeps_getServerById [OF vpn])
  have warp: "keeps I (warp_do_register env)" "keeps I (warp_do_rotate env)" "keeps I (warp_do_connect env)"
    "keeps I (warp_do_disconnect env)"
    unfolding warp_do_register_def warp_do_rotate_def warp_do_connect_def warp_do_disconnect_def case_prod_unfold
    by (intro frames keeps_outcome_case state_ops vpn_ops settings_ops keeps_verifyConnectivity [OF outer_call]
        keeps_warp_getStatus [OF outer_call] keeps_warp_register [OF log] keeps_warp_rotate [OF log])+
  have act': "keeps I (case a of WarpRegister \<Rightarrow> k | WarpConnect \<Rightarrow> l | WarpDisconnect \<Rightarrow> m | WarpRotate \<Rightarrow> n)"
    if "keeps I k" "keeps I l" "keeps I m" "keeps I n" for a k l m n
    using that by (cases a) auto
  show "keeps I (warp_POST env req)"
    unfolding warp_POST_def
    by (intro guards keeps_guarded keeps_intros act' warp)
qed

lemma log_routes:
  "keeps I (logs_GET env req)" "keeps I (logs_POST env req)" "keeps I (logs_DELETE env req)"
  "keeps I (log_GET env req i)" "keeps I (log_PUT env req i)" "keeps I (log_DELETE env req i)"
  unfolding logs_GET_def logs_POST_def logs_DELETE_def log_GET_def log_PUT_def log_DELETE_def case_prod_unfold
  by (intro guards keeps_guarded keeps_intros log_table_ops)+

lemma system_routes:
  "keeps I (cache_GET env req)" "keeps I (cache_POST env req)" "keeps I (cache_DELETE env req)"
  "keeps I (system_status_GET env req)" "keeps I (system_health_GET env req)" "keeps I (test_POST env req i)"
  "keeps I (speedtest_POST env req)"
proof -
  note calls = keeps_core_call [OF outer_call] keeps_http [OF outer_call] keeps_viewers keeps_js_get
  show "keeps I (cache_GET env req)" "keeps I (cache_POST env req)" "keeps I (cache_DELETE env req)"
    unfolding cache_GET_def cache_POST_def cache_DELETE_def
    by (intro guards keeps_guarded keeps_intros calls)+
  show "keeps I (system_status_GET env req)"
    unfolding system_status_GET_def core_running_def live_streams_def elapsed_since_def
    by (intro guards keeps_guarded frames calls)
  show "keeps I (system_health_GET env req)"
    unfolding system_health_GET_def getHealth_def binaryExists_def isWarpInstalled_def session_get_def case_prod_unfold
    by (intro guards frames keeps_warp_getStatus [OF outer_call] keeps_resolve)
  show "keeps I (speedtest_POST env req)"
    unfolding speedtest_POST_def Let_def
    by (intro guards keeps_guarded frames keeps_speedtest outer_call)
  have base: "keeps I (baseResult env p n)" "keeps I (test_log env ok p msg n d)" "keeps I (elapsed_since env n')"
    for p n ok msg d n'
    unfolding baseResult_def test_log_def elapsed_since_def by (auto intro!: frames)
  have message_text: "keeps I (case v of JNull \<Rightarrow> ret [] | JStr m \<Rightarrow> ret (trim m) | _ \<Rightarrow> throw x)" for v x
    by (cases v) (simp_all add: keeps_ret keeps_throw)
  have outcome: "keeps I (refused_test env p n resp msg)" "keeps I (failed_test env p n' msg)" "keeps I (refusal_text j)"
    for p n resp msg n' j
    unfolding refused_test_def failed_test_def refusal_text_def Let_def
    by (intro keeps_intros base message_text)+
  have answered: "keeps I (answered_test env p n resp)" for p n resp
    unfolding answered_test_def Let_def by (intro keeps_intros base outcome calls)
  have either: "keeps I (case answer of Inl f \<Rightarrow> m f | Inr r \<Rightarrow> k r)"
    if "\<And>f. keeps I (m f)" "\<And>r. keeps I (k r)" for answer :: "fetch_failure + http_response" and m k
    using that by (cases answer) auto
  show "keeps I (test_POST env req i)"
    unfolding test_POST_def test_target_def ask_panel_def
    by (intro guards keeps_guarded frames either read_ops base outcome answered)
qed

lemma request: "keeps I (serve env ep req)"
  by (cases ep)
    (simp_all only: serve.simps auth_routes provider_routes profile_routes vpn_routes log_routes system_routes)

end

subsection \<open>The contract holds for the database constraints\<close>

lemma keeps_admin_update: "keeps db_inv (update_user_password u h v now)"
  unfolding update_user_password_def
  by (rule keeps_run_sql) (auto simp: db_inv_def sql_update_Some)

lemma keeps_admin_insert:
  "keeps (db_inv :: ('w, 'z) app_scheme \<Rightarrow> bool) (create_admin env u p)"
proof -
  have b: "keeps (db_inv :: ('w, 'z) app_scheme \<Rightarrow> bool) (batch
      [on_table t_users (\<lambda>t s. s\<lparr>t_users := t\<rparr>) (sql_insert u_uniq (\<lambda>_. True) r),
       (\<lambda>s. Some (s\<lparr>t_settings := f (t_settings s)\<rparr>))])" for r f
    by (rule keeps_batch) (auto simp: on_table_def sql_insert_Some db_inv_def)
  have session: "session_free (db_inv :: ('w, 'z) app_scheme \<Rightarrow> bool)"
    by (simp add: session_free_def ext_free_db_inv) (simp add: db_inv_def)
  have cookie: "keeps (db_inv :: ('w, 'z) app_scheme \<Rightarrow> bool) (setSessionCookie env tk)" for tk
    unfolding setSessionCookie_def by (rule keeps_modify) (simp add: db_inv_def)
  have again: "keeps (db_inv :: ('w, 'z) app_scheme \<Rightarrow> bool) (\<lambda>s. (Inl e, s))" for e :: failure
    by (simp add: keeps_def)
  show ?thesis
    unfolding create_admin_def hashPassword_def Let_def
    by (intro db_keeps b again cookie keeps_createSessionToken [OF session])
qed

lemma keeps_updateSettings: "keeps db_inv (updateSettings env d)"
  unfolding updateSettings_def update_settings_row_def Let_def
  by (intro db_keeps keeps_modify keeps_pruneOldLogs [OF log_free_db_inv] keeps_getSettings) (simp add: db_inv_def)

interpretation served_integrity: served_state "db_inv :: ('w, 'z) vpn_scheme \<Rightarrow> bool"
proof
  show "session_free (db_inv :: ('w, 'z) vpn_scheme \<Rightarrow> bool)"
    by (simp add: session_free_def ext_free_db_inv) (simp add: db_inv_def)
qed (simp_all add: vpn_free_db_inv keeps_admin_update keeps_admin_insert keeps_createProvider keeps_updateProvider
    keeps_deleteProvider keeps_setDefaultProvider keeps_createUser keeps_updateUser keeps_deleteUser
    keeps_updateSettings keeps_update_db keeps_profiles stored_integrity.all_operations,
   simp_all add: db_inv_def)

subsection \<open>The contract holds for the stored VPN state\<close>

lemma settings_keeps_batch:
  assumes "settings_only I" and "\<And>f u v. f \<in> set fs \<Longrightarrow> f u = Some v \<Longrightarrow> t_settings v = t_settings u"
  shows "keeps I (batch fs)"
  by (rule keeps_batch) (metis assms settings_onlyD)

lemma settings_keeps_sql:
  assumes "settings_only I" and "\<And>s t. t_settings (put t s) = t_settings s"
  shows "keeps I (run_sql get put stmt)"
  by (rule keeps_run_sql) (metis assms settings_onlyD)

lemma settings_keeps_modify:
  assumes "settings_only I" and "\<And>s. t_settings (f s) = t_settings s"
  shows "keeps I (modify f)"
  by (rule keeps_modify) (metis assms settings_onlyD)

lemma settings_providers_stmt: "providers_stmt st s = Some t \<Longrightarrow> t_settings t = t_settings s"
  by (auto simp: providers_stmt_def on_table_def split: option.splits)

lemma settings_user_stmt: "insert_provider_user r s = Some t \<Longrightarrow> t_settings t = t_settings s"
  by (auto simp: insert_provider_user_def on_table_def split: option.splits if_splits)

lemma settings_clear_stmt: "clear_default now P s = Some t \<Longrightarrow> t_settings t = t_settings s"
  unfolding clear_default_def by (rule settings_providers_stmt)

lemma keeps_ensureProvider_any: "keeps I (ensureProvider pid)"
  by (rule keepsI) (auto simp: ensureProvider_def andThen_run split: list.splits)

lemmas settings_frames = keeps_intros keeps_getSettings keeps_call keeps_ensureProvider_any
  keeps_externals [OF log_free_ext [OF settings_only_log_free]] keeps_logged [OF settings_only_log_free]
  settings_keeps_sql settings_keeps_modify

lemma settings_sync: "settings_only I \<Longrightarrow> keeps I (syncLegacyIdentity env pid)"
  unfolding syncLegacyIdentity_def by (intro settings_frames) (assumption | simp)+

lemma settings_hash: "settings_only I \<Longrightarrow> keeps I (hashProviderPassword env p)"
  unfolding hashProviderPassword_def by (intro settings_frames)

lemma keeps_reads:
  "keeps I (getUser pid uid b)" "keeps I (getUsers pid b)" "keeps I (getProviderById pid b)"
proof -
  show "keeps I (getUser pid uid b)" unfolding getUser_def by (intro keeps_intros)
  show u: "keeps I (getUsers pid b)" for pid b unfolding getUsers_def by (intro keeps_intros keeps_ensureProvider_any)
  show "keeps I (getProviderById pid b)"
    unfolding getProviderById_def attachUsers_def by (intro keeps_intros u)
qed

lemma settings_users:
  assumes only: "settings_only I"
  shows "keeps I (createUser env pid cu)" and "keeps I (updateUser env pid uid uu)" and "keeps I (deleteUser env pid uid)"
    and "keeps I (upsertPrimaryUser env pid n pw)"
proof -
  have ins: "keeps I (batch [insert_provider_user r])" for r
    by (rule settings_keeps_batch [OF only]) (auto dest: settings_user_stmt)
  show c: "keeps I (createUser env pid cu)" for pid cu
    unfolding createUser_def case_prod_unfold Let_def
    by (intro settings_frames ins settings_sync settings_hash keeps_reads only)
  show u: "keeps I (updateUser env pid uid uu)" for pid uid uu
    unfolding updateUser_def case_prod_unfold Let_def
    by (intro settings_frames settings_sync settings_hash keeps_reads only) simp_all
  show "keeps I (deleteUser env pid uid)"
    unfolding deleteUser_def case_prod_unfold Let_def
    by (intro settings_frames settings_sync keeps_reads only) simp_all
  show "keeps I (upsertPrimaryUser env pid n pw)"
    unfolding upsertPrimaryUser_def by (intro keeps_intros c u keeps_reads)
qed

lemma settings_providers:
  assumes only: "settings_only I"
  shows "keeps I (createProvider env ci)" and "keeps I (updateProvider env pid ui)" and "keeps I (deleteProvider env pid)"
    and "keeps I (setDefaultProvider env pid)"
proof -
  have b: "keeps I (batch fs)" if "\<And>f. f \<in> set fs \<Longrightarrow> (\<exists>now P. f = clear_default now P) \<or> (\<exists>st. f = providers_stmt st) \<or>
      (\<exists>r. f = insert_provider_user r)" for fs
    by (rule settings_keeps_batch [OF only])
      (use that in \<open>blast dest: settings_clear_stmt settings_providers_stmt settings_user_stmt\<close>)
  show "keeps I (createProvider env ci)"
    unfolding createProvider_def Let_def
    by (intro settings_frames keeps_reads b settings_hash only) (auto split: if_splits)
  show "keeps I (updateProvider env pid ui)"
    unfolding updateProvider_def Let_def
    by (intro settings_frames keeps_reads b settings_users only) (auto split: if_splits)
  show "keeps I (deleteProvider env pid)"
    unfolding deleteProvider_def by (intro settings_frames keeps_reads only) simp_all
  show "keeps I (setDefaultProvider env pid)"
    unfolding setDefaultProvider_def by (intro settings_frames keeps_reads b only) auto
qed

lemma settings_session_free: "settings_only (I :: ('w, 'z) app_scheme \<Rightarrow> bool) \<Longrightarrow> session_free I"
  unfolding session_free_def
  by (intro conjI allI log_free_ext [OF settings_only_log_free]) (assumption | erule settings_only_eq; simp)+

lemma settings_admin:
  fixes I :: "('w, 'z) app_scheme \<Rightarrow> bool"
  assumes only: "settings_only I"
    and row: "\<And>s now. I s \<Longrightarrow> I (s\<lparr>t_settings := map_option (\<lambda>g. g\<lparr>initial_setup_completed := 1,
                   settings_updated_at := now\<rparr>) (t_settings s)\<rparr>)"
  shows "keeps I (update_user_password u h v now)" and "keeps I (create_admin env u p)"
proof -
  show "keeps I (update_user_password u h v now)"
    unfolding update_user_password_def by (rule settings_keeps_sql [OF only]) simp
  have b: "keeps I (batch
      [on_table t_users (\<lambda>t s. s\<lparr>t_users := t\<rparr>) (sql_insert u_uniq (\<lambda>_. True) r),
       (\<lambda>s. Some (s\<lparr>t_settings := map_option (\<lambda>g. g\<lparr>initial_setup_completed := 1, settings_updated_at := now\<rparr>)
          (t_settings s)\<rparr>))])" for r now
  proof (rule keeps_batch)
    fix f u v
    assume f: "f \<in> set [on_table t_users (\<lambda>t s. s\<lparr>t_users := t\<rparr>) (sql_insert u_uniq (\<lambda>_. True) r),
       (\<lambda>s. Some (s\<lparr>t_settings := map_option (\<lambda>g. g\<lparr>initial_setup_completed := 1, settings_updated_at := now\<rparr>)
          (t_settings s)\<rparr>))]" and u: "I u" and v: "f u = Some v"
    then consider "t_settings v = t_settings u"
      | "v = u\<lparr>t_settings := map_option (\<lambda>g. g\<lparr>initial_setup_completed := 1, settings_updated_at := now\<rparr>) (t_settings u)\<rparr>"
      by (auto simp: on_table_def split: option.splits)
    then show "I v" using settings_onlyD [OF only u] row [OF u] by cases auto
  qed
  have again: "keeps I (\<lambda>s. (Inl e, s))" for e :: failure
    by (simp add: keeps_def)
  show "keeps I (create_admin env u p)"
    unfolding create_admin_def hashPassword_def setSessionCookie_def Let_def
    by (intro settings_frames b again keeps_createSessionToken [OF settings_session_free] only) simp_all
qed

lemma settings_update:
  assumes only: "settings_only I"
    and row: "\<And>s days now. I s \<Longrightarrow> I (s\<lparr>t_settings := map_option (\<lambda>g. g\<lparr>log_retention_days := days,
                   settings_updated_at := now\<rparr>) (t_settings s)\<rparr>)"
  shows "keeps I (updateSettings env d)"
  unfolding updateSettings_def update_settings_row_def Let_def
  by (intro keeps_intros keeps_getSettings keeps_externals [OF log_free_ext [OF settings_only_log_free [OF only]]]
      keeps_logged [OF settings_only_log_free [OF only]] keeps_pruneOldLogs [OF settings_only_log_free [OF only]]
      keeps_modify row)

lemma settings_profiles:
  assumes only: "settings_only I"
  shows "keeps I (ov_createProfile env oi)" "keeps I (ov_updateProfile env pid op')" "keeps I (ov_deleteProfile env pid)"
    "keeps I (wg_createProfile env n cfg)" "keeps I (wg_updateProfile env pid n' cfg' e)" "keeps I (wg_deleteProfile env pid)"
  unfolding ov_createProfile_def ov_updateProfile_def ov_deleteProfile_def wg_createProfile_def wg_updateProfile_def
    wg_deleteProfile_def ov_getProfileById_def wg_getProfileById_def Let_def
  by (intro settings_frames only; simp)+

lemmas settings_row_eval = settings_ok_def has_row_def

interpretation served_vpn_state: served_state "settings_ok :: ('w, 'z) vpn_scheme \<Rightarrow> bool"
proof
  note only = settings_only_ok
  show "vpn_free (settings_ok :: ('w, 'z) vpn_scheme \<Rightarrow> bool)" by (rule settings_only_vpn_free [OF only])
  show "session_free (settings_ok :: ('w, 'z) vpn_scheme \<Rightarrow> bool)" by (rule settings_session_free [OF only])
  show "keeps settings_ok (updateVpnState env (rotated_update t' info))" for env :: "'w env" and t' info
    by (rule settings_only_triple_ok) (simp add: update_eval rotated_update_def)
  have row: "settings_ok (s\<lparr>t_settings := map_option (\<lambda>g. g\<lparr>initial_setup_completed := 1, settings_updated_at := now\<rparr>) (t_settings s)\<rparr>)"
    "settings_ok (s\<lparr>t_settings := map_option (\<lambda>g. g\<lparr>log_retention_days := days, settings_updated_at := now\<rparr>) (t_settings s)\<rparr>)"
    if "settings_ok s" for s :: "('w, 'z) vpn_scheme" and days now
    using that by (auto simp: settings_ok_def split: option.splits elim: vpn_ok.elims)
  show "keeps (settings_ok :: ('w, 'z) vpn_scheme \<Rightarrow> bool) (update_user_password u h v now)" for u h v now
    by (rule settings_admin(1) [OF only row(1)])
  show "keeps (settings_ok :: ('w, 'z) vpn_scheme \<Rightarrow> bool) (create_admin env u p)" for u p and env :: "'w env"
    by (rule settings_admin(2) [OF only row(1)])
  show "keeps (settings_ok :: ('w, 'z) vpn_scheme \<Rightarrow> bool) (updateSettings env d)" for env :: "'w env" and d
    by (rule settings_update [OF only row(2)])
qed (simp_all add: settings_users [OF settings_only_ok] settings_providers [OF settings_only_ok]
    settings_profiles [OF settings_only_ok] stored_state.all_operations, simp_all add: settings_ok_def)

interpretation served_row: served_state "has_row :: ('w, 'z) vpn_scheme \<Rightarrow> bool"
proof
  note only = settings_only_has_row
  show "vpn_free (has_row :: ('w, 'z) vpn_scheme \<Rightarrow> bool)" by (rule settings_only_vpn_free [OF only])
  show "session_free (has_row :: ('w, 'z) vpn_scheme \<Rightarrow> bool)" by (rule settings_session_free [OF only])
  have row: "has_row (s\<lparr>t_settings := map_option f (t_settings s)\<rparr>)" if "has_row s" for s :: "('w, 'z) vpn_scheme" and f
    using that by (simp add: has_row_def)
  show "keeps (has_row :: ('w, 'z) vpn_scheme \<Rightarrow> bool) (update_user_password u h v now)" for u h v now
    by (rule settings_admin(1) [OF only row])
  show "keeps (has_row :: ('w, 'z) vpn_scheme \<Rightarrow> bool) (create_admin env u p)" for u p and env :: "'w env"
    by (rule settings_admin(2) [OF only row])
  show "keeps (has_row :: ('w, 'z) vpn_scheme \<Rightarrow> bool) (updateSettings env d)" for env :: "'w env" and d
    by (rule settings_update [OF only row])
qed (simp_all add: settings_users [OF settings_only_has_row] settings_providers [OF settings_only_has_row] keeps_update_row
    settings_profiles [OF settings_only_has_row] stored_row.all_operations, simp_all add: has_row_def)

subsection \<open>Everything that can happen to the stored state\<close>

text \<open>
  From the tables as the migrations leave them, whatever the earlier database was: requests in any order, entries
  the Go core writes, and the retention. The outer world moves on its own between them.
\<close>

definition same_tables :: "('w, 'y) db_scheme \<Rightarrow> ('w, 'z) db_scheme \<Rightarrow> bool" where
  "same_tables m s \<longleftrightarrow> t_users s = t_users m \<and> t_providers s = t_providers m \<and>
     t_provider_users s = t_provider_users m \<and> t_settings s = t_settings m \<and> t_wireguard s = t_wireguard m \<and>
     t_openvpn s = t_openvpn m \<and> t_logs s = t_logs m"

inductive served :: "'w env \<Rightarrow> ('w, 'z) vpn_scheme \<Rightarrow> bool" for env :: "'w env" where
  start: "legacy_ok env (l :: 'w mig) \<Longrightarrow> runMigrations env l = (Inr (), m) \<Longrightarrow> same_tables m s \<Longrightarrow> served env s"
| a_request: "served env s \<Longrightarrow> served env (snd (serve env ep req s))"
| core_log: "served env s \<Longrightarrow> served env (s\<lparr>t_logs := t_logs s @ [(next_rowid (t_logs s), e)]\<rparr>)"
| housekeeping: "served env s \<Longrightarrow> served env (snd (pruneLogsWithoutRecursion env s))"
| world_moves: "served env s \<Longrightarrow> served env (s\<lparr>outer := w\<rparr>)"

definition stored_ok :: "('w, 'z) vpn_scheme \<Rightarrow> bool" where
  "stored_ok s \<longleftrightarrow> db_inv s \<and> settings_ok s \<and> has_row s"

lemma stored_ok_start:
  assumes "password_lib_ok env" and "legacy_ok env l" and "runMigrations env l = (Inr (), m)" and "same_tables m s"
  shows "stored_ok s"
proof -
  have "seeded env m" using tripleD [OF triple_run [OF assms(1)] assms(2,3)] .
  then show ?thesis
    using seeded_inv [of env m] assms(4) by (simp add: stored_ok_def same_tables_def db_inv_def settings_ok_def has_row_def)
qed

lemma stored_ok_log_free: "log_free (stored_ok :: ('w, 'z) vpn_scheme \<Rightarrow> bool)"
  by (simp add: log_free_def ext_free_def stored_ok_def db_inv_def settings_ok_def has_row_def)

lemma stored_ok_request: "stored_ok s \<Longrightarrow> stored_ok (snd (serve env ep req s))"
  unfolding stored_ok_def
  by (intro conjI keepsD [OF served_integrity.request] keepsD [OF served_vpn_state.request]
      keepsD [OF served_row.request]; simp)

lemma stored_ok_unlogged:
  fixes s :: "('w, 'z) vpn_scheme"
  assumes "stored_ok s"
  shows "stored_ok (s\<lparr>t_logs := l\<rparr>)" and "stored_ok (s\<lparr>outer := w\<rparr>)"
  using assms stored_ok_log_free [where 'w = 'w and 'z = 'z] by (simp_all add: log_free_def ext_free_def)

text \<open>C1: Whatever requests are served in whatever order, with the core's log entries, the retention and the outer world
  in between, the stored state stays sound: keys, names and routes are unique, there is one default provider at
  most, every client user belongs to a provider and has a verifier and no plain-text password, there is one
  settings row, and its VPN columns agree with each other.\<close>

theorem stored_state_stays_sound:
  assumes "password_lib_ok env" and "served env s"
  shows "stored_ok s"
  using assms(2)
proof induction
  case (start l m s)
  then show ?case by (intro stored_ok_start [OF assms(1)])
next
  case (a_request s ep req)
  then show ?case by (intro stored_ok_request)
next
  case (housekeeping s)
  then show ?case using keepsD [OF keeps_pruneLogs [OF stored_ok_log_free]] by blast
qed (simp_all add: stored_ok_unlogged)

lemma old_served: "\<exists>s. served demo_env (s :: nat vpn)"
proof -
  obtain m where "runMigrations demo_env old_db = (Inr (), m)" using old_db_runs by blast
  then have "served demo_env (vpn_of (db.truncate m))"
    by (rule start [OF old_db_legacy]) (simp add: same_tables_def vpn_of_def db.truncate_def)
  then show ?thesis by blast
qed

theorem stored_state_stays_sound_witness:
  "\<exists>s. served demo_env (s :: nat vpn) \<and> stored_ok (snd (serve demo_env Setup (demo_setup ''alice'') s))"
  using old_served stored_state_stays_sound [OF demo_password_lib a_request] by blast


subsection \<open>What an answer does not depend on\<close>

text \<open>An action commutes with a change of the state that it neither looks at nor undoes.\<close>

definition commutes :: "('s \<Rightarrow> 's) \<Rightarrow> ('s, 'a) act \<Rightarrow> bool" where
  "commutes h m \<longleftrightarrow> (\<forall>s. m (h s) = apsnd h (m s))"

lemma commutes_ret: "commutes h (ret x)"
  by (simp add: commutes_def)

lemma commutes_throw: "commutes h (throw x)"
  by (simp add: commutes_def)

lemma commutes_gets: "(\<And>s. f (h s) = f s) \<Longrightarrow> commutes h (gets f)"
  by (simp add: commutes_def gets_def)

lemma commutes_modify: "(\<And>s. f (h s) = h (f s)) \<Longrightarrow> commutes h (modify f)"
  by (simp add: commutes_def)

lemma commutes_andThen: "commutes h m \<Longrightarrow> (\<And>x. commutes h (f x)) \<Longrightarrow> commutes h (andThen m f)"
  by (auto simp: commutes_def andThen_run split: prod.splits sum.splits)

lemma commutes_catch: "commutes h m \<Longrightarrow> (\<And>e. commutes h (k e)) \<Longrightarrow> commutes h (catch m k)"
  by (auto simp: commutes_def catch_run split: prod.splits sum.splits)

lemma commutes_if: "commutes h m \<Longrightarrow> commutes h n \<Longrightarrow> commutes h (if b then m else n)"
  by simp

lemma commutes_option:
  "commutes h m \<Longrightarrow> (\<And>x. commutes h (f x)) \<Longrightarrow> commutes h (case z of None \<Rightarrow> m | Some x \<Rightarrow> f x)"
  by (cases z) auto

lemma commutes_list:
  "commutes h m \<Longrightarrow> (\<And>x xs. commutes h (f x xs)) \<Longrightarrow> commutes h (case z of [] \<Rightarrow> m | x # xs \<Rightarrow> f x xs)"
  by (cases z) auto

lemma commutes_ext:
  assumes "\<And>s w. h (s\<lparr>outer := w\<rparr>) = (h s)\<lparr>outer := w\<rparr>" and "\<And>s. outer (h s) = outer s"
  shows "commutes h (ext f)" and "commutes h (ext_try f')" and "commutes h (ext_do g)" and "commutes h (ext_read k)"
  by (simp_all add: commutes_def ext_def ext_try_def assms split: prod.splits sum.splits)

lemmas commutes_intros = commutes_ret commutes_throw commutes_andThen commutes_catch commutes_if commutes_option
  commutes_list

text \<open>The secrets of the state: the upstream passwords, the verifiers of the client users and the passwords of the
  OpenVPN profiles, of which only the presence is left.\<close>

definition blank_provider :: "provider \<Rightarrow> provider" where
  "blank_provider r = r\<lparr>p_upstream_password := []\<rparr>"
definition blank_user :: "provider_user_row \<Rightarrow> provider_user_row" where
  "blank_user r = r\<lparr>pu_password_hash := []\<rparr>"
definition blank_openvpn :: "openvpn_profile \<Rightarrow> openvpn_profile" where
  "blank_openvpn r = r\<lparr>ov_password := map_option (\<lambda>_. MASK) (truthy (ov_password r))\<rparr>"

definition without_secrets :: "('w, 'z) vpn_scheme \<Rightarrow> ('w, 'z) vpn_scheme" where
  "without_secrets s = s\<lparr>t_providers := map blank_provider (t_providers s),
     t_provider_users := map blank_user (t_provider_users s), t_openvpn := map blank_openvpn (t_openvpn s)\<rparr>"

lemma blank_same [simp]:
  "p_id (blank_provider r) = p_id r" "p_route (blank_provider r) = p_route r" "p_host (blank_provider r) = p_host r"
  "p_is_default (blank_provider r) = p_is_default r" "p_enabled (blank_provider r) = p_enabled r"
  "provider_rank (blank_provider r) = provider_rank r" "rowToProvider (blank_provider r) False = rowToProvider r False"
  "pu_provider_id (blank_user u) = pu_provider_id u" "rank_by_username (blank_user u) = rank_by_username u"
  "rowToUser (blank_user u) False = rowToUser u False"
  "pu_id (blank_user u) = pu_id u" "pu_username (blank_user u) = pu_username u" "pu_enabled (blank_user u) = pu_enabled u"
  "pu_created_at (blank_user u) = pu_created_at u" "pu_updated_at (blank_user u) = pu_updated_at u"
  "ov_id (blank_openvpn q) = ov_id q" "ov_name (blank_openvpn q) = ov_name q"
  "ov_rowToProfile False (blank_openvpn q) = ov_rowToProfile False q"
  by (auto simp: blank_provider_def blank_user_def blank_openvpn_def provider_rank_def rowToProvider_def
      rank_by_username_def rowToUser_def ov_rowToProfile_def truthy_def MASK_def split: option.splits)

lemma without_secrets_fields [simp]:
  "t_providers (without_secrets s) = map blank_provider (t_providers s)"
  "t_provider_users (without_secrets s) = map blank_user (t_provider_users s)"
  "t_openvpn (without_secrets s) = map blank_openvpn (t_openvpn s)"
  "t_users (without_secrets s) = t_users s" "outer (without_secrets s) = outer s"
  "cachedSecret (without_secrets s) = cachedSecret s"
  "without_secrets (s\<lparr>outer := w\<rparr>) = (without_secrets s)\<lparr>outer := w\<rparr>"
  "without_secrets (s\<lparr>cachedSecret := c\<rparr>) = (without_secrets s)\<lparr>cachedSecret := c\<rparr>"
  by (simp_all add: without_secrets_def)

lemma sort_key_map_same:
  assumes "\<And>x. f (g x) = f x"
  shows "sort_key f (map g xs) = map g (sort_key f xs)"
proof -
  have "insort_key f (g x) (map g ys) = map g (insort_key f x ys)" for x ys
    by (induction ys) (simp_all add: assms)
  then show ?thesis by (induction xs) simp_all
qed

lemma filter_map_same: "(\<And>x. P (g x) = P x) \<Longrightarrow> filter P (map g xs) = map g (filter P xs)"
  by (induction xs) simp_all

lemma find_map_same: "(\<And>x. P (g x) = P x) \<Longrightarrow> find P (map g xs) = map_option g (find P xs)"
  by (induction xs) simp_all

lemma shown_users_blank: "shown_users pid False (without_secrets s) = shown_users pid False s"
  by (simp add: shown_users_def filter_map_same sort_key_map_same comp_def)

lemma shown_provider_blank:
  "shown_provider (blank_provider r) False (without_secrets s) = shown_provider r False s"
  by (simp add: shown_provider_def shown_users_blank)

lemma getAllProviders_run:
  "getAllProviders b s = (Inr (map (\<lambda>row. shown_provider row b s) (sort_key provider_rank (t_providers s))), s)"
proof -
  have "mapAct (\<lambda>row. attachUsers (rowToProvider row b) b) rows s = (Inr (map (\<lambda>row. shown_provider row b s) rows), s)"
    if "set rows \<subseteq> set (t_providers s)" for rows
    using that by (induction rows) (auto simp: andThen_run attachUsers_run)
  then show ?thesis by (simp add: getAllProviders_def andThen_run)
qed

lemma commutes_session: "commutes without_secrets (getSessionUser env req)"
proof -
  have "commutes without_secrets (getSessionSecret env)"
    unfolding getSessionSecret_def databaseDirectory_def cache_secret_def Let_def
    by (intro commutes_intros commutes_gets commutes_modify commutes_ext) simp_all
  then show ?thesis
    unfolding getSessionUser_def verifySessionToken_def
    by (intro commutes_intros commutes_gets commutes_ext) simp_all
qed

lemma commutes_reads:
  "commutes without_secrets (getAllProviders False)" "commutes without_secrets (getProviderById pid False)"
  "commutes without_secrets (getUsers pid False)" "commutes without_secrets ov_getAllProfileSummaries"
  "commutes without_secrets (ov_getProfileById pid False)"
proof -
  show "commutes without_secrets (getAllProviders False)"
    by (simp add: commutes_def getAllProviders_run sort_key_map_same shown_provider_blank comp_def)
  show "commutes without_secrets (getProviderById pid False)"
    by (simp add: commutes_def getProviderById_run find_map_same option.map_comp shown_provider_blank comp_def)
  have "p_name (blank_provider r) = p_name r" for r by (simp add: blank_provider_def)
  then have "commutes without_secrets (ensureProvider pid)"
    by (auto simp: commutes_def ensureProvider_def filter_map_same split: list.splits)
  then show "commutes without_secrets (getUsers pid False)"
    unfolding getUsers_def
    by (intro commutes_intros commutes_gets) (use shown_users_blank in \<open>simp_all add: shown_users_def\<close>)
  show "commutes without_secrets ov_getAllProfileSummaries" "commutes without_secrets (ov_getProfileById pid False)"
    unfolding ov_getAllProfileSummaries_def ov_getAllProfiles_def ov_getProfileById_def
    by (intro commutes_intros commutes_gets;
        simp add: sort_key_map_same find_map_same option.map_comp comp_def)+
qed

lemma commutes_resolve:
  "commutes without_secrets (andThen (resolveProviderByPath path) (\<lambda>r. ret (success_json 200 [(''data'', resolution_json r)])))"
proof -
  have pub: "toPublicProvider (shown_provider (blank_provider r) True (without_secrets s)) =
      toPublicProvider (shown_provider r True s)" for r and s :: "('w, 'z) vpn_scheme"
    by (simp add: toPublicProvider_def shown_provider_def shown_users_def rowToProvider_def rowToUser_def
        filter_map_same sort_key_map_same comp_def)
      (simp add: blank_provider_def)
  have m: "route_match path (without_secrets s) = map_option blank_provider (route_match path s)"
    "default_match (without_secrets s) = map_option blank_provider (default_match s)" for s :: "('w, 'z) vpn_scheme"
    by (simp_all add: route_match_def default_match_def find_map_same)
  have t: "target_url (blank_provider r) q = target_url r q" for r q by (simp add: target_url_def)
  show ?thesis
    by (simp add: commutes_def andThen_run resolveProviderByPath_run m resolution_json_def pub t split: option.splits)
qed

lemma commutes_guards:
  "commutes without_secrets m \<Longrightarrow> commutes without_secrets (with_session env req m)"
  "commutes without_secrets m \<Longrightarrow> commutes without_secrets (guarded env req m)"
  "commutes without_secrets m \<Longrightarrow> commutes without_secrets (route_or c m)"
  "(\<And>x. commutes without_secrets (f x)) \<Longrightarrow> commutes without_secrets (parse_body env req nm schema f)"
  unfolding with_session_def guarded_def route_or_def parse_body_def read_body_def
  by (intro commutes_intros commutes_session; assumption)+

definition public_reads :: "string \<Rightarrow> endpoint list" where
  "public_reads i = [List_providers, Show_provider i, List_users i, Resolve_path, List_openvpn, Show_openvpn i]"

text \<open>C3: The answers about providers, client users and OpenVPN profiles, whoever asks, are the same whatever the upstream
  passwords, the password verifiers and the OpenVPN passwords are: of a secret at most its presence is told.\<close>

theorem secrets_are_not_told:
  fixes s :: "('w, 'z) vpn_scheme"
  shows "list_all (\<lambda>ep. fst (serve env ep req (without_secrets s)) = fst (serve env ep req s)) (public_reads i)"
proof -
  have "commutes (without_secrets :: ('w, 'z) vpn_scheme \<Rightarrow> _) (serve env ep req)" if "ep \<in> set (public_reads i)" for ep
    using that unfolding public_reads_def
    by (auto simp: providers_GET_def provider_GET_def users_GET_def resolve_POST_def openvpn_list_GET_def openvpn_GET_def
        session_get_def session_mutation_def intro!: commutes_guards commutes_intros commutes_reads commutes_resolve)
  then show ?thesis by (simp add: list_all_iff commutes_def)
qed

subsection \<open>What the account test tells\<close>

text \<open>A panel answers alike if it fails alike or gives the same response, up to the credentials in its final URL.\<close>

definition same_answer :: "'w env \<Rightarrow> fetch_failure + http_response \<Rightarrow> fetch_failure + http_response \<Rightarrow> bool" where
  "same_answer env a b \<longleftrightarrow> (case (a, b) of
     (Inl f, Inl g) \<Rightarrow> f = g
   | (Inr r, Inr q) \<Rightarrow> (\<exists>u. q = r\<lparr>r_url := u\<rparr>) \<and> redactUrl env (r_url q) = redactUrl env (r_url r)
   | _ \<Rightarrow> False)"

text \<open>A panel whose answer does not depend on the password it is asked with.\<close>

definition panel_blind :: "'w env \<Rightarrow> bool" where
  "panel_blind env \<longleftrightarrow> (\<forall>u x y w.
     let ask = (\<lambda>p. http_fetch env \<lparr>hq_method = ''GET'',
           hq_url = join_url env (u\<lparr>up_query := set_param ''password'' p (up_query u)\<rparr>), hq_headers = TEST_HEADERS, hq_body = []\<rparr> w) in
     same_answer env (fst (ask x)) (fst (ask y)) \<and> snd (ask x) = snd (ask y))"

definition same_shown :: "iptv_provider \<Rightarrow> iptv_provider \<Rightarrow> bool" where
  "same_shown p q \<longleftrightarrow> p_id q = p_id p \<and> p_name q = p_name p \<and> p_host q = p_host p \<and> p_route q = p_route p \<and>
     p_upstream_username q = p_upstream_username p"

lemma same_results:
  assumes "same_shown p q"
  shows "baseResult env q n = baseResult env p n" and "test_log env ok q m n d = test_log env ok p m n d"
    and "refused_test env q n r m = refused_test env p n r m" and "failed_test env q t m = failed_test env p t m"
    and "answered_test env q n r = answered_test env p n r"
proof -
  show b: "baseResult env q n = baseResult env p n" for n
    using assms by (simp add: baseResult_def same_shown_def)
  show l: "test_log env ok q m n d = test_log env ok p m n d" for ok m n d
    using assms by (simp add: test_log_def same_shown_def)
  show r: "refused_test env q n r m = refused_test env p n r m" for n r m
    by (simp add: refused_test_def b)
  show "failed_test env q t m = failed_test env p t m"
    by (simp add: failed_test_def b l)
  show "answered_test env q n r = answered_test env p n r"
    unfolding answered_test_def b l r ..
qed

lemma same_url:
  assumes "redactUrl env u = redactUrl env (r_url r)"
  shows "answered_test env p n (r\<lparr>r_url := u\<rparr>) = answered_test env p n r"
proof -
  have d: "responseDiagnostics env (r\<lparr>r_url := u\<rparr>) = responseDiagnostics env r" "raw_content_type (r\<lparr>r_url := u\<rparr>) = raw_content_type r"
    "r_ok (r\<lparr>r_url := u\<rparr>) = r_ok r" "r_status (r\<lparr>r_url := u\<rparr>) = r_status r" "r_json (r\<lparr>r_url := u\<rparr>) = r_json r"
    "r_statusText (r\<lparr>r_url := u\<rparr>) = r_statusText r" "r_text (r\<lparr>r_url := u\<rparr>) = r_text r"
    using assms by (simp_all add: responseDiagnostics_def raw_content_type_def)
  have f: "refused_test env p n (r\<lparr>r_url := u\<rparr>) m = refused_test env p n r m" for n m
    unfolding refused_test_def d ..
  show ?thesis unfolding answered_test_def d f ..
qed

lemma commutes_run_sql:
  assumes "\<And>s. get (h s) = get s" and "\<And>t s. put t (h s) = h (put t s)"
  shows "commutes h (run_sql get put st)"
  by (simp add: commutes_def run_sql_eq assms split: option.splits)

lemma without_secrets_logs:
  "without_secrets (s\<lparr>t_logs := l\<rparr>) = (without_secrets s)\<lparr>t_logs := l\<rparr>" "t_logs (without_secrets s) = t_logs s"
  "emitted (without_secrets s) = emitted s" "without_secrets (s\<lparr>emitted := e\<rparr>) = (without_secrets s)\<lparr>emitted := e\<rparr>"
  by (simp_all add: without_secrets_def)

lemma commutes_test:
  "commutes without_secrets (baseResult env p n)" "commutes without_secrets (test_log env ok p m n d)"
  "commutes without_secrets (elapsed_since env t)" "commutes without_secrets (failed_test env p t m)"
  "commutes without_secrets (refused_test env p n r m)" "commutes without_secrets (answered_test env p n r)"
proof -
  note steps = commutes_intros commutes_gets commutes_modify commutes_ext
  show base: "commutes without_secrets (baseResult env p n)" for n
    unfolding baseResult_def by (intro steps) simp_all
  show log: "commutes without_secrets (test_log env ok p m n d)" for ok m n d
    unfolding test_log_def log_info_def log_warn_def logged_def writeLog_def insert_log_def emit_def
    by (auto intro!: steps commutes_run_sql simp: without_secrets_logs)
  show el: "commutes without_secrets (elapsed_since env t)"
    unfolding elapsed_since_def by (intro steps) simp_all
  show "commutes without_secrets (failed_test env p t m)"
    unfolding failed_test_def by (intro steps base log el)
  show refused: "commutes without_secrets (refused_test env p n r m)" for n r m
    unfolding refused_test_def by (intro steps base)
  have get: "commutes without_secrets (js_get k v)" for k v
    unfolding js_get_def by (cases v) (simp_all add: commutes_ret commutes_throw)
  have msgs: "commutes without_secrets (case v of JNull \<Rightarrow> ret [] | JStr m \<Rightarrow> ret (trim m) | _ \<Rightarrow> throw x)" for v x
    by (cases v) (simp_all add: commutes_ret commutes_throw)
  show "commutes without_secrets (answered_test env p n r)"
    unfolding answered_test_def refusal_text_def Let_def
    by (intro steps base log refused get msgs)
qed


lemma commutes_case_answer:
  "(\<And>f. commutes h (m f)) \<Longrightarrow> (\<And>r. commutes h (k r)) \<Longrightarrow> commutes h (case answer of Inl f \<Rightarrow> m f | Inr r \<Rightarrow> k r)"
  by (cases answer) auto

lemma commutes_ask: "commutes without_secrets (ask_panel env p target)"
  unfolding ask_panel_def
  by (intro commutes_intros commutes_ext commutes_test commutes_case_answer) simp_all

lemma ask_same:
  assumes "panel_blind env" and "same_shown p q"
  shows "ask_panel env q (join_url env (u\<lparr>up_query := set_param ''password'' y (up_query u)\<rparr>)) =
    ask_panel env p (join_url env (u\<lparr>up_query := set_param ''password'' x (up_query u)\<rparr>))"
proof -
  let ?f = "\<lambda>z. http_fetch env \<lparr>hq_method = ''GET'',
      hq_url = join_url env (u\<lparr>up_query := set_param ''password'' z (up_query u)\<rparr>), hq_headers = TEST_HEADERS, hq_body = []\<rparr>"
  let ?k = "\<lambda>p t answer. case answer of
       Inl f \<Rightarrow> failed_test env p t
         (if ff_name f = ''TimeoutError'' then ''Provider test timed out after 15 seconds.'' else ff_message f)
     | Inr response \<Rightarrow> catch (andThen (elapsed_since env t) (\<lambda>n. answered_test env p n response))
         (\<lambda>e. failed_test env p t (message e))"
  have same: "same_answer env (fst (?f x w)) (fst (?f y w))" "snd (?f y w) = snd (?f x w)" for w
    using assms(1) unfolding panel_blind_def Let_def by metis+
  have k: "?k q t (fst (?f y w)) = ?k p t (fst (?f x w))" for t w
  proof (cases "fst (?f x w)")
    case (Inl f)
    then have "fst (?f y w) = Inl f" using same(1) [of w] by (auto simp: same_answer_def split: sum.splits)
    with Inl show ?thesis by (simp add: same_results [OF assms(2)])
  next
    case (Inr r)
    then obtain v where "fst (?f y w) = Inr (r\<lparr>r_url := v\<rparr>)" "redactUrl env v = redactUrl env (r_url r)"
      using same(1) [of w] by (auto simp: same_answer_def split: sum.splits)
    with Inr show ?thesis by (simp add: same_results [OF assms(2)] same_url)
  qed
  show ?thesis
    unfolding ask_panel_def
    by (rule ext) (simp only: andThen_run World.ext_run sum.case prod.case k same(2))
qed


lemma commutes_test_POST:
  assumes "panel_blind env"
  shows "commutes without_secrets (test_POST env req pid)"
  unfolding test_POST_def
proof (intro commutes_guards)
  let ?m = "\<lambda> s :: ('a, 'b) vpn_scheme. andThen (getProviderById pid True) (\<lambda>found. case found of
        None \<Rightarrow> ret (error_json 404 ''Provider not found.'')
      | Some p \<Rightarrow> andThen (test_target env p) (\<lambda>target. ask_panel env p target)) s"
  show "commutes without_secrets ?m"
    unfolding commutes_def
  proof
    fix s :: "('a, 'b) vpn_scheme"
    show "?m (without_secrets s) = apsnd without_secrets (?m s)"
    proof (cases "find (\<lambda>r. p_id r = pid) (t_providers s)")
      case None
      then show ?thesis by (simp add: andThen_run getProviderById_run find_map_same ret_def)
    next
      case (Some row)
      let ?p = "shown_provider row True s" and ?q = "shown_provider (blank_provider row) True (without_secrets s)"
      have same: "same_shown ?p ?q"
        by (simp add: same_shown_def shown_provider_def rowToProvider_def) (simp add: blank_provider_def)
      have "andThen (test_target env ?q) (ask_panel env ?q) (without_secrets s) =
          apsnd without_secrets (andThen (test_target env ?p) (ask_panel env ?p) s)"
      proof (cases "split_url env (strip_slashes (p_host ?p) @ ''/player_api.php'')")
        case None
        then show ?thesis using same by (simp add: test_target_def same_shown_def andThen_run throw_def)
      next
        case (Some u)
        let ?u = "u\<lparr>up_query := set_param ''username'' (p_upstream_username ?p) (up_query u)\<rparr>"
        let ?t = "\<lambda>x. join_url env (?u\<lparr>up_query := set_param ''password'' x (up_query ?u)\<rparr>)"
        have "ask_panel env ?q (?t (p_upstream_password ?q)) (without_secrets s) =
            ask_panel env ?p (?t (p_upstream_password ?p)) (without_secrets s)"
          by (rule fun_cong [OF ask_same [OF assms same]])
        also have "\<dots> = apsnd without_secrets (ask_panel env ?p (?t (p_upstream_password ?p)) s)"
          using commutes_ask [unfolded commutes_def] by blast
        finally have e: "ask_panel env ?q (?t (p_upstream_password ?q)) (without_secrets s) =
            apsnd without_secrets (ask_panel env ?p (?t (p_upstream_password ?p)) s)" .
        have t: "test_target env ?q v = (Inr (?t (p_upstream_password ?q)), v)"
          "test_target env ?p v = (Inr (?t (p_upstream_password ?p)), v)" for v :: "('a, 'b) vpn_scheme"
          using Some same by (simp_all add: test_target_def same_shown_def ret_def)
        show ?thesis by (simp only: andThen_run t sum.case prod.case e)
      qed
      then show ?thesis
        using Some by (simp add: andThen_run getProviderById_run find_map_same)
    qed
  qed
qed




end
