(* ===== verification/Directory.thy ===== *)
theory Directory imports Providers begin

section \<open>The access directory\<close>

text \<open>
  What the tables of the providers and their client users promise to the rest of the system, as an abstract state:
  a directory of sites (a provider's route, whether it is the default and whether it is enabled) and of logins (the
  verifier of a client user and whether it is enabled), each found by its key. \<open>dir_step\<close> is the specification of
  the services \<open>provider.service.ts\<close> and \<open>provider-user.service.ts\<close>: every change they make to the directory is one
  of its steps. The lemmas lead from the single SQL statement over the service operations to the requests.
\<close>

record site =
  st_route :: string
  st_default :: bool
  st_enabled :: bool

record login =
  lg_verifier :: string
  lg_enabled :: bool

record directory =
  sites :: "string \<rightharpoonup> site"
  logins :: "string \<times> string \<rightharpoonup> login"

definition site_of :: "provider \<Rightarrow> site" where
  "site_of r = \<lparr>st_route = p_route r, st_default = (p_is_default r = 1), st_enabled = (p_enabled r = 1)\<rparr>"

definition login_of :: "provider_user_row \<Rightarrow> login" where
  "login_of r = \<lparr>lg_verifier = pu_password_hash r, lg_enabled = (pu_enabled r = 1)\<rparr>"

definition login_key :: "provider_user_row \<Rightarrow> string \<times> string" where
  "login_key r = (pu_provider_id r, pu_username r)"

text \<open>A table as a map from a key column to what is looked up.\<close>

definition by_key :: "('r \<Rightarrow> 'k) \<Rightarrow> ('r \<Rightarrow> 'v) \<Rightarrow> 'r list \<Rightarrow> ('k \<rightharpoonup> 'v)" where
  "by_key k v t = map_of (map (\<lambda>r. (k r, v r)) t)"

definition sites_of :: "provider list \<Rightarrow> (string \<rightharpoonup> site)" where
  "sites_of t = by_key p_id site_of t"

definition logins_of :: "provider_user_row list \<Rightarrow> (string \<times> string \<rightharpoonup> login)" where
  "logins_of t = by_key login_key login_of t"

definition directory_of :: "('w, 'z) db_scheme \<Rightarrow> directory" where
  "directory_of s = \<lparr>sites = sites_of (t_providers s), logins = logins_of (t_provider_users s)\<rparr>"

text \<open>The other sites give up the default, when \<open>b\<close>.\<close>

definition yield_default :: "bool \<Rightarrow> (string \<rightharpoonup> site) \<Rightarrow> (string \<rightharpoonup> site)" where
  "yield_default b m = (if b then (\<lambda>k. map_option (\<lambda>x. x\<lparr>st_default := False\<rparr>) (m k)) else m)"

definition route_free :: "string \<Rightarrow> string \<Rightarrow> directory \<Rightarrow> bool" where
  "route_free pid r d \<longleftrightarrow> (\<forall>q x. q \<noteq> pid \<longrightarrow> sites d q = Some x \<longrightarrow> st_route x \<noteq> r)"

inductive dir_step :: "directory \<Rightarrow> directory \<Rightarrow> bool" where
  enrol: "pid \<in> dom (sites d) \<Longrightarrow> (pid, n) \<notin> dom (logins d) \<Longrightarrow> n \<noteq> [] \<Longrightarrow>
    dir_step d (d\<lparr>logins := (logins d)((pid, n) \<mapsto> l)\<rparr>)"
| alter: "(pid, n) \<in> dom (logins d) \<Longrightarrow> n' = n \<or> (pid, n') \<notin> dom (logins d) \<Longrightarrow> n' \<noteq> [] \<Longrightarrow>
    dir_step d (d\<lparr>logins := (logins d)((pid, n) := None, (pid, n') \<mapsto> l)\<rparr>)"
| revoke: "(pid, n) \<in> dom (logins d) \<Longrightarrow> dir_step d (d\<lparr>logins := (logins d)((pid, n) := None)\<rparr>)"
| open_site: "pid \<notin> dom (sites d) \<Longrightarrow> route_free pid (st_route x) d \<Longrightarrow> n \<noteq> [] \<Longrightarrow> lg_enabled l \<Longrightarrow>
    dir_step d \<lparr>sites = (yield_default (st_default x) (sites d))(pid \<mapsto> x), logins = (logins d)((pid, n) \<mapsto> l)\<rparr>"
| change_site: "pid \<in> dom (sites d) \<Longrightarrow> route_free pid (st_route x) d \<Longrightarrow>
    dir_step d (d\<lparr>sites := (yield_default (st_default x) (sites d))(pid \<mapsto> x)\<rparr>)"
| close_site: "pid \<in> dom (sites d) \<Longrightarrow>
    dir_step d \<lparr>sites = (sites d)(pid := None), logins = (\<lambda>(p, n). if p = pid then None else logins d (p, n))\<rparr>"

inductive_cases dir_stepE: "dir_step d d'"

subsection \<open>What the specification guarantees\<close>

text \<open>Routes lead to one site, at most one site is the default, logins belong to a site and have a name.\<close>

definition dir_ok :: "directory \<Rightarrow> bool" where
  "dir_ok d \<longleftrightarrow>
     (\<forall>p q x y. sites d p = Some x \<longrightarrow> sites d q = Some y \<longrightarrow> st_route x = st_route y \<longrightarrow> p = q) \<and>
     (\<forall>p q x y. sites d p = Some x \<longrightarrow> sites d q = Some y \<longrightarrow> st_default x \<longrightarrow> st_default y \<longrightarrow> p = q) \<and>
     (\<forall>p n. (p, n) \<in> dom (logins d) \<longrightarrow> p \<in> dom (sites d) \<and> n \<noteq> [])"

lemma dom_yield_default [simp]: "dom (yield_default b m) = dom m"
  by (auto simp: yield_default_def dom_def)

lemma yield_default_Some:
  "yield_default b m k = Some x \<longleftrightarrow> (\<exists>y. m k = Some y \<and> x = (if b then y\<lparr>st_default := False\<rparr> else y))"
  by (auto simp: yield_default_def)

lemma yield_route: "yield_default b m k = Some x \<Longrightarrow> \<exists>y. m k = Some y \<and> st_route x = st_route y \<and> (st_default x \<longrightarrow> \<not> b \<and> st_default y)"
  by (auto simp: yield_default_Some)

lemma dir_okI:
  assumes "\<And>p q x y. sites d p = Some x \<Longrightarrow> sites d q = Some y \<Longrightarrow> st_route x = st_route y \<Longrightarrow> p = q"
    and "\<And>p q x y. sites d p = Some x \<Longrightarrow> sites d q = Some y \<Longrightarrow> st_default x \<Longrightarrow> st_default y \<Longrightarrow> p = q"
    and "\<And>p n. (p, n) \<in> dom (logins d) \<Longrightarrow> p \<in> dom (sites d) \<and> n \<noteq> []"
  shows "dir_ok d"
  using assms unfolding dir_ok_def by blast

lemma dir_okD:
  assumes "dir_ok d"
  shows "sites d p = Some x \<Longrightarrow> sites d q = Some y \<Longrightarrow> st_route x = st_route y \<Longrightarrow> p = q"
    and "sites d p = Some x \<Longrightarrow> sites d q = Some y \<Longrightarrow> st_default x \<Longrightarrow> st_default y \<Longrightarrow> p = q"
    and "(p, n) \<in> dom (logins d) \<Longrightarrow> p \<in> dom (sites d) \<and> n \<noteq> []"
  using assms unfolding dir_ok_def by blast+

lemma sites_put_Some:
  assumes "((yield_default (st_default x) (sites d))(pid \<mapsto> x)) p = Some y"
  obtains "p = pid" and "y = x"
  | y' where "p \<noteq> pid" and "sites d p = Some y'" and "st_route y = st_route y'"
    and "st_default y \<Longrightarrow> \<not> st_default x \<and> st_default y'"
proof (cases "p = pid")
  case True
  with assms that(1) show thesis by simp
next
  case False
  with assms have "yield_default (st_default x) (sites d) p = Some y" by simp
  then obtain y' where "sites d p = Some y'" "st_route y = st_route y'" "st_default y \<longrightarrow> \<not> st_default x \<and> st_default y'"
    using yield_route by blast
  with False that(2) show thesis by blast
qed

lemma sites_put_ok:
  assumes ok: "dir_ok d" and free: "route_free pid (st_route x) d"
    and p: "((yield_default (st_default x) (sites d))(pid \<mapsto> x)) p = Some y"
    and q: "((yield_default (st_default x) (sites d))(pid \<mapsto> x)) q = Some z"
  shows "st_route y = st_route z \<Longrightarrow> p = q" and "st_default y \<Longrightarrow> st_default z \<Longrightarrow> p = q"
proof -
  note free' = free [unfolded route_free_def, rule_format]
  show "p = q" if "st_route y = st_route z"
    using p q that by (elim sites_put_Some) (use free' dir_okD(1) [OF ok] in metis)+
  show "p = q" if "st_default y" "st_default z"
    using p q that by (elim sites_put_Some) (use dir_okD(2) [OF ok] in metis)+
qed

lemma sites_change_ok:
  assumes "dir_ok d" and "route_free pid (st_route x) d"
    and "\<And>p n. (p, n) \<in> dom l \<Longrightarrow> p \<in> insert pid (dom (sites d)) \<and> n \<noteq> []"
  shows "dir_ok \<lparr>sites = (yield_default (st_default x) (sites d))(pid \<mapsto> x), logins = l\<rparr>"
  unfolding dir_ok_def directory.simps
  using sites_put_ok [OF assms(1,2)] assms(3) by (auto simp del: fun_upd_apply)

lemma logins_change_ok:
  assumes "dir_ok d" and "\<And>p n. (p, n) \<in> dom l \<Longrightarrow> (p, n) \<in> dom (logins d) \<or> p \<in> dom (sites d) \<and> n \<noteq> []"
  shows "dir_ok (d\<lparr>logins := l\<rparr>)"
proof (rule dir_okI)
  fix p n
  assume "(p, n) \<in> dom (logins (d\<lparr>logins := l\<rparr>))"
  then show "p \<in> dom (sites (d\<lparr>logins := l\<rparr>)) \<and> n \<noteq> []"
    using assms(2) dir_okD(3) [OF assms(1)] by simp blast
qed (use dir_okD(1,2) [OF assms(1)] in simp_all)

lemma sites_drop_ok:
  assumes "dir_ok d"
  shows "dir_ok \<lparr>sites = (sites d)(pid := None), logins = (\<lambda>(p, n). if p = pid then None else logins d (p, n))\<rparr>"
proof (rule dir_okI)
  fix p n
  assume "(p, n) \<in> dom (logins \<lparr>sites = (sites d)(pid := None), logins = (\<lambda>(p, n). if p = pid then None else logins d (p, n))\<rparr>)"
  then have "p \<noteq> pid" and "(p, n) \<in> dom (logins d)" by (auto split: if_splits)
  with dir_okD(3) [OF assms] show "p \<in> dom (sites \<lparr>sites = (sites d)(pid := None),
      logins = (\<lambda>(p, n). if p = pid then None else logins d (p, n))\<rparr>) \<and> n \<noteq> []" by simp
qed (use dir_okD(1,2) [OF assms] in \<open>auto split: if_splits\<close>)

lemma dir_step_ok: "dir_step d d' \<Longrightarrow> dir_ok d \<Longrightarrow> dir_ok d'"
proof (induction rule: dir_step.induct)
  case (enrol pid d n l)
  then show ?case by (intro logins_change_ok) (simp_all only: dom_fun_upd option.distinct if_False, blast)
next
  case (alter pid n d n' l)
  from dir_okD(3) [OF alter.prems alter.hyps(1)] alter show ?case
    by (intro logins_change_ok) (simp_all only: dom_fun_upd option.distinct refl if_False if_True, blast)
next
  case (revoke pid n d)
  then show ?case by (intro logins_change_ok) (simp_all only: dom_fun_upd refl if_True, blast)
next
  case (open_site pid d x n l)
  show ?case by (rule sites_change_ok [OF open_site.prems open_site.hyps(2)])
      (use open_site.hyps(3) dir_okD(3) [OF open_site.prems] in \<open>simp only: dom_fun_upd option.distinct if_False, blast\<close>)
next
  case (change_site pid d x)
  have "dir_ok \<lparr>sites = (yield_default (st_default x) (sites d))(pid \<mapsto> x), logins = logins d\<rparr>"
    by (rule sites_change_ok [OF change_site.prems change_site.hyps(2)])
      (use dir_okD(3) [OF change_site.prems] in blast)
  then show ?case by (cases d) simp
next
  case (close_site pid d)
  then show ?case by (intro sites_drop_ok)
qed

lemma dir_steps_ok: "dir_step\<^sup>*\<^sup>* d d' \<Longrightarrow> dir_ok d \<Longrightarrow> dir_ok d'"
  by (induction rule: rtranclp_induct) (auto intro: dir_step_ok)

subsection \<open>Tables as maps\<close>

lemma dom_by_key: "dom (by_key k v t) = k ` set t"
  by (simp add: by_key_def dom_map_of_conv_image_fst image_image)

lemma by_key_Some:
  assumes "distinct (map k t)"
  shows "by_key k v t x = Some y \<longleftrightarrow> (\<exists>r \<in> set t. k r = x \<and> v r = y)"
proof -
  have "distinct (map fst (map (\<lambda>r. (k r, v r)) t))" using assms by (simp add: comp_def)
  then show ?thesis unfolding by_key_def by (auto simp: map_of_eq_Some_iff)
qed

lemma by_key_eqI:
  assumes "distinct (map k t)"
    and "\<And>x y. m x = Some y \<longleftrightarrow> (\<exists>r \<in> set t. k r = x \<and> v r = y)"
  shows "by_key k v t = m"
proof
  fix x
  show "by_key k v t x = m x"
    using by_key_Some [OF assms(1), of v x] assms(2) [of x] by (cases "by_key k v t x"; cases "m x") fastforce+
qed

lemma by_key_insert:
  "k r \<notin> k ` set t \<Longrightarrow> by_key k v (t @ [r]) = (by_key k v t)(k r \<mapsto> v r)"
proof -
  assume new: "k r \<notin> k ` set t"
  then have "map_of (map (\<lambda>r. (k r, v r)) t) (k r) = None" by (simp add: map_of_eq_None_iff image_image)
  then show ?thesis by (auto simp: by_key_def map_add_def fun_eq_iff split: option.splits)
qed

lemma update_one_split:
  assumes "distinct (map k t)" and "r0 \<in> set t" and "\<And>r. r \<in> set t \<Longrightarrow> P r \<longleftrightarrow> r = r0"
  obtains as bs where "t = as @ r0 # bs" and "update_where P f t = as @ f r0 # bs"
proof -
  obtain as bs where t: "t = as @ r0 # bs" using assms(2) by (auto dest: split_list)
  have "r0 \<notin> set as" "r0 \<notin> set bs" using assms(1) by (auto simp: t)
  then have "\<forall>r \<in> set as. \<not> P r" "\<forall>r \<in> set bs. \<not> P r" using assms(3) unfolding t by auto
  then have "update_where P f as = as" "update_where P f bs = bs"
    by (simp_all add: update_where_def map_idI)
  moreover have "P r0" using assms(2,3) by blast
  ultimately have "update_where P f t = as @ f r0 # bs" by (simp add: t update_where_def)
  with t show thesis by (rule that)
qed

lemma by_key_change:
  assumes t: "distinct (map k t)" and t': "distinct (map k (update_where P f t))"
    and r0: "r0 \<in> set t" and only: "\<And>r. r \<in> set t \<Longrightarrow> P r \<longleftrightarrow> r = r0"
  shows "by_key k v (update_where P f t) = (by_key k v t)(k r0 := None, k (f r0) \<mapsto> v (f r0))"
    and "k (f r0) = k r0 \<or> k (f r0) \<notin> dom (by_key k v t)"
proof -
  obtain as bs where split: "t = as @ r0 # bs" "update_where P f t = as @ f r0 # bs"
    using update_one_split [OF t r0 only] .
  have keys: "k r0 \<notin> k ` set as" "k r0 \<notin> k ` set bs" "k (f r0) \<notin> k ` set as" "k (f r0) \<notin> k ` set bs"
    using t [unfolded split(1)] t' [unfolded split(2)] by auto
  show "by_key k v (update_where P f t) = (by_key k v t)(k r0 := None, k (f r0) \<mapsto> v (f r0))"
  proof (rule by_key_eqI [OF t'])
    fix x y
    have before: "by_key k v t x = Some y \<longleftrightarrow> (\<exists>r \<in> set (as @ r0 # bs). k r = x \<and> v r = y)"
      using by_key_Some [OF t] unfolding split(1) .
    show "((by_key k v t)(k r0 := None, k (f r0) \<mapsto> v (f r0))) x = Some y \<longleftrightarrow>
        (\<exists>r \<in> set (update_where P f t). k r = x \<and> v r = y)"
    proof (cases "x = k (f r0)")
      case True
      then have "r \<in> set (as @ f r0 # bs) \<and> k r = x \<longleftrightarrow> r = f r0" for r using keys(3,4) by (auto simp: image_iff)
      then have "(\<exists>r \<in> set (as @ f r0 # bs). k r = x \<and> v r = y) \<longleftrightarrow> v (f r0) = y" by metis
      with True show ?thesis unfolding split(2) by simp
    next
      case other: False
      show ?thesis
      proof (cases "x = k r0")
        case True
        then have "\<not> (r \<in> set (as @ f r0 # bs) \<and> k r = x)" for r using keys(1,2) other by (auto simp: image_iff)
        with True other show ?thesis unfolding split(2) by auto
      next
        case False
        with other before show ?thesis unfolding split(2) by auto
      qed
    qed
  qed
  show "k (f r0) = k r0 \<or> k (f r0) \<notin> dom (by_key k v t)"
    unfolding dom_by_key split(1) using keys by auto
qed

lemma by_key_drop:
  assumes t: "distinct (map k t)" and r0: "r0 \<in> set t" and only: "\<And>r. r \<in> set t \<Longrightarrow> P r \<longleftrightarrow> r = r0"
  shows "by_key k v (delete_where P t) = (by_key k v t)(k r0 := None)"
proof (rule by_key_eqI)
  show "distinct (map k (delete_where P t))" using t by (simp add: delete_where_def distinct_map_filter)
  show "((by_key k v t)(k r0 := None)) x = Some y \<longleftrightarrow> (\<exists>r \<in> set (delete_where P t). k r = x \<and> v r = y)" for x y
    using only distinct_map_key_eq [OF t _ r0] by (auto simp: by_key_Some [OF t] delete_where_def)
qed

lemma by_key_restrict:
  assumes t: "distinct (map k t)" and only: "\<And>r. P r \<longleftrightarrow> Q (k r)"
  shows "by_key k v (delete_where P t) x = (if Q x then None else by_key k v t x)"
proof -
  have "by_key k v (delete_where P t) = (\<lambda>x. if Q x then None else by_key k v t x)"
  proof (rule by_key_eqI)
    show "distinct (map k (delete_where P t))" using t by (simp add: delete_where_def distinct_map_filter)
    show "(if Q x then None else by_key k v t x) = Some y \<longleftrightarrow> (\<exists>r \<in> set (delete_where P t). k r = x \<and> v r = y)" for x y
      using only by (auto simp: by_key_Some [OF t] delete_where_def)
  qed
  then show ?thesis by simp
qed

subsection \<open>One statement is one step\<close>

lemma db_inv_keys:
  assumes "db_inv s"
  shows "distinct (map p_id (t_providers s))" "distinct (map login_key (t_provider_users s))"
    "distinct (map pu_id (t_provider_users s))"
  using assms by (auto simp: db_inv_def p_uniq_def pu_uniq_def login_key_def [abs_def])

lemma pu_uniq_keys: "pu_uniq t \<Longrightarrow> distinct (map login_key t)"
  by (simp add: pu_uniq_def login_key_def [abs_def])

lemma dom_sites: "dom (sites (directory_of s)) = p_id ` set (t_providers s)"
  by (simp add: directory_of_def sites_of_def dom_by_key)

lemma dom_logins: "dom (logins (directory_of s)) = login_key ` set (t_provider_users s)"
  by (simp add: directory_of_def logins_of_def dom_by_key)

lemma directory_ok: "db_inv s \<Longrightarrow> dir_ok (directory_of s) \<longleftrightarrow> (\<forall>r \<in> set (t_provider_users s). pu_username r \<noteq> [])"
proof -
  assume inv: "db_inv s"
  have site_row: thesis if "sites (directory_of s) p = Some x"
    and "\<And>r. r \<in> set (t_providers s) \<Longrightarrow> p = p_id r \<Longrightarrow> x = site_of r \<Longrightarrow> thesis" for p x thesis
    using that by (auto simp: directory_of_def sites_of_def by_key_Some [OF db_inv_keys(1) [OF inv]])
  have uniq: "p_uniq (t_providers s)" using inv by (simp add: db_inv_def)
  have route: "p = q" if "p \<in> set (t_providers s)" "q \<in> set (t_providers s)" "p_route p = p_route q" for p q
    using distinct_map_key_eq [of p_route "t_providers s" p q] uniq that by (simp add: p_uniq_def)
  show ?thesis
  proof
    assume ok: "dir_ok (directory_of s)"
    show "\<forall>r \<in> set (t_provider_users s). pu_username r \<noteq> []"
    proof
      fix r assume "r \<in> set (t_provider_users s)"
      then have "(pu_provider_id r, pu_username r) \<in> dom (logins (directory_of s))"
        unfolding dom_logins by (auto simp: login_key_def)
      from dir_okD(3) [OF ok this] show "pu_username r \<noteq> []" by simp
    qed
  next
    assume named: "\<forall>r \<in> set (t_provider_users s). pu_username r \<noteq> []"
    show "dir_ok (directory_of s)"
    proof (rule dir_okI)
      fix p n assume "(p, n) \<in> dom (logins (directory_of s))"
      then obtain r where "r \<in> set (t_provider_users s)" "p = pu_provider_id r" "n = pu_username r"
        unfolding dom_logins by (auto simp: login_key_def)
      with named inv show "p \<in> dom (sites (directory_of s)) \<and> n \<noteq> []"
        unfolding dom_sites by (auto simp: db_inv_def list_all_iff)
    next
      fix p q x y assume "sites (directory_of s) p = Some x" "sites (directory_of s) q = Some y" "st_route x = st_route y"
      then show "p = q" by (elim site_row) (metis route site_of_def site.select_convs(1))
    next
      fix p q x y assume "sites (directory_of s) p = Some x" "sites (directory_of s) q = Some y" "st_default x" "st_default y"
      then show "p = q" by (elim site_row) (metis single_default [OF uniq] site_of_def site.select_convs(2))
    qed
  qed
qed

lemma insert_user_step:
  assumes "db_inv s" and "insert_provider_user r s = Some t" and "pu_username r \<noteq> []"
  shows "dir_step (directory_of s) (directory_of t)"
proof -
  from assms(2) have pid: "pu_provider_id r \<in> dom (sites (directory_of s))" and u: "pu_uniq (t_provider_users s @ [r])"
    and t: "t = s\<lparr>t_provider_users := t_provider_users s @ [r]\<rparr>"
    unfolding dom_sites by (auto simp: insert_provider_user_Some)
  have new: "login_key r \<notin> login_key ` set (t_provider_users s)" using pu_uniq_keys [OF u] by simp
  have "directory_of t = (directory_of s)\<lparr>logins := (logins (directory_of s))((pu_provider_id r, pu_username r) \<mapsto> login_of r)\<rparr>"
    by (simp add: t directory_of_def logins_of_def by_key_insert [of login_key, OF new]) (simp add: login_key_def)
  moreover have "(pu_provider_id r, pu_username r) \<notin> dom (logins (directory_of s))"
    using new unfolding dom_logins by (simp add: login_key_def)
  ultimately show ?thesis using dir_step.enrol [OF pid _ assms(3)] by simp
qed

lemma logins_update:
  "directory_of (s\<lparr>t_provider_users := t\<rparr>) = (directory_of s)\<lparr>logins := logins_of t\<rparr>"
  by (simp add: directory_of_def)

lemma update_user_step:
  assumes inv: "db_inv s" and sql: "sql_update pu_uniq ok (\<lambda>r. pu_provider_id r = pid \<and> pu_id r = uid) f (t_provider_users s) = Some t"
    and f: "\<And>r. pu_provider_id (f r) = pu_provider_id r" "\<And>r. pu_username (f r) = n" and n: "n \<noteq> []"
    and r0: "r0 \<in> set (t_provider_users s)" "pu_provider_id r0 = pid" "pu_id r0 = uid"
  shows "dir_step (directory_of s) (directory_of (s\<lparr>t_provider_users := t\<rparr>))"
proof -
  let ?P = "\<lambda>r. pu_provider_id r = pid \<and> pu_id r = uid"
  from sql have t: "t = update_where ?P f (t_provider_users s)" and u: "pu_uniq t" by (auto simp: sql_update_Some)
  have only: "?P r \<longleftrightarrow> r = r0" if "r \<in> set (t_provider_users s)" for r
    using distinct_map_key_eq [OF db_inv_keys(3) [OF inv] that r0(1)] r0 by auto
  note change = by_key_change [OF db_inv_keys(2) [OF inv] pu_uniq_keys [OF u, unfolded t] r0(1) only, of login_of]
  have keys: "login_key r0 = (pid, pu_username r0)" "login_key (f r0) = (pid, n)" using r0 f by (simp_all add: login_key_def)
  have "directory_of (s\<lparr>t_provider_users := t\<rparr>) = (directory_of s)
      \<lparr>logins := (logins (directory_of s))((pid, pu_username r0) := None, (pid, n) \<mapsto> login_of (f r0))\<rparr>"
    unfolding logins_update by (simp add: t logins_of_def change(1) keys directory_of_def)
  moreover have "(pid, pu_username r0) \<in> dom (logins (directory_of s))" using r0 unfolding dom_logins keys(1) [symmetric] by blast
  moreover have "n = pu_username r0 \<or> (pid, n) \<notin> dom (logins (directory_of s))"
    using change(2) unfolding keys by (auto simp: directory_of_def logins_of_def)
  ultimately show ?thesis using n by (auto intro!: dir_step.alter)
qed

lemma delete_user_step:
  assumes inv: "db_inv s" and r0: "r0 \<in> set (t_provider_users s)" "pu_provider_id r0 = pid" "pu_id r0 = uid"
  shows "dir_step (directory_of s) (directory_of (s\<lparr>t_provider_users :=
     delete_where (\<lambda>r. pu_provider_id r = pid \<and> pu_id r = uid) (t_provider_users s)\<rparr>))"
proof -
  let ?P = "\<lambda>r. pu_provider_id r = pid \<and> pu_id r = uid"
  have only: "?P r \<longleftrightarrow> r = r0" if "r \<in> set (t_provider_users s)" for r
    using distinct_map_key_eq [OF db_inv_keys(3) [OF inv] that r0(1)] r0 by auto
  have key: "login_key r0 = (pid, pu_username r0)" using r0 by (simp add: login_key_def)
  have "logins_of (delete_where ?P (t_provider_users s)) = (logins_of (t_provider_users s))((pid, pu_username r0) := None)"
    unfolding logins_of_def key [symmetric] by (rule by_key_drop [OF db_inv_keys(2) [OF inv] r0(1) only])
  then have "directory_of (s\<lparr>t_provider_users := delete_where ?P (t_provider_users s)\<rparr>) =
      (directory_of s)\<lparr>logins := (logins (directory_of s))((pid, pu_username r0) := None)\<rparr>"
    unfolding logins_update by (simp add: directory_of_def)
  moreover have "(pid, pu_username r0) \<in> dom (logins (directory_of s))" using r0 unfolding dom_logins key [symmetric] by blast
  ultimately show ?thesis by (auto intro: dir_step.revoke)
qed

text \<open>A change of provider rows that the directory does not show.\<close>

lemma sites_same:
  "(\<And>r. p_id (f r) = p_id r \<and> site_of (f r) = site_of r) \<Longrightarrow> sites_of (update_where P f t) = sites_of t"
  unfolding sites_of_def by_key_def by (induction t) simp_all

lemma delete_provider_step:
  assumes inv: "db_inv s" and pid: "pid \<in> dom (sites (directory_of s))"
  shows "dir_step (directory_of s) (directory_of (s\<lparr>t_providers := delete_where (\<lambda>r. p_id r = pid) (t_providers s),
         t_provider_users := delete_where (\<lambda>r. pu_provider_id r = pid) (t_provider_users s)\<rparr>))"
proof -
  have "directory_of (s\<lparr>t_providers := delete_where (\<lambda>r. p_id r = pid) (t_providers s),
         t_provider_users := delete_where (\<lambda>r. pu_provider_id r = pid) (t_provider_users s)\<rparr>) =
      \<lparr>sites = (sites (directory_of s))(pid := None),
       logins = (\<lambda>(p, n). if p = pid then None else logins (directory_of s) (p, n))\<rparr>"
    by (auto simp: directory_of_def sites_of_def logins_of_def fun_eq_iff
        by_key_restrict [OF db_inv_keys(1) [OF inv], of _ "\<lambda>p. p = pid"]
        by_key_restrict [OF db_inv_keys(2) [OF inv], of "\<lambda>r. pu_provider_id r = pid" "\<lambda>k. fst k = pid"] login_key_def)
  then show ?thesis using dir_step.close_site [OF pid] by simp
qed

lemma cleared_row:
  "(\<exists>r \<in> set (cleared b now P t). p_id r = k \<and> site_of r = x) \<longleftrightarrow>
   (\<exists>r \<in> set t. p_id r = k \<and> (if b \<and> P r then (site_of r)\<lparr>st_default := False\<rparr> else site_of r) = x)"
proof -
  let ?g = "\<lambda>r. if b \<and> p_is_default r = 1 \<and> P r then r\<lparr>p_is_default := 0, p_updated_at := now\<rparr> else r"
  have g: "p_id (?g r) = p_id r" "site_of (?g r) = (if b \<and> P r then (site_of r)\<lparr>st_default := False\<rparr> else site_of r)" for r
    by (simp_all add: site_of_def)
  have "set (cleared b now P t) = ?g ` set t" by (cases b) (auto simp: cleared_def update_where_def)
  then show ?thesis by (simp only: bex_simps g)
qed

text \<open>A provider row is written, after the other defaults have been cleared when it becomes the default.\<close>

lemma sites_write:
  assumes t: "p_uniq t" and row: "r0 \<in> set t'" "p_id r0 = pid" and t': "p_uniq t'"
    and others: "\<And>r. p_id r \<noteq> pid \<Longrightarrow> r \<in> set t' \<longleftrightarrow> r \<in> set (cleared b now P t)"
    and P: "\<And>r. p_id r \<noteq> pid \<Longrightarrow> P r" and b: "b \<Longrightarrow> st_default (site_of r0)"
  shows "sites_of t' = (yield_default (st_default (site_of r0)) (sites_of t))(pid \<mapsto> site_of r0)"
    and "q \<noteq> pid \<Longrightarrow> sites_of t q = Some x \<Longrightarrow> st_route x \<noteq> st_route (site_of r0)"
proof -
  have keys: "distinct (map p_id t)" "distinct (map p_id t')" using t t' by (simp_all add: p_uniq_def)
  have plain: "\<not> st_default (site_of r)" if "r \<in> set t'" "p_id r \<noteq> pid" "st_default (site_of r0)" for r
    using single_default [OF t' that(1) row(1)] that row(2) by (auto simp: site_of_def)
  have site: "sites_of t' k = Some x \<longleftrightarrow> yield_default (st_default (site_of r0)) (sites_of t) k = Some x" if "k \<noteq> pid" for k x
  proof -
    have "sites_of t' k = Some x \<longleftrightarrow> (\<exists>r \<in> set t'. p_id r = k \<and> site_of r = x)"
      unfolding sites_of_def by (rule by_key_Some [OF keys(2)])
    also have "\<dots> \<longleftrightarrow> (\<exists>r \<in> set (cleared b now P t). p_id r = k \<and> site_of r = x)" using others that by metis
    also have "\<dots> \<longleftrightarrow> (\<exists>r \<in> set t. p_id r = k \<and> (if b then (site_of r)\<lparr>st_default := False\<rparr> else site_of r) = x)"
      unfolding cleared_row using P that by metis
    also have "\<dots> \<longleftrightarrow> (\<exists>r \<in> set t. p_id r = k \<and> (if st_default (site_of r0) then (site_of r)\<lparr>st_default := False\<rparr> else site_of r) = x)"
    proof (cases "b \<or> \<not> st_default (site_of r0)")
      case True
      with b show ?thesis by auto
    next
      case False
      then have "set t' - {r. p_id r = pid} = set t - {r. p_id r = pid}" using others by (auto simp: cleared_def)
      then have "(site_of r)\<lparr>st_default := False\<rparr> = site_of r" if "r \<in> set t" "p_id r = k" for r
        using plain [of r] that \<open>k \<noteq> pid\<close> False by (cases "site_of r") auto
      with False show ?thesis by auto
    qed
    also have "\<dots> \<longleftrightarrow> yield_default (st_default (site_of r0)) (sites_of t) k = Some x"
      unfolding yield_default_Some sites_of_def by_key_Some [OF keys(1)] by auto
    finally show ?thesis .
  qed
  have site_eq: "sites_of t' k = yield_default (st_default (site_of r0)) (sites_of t) k" if "k \<noteq> pid" for k
    using site [OF that] by (metis option.exhaust)
  have here: "sites_of t' pid = Some (site_of r0)"
    unfolding sites_of_def by_key_Some [OF keys(2)] using row by blast
  show "sites_of t' = (yield_default (st_default (site_of r0)) (sites_of t))(pid \<mapsto> site_of r0)"
  proof
    fix k
    show "sites_of t' k = ((yield_default (st_default (site_of r0)) (sites_of t))(pid \<mapsto> site_of r0)) k"
      using here by (cases "k = pid") (auto intro: option.expand simp: site_eq)
  qed
  show "st_route x \<noteq> st_route (site_of r0)" if q: "q \<noteq> pid" and x: "sites_of t q = Some x"
  proof
    assume same: "st_route x = st_route (site_of r0)"
    have "yield_default (st_default (site_of r0)) (sites_of t) q \<noteq> None" using x by (simp add: yield_default_def)
    then obtain y where y: "sites_of t' q = Some y" "st_route y = st_route x"
      using site [OF q] x by (auto simp: yield_default_def split: if_splits)
    then obtain r where r: "r \<in> set t'" "p_id r = q" "p_route r = p_route r0"
      using same unfolding sites_of_def by_key_Some [OF keys(2)] by (auto simp: site_of_def)
    have "r = r0" by (rule distinct_map_key_eq [of p_route t', OF _ r(1) row(1) r(3)]) (use t' in \<open>simp add: p_uniq_def\<close>)
    with r q row show False by simp
  qed
qed

lemma change_site_step:
  assumes "pid \<in> dom (sites (directory_of s))" and "p_uniq (t_providers s)" and "r0 \<in> set t'" "p_id r0 = pid" and "p_uniq t'"
    and "\<And>r. p_id r \<noteq> pid \<Longrightarrow> r \<in> set t' \<longleftrightarrow> r \<in> set (cleared b now P (t_providers s))"
    and "\<And>r. p_id r \<noteq> pid \<Longrightarrow> P r" and "b \<Longrightarrow> st_default (site_of r0)"
  shows "dir_step (directory_of s) (directory_of (s\<lparr>t_providers := t'\<rparr>))"
proof -
  note w = sites_write [OF assms(2-8)]
  have "directory_of (s\<lparr>t_providers := t'\<rparr>) = (directory_of s)
      \<lparr>sites := (yield_default (st_default (site_of r0)) (sites (directory_of s)))(pid \<mapsto> site_of r0)\<rparr>"
    by (simp add: directory_of_def w(1))
  moreover have "route_free pid (st_route (site_of r0)) (directory_of s)"
    unfolding route_free_def using w(2) by (simp add: directory_of_def)
  ultimately show ?thesis using dir_step.change_site [OF assms(1)] by simp
qed

lemma update_provider_step:
  assumes inv: "db_inv s"
    and sql: "run_all ((if b then [clear_default now P] else []) @
        [providers_stmt (sql_update p_uniq ok (\<lambda>r. p_id r = pid) f)]) s = Some t"
    and f: "\<And>r. p_id (f r) = p_id r" and P: "\<And>r. p_id r \<noteq> pid \<Longrightarrow> P r" and b: "\<And>r. b \<Longrightarrow> p_is_default (f r) = 1"
    and pid: "pid \<in> dom (sites (directory_of s))"
  shows "dir_step (directory_of s) (directory_of t)"
proof -
  let ?c = "cleared b now P (t_providers s)"
  from sql have t: "t = s\<lparr>t_providers := update_where (\<lambda>r. p_id r = pid) f ?c\<rparr>"
    and u: "p_uniq (update_where (\<lambda>r. p_id r = pid) f ?c)"
    by (auto elim!: run_elims simp: providers_stmt_update_Some)
  have ids: "p_id ` set ?c = p_id ` set (t_providers s)"
    using map_id_cleared [of b now P "t_providers s"] by (metis list.set_map)
  from pid ids obtain r0 where r0: "r0 \<in> set ?c" "p_id r0 = pid" unfolding dom_sites by (metis imageE)
  show ?thesis unfolding t
  proof (rule change_site_step [OF pid])
    show "p_uniq (t_providers s)" using inv by (simp add: db_inv_def)
    show "f r0 \<in> set (update_where (\<lambda>r. p_id r = pid) f ?c)" using r0 by (auto simp: in_update_where)
    show "p_id (f r0) = pid" using r0 f by simp
    show "r \<in> set (update_where (\<lambda>r. p_id r = pid) f ?c) \<longleftrightarrow> r \<in> set ?c" if "p_id r \<noteq> pid" for r
      using that f by (auto simp: in_update_where)
    show "st_default (site_of (f r0))" if b using b that by (simp add: site_of_def)
  qed (use u P in auto)
qed

lemma create_provider_step:
  assumes inv: "db_inv s" and row: "p_is_default r = (if b then 1 else 0)"
    and u: "pu_provider_id u = p_id r" "pu_username u \<noteq> []" "pu_enabled u = 1"
    and sql: "run_all ((if b then [clear_default now (\<lambda>_. True)] else []) @
         [providers_stmt (sql_insert p_uniq p_row_ok r), insert_provider_user u]) s = Some t"
  shows "dir_step (directory_of s) (directory_of t)"
proof -
  let ?c = "cleared b now (\<lambda>_. True) (t_providers s)"
  from sql have t: "t = s\<lparr>t_providers := ?c @ [r], t_provider_users := t_provider_users s @ [u]\<rparr>"
    and uniq: "p_uniq (?c @ [r])" "pu_uniq (t_provider_users s @ [u])"
    by (auto elim!: run_elims simp: providers_stmt_insert_Some insert_provider_user_Some)
  have new: "p_id r \<notin> p_id ` set (t_providers s)" using uniq(1) by (simp add: p_uniq_def)
  have newlogin: "login_key u \<notin> login_key ` set (t_provider_users s)" using pu_uniq_keys [OF uniq(2)] by simp
  have "p_uniq (t_providers s)" using inv by (simp add: db_inv_def)
  moreover have "r \<in> set (?c @ [r])" by simp
  moreover have "\<And>q. p_id q \<noteq> p_id r \<Longrightarrow> q \<in> set (?c @ [r]) \<longleftrightarrow> q \<in> set ?c" by auto
  moreover have "b \<Longrightarrow> st_default (site_of r)" using row by (simp add: site_of_def)
  ultimately have w: "sites_of (?c @ [r]) = (yield_default (st_default (site_of r)) (sites_of (t_providers s)))(p_id r \<mapsto> site_of r)"
    "q \<noteq> p_id r \<Longrightarrow> sites_of (t_providers s) q = Some x \<Longrightarrow> st_route x \<noteq> st_route (site_of r)" for q x
    using sites_write [of "t_providers s" r "?c @ [r]" "p_id r" b now "\<lambda>_. True"] uniq(1) by auto
  have "directory_of t = \<lparr>sites = (yield_default (st_default (site_of r)) (sites (directory_of s)))(p_id r \<mapsto> site_of r),
      logins = (logins (directory_of s))((p_id r, pu_username u) \<mapsto> login_of u)\<rparr>"
    by (simp add: t directory_of_def w(1) logins_of_def by_key_insert [of login_key, OF newlogin] login_key_def u)
  moreover have "route_free (p_id r) (st_route (site_of r)) (directory_of s)"
    unfolding route_free_def using w(2) by (simp add: directory_of_def)
  moreover have "p_id r \<notin> dom (sites (directory_of s))" using new unfolding dom_sites .
  moreover have "lg_enabled (login_of u)" using u by (simp add: login_of_def)
  ultimately show ?thesis using dir_step.open_site [OF _ _ u(2)] by simp
qed
end
