(* ===== verification/Directory_Services.thy ===== *)
theory Directory_Services imports Directory Api begin

section \<open>The services implement the directory\<close>

text \<open>
  Every operation of \<open>provider.service.ts\<close> and \<open>provider-user.service.ts\<close> refines the steps of the access
  directory, as one atomic step: returned, it has made exactly one; refused, none. The exception is an error of
  SQLite after the change, where the log entry cannot be written. \<open>updateProvider\<close> alone is two changes, that of
  the provider and that of its client user, and the first stays when the second is refused.
\<close>

subsection \<open>Outcomes\<close>

text \<open>A triple whose error case knows the error.\<close>

definition outcome :: "('s \<Rightarrow> bool) \<Rightarrow> ('s, 'a) act \<Rightarrow> ('a \<Rightarrow> 's \<Rightarrow> bool) \<Rightarrow> (failure \<Rightarrow> 's \<Rightarrow> bool) \<Rightarrow> bool" where
  "outcome P m Q X \<longleftrightarrow> (\<forall>s. P s \<longrightarrow> (case m s of (Inl e, t) \<Rightarrow> X e t | (Inr x, t) \<Rightarrow> Q x t))"

lemma outcomeI: "(\<And>s. P s \<Longrightarrow> (case m s of (Inl e, t) \<Rightarrow> X e t | (Inr x, t) \<Rightarrow> Q x t)) \<Longrightarrow> outcome P m Q X"
  by (simp add: outcome_def)

lemma outcomeD:
  assumes "outcome P m Q X" and "P s"
  shows "m s = (Inr x, t) \<Longrightarrow> Q x t" and "m s = (Inl e, t) \<Longrightarrow> X e t"
  using assms unfolding outcome_def by fastforce+

lemma outcome_weaken:
  "outcome P m Q X \<Longrightarrow> (\<And>s. P' s \<Longrightarrow> P s) \<Longrightarrow> (\<And>x s. Q x s \<Longrightarrow> Q' x s) \<Longrightarrow> (\<And>e s. X e s \<Longrightarrow> X' e s) \<Longrightarrow> outcome P' m Q' X'"
  unfolding outcome_def by (fastforce split: prod.splits sum.splits)

lemma outcome_andThen:
  "outcome P m R X \<Longrightarrow> (\<And>x. outcome (R x) (f x) Q X) \<Longrightarrow> outcome P (andThen m f) Q X"
  unfolding outcome_def andThen_def by (fastforce split: prod.splits sum.splits)

lemma outcome_keeps: "keeps P m \<Longrightarrow> (\<And>e s. P s \<Longrightarrow> X e s) \<Longrightarrow> outcome P m (\<lambda>_. P) X"
  unfolding keeps_def outcome_def by (fastforce split: prod.splits sum.splits)

lemma outcome_step:
  "keeps P m \<Longrightarrow> (\<And>e s. P s \<Longrightarrow> X e s) \<Longrightarrow> (\<And>x. outcome P (f x) Q X) \<Longrightarrow> outcome P (andThen m f) Q X"
  by (rule outcome_andThen) (rule outcome_keeps)

lemma outcome_throw: "(\<And>s. P s \<Longrightarrow> X (Err m) s) \<Longrightarrow> outcome P (throw m) Q X"
  by (simp add: outcome_def)

lemma outcome_ret: "(\<And>s. P s \<Longrightarrow> Q x s) \<Longrightarrow> outcome P (ret x) Q X"
  by (simp add: outcome_def)

lemma outcome_if:
  "(b \<Longrightarrow> outcome P m Q X) \<Longrightarrow> (\<not> b \<Longrightarrow> outcome P n Q X) \<Longrightarrow> outcome P (if b then m else n) Q X"
  by simp

lemma outcome_fact: "(b \<Longrightarrow> outcome P m Q X) \<Longrightarrow> outcome (\<lambda>s. P s \<and> b) m Q X"
  by (simp add: outcome_def)

text \<open>What throws nothing but SQLite's error.\<close>

definition only_sql :: "('s, 'a) act \<Rightarrow> bool" where
  "only_sql m \<longleftrightarrow> (\<forall>s e t. m s = (Inl e, t) \<longrightarrow> e = Err sql_error)"

lemma only_sql_andThen: "only_sql m \<Longrightarrow> (\<And>x. only_sql (f x)) \<Longrightarrow> only_sql (andThen m f)"
  unfolding only_sql_def andThen_def by (fastforce split: prod.splits sum.splits)

lemma only_sql_basic:
  "only_sql (ret x)" "only_sql (gets g)" "only_sql (modify h)" "only_sql (batch fs)" "only_sql (run_sql get put stmt)"
  by (simp_all add: only_sql_def batch_def run_sql_eq split: option.splits)

lemma only_sql_ext: "only_sql (ext k)"
  by (simp add: only_sql_def ext_run)

lemma only_sql_log: "only_sql (log_info env a b c d)" "only_sql (log_warn env a b c d)"
  unfolding log_info_def log_warn_def logged_def writeLog_def insert_log_def emit_def
  by (intro only_sql_andThen only_sql_basic only_sql_ext)+

lemma only_sql_sync: "only_sql (syncLegacyIdentity env pid)"
  unfolding syncLegacyIdentity_def by (intro only_sql_andThen only_sql_basic only_sql_ext)

lemma outcome_sql:
  assumes "keeps C m" and "only_sql m" and "\<And>s. C s \<Longrightarrow> X (Err sql_error) s" and "\<And>x. outcome C (f x) Q X"
  shows "outcome C (andThen m f) Q X"
proof (rule outcome_andThen [OF _ assms(4)], rule outcomeI)
  fix s assume "C s"
  then show "case m s of (Inl e, t) \<Rightarrow> X e t | (Inr x, t) \<Rightarrow> C t"
    using keepsD [OF assms(1)] assms(2,3) unfolding only_sql_def by (auto split: prod.splits sum.splits) (metis snd_conv)+
qed

subsection \<open>States over a directory\<close>

text \<open>A consistent database of which the directory and the identifiers of the client users are known.\<close>

definition user_ids :: "('w, 'z) db_scheme \<Rightarrow> (string \<times> string) set" where
  "user_ids s = (\<lambda>r. (pu_provider_id r, pu_id r)) ` set (t_provider_users s)"

definition over :: "(directory \<Rightarrow> (string \<times> string) set \<Rightarrow> bool) \<Rightarrow> ('w, 'z) db_scheme \<Rightarrow> bool" where
  "over Z s \<longleftrightarrow> db_inv s \<and> Z (directory_of s) (user_ids s)"

text \<open>Before and after the step, with what else is known.\<close>

definition before :: "directory \<Rightarrow> (directory \<times> (string \<times> string) set) set \<Rightarrow> ('w, 'z) db_scheme \<Rightarrow> bool" where
  "before D Z = over (\<lambda>d u. d = D \<and> (d, u) \<in> Z)"

definition after :: "directory \<Rightarrow> (directory \<times> (string \<times> string) set) set \<Rightarrow> ('w, 'z) db_scheme \<Rightarrow> bool" where
  "after D Z = over (\<lambda>d u. dir_step D d \<and> (d, u) \<in> Z)"

definition has_user :: "string \<Rightarrow> string \<Rightarrow> (directory \<times> (string \<times> string) set) set" where
  "has_user pid uid = {(d, u). (pid, uid) \<in> u}"

definition has_site :: "string \<Rightarrow> (directory \<times> (string \<times> string) set) set" where
  "has_site pid = {(d, u). pid \<in> dom (sites d)}"

text \<open>A refusal has changed nothing; only an error of SQLite can come after the change.\<close>

definition refused :: "directory \<Rightarrow> failure \<Rightarrow> ('w, 'z) db_scheme \<Rightarrow> bool" where
  "refused D e s \<longleftrightarrow> before D UNIV s \<or> e = Err sql_error \<and> after D UNIV s"

lemma over_log_free: "log_free (over Z :: ('w, 'z) db_scheme \<Rightarrow> bool)"
  by (simp add: log_free_def ext_free_def over_def db_inv_def directory_of_def user_ids_def)

lemmas over_ext = log_free_ext [OF over_log_free]

lemma keeps_hash_over: "keeps (over Z) (hashProviderPassword env p)"
  by (rule keeps_hashProviderPassword [OF over_ext])

lemma sync_same:
  assumes "db_inv s" and "syncLegacyIdentity env pid s = (r, t)"
  shows "directory_of t = directory_of s" and "user_ids t = user_ids s"
proof -
  have "directory_of t = directory_of s \<and> user_ids t = user_ids s"
  proof (cases r)
    case (Inl e)
    with assms(2) show ?thesis
      by (auto simp: syncLegacyIdentity_def andThen_run ext_run run_sql_eq directory_of_def user_ids_def split: option.splits)
  next
    case (Inr x)
    with assms(2) obtain now n where p: "t_providers t = update_where (\<lambda>r. p_id r = pid)
         (\<lambda>r. r\<lparr>p_local_username := n, p_local_password := [], p_updated_at := now\<rparr>) (t_providers s)"
      unfolding syncLegacyIdentity_def by (auto elim!: run_elims simp: sql_update_Some)
    have "sites_of (t_providers t) = sites_of (t_providers s)" unfolding p by (rule sites_same) (simp add: site_of_def)
    moreover have "t_provider_users t = t_provider_users s"
      using syncLegacyIdentity_frame assms(2) Inr by metis
    ultimately show ?thesis by (simp add: directory_of_def user_ids_def)
  qed
  then show "directory_of t = directory_of s" and "user_ids t = user_ids s" by simp_all
qed

lemma keeps_sync_over: "keeps (over Z :: ('w, 'z) db_scheme \<Rightarrow> bool) (syncLegacyIdentity env pid)"
proof (rule keepsI)
  fix s :: "('w, 'z) db_scheme"
  assume s: "over Z s"
  obtain r t where run: "syncLegacyIdentity env pid s = (r, t)" by fastforce
  with s keepsD_run [OF keeps_syncLegacyIdentity _ run] show "over Z (snd (syncLegacyIdentity env pid s))"
    unfolding over_def by (simp add: sync_same [OF _ run])
qed

lemma before_ext: "ext_free (before D Z)" and before_log: "log_free (before D Z)"
  unfolding before_def by (rule over_ext, rule over_log_free)

lemma after_log: "log_free (after D Z)"
  unfolding after_def by (rule over_log_free)

lemmas before_keeps = keeps_intros keeps_externals [OF before_ext] keeps_logged [OF before_log]
  keeps_hashProviderPassword [OF before_ext] keeps_ensureProvider keeps_getUser keeps_getUsers keeps_call keeps_getProviderById

lemma keeps_sync_after: "keeps (after D Z) (syncLegacyIdentity env pid)"
  unfolding after_def by (rule keeps_sync_over)

lemma before_inv: "before D Z s \<Longrightarrow> db_inv s \<and> directory_of s = D"
  by (simp add: before_def over_def)

lemma after_inv: "after D Z s \<Longrightarrow> db_inv s \<and> dir_step D (directory_of s)"
  by (simp add: after_def over_def)

lemma before_refused: "before D Z s \<Longrightarrow> refused D e s"
  by (simp add: refused_def before_def over_def)

lemma after_refused: "after D Z s \<Longrightarrow> refused D (Err sql_error) s"
  by (simp add: refused_def after_def over_def)

lemma after_any: "after D Z s \<Longrightarrow> after D UNIV s"
  by (simp add: after_def over_def)

lemma outcome_refuse: "outcome (before D Z) (throw m) Q (refused D)"
  by (simp add: outcome_def before_refused)

lemma outcome_before:
  "keeps (before D Z) m \<Longrightarrow> (\<And>x. outcome (before D Z) (f x) Q (refused D)) \<Longrightarrow>
     outcome (before D Z) (andThen m f) Q (refused D)"
  by (rule outcome_step) (simp_all add: before_refused)

lemma outcome_after_sync:
  "(\<And>x. outcome (after D Z) (f x) Q (refused D)) \<Longrightarrow> outcome (after D Z) (andThen (syncLegacyIdentity env pid) f) Q (refused D)"
  by (rule outcome_sql [OF keeps_sync_after only_sql_sync]) (auto intro: after_refused)

lemma outcome_after_log:
  "(\<And>x. outcome (after D Z) (f x) Q (refused D)) \<Longrightarrow> outcome (after D Z) (andThen (log_info env a b c d) f) Q (refused D)"
  by (rule outcome_sql [OF keeps_logged(1) [OF after_log] only_sql_log(1)]) (auto intro: after_refused)

lemma outcome_after_warning: "outcome (after D Z :: ('w, 'z) db_scheme \<Rightarrow> bool) (log_warn env a b c d) (\<lambda>_. after D UNIV) (refused D)"
proof (rule outcomeI)
  fix s :: "('w, 'z) db_scheme"
  assume s: "after D Z s"
  have "after D UNIV (snd (log_warn env a b c d s))"
    using keepsD [OF keeps_logged(2) [OF after_log] s] by (rule after_any)
  then show "case log_warn env a b c d s of (Inl e, t) \<Rightarrow> refused D e t | (Inr x, t) \<Rightarrow> after D UNIV t"
    using only_sql_log(2) [of env a b c d] unfolding only_sql_def
    by (cases "log_warn env a b c d s"; cases "fst (log_warn env a b c d s)") (auto intro: after_refused)
qed

lemma find_some: "(\<exists>x. find P t = Some x) \<longleftrightarrow> (\<exists>x \<in> set t. P x)"
  using find_None_iff [of P t] by auto

text \<open>What the lookups tell of the directory.\<close>

lemma known_provider: "getProviderById pid b s = (Inr x, t) \<Longrightarrow> t = s \<and> (x \<noteq> None \<longleftrightarrow> pid \<in> dom (sites (directory_of s)))"
  using find_some [of "\<lambda>r. p_id r = pid" "t_providers s"] by (auto simp: getProviderById_run dom_sites image_iff)

lemma known_user: "getUser pid uid b s = (Inr x, t) \<Longrightarrow> t = s \<and> (x \<noteq> None \<longleftrightarrow> (pid, uid) \<in> user_ids s)"
  using find_some [of "\<lambda>r. pu_provider_id r = pid \<and> pu_id r = uid" "t_provider_users s"]
  by (auto simp: getUser_run found_user_def user_ids_def image_iff)

subsection \<open>The operations on client users\<close>

lemma outcome_found:
  assumes "\<And>s x t. P s \<Longrightarrow> m s = (Inr x, t) \<Longrightarrow> t = s \<and> (x \<noteq> None \<longrightarrow> b)" and "safe m"
    and "outcome P (f None) Q X" and "\<And>x. b \<Longrightarrow> outcome P (f (Some x)) Q X"
  shows "outcome P (andThen m f) Q X"
proof (rule outcomeI)
  fix s assume P: "P s"
  obtain x t where run: "m s = (Inr x, t)" using safeD [OF assms(2)] by blast
  from assms(1) [OF P run] have "t = s" and b: "x \<noteq> None \<longrightarrow> b" by auto
  with run have step: "andThen m f s = f x s" by simp
  show "case andThen m f s of (Inl e, t) \<Rightarrow> X e t | (Inr x, t) \<Rightarrow> Q x t"
    unfolding step using P assms(3,4) b by (cases x) (auto simp: outcome_def)
qed

lemma safe_lookups [safe_intros]: "safe (getProviderById pid b)" "safe (getUser pid uid b)"
  by (simp_all add: safe_def getProviderById_run getUser_run)

text \<open>The end of every operation: the row is read again, and it is there.\<close>

lemma outcome_reload_user:
  "outcome (after D (has_user pid uid))
     (andThen (getUser pid uid b) (case_option (throw m) ret)) (\<lambda>_. after D UNIV) (refused D)"
proof (rule outcomeI)
  fix s
  assume s: "after D (has_user pid uid) s"
  obtain x t where run: "getUser pid uid b s = (Inr x, t)" by (simp add: getUser_run)
  with known_user [OF run] s obtain y where "getUser pid uid b s = (Inr (Some y), s)"
    by (auto simp: after_def over_def has_user_def)
  then show "case andThen (getUser pid uid b) (case_option (throw m) ret) s of
      (Inl e, t) \<Rightarrow> refused D e t | (Inr x, t) \<Rightarrow> after D UNIV t"
    using after_any [OF s] by simp
qed

lemma outcome_insert_user:
  assumes "pu_username r \<noteq> []" "pu_provider_id r = pid" "pu_id r = uid"
    and "\<And>x. outcome (after D (has_user pid uid)) (f x) Q (refused D)"
  shows "outcome (before D Z) (andThen (batch [insert_provider_user r]) f) Q (refused D)"
proof (rule outcome_andThen [OF _ assms(4)], rule outcomeI)
  fix s
  assume s: "before D Z s"
  have "after D (has_user pid uid) t" if t: "insert_provider_user r s = Some t" for t
  proof -
    have "(pid, uid) \<in> user_ids t" using t assms(2,3) by (auto simp: user_ids_def insert_provider_user_Some)
    then show ?thesis using insert_user_step [OF _ t assms(1)] insert_provider_user_inv [OF _ t] before_inv [OF s]
      by (simp add: after_def over_def has_user_def)
  qed
  then show "case batch [insert_provider_user r] s of (Inl e, t) \<Rightarrow> refused D e t
      | (Inr x, t) \<Rightarrow> after D (has_user pid uid) t"
    using before_refused [OF s] by (cases "insert_provider_user r s") (simp_all add: batch_def)
qed

lemma outcome_update_user:
  assumes f: "\<And>r. pu_provider_id (f r) = pu_provider_id r" "\<And>r. pu_id (f r) = pu_id r" "\<And>r. pu_username (f r) = n"
    and n: "n \<noteq> []"
    and rest: "\<And>x. outcome (after D (has_user pid uid)) (k x) Q (refused D)"
  shows "outcome (before D (has_user pid uid)) (andThen (run_sql t_provider_users (\<lambda>t s. s\<lparr>t_provider_users := t\<rparr>)
     (sql_update pu_uniq pu_row_ok (\<lambda>r. pu_provider_id r = pid \<and> pu_id r = uid) f)) k) Q (refused D)"
proof (rule outcome_andThen [OF _ rest], rule outcomeI)
  fix s :: "('w, 'z) db_scheme"
  let ?u = "sql_update pu_uniq pu_row_ok (\<lambda>r. pu_provider_id r = pid \<and> pu_id r = uid) f"
  let ?m = "run_sql t_provider_users (\<lambda>t s. s\<lparr>t_provider_users := t\<rparr>) ?u"
  assume s: "before D (has_user pid uid) s"
  show "case ?m s of (Inl e, t) \<Rightarrow> refused D e t | (Inr x, t) \<Rightarrow> after D (has_user pid uid) t"
  proof (cases "?u (t_provider_users s)")
    case None
    then have "?m s = (Inl (Err sql_error), s)" by (rule run_sql_None)
    then show ?thesis using before_refused [OF s] by simp
  next
    case (Some t)
    note inv = before_inv [OF s]
    obtain r0 where r0: "r0 \<in> set (t_provider_users s)" "pu_provider_id r0 = pid" "pu_id r0 = uid"
      using s by (auto simp: before_def over_def user_ids_def has_user_def)
    have run: "?m s = (Inr (), s\<lparr>t_provider_users := t\<rparr>)" using Some by (rule run_sql_Some)
    have "db_inv (s\<lparr>t_provider_users := t\<rparr>)" using keepsD_run [OF keeps_update_provider_user _ run] inv f(1) by blast
    moreover have "f r0 \<in> set t" using Some r0 by (auto simp: sql_update_Some in_update_where)
    then have "(pid, uid) \<in> user_ids (s\<lparr>t_provider_users := t\<rparr>)"
      using imageI [of "f r0" "set t" "\<lambda>r. (pu_provider_id r, pu_id r)"] r0 f by (simp add: user_ids_def)
    ultimately have "after D (has_user pid uid) (s\<lparr>t_provider_users := t\<rparr>)"
      using update_user_step [OF _ Some f(1,3) n r0] inv by (simp add: after_def over_def has_user_def)
    with run show ?thesis by simp
  qed
qed

lemma createUser_refines: "outcome (before D UNIV) (createUser env pid input) (\<lambda>_. after D UNIV) (refused D)"
  unfolding createUser_def case_prod_unfold Let_def
  by (rule outcome_insert_user outcome_reload_user outcome_after_sync outcome_after_log outcome_if outcome_refuse
       outcome_before before_keeps | assumption | (simp; fail))+

lemma outcome_found_user:
  assumes "\<And>x. outcome (before D (has_user pid uid)) (f x) Q (refused D)"
  shows "outcome (before D Z :: ('w, 'z) db_scheme \<Rightarrow> bool) (andThen (getUser pid uid b) (case_option (throw m) f)) Q (refused D)"
proof (rule outcomeI)
  fix s :: "('w, 'z) db_scheme"
  assume s: "before D Z s"
  obtain x t where run: "getUser pid uid b s = (Inr x, t)" by (simp add: getUser_run)
  from known_user [OF run] have "t = s" and known: "x \<noteq> None \<longleftrightarrow> (pid, uid) \<in> user_ids s" by auto
  with run have step: "andThen (getUser pid uid b) (case_option (throw m) f) s = case_option (throw m) f x s" by simp
  show "case andThen (getUser pid uid b) (case_option (throw m) f) s of (Inl e, t) \<Rightarrow> refused D e t | (Inr x, t) \<Rightarrow> Q x t"
  proof (cases x)
    case None
    then show ?thesis unfolding step using before_refused [OF s] by simp
  next
    case (Some y)
    then have "before D (has_user pid uid) s" using s known by (simp add: before_def over_def has_user_def)
    then show ?thesis unfolding step using assms [of y] Some by (simp add: outcome_def)
  qed
qed

lemma keeps_new_hash:
  "keeps (before D Z) (case pw of None \<Rightarrow> ret old | Some p \<Rightarrow> if p \<noteq> [] then hashProviderPassword env p else ret old)"
  by (intro before_keeps)

lemmas outcome_intros = outcome_insert_user outcome_update_user outcome_found_user outcome_reload_user
  outcome_after_sync outcome_after_log outcome_after_warning outcome_if outcome_refuse outcome_before keeps_new_hash before_keeps

lemma updateUser_refines: "outcome (before D UNIV) (updateUser env pid uid input) (\<lambda>_. after D UNIV) (refused D)"
  unfolding updateUser_def case_prod_unfold Let_def
  by (rule outcome_intros | assumption | (simp; fail))+

lemma outcome_delete_user:
  assumes "\<And>x. outcome (after D UNIV) (k x) Q (refused D)"
  shows "outcome (before D (has_user pid uid)) (andThen (modify (\<lambda>s. s\<lparr>t_provider_users :=
     delete_where (\<lambda>r. pu_provider_id r = pid \<and> pu_id r = uid) (t_provider_users s)\<rparr>)) k) Q (refused D)"
proof (rule outcome_andThen [OF _ assms], rule outcomeI)
  fix s :: "('w, 'z) db_scheme"
  assume s: "before D (has_user pid uid) s"
  note inv = before_inv [OF s]
  let ?t = "s\<lparr>t_provider_users := delete_where (\<lambda>r. pu_provider_id r = pid \<and> pu_id r = uid) (t_provider_users s)\<rparr>"
  obtain r0 where r0: "r0 \<in> set (t_provider_users s)" "pu_provider_id r0 = pid" "pu_id r0 = uid"
    using s by (auto simp: before_def over_def user_ids_def has_user_def)
  have "db_inv ?t" using inv by (auto simp: db_inv_def delete_where_def list_all_iff provider_users.uniq_filter)
  with delete_user_step [OF _ r0] inv show "case modify (\<lambda>s. s\<lparr>t_provider_users :=
     delete_where (\<lambda>r. pu_provider_id r = pid \<and> pu_id r = uid) (t_provider_users s)\<rparr>) s of
      (Inl e, t) \<Rightarrow> refused D e t | (Inr x, t) \<Rightarrow> after D UNIV t"
    by (simp add: after_def over_def)
qed

lemma deleteUser_refines: "outcome (before D UNIV) (deleteUser env pid uid) (\<lambda>_. after D UNIV) (refused D)"
  unfolding deleteUser_def case_prod_unfold Let_def
  by (rule outcome_delete_user outcome_intros)+

text \<open>Either the first client user is changed or one is added.\<close>

lemma upsertPrimaryUser_refines:
  "outcome (before D UNIV) (upsertPrimaryUser env pid n pw) (\<lambda>_. after D UNIV) (refused D)"
proof -
  have last: "outcome (before D UNIV) (andThen m (\<lambda>_. ret ())) (\<lambda>_. after D UNIV) (refused D)"
    if "outcome (before D UNIV) m (\<lambda>_. after D UNIV) (refused D)" for m :: "(('w, 'z) db_scheme, provider_user) act"
    by (rule outcome_andThen [OF that]) (rule outcome_ret)
  have choice: "outcome (before D UNIV) (case us of [] \<Rightarrow> e | u # us' \<Rightarrow> k u us') (\<lambda>_. after D UNIV) (refused D)"
    if "outcome (before D UNIV) e (\<lambda>_. after D UNIV) (refused D)" "\<And>u us'. outcome (before D UNIV) (k u us') (\<lambda>_. after D UNIV) (refused D)"
    for us :: "provider_user list" and e k
    using that by (cases us) auto
  have given: "outcome (before D UNIV) (case pw of None \<Rightarrow> e | Some p \<Rightarrow> k p) (\<lambda>_. after D UNIV) (refused D)"
    if "outcome (before D UNIV) e (\<lambda>_. after D UNIV) (refused D)" "\<And>p. outcome (before D UNIV) (k p) (\<lambda>_. after D UNIV) (refused D)"
    for pw :: "string option" and e k
    using that by (cases pw) auto
  show ?thesis unfolding upsertPrimaryUser_def
    by (intro last choice given createUser_refines updateUser_refines outcome_if outcome_refuse outcome_before before_keeps)
qed

subsection \<open>The operations on providers\<close>

lemma outcome_found_provider:
  assumes "\<And>x. outcome (before D (has_site pid)) (f x) Q X" and "\<And>e s. before D Z s \<Longrightarrow> X e s"
  shows "outcome (before D Z :: ('w, 'z) db_scheme \<Rightarrow> bool) (andThen (getProviderById pid b) (case_option (throw m) f)) Q X"
proof (rule outcomeI)
  fix s :: "('w, 'z) db_scheme"
  assume s: "before D Z s"
  obtain x t where run: "getProviderById pid b s = (Inr x, t)" by (simp add: getProviderById_run)
  from known_provider [OF run] have "t = s" and known: "x \<noteq> None \<longleftrightarrow> pid \<in> dom (sites (directory_of s))" by auto
  with run have step: "andThen (getProviderById pid b) (case_option (throw m) f) s = case_option (throw m) f x s" by simp
  show "case andThen (getProviderById pid b) (case_option (throw m) f) s of (Inl e, t) \<Rightarrow> X e t | (Inr x, t) \<Rightarrow> Q x t"
  proof (cases x)
    case None
    then show ?thesis unfolding step using assms(2) [OF s] by simp
  next
    case (Some y)
    then have "before D (has_site pid) s" using s known by (simp add: before_def over_def has_site_def)
    then show ?thesis unfolding step using assms(1) [of y] Some by (simp add: outcome_def)
  qed
qed

lemma outcome_reload_provider:
  "outcome (after D (has_site pid) :: ('w, 'z) db_scheme \<Rightarrow> bool)
     (andThen (getProviderById pid b) (case_option (throw m) ret)) (\<lambda>_. after D UNIV) (refused D)"
proof (rule outcomeI)
  fix s :: "('w, 'z) db_scheme"
  assume s: "after D (has_site pid) s"
  obtain x t where run: "getProviderById pid b s = (Inr x, t)" by (simp add: getProviderById_run)
  with known_provider [OF run] s obtain y where "getProviderById pid b s = (Inr (Some y), s)"
    by (auto simp: after_def over_def has_site_def)
  then show "case andThen (getProviderById pid b) (case_option (throw m) ret) s of
      (Inl e, t) \<Rightarrow> refused D e t | (Inr x, t) \<Rightarrow> after D UNIV t"
    using after_any [OF s] by simp
qed

lemma outcome_batch:
  fixes fs :: "(('w, 'z) db_scheme \<Rightarrow> ('w, 'z) db_scheme option) list"
  assumes "\<And>s t. before D Z s \<Longrightarrow> run_all fs s = Some t \<Longrightarrow> after D Y t" and "\<And>x. outcome (after D Y) (k x) Q X"
    and "\<And>e s. before D Z s \<Longrightarrow> X e s"
  shows "outcome (before D Z) (andThen (batch fs) k) Q X"
proof (rule outcome_andThen [OF _ assms(2)], rule outcomeI)
  fix s :: "('w, 'z) db_scheme"
  assume "before D Z s"
  then show "case batch fs s of (Inl e, t) \<Rightarrow> X e t | (Inr x, t) \<Rightarrow> after D Y t"
    using assms(1,3) by (cases "run_all fs s") (simp_all add: batch_def)
qed

lemma outcome_create_provider:
  fixes k :: "unit \<Rightarrow> (('w, 'z) db_scheme, 'a) act"
  assumes row: "p_is_default r = (if b then 1 else 0)" and u: "pu_provider_id u = p_id r" "pu_username u \<noteq> []" "pu_enabled u = 1"
    and pid: "p_id r = pid" and rest: "\<And>x. outcome (after D (has_site pid)) (k x) Q (refused D)"
  shows "outcome (before D Z) (andThen (batch ((if b then [clear_default now (\<lambda>_. True)] else []) @
         [providers_stmt (sql_insert p_uniq p_row_ok r), insert_provider_user u])) k) Q (refused D)"
proof (rule outcome_batch [OF _ rest before_refused])
  fix s t :: "('w, 'z) db_scheme"
  let ?fs = "(if b then [clear_default now (\<lambda>_. True)] else []) @
         [providers_stmt (sql_insert p_uniq p_row_ok r), insert_provider_user u]"
  assume s: "before D Z s" and run: "run_all ?fs s = Some t"
  have inv: "db_inv s" "directory_of s = D" using before_inv [OF s] by auto
  have "db_inv t"
    by (rule run_all_keeps [OF run, of db_inv, OF inv(1)])
      (auto split: if_splits intro: clear_default_inv insert_provider_inv insert_provider_user_inv)
  moreover have "pid \<in> dom (sites (directory_of t))"
    using run pid unfolding dom_sites by (auto elim!: run_elims simp: providers_stmt_insert_Some insert_provider_user_Some)
  ultimately show "after D (has_site pid) t"
    using create_provider_step [OF inv(1) row u run] inv(2) by (simp add: after_def over_def has_site_def)
qed

lemma createProvider_refines: "outcome (before D UNIV) (createProvider env input) (\<lambda>_. after D UNIV) (refused D)"
  unfolding createProvider_def Let_def
  by (rule outcome_create_provider outcome_reload_provider outcome_intros | assumption | (simp; fail))+

lemma outcome_write_provider:
  fixes k :: "unit \<Rightarrow> (('w, 'z) db_scheme, 'a) act"
  assumes f: "\<And>r. p_id (f r) = p_id r" "\<And>r. ok (f r) \<Longrightarrow> p_row_ok r \<Longrightarrow> p_row_ok (f r)"
    and P: "\<And>r. p_id r \<noteq> pid \<Longrightarrow> P r" and b: "\<And>r. b \<Longrightarrow> p_is_default (f r) = 1"
    and rest: "\<And>x. outcome (after D (has_site pid)) (k x) Q X" "\<And>e s. before D (has_site pid) s \<Longrightarrow> X e s"
  shows "outcome (before D (has_site pid)) (andThen (batch ((if b then [clear_default now P] else []) @
         [providers_stmt (sql_update p_uniq ok (\<lambda>r. p_id r = pid) f)])) k) Q X"
proof (rule outcome_batch [OF _ rest])
  fix s t :: "('w, 'z) db_scheme"
  let ?fs = "(if b then [clear_default now P] else []) @ [providers_stmt (sql_update p_uniq ok (\<lambda>r. p_id r = pid) f)]"
  assume s: "before D (has_site pid) s" and run: "run_all ?fs s = Some t"
  have inv: "db_inv s" "directory_of s = D" using before_inv [OF s] by auto
  have pid: "pid \<in> dom (sites (directory_of s))" using s by (auto simp only: before_def over_def has_site_def mem_Collect_eq case_prod_conv)
  have "db_inv t"
    by (rule run_all_keeps [OF run, of db_inv, OF inv(1)])
      (auto split: if_splits intro: clear_default_inv providers_stmt_update_inv f)
  moreover have "p_id ` set (t_providers t) = p_id ` set (t_providers s)"
  proof -
    have "map p_id (t_providers t) = map p_id (t_providers s)"
      using run by (auto elim!: run_elims simp: providers_stmt_update_Some map_update_where f(1))
    then show ?thesis by (metis list.set_map)
  qed
  then have "pid \<in> dom (sites (directory_of t))" using pid unfolding dom_sites by simp
  ultimately show "after D (has_site pid) t"
    using update_provider_step [OF inv(1) run f(1) P b pid] inv(2) by (simp add: after_def over_def has_site_def)
qed

lemma setDefaultProvider_refines:
  "outcome (before D UNIV) (setDefaultProvider env pid) (\<lambda>_. after D UNIV) (refused D)"
proof -
  have clear: "[clear_default now P, st] = (if True then [clear_default now P] else []) @ [st]" for now P
    and st :: "('w, 'z) db_scheme \<Rightarrow> ('w, 'z) db_scheme option" by simp
  show ?thesis unfolding setDefaultProvider_def clear
    by (rule outcome_write_provider outcome_found_provider outcome_reload_provider outcome_intros before_refused | assumption |
        (simp add: p_row_ok_def cache_ok_def local_password_ok_def; fail))+
qed

lemma deleteProvider_refines: "outcome (before D UNIV) (deleteProvider env pid) (\<lambda>_. after D UNIV) (refused D)"
proof -
  have drop: "outcome (before D (has_site pid)) (andThen (modify (\<lambda>s. s\<lparr>t_providers := delete_where (\<lambda>r. p_id r = pid) (t_providers s),
         t_provider_users := delete_where (\<lambda>r. pu_provider_id r = pid) (t_provider_users s)\<rparr>)) k) (\<lambda>_. after D UNIV) (refused D)"
    if "\<And>x. outcome (after D UNIV) (k x) (\<lambda>_. after D UNIV) (refused D)" for k :: "unit \<Rightarrow> (('w, 'z) db_scheme, unit) act"
  proof (rule outcome_andThen [OF _ that], rule outcomeI)
    fix s :: "('w, 'z) db_scheme"
    assume s: "before D (has_site pid) s"
    let ?f = "\<lambda>s :: ('w, 'z) db_scheme. s\<lparr>t_providers := delete_where (\<lambda>r. p_id r = pid) (t_providers s),
         t_provider_users := delete_where (\<lambda>r. pu_provider_id r = pid) (t_provider_users s)\<rparr>"
    have inv: "db_inv s" "directory_of s = D" using before_inv [OF s] by auto
    have pid: "pid \<in> dom (sites (directory_of s))" using s by (auto simp only: before_def over_def has_site_def mem_Collect_eq case_prod_conv)
    have "db_inv (?f s)" using inv(1)
      by (auto simp: db_inv_def list_all_iff delete_where_def provider_users.uniq_filter providers.uniq_filter)
    then have "after D UNIV (?f s)" using delete_provider_step [OF inv(1) pid] inv(2) by (simp add: after_def over_def)
    then show "case modify ?f s of (Inl e, t) \<Rightarrow> refused D e t | (Inr x, t) \<Rightarrow> after D UNIV t" by simp
  qed
  show ?thesis unfolding deleteProvider_def
    by (rule drop outcome_found_provider outcome_intros before_refused | assumption)+
qed

lemma updateProvider_refines:
  assumes "ui_local_username input = None" and "unmasked (ui_local_password input) = None"
  shows "outcome (before D UNIV) (updateProvider env pid input) (\<lambda>_. after D UNIV) (refused D)"
proof -
  have skip: "andThen (cond False m) k = k ()" for m and k :: "unit \<Rightarrow> ('st, 're) act"
    by (simp add: cond_def)
  show ?thesis unfolding updateProvider_def Let_def assms
    apply (simp only: simp_thms skip)
    apply (rule outcome_write_provider outcome_found_provider outcome_reload_provider outcome_intros before_refused | assumption |
        (simp add: p_row_ok_def chosen_def; fail))+
  done
qed

subsection \<open>Requests walk along the directory's steps\<close>

definition walked :: "directory \<Rightarrow> ('w, 'z) db_scheme \<Rightarrow> bool" where
  "walked D s \<longleftrightarrow> db_inv s \<and> dir_step\<^sup>*\<^sup>* D (directory_of s)"

lemma walked_log_free: "log_free (walked D)"
  by (simp add: log_free_def ext_free_def walked_def db_inv_def directory_of_def)

lemma directory_of_other [simp]:
  "directory_of (s\<lparr>t_users := x1\<rparr>) = directory_of s" "directory_of (s\<lparr>t_settings := x2\<rparr>) = directory_of s"
  "directory_of (s\<lparr>t_wireguard := x3\<rparr>) = directory_of s" "directory_of (s\<lparr>t_openvpn := x4\<rparr>) = directory_of s"
  by (simp_all add: directory_of_def)

lemma outcome_walked:
  fixes m :: "(('w, 'z) db_scheme, 'a) act"
  assumes "\<And>D'. outcome (before D' UNIV) m (\<lambda>_. after D' UNIV) (refused D')"
  shows "keeps (walked D) m"
proof (rule keepsI)
  fix s :: "('w, 'z) db_scheme"
  assume "walked D s"
  then have inv: "db_inv s" and w: "dir_step\<^sup>*\<^sup>* D (directory_of s)" by (simp_all add: walked_def)
  have now: "before (directory_of s) UNIV s" using inv by (simp add: before_def over_def)
  have ahead: "walked D t" if "db_inv t" "directory_of t = directory_of s \<or> dir_step (directory_of s) (directory_of t)" for t
    using that w unfolding walked_def by (auto intro: rtranclp.rtrancl_into_rtrancl)
  obtain r t where run: "m s = (r, t)" by fastforce
  show "walked D (snd (m s))"
  proof (cases r)
    case (Inl e)
    then have "refused (directory_of s) e t" using outcomeD(2) [OF assms now] run by simp
    then show ?thesis using run ahead unfolding refused_def by (auto simp: before_def after_def over_def)
  next
    case (Inr x)
    then have "after (directory_of s) UNIV t" using outcomeD(1) [OF assms now] run by simp
    then show ?thesis using run ahead by (auto simp: after_def over_def)
  qed
qed

lemmas walked_frames = keeps_intros keeps_externals [OF log_free_ext [OF walked_log_free]] keeps_logged [OF walked_log_free]

lemma after_walked: "dir_step\<^sup>*\<^sup>* D0 D \<Longrightarrow> after D Z s \<Longrightarrow> walked D0 s"
  by (auto simp: after_def over_def walked_def intro: rtranclp.rtrancl_into_rtrancl)

lemma before_walked: "dir_step\<^sup>*\<^sup>* D0 D \<Longrightarrow> before D Z s \<Longrightarrow> walked D0 s"
  by (simp add: before_def over_def walked_def)

text \<open>Two changes, that of the provider and that of its client user.\<close>

lemma updateProvider_walks: "keeps (walked D0) (updateProvider env pid input :: (('w, 'z) db_scheme, iptv_provider) act)"
proof -
  have upsert: "keeps (walked D0) (upsertPrimaryUser env pid n pw :: (('w, 'z) db_scheme, unit) act)" for n pw
    by (rule outcome_walked [OF upsertPrimaryUser_refines])
  have go: "outcome (before D UNIV) (updateProvider env pid input) (\<lambda>_. walked D0) (\<lambda>_. walked D0 :: ('w, 'z) db_scheme \<Rightarrow> bool)"
    if D: "dir_step\<^sup>*\<^sup>* D0 D" for D
  proof -
    have refuse: "outcome (before D Z) (throw m) Q (\<lambda>_. walked D0)" for Z m
      and Q :: "iptv_provider \<Rightarrow> ('w, 'z) db_scheme \<Rightarrow> bool"
      by (rule outcome_throw) (rule before_walked [OF D])
    have first: "keeps (before D Z) m \<Longrightarrow> (\<And>x. outcome (before D Z) (f x) Q (\<lambda>_. walked D0)) \<Longrightarrow>
        outcome (before D Z) (andThen m f) Q (\<lambda>_. walked D0)" for Z
      and m :: "(('w, 'z) db_scheme, 'x) act" and f and Q :: "iptv_provider \<Rightarrow> ('w, 'z) db_scheme \<Rightarrow> bool"
      by (rule outcome_step) (simp_all add: before_walked [OF D])
    have rest: "outcome (after D Z) m (\<lambda>_. walked D0) (\<lambda>_. walked D0)" if "keeps (walked D0) m" for Z
      and m :: "(('w, 'z) db_scheme, iptv_provider) act"
      by (rule outcome_weaken [OF outcome_keeps [OF that]]) (auto intro: after_walked [OF D])
    show ?thesis unfolding updateProvider_def Let_def
      by (rule outcome_write_provider outcome_found_provider rest upsert walked_frames keeps_getProviderById before_walked [OF D]
          outcome_if refuse first before_keeps | assumption | (simp add: p_row_ok_def chosen_def; fail))+
  qed
  show ?thesis
  proof (rule keepsI)
    fix s :: "('w, 'z) db_scheme"
    assume "walked D0 s"
    then have D: "dir_step\<^sup>*\<^sup>* D0 (directory_of s)" and now: "before (directory_of s) UNIV s"
      by (simp_all add: walked_def before_def over_def)
    show "walked D0 (snd (updateProvider env pid input s))"
      using go [OF D] now unfolding outcome_def by (fastforce split: prod.splits sum.splits)
  qed
qed

lemma keeps_walked:
  assumes "keeps db_inv m" and "\<And>d. keeps (\<lambda>s. directory_of s = d) m"
  shows "keeps (walked D) m"
  using assms unfolding keeps_def walked_def by metis

text \<open>What does not touch the two tables leaves the directory as it is.\<close>

lemma same_log_free: "log_free (\<lambda>s. directory_of s = d)"
  by (simp add: log_free_def ext_free_def directory_of_def)

lemma same_vpn_free: "vpn_free (\<lambda>s. directory_of s = d)"
  using same_log_free by (simp add: vpn_free_def directory_of_def)

lemmas same_frames = keeps_intros keeps_externals [OF log_free_ext [OF same_log_free]] keeps_logged [OF same_log_free]

lemma same_updateVpnState: "keeps (\<lambda>s. directory_of s = d) (updateVpnState env u)"
  unfolding updateVpnState_def update_settings_row_def by (intro same_frames keeps_modify) simp

interpretation same_directory: stored_invariant "\<lambda>s :: ('w, 'z) vpn_scheme. directory_of s = d" "\<lambda>s. directory_of s = d"
proof
  show "(directory_of (s\<lparr>vpnLock_busy := b\<rparr>) = d) = (directory_of s = d)" for s :: "('w, 'z) vpn_scheme" and b
    by (simp add: directory_of_def)
qed (simp_all add: markError_def same_vpn_free same_updateVpnState triple_keeps [OF same_updateVpnState])

lemma same_profiles:
  "keeps (\<lambda>s. directory_of s = d) (ov_createProfile env oi)" "keeps (\<lambda>s. directory_of s = d) (ov_updateProfile env pid op')"
  "keeps (\<lambda>s. directory_of s = d) (ov_deleteProfile env pid)" "keeps (\<lambda>s. directory_of s = d) (wg_createProfile env n cfg)"
  "keeps (\<lambda>s. directory_of s = d) (wg_updateProfile env pid n' cfg' e)" "keeps (\<lambda>s. directory_of s = d) (wg_deleteProfile env pid)"
  unfolding ov_createProfile_def ov_updateProfile_def ov_deleteProfile_def wg_createProfile_def wg_updateProfile_def
    wg_deleteProfile_def ov_getProfileById_def wg_getProfileById_def Let_def
  by (intro same_frames keeps_run_sql keeps_modify; simp)+

lemma same_settings: "keeps (\<lambda>s. directory_of s = d) (updateSettings env days)"
  unfolding updateSettings_def update_settings_row_def Let_def
  by (intro same_frames keeps_modify keeps_pruneOldLogs [OF same_log_free] keeps_getSettings) simp

lemma same_admin:
  "keeps (\<lambda>s. directory_of s = d) (update_user_password u h v now)"
  "keeps (\<lambda>s :: ('w, 'z) app_scheme. directory_of s = d) (create_admin env u p)"
proof -
  show "keeps (\<lambda>s. directory_of s = d) (update_user_password u h v now)"
    unfolding update_user_password_def by (rule keeps_run_sql) simp
  have b: "keeps (\<lambda>s :: ('w, 'z) app_scheme. directory_of s = d) (batch
      [on_table t_users (\<lambda>t s. s\<lparr>t_users := t\<rparr>) (sql_insert u_uniq (\<lambda>_. True) r),
       (\<lambda>s. Some (s\<lparr>t_settings := f (t_settings s)\<rparr>))])" for r f
    by (rule keeps_batch) (auto simp: on_table_def sql_insert_Some)
  have session: "session_free (\<lambda>s :: ('w, 'z) app_scheme. directory_of s = d)"
    by (simp add: session_free_def ext_free_def directory_of_def)
  have cookie: "keeps (\<lambda>s :: ('w, 'z) app_scheme. directory_of s = d) (setSessionCookie env tk)" for tk
    unfolding setSessionCookie_def by (rule keeps_modify) (simp add: directory_of_def)
  have again: "keeps (\<lambda>s :: ('w, 'z) app_scheme. directory_of s = d) (\<lambda>s. (Inl e, s))" for e :: failure
    by (simp add: keeps_def)
  show "keeps (\<lambda>s :: ('w, 'z) app_scheme. directory_of s = d) (create_admin env u p)"
    unfolding create_admin_def hashPassword_def Let_def
    by (intro same_frames b again cookie keeps_createSessionToken [OF session])
qed

lemma walked_vpn_free: "vpn_free (walked D)"
  using walked_log_free by (simp add: vpn_free_def walked_def db_inv_def directory_of_def)

interpretation served_directory: served_state "walked D :: ('w, 'z) vpn_scheme \<Rightarrow> bool"
proof
  show "session_free (walked D :: ('w, 'z) vpn_scheme \<Rightarrow> bool)"
    by (simp add: session_free_def ext_free_def walked_def db_inv_def directory_of_def)
qed (simp_all add: walked_vpn_free keeps_walked keeps_admin_update keeps_admin_insert same_admin keeps_updateSettings same_settings
    keeps_update_db same_updateVpnState keeps_profiles same_profiles stored_integrity.all_operations same_directory.all_operations
    outcome_walked [OF createProvider_refines] updateProvider_walks outcome_walked [OF deleteProvider_refines]
    outcome_walked [OF setDefaultProvider_refines] outcome_walked [OF createUser_refines]
    outcome_walked [OF updateUser_refines] outcome_walked [OF deleteUser_refines],
   simp_all add: walked_def db_inv_def directory_of_def)

subsection \<open>Properties\<close>



text \<open>So no request leaves two sites with one route, two defaults, a login of no site or one without a name.\<close>

lemma requests_keep_directory_ok:
  "keeps (\<lambda>s :: ('w, 'z) vpn_scheme. db_inv s \<and> dir_ok (directory_of s)) (serve env ep req)"
proof (rule keepsI)
  fix s :: "('w, 'z) vpn_scheme"
  assume s: "db_inv s \<and> dir_ok (directory_of s)"
  then have "walked (directory_of s) s" by (simp add: walked_def)
  from keepsD [OF served_directory.request this, of env ep req] dir_steps_ok [of "directory_of s"] s
  show "db_inv (snd (serve env ep req s)) \<and> dir_ok (directory_of (snd (serve env ep req s)))"
    by (auto simp: walked_def)
qed

subsection \<open>An observation\<close>

text \<open>
  \<open>updateProvider\<close> writes the provider before it turns to the client user: where that is refused, the caller is told of
  an error, but the provider has changed.
\<close>

definition demo_rename :: update_provider_input where
  "demo_rename = \<lparr>ui_name = None, ui_host = None, ui_route = Some ''two'', ui_upstream_username = None,
     ui_upstream_password = None, ui_local_username = Some ''bob'', ui_local_password = None, ui_is_default = None,
     ui_cache_duration_hours = None, ui_enabled = None\<rparr>"

lemma refused_update_changes_route:
  "\<exists>t. updateProvider demo_env ''p1'' demo_rename demo_db =
     (Inl (Err ''A password is required for the first provider user.''), t) \<and> map p_route (t_providers t) = [''two'']"
  by (simp add: updateProvider_def demo_rename_def unmasked_def chosen_def upsertPrimaryUser_def provider_eval getUsers_def ensureProvider_def)
end
