(* ===== verification/Log_Page.thy ===== *)
theory Log_Page imports System_Routes Log_Routes begin

section \<open>The browser's side: calls of the API and the log page\<close>

text \<open>
  \<open>lib/client/api.ts\<close> and \<open>app/logs/page.tsx\<close>. The state of a page is a record with one field per React state
  variable; a handler is split where it waits: the request it sends, and what it does with the response. What a page
  shows is in the theories of the views. A log item of the page is the entry of the table: the API sends its columns and the live stream sends them
  again.
\<close>

subsection \<open>Calls of the API\<close>

text \<open>\<open>UI_BASE\<close> is fixed when the pages are built; a trailing slash of it is dropped.\<close>

definition UI_BASE :: "string option \<Rightarrow> string" where
  "UI_BASE configured =
     (let b = (case truthy configured of Some b \<Rightarrow> b | None \<Rightarrow> ''/ui'') in
      if endsWith b ''/'' then butlast b else b)"

definition apiPath :: "string option \<Rightarrow> string \<Rightarrow> string" where
  "apiPath configured path = UI_BASE configured @ (if startsWith path ''/'' then path else ''/'' @ path)"

definition readJson :: "('z) response_scheme \<Rightarrow> json" where
  "readJson r =
     (if r_text r = [] then JObj []
      else case r_json r of Some j \<Rightarrow> j
      | None \<Rightarrow> JObj [(''success'', JBool False),
          (''error'', JStr (''HTTP '' @ show_nat (r_status r) @ (if r_statusText r \<noteq> [] then '' '' @ r_statusText r else [])))])"

text \<open>The check every page makes of a payload: the error it throws, or the payload.\<close>

definition null_error :: "string \<Rightarrow> string" where
  "null_error k = ''Cannot read properties of null (reading '' @ [CHR 0x27] @ k @ [CHR 0x27] @ '')''"

definition payload_field :: "string \<Rightarrow> json \<Rightarrow> json" where
  "payload_field k payload = field_or_null payload k"

definition checked :: "('z) response_scheme \<Rightarrow> string \<Rightarrow> string + json" where
  "checked r fallback =
     (let payload = readJson r in
      if payload = JNull then Inl (null_error (if r_ok r then ''success'' else ''error''))
      else if \<not> r_ok r \<or> \<not> js_truthy (payload_field ''success'' payload)
      then Inl (let e = payload_field ''error'' payload in if js_truthy e then element_text e else fallback)
      else Inr payload)"

text \<open>A reply of the API as the browser receives it.\<close>

definition received :: "reply \<Rightarrow> response" where
  "received rp = \<lparr>r_ok = (200 \<le> rp_status rp \<and> rp_status rp < 300), r_status = rp_status rp, r_statusText = [],
     r_text = stringify (rp_body rp), r_json = Some (rp_body rp)\<rparr>"

subsection \<open>The state of the log page\<close>

record log_page =
  lp_logs :: "log_entry list"
  lp_total :: nat
  lp_loading :: bool
  lp_error :: "string option"
  lp_level :: string
  lp_source :: string
  lp_group :: string
  lp_search :: string
  lp_asc :: bool
  lp_autoScroll :: bool
  lp_streaming :: bool
  lp_confirmClear :: bool
  lp_clearing :: bool
  lp_selected :: "log_entry option"

definition new_log_page :: log_page where
  "new_log_page = \<lparr>lp_logs = [], lp_total = 0, lp_loading = True, lp_error = None, lp_level = ''ALL'', lp_source = ''ALL'',
     lp_group = ''ALL'', lp_search = [], lp_asc = False, lp_autoScroll = True, lp_streaming = True,
     lp_confirmClear = False, lp_clearing = False, lp_selected = None\<rparr>"

text \<open>The parameters of a query, and the request they make.\<close>

definition page_params :: "log_page \<Rightarrow> (string \<times> string) list" where
  "page_params p =
     [(''order'', if lp_asc p then ''ASC'' else ''DESC''), (''limit'', ''500'')] @
     (if lp_level p \<noteq> ''ALL'' then [(''level'', lp_level p)] else []) @
     (if lp_source p \<noteq> ''ALL'' then [(''source'', lp_source p)] else []) @
     (if lp_group p \<noteq> ''ALL'' then [(''group'', lp_group p)] else []) @
     (if trim (lp_search p) \<noteq> [] then [(''search'', trim (lp_search p))] else [])"

definition with_params :: "(string \<times> string) list \<Rightarrow> request \<Rightarrow> request" where
  "with_params ps req = req\<lparr>rq_param := map_of ps\<rparr>"

definition fetch_started :: "log_page \<Rightarrow> log_page" where
  "fetch_started p = p\<lparr>lp_loading := True, lp_error := None\<rparr>"

definition fetch_done :: "log_entry list \<times> nat \<Rightarrow> log_page \<Rightarrow> log_page" where
  "fetch_done answer p = p\<lparr>lp_logs := fst answer, lp_total := snd answer, lp_loading := False\<rparr>"

definition fetch_failed :: "string \<Rightarrow> log_page \<Rightarrow> log_page" where
  "fetch_failed msg p = p\<lparr>lp_error := Some msg, lp_loading := False\<rparr>"

subsection \<open>Live entries\<close>

definition searchable :: "log_entry \<Rightarrow> string" where
  "searchable e = toLowerCase (l_message e @ '' '' @ source_name (l_source e) @ '' '' @ l_category e @ '' '' @
     (case l_metadata_json e of None \<Rightarrow> [] | Some m \<Rightarrow> m))"

definition live_shown :: "log_page \<Rightarrow> log_entry \<Rightarrow> bool" where
  "live_shown p e \<longleftrightarrow>
     (lp_level p = ''ALL'' \<or> level_name (l_level e) = lp_level p) \<and>
     (lp_source p = ''ALL'' \<or> source_name (l_source e) = lp_source p) \<and>
     matchesGroup e (lp_group p) \<and>
     (lp_search p = [] \<or> includesStr (searchable e) (toLowerCase (lp_search p)))"

definition on_log :: "log_entry \<Rightarrow> log_page \<Rightarrow> log_page" where
  "on_log e p =
     (if \<not> live_shown p e then p
      else p\<lparr>lp_logs := (if lp_asc p then drop (length (lp_logs p) - 499) (lp_logs p) @ [e] else e # take 499 (lp_logs p)),
             lp_total := Suc (lp_total p)\<rparr>)"

subsection \<open>The other handlers\<close>

definition clear_started :: "log_page \<Rightarrow> log_page" where
  "clear_started p = p\<lparr>lp_clearing := True, lp_error := None\<rparr>"

definition clear_answered :: "response \<Rightarrow> log_page \<Rightarrow> log_page" where
  "clear_answered r p = (case checked r ''Unable to clear logs.'' of
     Inr payload \<Rightarrow> p\<lparr>lp_logs := [], lp_total := 0, lp_confirmClear := False, lp_clearing := False\<rparr>
   | Inl msg \<Rightarrow> p\<lparr>lp_error := Some msg, lp_clearing := False\<rparr>)"

definition clearFilters :: "log_page \<Rightarrow> log_page" where
  "clearFilters p = p\<lparr>lp_level := ''ALL'', lp_source := ''ALL'', lp_group := ''ALL'', lp_search := []\<rparr>"

definition showTrace :: "string \<Rightarrow> log_page \<Rightarrow> log_page" where
  "showTrace traceId p = p\<lparr>lp_search := traceId, lp_source := ''proxy'', lp_group := ''traffic'', lp_asc := True,
     lp_selected := None\<rparr>"

definition hasFilters :: "log_page \<Rightarrow> bool" where
  "hasFilters p \<longleftrightarrow> lp_level p \<noteq> ''ALL'' \<or> lp_source p \<noteq> ''ALL'' \<or> lp_group p \<noteq> ''ALL'' \<or> lp_search p \<noteq> []"

subsection \<open>What the page tells of an entry\<close>

datatype badge = Secondary | Warn | Destructive | Outline

fun levelVariant :: "log_level \<Rightarrow> badge" where
  "levelVariant Error = Destructive"
| "levelVariant Warning = Warn"
| "levelVariant Debug = Outline"
| "levelVariant Info = Secondary"

text \<open>\<open>JSON.parse\<close> is the argument \<open>parse\<close>.\<close>

definition parseMetadata :: "(string \<Rightarrow> json option) \<Rightarrow> string option \<Rightarrow> json option" where
  "parseMetadata parse v = (case truthy v of
     None \<Rightarrow> None
   | Some text \<Rightarrow> (case parse text of Some (JObj kvs) \<Rightarrow> Some (JObj kvs) | _ \<Rightarrow> None))"

record traffic =
  tr_direction :: "string option"
  tr_url :: "string option"
  tr_method :: "string option"
  tr_status :: "string option"
  tr_traceId :: "string option"
  tr_elapsedMs :: "string option"
  tr_bytes :: "string option"
  tr_step :: "string option"

definition text_of :: "json \<Rightarrow> string \<Rightarrow> string option" where
  "text_of m k = (case field_or_null m k of JStr s \<Rightarrow> Some s | _ \<Rightarrow> None)"

definition text_or_number :: "json \<Rightarrow> string \<Rightarrow> string option" where
  "text_or_number m k = (case field_or_null m k of JStr s \<Rightarrow> Some s | JNum i \<Rightarrow> Some (show_int i) | JDec i \<Rightarrow> Some (show_hundredths i) | _ \<Rightarrow> None)"

definition first_some :: "'a option list \<Rightarrow> 'a option" where
  "first_some xs = (case filter (\<lambda>x. x \<noteq> None) xs of [] \<Rightarrow> None | x # _ \<Rightarrow> x)"

definition trace_steps :: "(string \<times> string) list" where
  "trace_steps = [(''request.received'', ''CLIENT -> PROXY''), (''request.completed'', ''PROXY -> CLIENT''),
     (''upstream.request'', ''PROXY -> PROVIDER''), (''upstream.response'', ''PROVIDER -> PROXY''),
     (''upstream.error'', ''PROVIDER ERROR''), (''cache.route'', ''CACHE ROUTE''), (''cache.result'', ''CACHE RESPONSE''),
     (''live.route'', ''LIVE ROUTE''), (''hls.token'', ''HLS CHILD''), (''direct.route'', ''DIRECT ROUTE'')]"

definition trace_step :: "string \<Rightarrow> string option" where
  "trace_step category = (case map_of trace_steps category of
     Some s \<Rightarrow> Some s
   | None \<Rightarrow> if startsWith category ''route.'' \<or> category = ''request.rewrite'' then Some ''ROUTING'' else None)"

definition proxyTraffic :: "log_entry \<Rightarrow> json option \<Rightarrow> traffic option" where
  "proxyTraffic e metadata = (case metadata of
     None \<Rightarrow> None
   | Some m \<Rightarrow>
       if l_source e \<noteq> SrcProxy then None
       else
         (let t = \<lparr>tr_direction = text_of m ''direction'',
             tr_url = first_some [text_of m ''url'', text_of m ''outgoingUrl'', text_of m ''incomingUrl''],
             tr_method = text_of m ''method'', tr_status = text_or_number m ''status'', tr_traceId = text_of m ''traceId'',
             tr_elapsedMs = text_or_number m ''elapsedMs'',
             tr_bytes = first_some [text_or_number m ''bytesOut'', text_or_number m ''bytes''],
             tr_step = trace_step (l_category e)\<rparr> in
          if truthy (tr_direction t) = None \<and> truthy (tr_url t) = None \<and> truthy (tr_method t) = None \<and>
             truthy (tr_status t) = None \<and> truthy (tr_traceId t) = None \<and> truthy (tr_step t) = None
          then None else Some t))"


subsection \<open>The live filter and the query\<close>

lemma includesStr_iff: "includesStr s t \<longleftrightarrow> (\<exists>u v. s = u @ t @ v)"
proof (induction s)
  case (Cons c cs)
  have "(\<exists>u v. c # cs = u @ t @ v) \<longleftrightarrow> (\<exists>v. c # cs = t @ v) \<or> (\<exists>u v. cs = u @ t @ v)"
    by (metis append_Cons append_Nil append_eq_Cons_conv)
  with Cons show ?case by (simp add: startsWith_iff)
qed simp

lemma includesStr_words:
  assumes "t \<noteq> []" and "CHR '' '' \<notin> set t"
  shows "includesStr (a @ CHR '' '' # b) t \<longleftrightarrow> includesStr a t \<or> includesStr b t"
proof
  assume "includesStr (a @ CHR '' '' # b) t"
  then obtain u v where e: "a @ CHR '' '' # b = u @ t @ v" by (auto simp: includesStr_iff)
  show "includesStr a t \<or> includesStr b t"
  proof (cases "length u \<le> length a")
    case True
    then have split: "u = take (length u) a \<and> t @ v = drop (length u) a @ CHR '' '' # b"
      using e [symmetric] append_eq_append_conv_if [of u "t @ v" a "CHR '' '' # b"] by simp
    then have "u @ drop (length u) a = a" and w: "t @ v = drop (length u) a @ CHR '' '' # b"
      by (metis append_take_drop_id) (use split in blast)
    show ?thesis
    proof (cases "length t \<le> length (drop (length u) a)")
      case True
      then have "t @ drop (length t) (drop (length u) a) = drop (length u) a"
        using w unfolding append_eq_append_conv_if by (metis append_take_drop_id)
      with \<open>u @ drop (length u) a = a\<close> show ?thesis unfolding includesStr_iff by metis
    next
      case False
      then have "drop (length (drop (length u) a)) t @ v = CHR '' '' # b" and "drop (length (drop (length u) a)) t \<noteq> []"
        using w [symmetric] by (auto simp: append_eq_append_conv_if)
      then have "CHR '' '' \<in> set t"
        by (metis append_eq_Cons_conv in_set_dropD list.set_intros(1))
      with assms(2) show ?thesis by simp
    qed
  next
    case False
    then have "drop (length a) u \<noteq> []" and "CHR '' '' # b = drop (length a) u @ t @ v"
      using e by (auto simp: append_eq_append_conv_if)
    then obtain w where "b = w @ t @ v" by (auto simp: append_eq_Cons_conv Cons_eq_append_conv)
    then show ?thesis by (auto simp: includesStr_iff)
  qed
next
  assume "includesStr a t \<or> includesStr b t"
  then show "includesStr (a @ CHR '' '' # b) t"
    unfolding includesStr_iff by (metis append.assoc append_Cons)
qed

definition plain_char :: "char \<Rightarrow> bool" where
  "plain_char c \<longleftrightarrow> in_range 33 127 c \<and> c \<noteq> CHR ''%'' \<and> c \<noteq> CHR ''_''"

lemma of_lower:
  "of_char (ascii_lower c) = (let n = of_char c in if 65 \<le> n \<and> n \<le> 90 then n + 32 else n :: nat)"
  "of_char (lower_char c) = (let n = of_char c in
     if 65 \<le> n \<and> n \<le> 90 \<or> 192 \<le> n \<and> n \<le> 222 \<and> n \<noteq> 215 then n + 32 else n :: nat)"
  by (auto simp: ascii_lower_def lower_char_def in_range_def Let_def)

lemma plain_lower:
  assumes "plain_char p"
  shows "ascii_lower p = ascii_lower c \<longleftrightarrow> lower_char p = lower_char c"
proof -
  have "of_char p < (128 :: nat)" using assms by (simp add: plain_char_def in_range_def)
  then have "(of_char (ascii_lower p) = (of_char (ascii_lower c) :: nat)) = (of_char (lower_char p) = (of_char (lower_char c) :: nat))"
    unfolding of_lower Let_def by auto
  then show ?thesis by simp
qed

lemma like_prefix: "list_all plain_char t \<Longrightarrow> sql_like (t @ ''%'') s \<longleftrightarrow> startsWith (toLowerCase s) (toLowerCase t)"
proof (induction t arbitrary: s)
  case Nil
  then show ?case using sql_like_percent [of s] by (simp add: toLowerCase_def del: sql_like.simps)
next
  case (Cons p t)
  then show ?case
    by (cases s) (auto simp: plain_char_def toLowerCase_def plain_lower[unfolded plain_char_def])
qed

lemma like_infix: "list_all plain_char t \<Longrightarrow> sql_like (CHR ''%'' # t @ ''%'') s \<longleftrightarrow> includesStr (toLowerCase s) (toLowerCase t)"
proof (induction s)
  case Nil
  then show ?case using like_prefix [of t "[]"] by (cases t) (simp_all add: toLowerCase_def plain_char_def)
next
  case (Cons c s)
  then show ?case using like_prefix [of t "c # s"] by (simp add: toLowerCase_def)
qed


text \<open>What the selects of the page offer, and a search text without wild cards, blanks and letters beyond ASCII.\<close>

definition page_sources :: "string list" where
  "page_sources = [''ALL'', ''auth'', ''provider'', ''vpn'', ''wireguard'', ''openvpn'', ''vpngate'', ''warp'', ''system'', ''proxy'']"

definition page_levels :: "string list" where
  "page_levels = [''ALL'', ''info'', ''warning'', ''error'', ''debug'']"

definition page_groups :: "string list" where
  "page_groups = [''ALL'', ''traffic'', ''cache'', ''streams'', ''vpn'', ''providers'', ''auth'', ''system'']"

definition selects_ok :: "log_page \<Rightarrow> bool" where
  "selects_ok p \<longleftrightarrow> lp_level p \<in> set page_levels \<and> lp_source p \<in> set page_sources \<and> lp_group p \<in> set page_groups"

definition plain_search :: "log_page \<Rightarrow> bool" where
  "plain_search p \<longleftrightarrow> list_all plain_char (lp_search p) \<and> length (lp_search p) \<le> 200"

definition page_query :: "log_page \<Rightarrow> request \<Rightarrow> log_query" where
  "page_query p req = log_query_of (with_params (page_params p) req)"

lemma plain_not_ws: "plain_char c \<Longrightarrow> \<not> is_ws c \<and> c \<noteq> CHR '' ''"
  by (auto simp: plain_char_def in_range_def is_ws_def)

lemma plain_trim: "list_all plain_char t \<Longrightarrow> trim t = t"
  by (rule trim_no_ws) (auto simp: list_all_iff plain_not_ws)

lemma page_param:
  "map_of (page_params p) ''order'' = Some (if lp_asc p then ''ASC'' else ''DESC'')"
  "map_of (page_params p) ''limit'' = Some ''500''" "map_of (page_params p) ''offset'' = None"
  "map_of (page_params p) ''category'' = None"
  "map_of (page_params p) ''level'' = (if lp_level p \<noteq> ''ALL'' then Some (lp_level p) else None)"
  "map_of (page_params p) ''source'' = (if lp_source p \<noteq> ''ALL'' then Some (lp_source p) else None)"
  "map_of (page_params p) ''group'' = (if lp_group p \<noteq> ''ALL'' then Some (lp_group p) else None)"
  "map_of (page_params p) ''search'' = (if trim (lp_search p) \<noteq> [] then Some (trim (lp_search p)) else None)"
  by (simp_all add: page_params_def)

lemma page_query_fields:
  assumes "selects_ok p"
  shows "active_filter (q_level (page_query p req)) = (if lp_level p = ''ALL'' then None else Some (lp_level p))"
    and "active_filter (q_source (page_query p req)) = (if lp_source p = ''ALL'' then None else Some (lp_source p))"
    and "active_filter (q_category (page_query p req)) = None"
    and "active_filter (q_group (page_query p req)) = (if lp_group p = ''ALL'' then None else Some (lp_group p))"
    and "q_search (page_query p req) = truthy (Some (take 200 (trim (lp_search p))))"
    and "query_limit (page_query p req) = 500" and "query_offset (page_query p req) = 0"
    and "q_asc (page_query p req) = lp_asc p"
proof -
  note eval = page_query_def log_query_of_def with_params_def page_param Let_def listed_def cut_def truthy_def active_filter_def
    ALLOWED_LEVELS_def ALLOWED_GROUPS_def ALLOWED_ORDERS_def
  show "active_filter (q_level (page_query p req)) = (if lp_level p = ''ALL'' then None else Some (lp_level p))"
    using assms by (auto simp: eval selects_ok_def page_levels_def)
  show "active_filter (q_source (page_query p req)) = (if lp_source p = ''ALL'' then None else Some (lp_source p))"
    using assms by (auto simp: eval selects_ok_def page_sources_def)
  show "active_filter (q_category (page_query p req)) = None" by (simp add: eval)
  show "active_filter (q_group (page_query p req)) = (if lp_group p = ''ALL'' then None else Some (lp_group p))"
    using assms by (auto simp: eval selects_ok_def page_groups_def)
  show "q_search (page_query p req) = truthy (Some (take 200 (trim (lp_search p))))" by (auto simp: eval)
  show "query_limit (page_query p req) = 500" "query_offset (page_query p req) = 0"
    by (simp_all add: query_limit_def query_offset_def eval int_param_def parseInt_def trimStart_def char_eval digits_val_def
        digit_val_def)
  show "q_asc (page_query p req) = lp_asc p"
    by (simp add: eval toUpperCase_def char_eval)
qed

lemma searchable_words:
  assumes "t \<noteq> []" and "CHR '' '' \<notin> set t"
  shows "includesStr (searchable e) t \<longleftrightarrow> includesStr (toLowerCase (l_message e)) t \<or>
    includesStr (toLowerCase (source_name (l_source e))) t \<or> includesStr (toLowerCase (l_category e)) t \<or>
    (case l_metadata_json e of None \<Rightarrow> False | Some m \<Rightarrow> includesStr (toLowerCase m) t)"
proof -
  have blank: "lower_char (CHR '' '') = CHR '' ''" by (simp add: char_eval)
  show ?thesis
    using assms by (auto simp: searchable_def toLowerCase_def blank includesStr_words split: option.splits)
qed

lemma filters_agree:
  assumes "selects_ok p" and "plain_search p" and "map ascii_lower (l_category e) = l_category e"
  shows "query_where (page_query p req) e \<longleftrightarrow> live_shown p e"
proof -
  let ?t = "lp_search p"
  have t: "list_all plain_char ?t" "trim ?t = ?t" "take 200 ?t = ?t"
    using assms(2) by (simp_all add: plain_search_def plain_trim)
  have grp: "(case if lp_group p = ''ALL'' then None else Some (lp_group p) of None \<Rightarrow> True | Some v \<Rightarrow> addGroupCondition v e) \<longleftrightarrow>
      matchesGroup e (lp_group p)"
    using assms(1) group_filters_agree [OF assms(3), of "lp_group p"]
    by (auto simp: selects_ok_def page_groups_def KNOWN_GROUPS_def matchesGroup_def)
  have search: "(case truthy (Some ?t) of None \<Rightarrow> True
      | Some raw \<Rightarrow> (let search = trim raw in
          if search = [] then True
          else (let term = ''%'' @ take 200 search @ ''%''
                in sql_like term (l_message e) \<or> sql_like term (l_category e) \<or>
                   sql_like term (source_name (l_source e)) \<or>
                   (case l_metadata_json e of None \<Rightarrow> False | Some m \<Rightarrow> sql_like term m)))) \<longleftrightarrow>
      ?t = [] \<or> includesStr (searchable e) (toLowerCase ?t)"
  proof (cases "?t = []")
    case False
    have "lower_char c \<noteq> CHR '' ''" if "plain_char c" for c
      using that of_lower(2) [of c] by (auto simp: plain_char_def in_range_def Let_def split: if_splits)
    then have "CHR '' '' \<notin> set (toLowerCase ?t)"
      using t(1) unfolding toLowerCase_def list_all_iff by (metis imageE set_map)
    with False show ?thesis
      by (auto simp: truthy_def t like_infix [OF t(1)] searchable_words simp del: sql_like.simps split: option.splits)
  qed (simp add: truthy_def)
  show ?thesis
    unfolding query_where_def live_shown_def page_query_fields [OF assms(1)] grp t(2,3) search by auto
qed


subsection \<open>The live list is the list a reload would show\<close>

definition in_sync :: "log_page \<Rightarrow> request \<Rightarrow> ('w, 'z) db_scheme \<Rightarrow> bool" where
  "in_sync p req s \<longleftrightarrow> queryLogs (page_query p req) s = (Inr (lp_logs p, lp_total p), s)"

lemma newest_first: "\<forall>y \<in> set xs. f x < f y \<Longrightarrow> sort_key f (xs @ [x]) = x # sort_key f xs"
proof (induction xs)
  case (Cons a xs)
  then show ?case by (auto dest: leD)
qed simp


definition live_example :: log_entry where
  "live_example = \<lparr>l_id = ''a'', l_timestamp = 5, l_level = Info, l_source = SrcAuth, l_category = ''setup'', l_message = ''hello'',
     l_metadata_json = None, l_created_at = 5\<rparr>"



text \<open>Oldest first, a reload shows the first 500 matches while the live list drops its oldest entry for the new one: with 500
  matches or more the two differ.\<close>

lemma oldest_last: "\<forall>y \<in> set xs. f y \<le> f x \<Longrightarrow> sort_key f (xs @ [x]) = sort_key f xs @ [x]"
proof (induction xs)
  case (Cons a xs)
  have "insort_key f a (ys @ [x]) = insort_key f a ys @ [x]" if "f a \<le> f x" for ys
    using that by (induction ys) auto
  with Cons show ?case by simp
qed simp

lemma oldest_first_diverges:
  assumes "selects_ok p" and "lp_asc p" and "in_sync p req s" and "500 \<le> lp_total p" and "live_shown p e"
    and "list_all (\<lambda>r. l_timestamp (snd r) < l_timestamp e) (t_logs s)"
  shows "\<not> in_sync (on_log e p) req (s\<lparr>t_logs := t_logs s @ [(n, e)]\<rparr>)"
proof
  let ?q = "page_query p req"
  let ?m = "filter (\<lambda>r. query_where ?q (snd r)) (t_logs s)"
  let ?key = "\<lambda>r :: nat \<times> log_entry. int (l_timestamp (snd r))"
  assume sync: "in_sync (on_log e p) req (s\<lparr>t_logs := t_logs s @ [(n, e)]\<rparr>)"
  have same: "page_query (on_log e p) req = ?q"
    by (simp add: page_query_def page_params_def on_log_def)
  have page: "lp_logs p = map rowToLog (take 500 (sort_key ?key ?m))" "lp_total p = length ?m"
    using assms(2,3) by (simp_all add: in_sync_def queryLogs_def gets_def page_query_fields [OF assms(1)] order_logs_def Let_def)
  have "\<forall>y \<in> set ?m. ?key y \<le> ?key (n, e)" using assms(6) by (auto simp: list_all_iff)
  then have sorted: "sort_key ?key (?m @ [(n, e)]) = sort_key ?key ?m @ [(n, e)]" by (rule oldest_last)
  have "lp_logs (on_log e p) = lp_logs p"
    using sync assms(2,4) page
    by (cases "query_where ?q e")
      (auto simp: in_sync_def same queryLogs_def gets_def page_query_fields [OF assms(1)] order_logs_def Let_def
        sorted [simplified])
  then have "e \<in> set (lp_logs p)" using assms(2,5) unfolding on_log_def by simp (metis in_set_conv_decomp)
  moreover have "set (take 500 (sort_key ?key ?m)) \<subseteq> set (t_logs s)"
    using set_take_subset [of 500 "sort_key ?key ?m"] by auto
  ultimately obtain r where "r \<in> set (t_logs s)" and "rowToLog r = e"
    unfolding page(1) set_map by blast
  then have "l_timestamp (snd r) = l_timestamp e" by (auto simp: rowToLog_def Let_def)
  with \<open>r \<in> set (t_logs s)\<close> assms(6) show False by (auto simp: list_all_iff)
qed

text \<open>The trace of a request: whatever the other filters were, the page then asks for every traffic entry of the proxy that
  names the trace, of every level if the level filter was off. The level filter itself is left as it was.\<close>

lemma trace_found:
  assumes "lp_level p = ''ALL''" and "list_all plain_char tid" and "length tid \<le> 200" and "l_source e = SrcProxy"
    and "addGroupCondition ''traffic'' e" and "l_metadata_json e = Some m" and "includesStr m tid"
  shows "query_where (page_query (showTrace tid p) req) e"
proof -
  have ok: "selects_ok (showTrace tid p)"
    using assms(1) by (simp add: selects_ok_def showTrace_def page_levels_def page_sources_def page_groups_def)
  have "includesStr (toLowerCase m) (toLowerCase tid)"
    using assms(7) by (auto simp: includesStr_iff toLowerCase_def) (metis map_append)
  then show ?thesis
    using assms unfolding query_where_def page_query_fields [OF ok]
    by (auto simp: showTrace_def truthy_def plain_trim like_infix simp del: sql_like.simps)
qed

lemma trace_keeps_level: "lp_level (showTrace tid p) = lp_level p"
  by (simp add: showTrace_def)

end
