(* ===== verification/Vpn_Page.thy ===== *)
theory Vpn_Page imports Vpn_Routes Vpn_Results Log_Page begin

section \<open>The VPN page\<close>

text \<open>
  \<open>app/vpn/page.tsx\<close>: what the page offers for the status it last read, its actions, the editor of the profiles and the
  paged list of the VPN Gate servers. The status is polled every four seconds and read again after every action.
\<close>

datatype profile_kind = KindWireguard | KindOpenvpn

record profile_editor =
  ed_kind :: profile_kind
  ed_id :: "string option"
  ed_name :: string
  ed_config :: string
  ed_username :: string
  ed_password :: string
  ed_enabled :: bool

record delete_target =
  dt_kind :: profile_kind
  dt_id :: string
  dt_name :: string

record speed_result =
  sr_downloadMbps :: int
  sr_uploadMbps :: int
  sr_testedAt :: timestamp

datatype vpn_tab = TabOverview | TabWireguard | TabOpenvpn | TabVpngate | TabWarp

record vpn_page =
  vp_tab :: vpn_tab
  vp_summary :: "vpn_summary option"
  vp_wireguard :: "wireguard_profile_summary list"
  vp_openvpn :: "openvpn_profile_summary list"
  vp_warp :: "warp_status option"
  vp_speed :: "speed_result option"
  vp_speedBusy :: bool
  vp_busy :: "string option"
  vp_error :: "string option"
  vp_servers :: "public_vpngate_server list"
  vp_search :: string
  vp_gatePage :: nat
  vp_gateRefreshing :: bool
  vp_editor :: "profile_editor option"
  vp_editorSaving :: bool
  vp_editorError :: "string option"
  vp_deleteTarget :: "delete_target option"

subsection \<open>What is offered\<close>

definition active :: "vpn_page \<Rightarrow> bool" where
  "active p \<longleftrightarrow> (case vp_summary p of None \<Rightarrow> False | Some v \<Rightarrow> vs_status v = StatusConnected)"

definition operationBusy :: "vpn_page \<Rightarrow> bool" where
  "operationBusy p \<longleftrightarrow> truthy (vp_busy p) \<noteq> None \<or>
     (case vp_summary p of None \<Rightarrow> False | Some v \<Rightarrow> vs_isBusy v \<or> vs_status v = StatusConnecting)"

definition canConnect :: "vpn_page \<Rightarrow> bool" where
  "canConnect p \<longleftrightarrow> \<not> operationBusy p \<and> \<not> active p"

definition canDisconnect :: "vpn_page \<Rightarrow> bool" where
  "canDisconnect p \<longleftrightarrow> \<not> operationBusy p \<and> active p"

definition currentLabel :: "vpn_page \<Rightarrow> string" where
  "currentLabel p = (case vp_summary p of
     None \<Rightarrow> ''None''
   | Some v \<Rightarrow> (case truthy (vs_profileName v) of Some n \<Rightarrow> n
       | None \<Rightarrow> if vs_type v \<noteq> TypeOff then tunnel_name (vs_type v) else ''None''))"

subsection \<open>Reading the status and acting\<close>

text \<open>A response to the status request; anything but a success with data leaves the page as it is.\<close>

definition status_read :: "(response \<times> vpn_summary option) \<Rightarrow> vpn_page \<Rightarrow> vpn_page" where
  "status_read answer p = (case answer of (r, found) \<Rightarrow>
     (case (r_ok r \<and> js_truthy (payload_field ''success'' (readJson r)), found) of
        (True, Some v) \<Rightarrow> p\<lparr>vp_summary := Some v\<rparr> | _ \<Rightarrow> p))"

text \<open>The lists of the tabs and the state of WARP are read in the same way.\<close>

definition answer_read :: "response \<Rightarrow> 'a option \<Rightarrow> ('a \<Rightarrow> vpn_page \<Rightarrow> vpn_page) \<Rightarrow> vpn_page \<Rightarrow> vpn_page" where
  "answer_read r found put p =
     (case (r_ok r \<and> js_truthy (payload_field ''success'' (readJson r)), found) of (True, Some v) \<Rightarrow> put v p | _ \<Rightarrow> p)"

definition wireguard_read :: "response \<Rightarrow> wireguard_profile_summary list option \<Rightarrow> vpn_page \<Rightarrow> vpn_page" where
  "wireguard_read r found = answer_read r found (\<lambda>v p. p\<lparr>vp_wireguard := v\<rparr>)"

definition openvpn_read :: "response \<Rightarrow> openvpn_profile_summary list option \<Rightarrow> vpn_page \<Rightarrow> vpn_page" where
  "openvpn_read r found = answer_read r found (\<lambda>v p. p\<lparr>vp_openvpn := v\<rparr>)"

definition warp_read :: "response \<Rightarrow> warp_status option \<Rightarrow> vpn_page \<Rightarrow> vpn_page" where
  "warp_read r found = answer_read r found (\<lambda>v p. p\<lparr>vp_warp := Some v\<rparr>)"

text \<open>Opening a tab reads what it shows.\<close>

definition tab_request :: "vpn_tab \<Rightarrow> string option" where
  "tab_request t = (case t of TabOverview \<Rightarrow> None | TabWireguard \<Rightarrow> Some ''/api/vpn/wireguard''
     | TabOpenvpn \<Rightarrow> Some ''/api/vpn/openvpn'' | TabVpngate \<Rightarrow> Some ''/api/vpn/vpngate?refresh=false''
     | TabWarp \<Rightarrow> Some ''/api/vpn/warp'')"

text \<open>The speed test.\<close>

definition speed_started :: "vpn_page \<Rightarrow> vpn_page" where
  "speed_started p = p\<lparr>vp_speedBusy := True, vp_error := None\<rparr>"

definition speed_answered :: "(string + response) \<Rightarrow> speed_result option \<Rightarrow> vpn_page \<Rightarrow> vpn_page" where
  "speed_answered answer found p =
     (case answer of
        Inl msg \<Rightarrow> p\<lparr>vp_error := Some msg\<rparr>
      | Inr r \<Rightarrow> (case (checked r ''Speed test failed.'', found) of
          (Inl msg, _) \<Rightarrow> p\<lparr>vp_error := Some msg\<rparr>
        | (Inr payload, None) \<Rightarrow> p\<lparr>vp_error := Some (let e = payload_field ''error'' payload in
             if js_truthy e then element_text e else ''Speed test failed.'')\<rparr>
        | (Inr payload, Some v) \<Rightarrow> p\<lparr>vp_speed := Some v\<rparr>))\<lparr>vp_speedBusy := False\<rparr>"

definition action_started :: "string \<Rightarrow> vpn_page \<Rightarrow> vpn_page" where
  "action_started label p = p\<lparr>vp_busy := Some label, vp_error := None\<rparr>"

text \<open>The response of the action, then the status read again, then the action is over. A request that throws is \<open>Inl\<close>.\<close>

definition action_answered :: "string \<Rightarrow> (string + response) \<Rightarrow> vpn_page \<Rightarrow> vpn_page" where
  "action_answered label answer p = (case answer of
     Inl msg \<Rightarrow> p\<lparr>vp_error := Some msg\<rparr>
   | Inr r \<Rightarrow> (case checked r (label @ '' failed.'') of Inl msg \<Rightarrow> p\<lparr>vp_error := Some msg\<rparr> | Inr payload \<Rightarrow> p))"

definition action_over :: "(response \<times> vpn_summary option) option \<Rightarrow> vpn_page \<Rightarrow> vpn_page" where
  "action_over status p =
     (case status of None \<Rightarrow> p | Some answer \<Rightarrow> status_read answer p)\<lparr>vp_busy := None\<rparr>"

definition kind_name :: "profile_kind \<Rightarrow> string" where
  "kind_name k = (case k of KindWireguard \<Rightarrow> ''wireguard'' | KindOpenvpn \<Rightarrow> ''openvpn'')"

definition connect_body :: "profile_kind \<Rightarrow> string \<Rightarrow> json" where
  "connect_body k profileId = JObj [(''type'', JStr (kind_name k)), (''profileId'', JStr profileId)]"

definition gate_body :: "bool \<Rightarrow> public_vpngate_server \<Rightarrow> json" where
  "gate_body connecting server =
     JObj [(''action'', JStr (if connecting then ''connect'' else ''save'')), (''serverId'', JStr (g_id server))]"

definition warp_body :: "string \<Rightarrow> json" where
  "warp_body operation = JObj [(''action'', JStr operation)]"

subsection \<open>The list of servers\<close>

definition PAGE_SIZE :: nat where "PAGE_SIZE = 10"

definition filteredGate :: "vpn_page \<Rightarrow> public_vpngate_server list" where
  "filteredGate p = filter (\<lambda>g. vp_search p = [] \<or>
     includesStr (toLowerCase (g_countryLong g @ '' '' @ g_countryShort g @ '' '' @ g_ip g @ '' '' @ g_hostname g))
       (toLowerCase (vp_search p))) (vp_servers p)"

definition gatePages :: "vpn_page \<Rightarrow> nat" where
  "gatePages p = max 1 ((length (filteredGate p) + PAGE_SIZE - 1) div PAGE_SIZE)"

definition shown_page :: "vpn_page \<Rightarrow> nat" where
  "shown_page p = min (vp_gatePage p) (gatePages p)"

definition visibleGate :: "vpn_page \<Rightarrow> public_vpngate_server list" where
  "visibleGate p = take PAGE_SIZE (drop ((shown_page p - 1) * PAGE_SIZE) (filteredGate p))"

definition set_search :: "string \<Rightarrow> vpn_page \<Rightarrow> vpn_page" where
  "set_search q p = p\<lparr>vp_search := q, vp_gatePage := 1\<rparr>"

definition gate_started :: "bool \<Rightarrow> vpn_page \<Rightarrow> vpn_page" where
  "gate_started refresh p = (if refresh then p\<lparr>vp_gateRefreshing := True\<rparr> else p)"

definition gate_over :: "bool \<Rightarrow> vpn_page \<Rightarrow> vpn_page" where
  "gate_over refresh p = (if refresh then p\<lparr>vp_gateRefreshing := False\<rparr> else p)"

definition gate_loaded :: "public_vpngate_server list \<Rightarrow> vpn_page \<Rightarrow> vpn_page" where
  "gate_loaded servers p = p\<lparr>vp_servers := servers, vp_gatePage := 1\<rparr>"

subsection \<open>The editor\<close>

definition closeEditor :: "vpn_page \<Rightarrow> vpn_page" where
  "closeEditor p = p\<lparr>vp_editor := None, vp_editorError := None\<rparr>"

definition openCreate :: "profile_kind \<Rightarrow> vpn_page \<Rightarrow> vpn_page" where
  "openCreate k p = p\<lparr>vp_editorError := None, vp_editor := Some \<lparr>ed_kind = k, ed_id = None, ed_name = [], ed_config = [],
     ed_username = [], ed_password = [], ed_enabled = True\<rparr>\<rparr>"

text \<open>\<open>value || ''\<close> for a field of the profile.\<close>

definition text_or_empty :: "json \<Rightarrow> string \<Rightarrow> string" where
  "text_or_empty v k = (case field_or_null v k of JStr s \<Rightarrow> s | _ \<Rightarrow> [])"

definition editor_of :: "profile_kind \<Rightarrow> string \<Rightarrow> json \<Rightarrow> profile_editor" where
  "editor_of k i profile = \<lparr>ed_kind = k, ed_id = Some i, ed_name = text_or_empty profile ''name'',
     ed_config = text_or_empty profile ''config'', ed_username = text_or_empty profile ''username'',
     ed_password = text_or_empty profile ''password'', ed_enabled = js_truthy (field_or_null profile ''enabled'')\<rparr>"

definition edit_started :: "profile_kind \<Rightarrow> vpn_page \<Rightarrow> vpn_page" where
  "edit_started k p = p\<lparr>vp_busy := Some (''Loading '' @ kind_name k @ '' profile''), vp_error := None, vp_editorError := None\<rparr>"

definition edit_answered :: "profile_kind \<Rightarrow> string \<Rightarrow> response \<Rightarrow> vpn_page \<Rightarrow> vpn_page" where
  "edit_answered k i r p =
     (case checked r ''Unable to load profile.'' of
        Inl msg \<Rightarrow> p\<lparr>vp_error := Some msg\<rparr>
      | Inr payload \<Rightarrow>
          let profile = payload_field ''data'' payload in
          if \<not> js_truthy profile then p\<lparr>vp_error := Some (let e = payload_field ''error'' payload in
               if js_truthy e then element_text e else ''Unable to load profile.'')\<rparr>
          else p\<lparr>vp_editor := Some (editor_of k i profile)\<rparr>)\<lparr>vp_busy := None\<rparr>"

text \<open>\<open>value || null\<close>.\<close>

definition text_or_nothing :: "string \<Rightarrow> json" where
  "text_or_nothing s = (if s = [] then JNull else JStr s)"

definition editor_body :: "profile_editor \<Rightarrow> json" where
  "editor_body ed =
     (let isEdit = (truthy (ed_id ed) \<noteq> None) in
      JObj ([(''name'', JStr (ed_name ed)), (''config'', JStr (ed_config ed))] @
        (case ed_kind ed of
           KindWireguard \<Rightarrow> (if isEdit then [(''enabled'', JBool (ed_enabled ed))] else [])
         | KindOpenvpn \<Rightarrow> [(''username'', text_or_nothing (ed_username ed)), (''password'', text_or_nothing (ed_password ed)),
             (if isEdit then (''enabled'', JBool (ed_enabled ed)) else (''source'', JStr ''uploaded''))])))"

definition editor_endpoint :: "profile_editor \<Rightarrow> string" where
  "editor_endpoint ed = ''/api/vpn/'' @ kind_name (ed_kind ed) @
     (case truthy (ed_id ed) of None \<Rightarrow> [] | Some i \<Rightarrow> ''/'' @ i)"

definition save_started :: "vpn_page \<Rightarrow> vpn_page" where
  "save_started p = (if vp_editor p = None then p else p\<lparr>vp_editorSaving := True, vp_editorError := None\<rparr>)"

definition save_answered :: "response \<Rightarrow> vpn_page \<Rightarrow> vpn_page" where
  "save_answered r p = (case checked r ''Failed to save profile.'' of
     Inl msg \<Rightarrow> p\<lparr>vp_editorError := Some msg, vp_editorSaving := False\<rparr>
   | Inr payload \<Rightarrow> (closeEditor p)\<lparr>vp_editorSaving := False\<rparr>)"

definition delete_started :: "vpn_page \<Rightarrow> vpn_page" where
  "delete_started p = (case vp_deleteTarget p of
     None \<Rightarrow> p
   | Some d \<Rightarrow> action_started (''Deleting '' @ kind_name (dt_kind d) @ '' profile'') (p\<lparr>vp_deleteTarget := None\<rparr>))"


subsection \<open>What is offered and what the server accepts\<close>

text \<open>With no tunnel running, a page that shows the status it just read, with no operation under way, offers to connect
  exactly when the server then lets an attempt start.\<close>

theorem connect_offered_iff_accepted:
  fixes s t :: "('w, 'z) vpn_scheme"
  assumes "\<And>u :: ('w, 'z) vpn_scheme. fst (getRuntimeTunnels env u) = Inr []"
    and "getVpnStatusSummary env s = (Inr v, t)" and "\<not> vpnLock_busy t"
    and "vp_summary p = Some v" and "vp_busy p = None"
  shows "canConnect p \<longleftrightarrow> (\<exists>u. assertCanStartConnection env t = (Inr (), u))"
proof -
  obtain g s1 nm where g: "reconcileRuntimeState env s = (Inr g, s1)" and nm: "profile_name g s1 = (Inr nm, t)"
    and v: "vs_status v = vpn_status g" "vs_isBusy v = vpnLock_busy t"
    using assms(2) unfolding getVpnStatusSummary_def by (elim run_elims) auto
  have t: "t_settings t = t_settings s1"
    using nm by (auto simp: profile_name_def wg_getProfileById_def ov_getProfileById_def act_simps
        split: option.splits vpn_type.splits if_splits)
  obtain runtime u0 row where rt: "getRuntimeTunnels env s = (Inr runtime, u0)" and row: "t_settings s1 = Some row"
    and eq: "g = rowToSettings row" and agree: "agrees runtime g"
    using reconcile_agrees [OF g] by blast
  have "runtime = []" using assms(1) [of s] rt by simp
  with agree have off: "vpn_status g \<noteq> StatusConnected" by (auto simp: agrees_def)
  obtain t1 where t1: "getRuntimeTunnels env t = (Inr [], t1)"
    using assms(1) [of t] by (metis fst_conv prod.exhaust)
  obtain t2 where t2: "getRuntimeTunnels env t1 = (Inr [], t2)"
    using assms(1) [of t1] by (metis fst_conv prod.exhaust)
  have "getSettings t = (Inr g, t)" by (simp add: getSettings_def t row eq)
  then have "reconcileRuntimeState env t = (Inr g, t1)"
    using t1 off by (simp add: reconcileRuntimeState_def andThen_run ret_def)
  then have "(\<exists>u. assertCanStartConnection env t = (Inr (), u)) \<longleftrightarrow> vpn_status g \<noteq> StatusConnecting"
    using t2 off by (simp add: assertCanStartConnection_def andThen_run throw_conflict_def ret_def)
  moreover have "canConnect p \<longleftrightarrow> vpn_status g \<noteq> StatusConnecting"
    using assms(3-5) v off by (simp add: canConnect_def operationBusy_def active_def truthy_def)
  ultimately show ?thesis by blast
qed

subsection \<open>The pages of the server list\<close>

lemma concat_slices:
  assumes "0 < L"
  shows "concat (map (\<lambda>k. take L (drop ((k - 1) * L) xs)) [1..<Suc K]) = take (K * L) xs"
proof (induction K)
  case (Suc K)
  then show ?case by (simp add: take_add [symmetric] add.commute)
qed simp

text \<open>Turning the pages from the first to the last shows every server that matches the search once, in order.\<close>

theorem gate_pages_cover:
  "concat (map (\<lambda>k. visibleGate (p\<lparr>vp_gatePage := k\<rparr>)) [1..<Suc (gatePages p)]) = filteredGate p"
proof -
  let ?n = "length (filteredGate p)"
  have page: "visibleGate (p\<lparr>vp_gatePage := k\<rparr>) = take PAGE_SIZE (drop ((k - 1) * PAGE_SIZE) (filteredGate p))"
    if "k \<in> set [1..<Suc (gatePages p)]" for k
  proof -
    have same: "filteredGate (p\<lparr>vp_gatePage := k\<rparr>) = filteredGate p" by (simp add: filteredGate_def)
    then have "gatePages (p\<lparr>vp_gatePage := k\<rparr>) = gatePages p" by (simp add: gatePages_def)
    then have "shown_page (p\<lparr>vp_gatePage := k\<rparr>) = k" using that by (auto simp: shown_page_def min_def)
    then show ?thesis by (simp add: visibleGate_def same)
  qed
  have slices: "map (\<lambda>k. visibleGate (p\<lparr>vp_gatePage := k\<rparr>)) [1..<Suc (gatePages p)] =
      map (\<lambda>k. take PAGE_SIZE (drop ((k - 1) * PAGE_SIZE) (filteredGate p))) [1..<Suc (gatePages p)]"
    by (rule map_cong [OF refl page])
  have "concat (map (\<lambda>k. visibleGate (p\<lparr>vp_gatePage := k\<rparr>)) [1..<Suc (gatePages p)]) =
      take (gatePages p * PAGE_SIZE) (filteredGate p)"
    unfolding slices by (rule concat_slices) (simp add: PAGE_SIZE_def)
  moreover have "?n \<le> gatePages p * PAGE_SIZE"
    by (simp add: gatePages_def PAGE_SIZE_def)
  ultimately show ?thesis by simp
qed


text \<open>A connection attempt that was cut off, by a restart say, leaves the stored status \<open>connecting\<close>. The page then offers
  neither to connect nor to disconnect, the server refuses an attempt, and reading the status again changes nothing.\<close>

lemma interrupted_connection_sticks:
  fixes s :: "('w, 'z) vpn_scheme"
  assumes "\<And>u :: ('w, 'z) vpn_scheme. fst (getRuntimeTunnels env u) = Inr []"
    and "t_settings s = Some row" and "vpn_status row = StatusConnecting"
    and "getVpnStatusSummary env s = (Inr v, t)" and "vp_summary p = Some v"
  shows "\<not> canConnect p" and "\<not> canDisconnect p" and "t_settings t = t_settings s"
    and "fst (assertCanStartConnection env s) \<noteq> Inr ()"
proof -
  obtain t1 where t1: "getRuntimeTunnels env s = (Inr [], t1)"
    using assms(1) [of s] by (metis fst_conv prod.exhaust)
  have st: "vpn_status (rowToSettings row) = StatusConnecting" using assms(3) by (simp add: rowToSettings_def)
  have g: "reconcileRuntimeState env s = (Inr (rowToSettings row), t1)"
    using t1 st assms(2) by (simp add: reconcileRuntimeState_def andThen_run ret_def getSettings_def)
  obtain nm where "profile_name (rowToSettings row) t1 = (Inr nm, t)" and v: "vs_status v = StatusConnecting"
    using assms(4) st unfolding getVpnStatusSummary_def by (elim run_elims) (auto simp: g)
  then have "t_settings t = t_settings t1"
    by (auto simp: profile_name_def wg_getProfileById_def ov_getProfileById_def act_simps
        split: option.splits vpn_type.splits if_splits)
  then show "t_settings t = t_settings s" using runtime_row [OF t1] by simp
  show "\<not> canConnect p" "\<not> canDisconnect p"
    using assms(5) v by (simp_all add: canConnect_def canDisconnect_def operationBusy_def active_def)
  obtain t2 where "getRuntimeTunnels env t1 = (Inr [], t2)"
    using assms(1) [of t1] by (metis fst_conv prod.exhaust)
  then show "fst (assertCanStartConnection env s) \<noteq> Inr ()"
    using g st by (simp add: assertCanStartConnection_def andThen_run throw_conflict_def)
qed

text \<open>Two tunnels at once are stored as an error: the page offers to connect, which the server refuses with the advice to
  disconnect, and does not offer to disconnect.\<close>

lemma two_tunnels_stick:
  assumes "agrees (a # b # others) g" and "vp_summary p = Some v" and "vs_status v = vpn_status g" and "\<not> vs_isBusy v"
    and "vp_busy p = None"
  shows "canConnect p" and "\<not> canDisconnect p"
  using assms by (simp_all add: canConnect_def canDisconnect_def operationBusy_def active_def agrees_def truthy_def)

subsection \<open>Opening the editor and saving\<close>

lemma truthy_idem [simp]: "truthy (truthy v) = truthy v"
  by (cases v) (auto simp: truthy_def)

definition tidy_openvpn :: "openvpn_profile \<Rightarrow> bool" where
  "tidy_openvpn r \<longleftrightarrow> trim (ov_name r) = ov_name r \<and> trim (ov_config r) = ov_config r \<and>
     truthy (map_option trim (ov_username r)) = ov_username r \<and> truthy (ov_password r) = ov_password r \<and>
     ov_enabled r \<in> {0, 1}"

text \<open>The profile as the editor sends it back: the password is the mask if there is one.\<close>

lemma editor_fields:
  "editor_of KindOpenvpn i (openvpn_json (ov_rowToProfile False r)) =
     \<lparr>ed_kind = KindOpenvpn, ed_id = Some i, ed_name = ov_name r, ed_config = ov_config r,
      ed_username = (case truthy (ov_username r) of None \<Rightarrow> [] | Some u \<Rightarrow> u),
      ed_password = (case truthy (ov_password r) of None \<Rightarrow> [] | Some p \<Rightarrow> MASK), ed_enabled = (ov_enabled r \<noteq> 0)\<rparr>"
  by (simp add: editor_of_def text_or_empty_def field_or_null_def or_null_def openvpn_json_def ov_rowToProfile_def
      text_or_null_def split: option.splits)

lemma truthy_Some: "truthy v = Some u \<Longrightarrow> v = Some u \<and> u \<noteq> []"
  by (cases v) (auto simp: truthy_def split: if_splits)

lemma editor_patch:
  assumes "tidy_openvpn r" and "i \<noteq> []"
    and "openvpnUpdateSchema (editor_body (editor_of KindOpenvpn i (openvpn_json (ov_rowToProfile False r)))) = Some patch"
  shows "patched patch now r = r\<lparr>ov_updated_at := now\<rparr>"
proof -
  let ?user = "case truthy (ov_username r) of None \<Rightarrow> [] | Some u \<Rightarrow> u"
    and ?pass = "case truthy (ov_password r) of None \<Rightarrow> [] | Some p \<Rightarrow> MASK"
  let ?body = "[(''name'', JStr (ov_name r)), (''config'', JStr (ov_config r)), (''username'', text_or_nothing ?user),
      (''password'', text_or_nothing ?pass), (''enabled'', JBool (ov_enabled r \<noteq> 0))]"
  have body: "editor_body (editor_of KindOpenvpn i (openvpn_json (ov_rowToProfile False r))) = JObj ?body"
    using assms(2) by (simp add: editor_fields editor_body_def truthy_def)
  obtain n c u w where n: "trimmed_value 1 128 (JStr (ov_name r)) = Some n" and c: "text_value 1 1000000 (JStr (ov_config r)) = Some c"
    and u: "nullable (trimmed_value 0 512) (text_or_nothing ?user) = Some u"
    and w: "nullable (text_value 0 4096) (text_or_nothing ?pass) = Some w"
    and patch: "patch = \<lparr>op_name = Some n, op_config = Some c, op_username = Some u, op_password = Some w,
        op_enabled = Some (ov_enabled r \<noteq> 0)\<rparr>"
    using assms(3) unfolding body
    by (auto simp: openvpnUpdateSchema_def is_object_def optional_def get_field_def bool_value_def bind_eq_Some_conv)
  have tidy: "trim (ov_name r) = ov_name r" "trim (ov_config r) = ov_config r"
    "truthy (map_option trim (ov_username r)) = ov_username r" "truthy (ov_password r) = ov_password r" "ov_enabled r \<in> {0, 1}"
    using assms(1) by (simp_all add: tidy_openvpn_def)
  have n': "trim n = ov_name r" using n tidy(1) by (auto simp: trimmed_value_def bounded_def split: if_splits)
  have c': "trim c = ov_config r" using c tidy(2) by (auto simp: text_value_def bounded_def split: if_splits)
  have u': "truthy (map_option trim u) = ov_username r"
  proof (cases "ov_username r")
    case None
    then show ?thesis using u by (auto simp: truthy_def text_or_nothing_def nullable_def)
  next
    case (Some x)
    then have "trim x = x" "x \<noteq> []" using tidy(3) by (auto simp: truthy_def split: if_splits)
    moreover have "u = Some x"
      using Some u \<open>trim x = x\<close> \<open>x \<noteq> []\<close>
      by (simp add: truthy_def text_or_nothing_def nullable_def trimmed_value_def bounded_def split: if_splits)
    ultimately show ?thesis using Some by (simp add: truthy_def)
  qed
  have w': "patched_password (ov_rowToProfile True r) (Some w) = ov_password r"
  proof (cases "ov_password r")
    case None
    then show ?thesis using w
      by (auto simp: truthy_def text_or_nothing_def nullable_def patched_password_def MASK_def)
  next
    case (Some x)
    then have "x \<noteq> []" using tidy(4) by (auto simp: truthy_def split: if_splits)
    then show ?thesis using Some w
      by (auto simp: truthy_def text_or_nothing_def nullable_def text_value_def bounded_def patched_password_def
          ov_rowToProfile_def MASK_def split: if_splits)
  qed
  have "(if ov_enabled r \<noteq> 0 then 1 else 0) = ov_enabled r" using tidy(5) by auto
  then show ?thesis
    unfolding patched_def Let_def by (simp add: patch set_to_def n' c' u' w')
qed

text \<open>C34: Opening the editor of an OpenVPN profile and saving it without a change leaves the profile as it was, the password
  that the editor never saw included; only the time of the update is new.\<close>

theorem unchanged_save_keeps_profile:
  assumes "db_inv s" and "r \<in> set (t_openvpn s)" and "tidy_openvpn r" and "ov_id r \<noteq> []"
    and "openvpnUpdateSchema (editor_body (editor_of KindOpenvpn (ov_id r) (openvpn_json (ov_rowToProfile False r)))) = Some patch"
    and "ov_updateProfile env (ov_id r) patch s = (Inr q, t)"
  shows "\<exists>now. t_openvpn t = update_where (\<lambda>x. ov_id x = ov_id r) (\<lambda>x. x\<lparr>ov_updated_at := now\<rparr>) (t_openvpn s)"
proof -
  obtain row now f where f: "find (\<lambda>x. ov_id x = ov_id r) (t_openvpn s) = Some row"
    "t_openvpn t = update_where (\<lambda>x. ov_id x = ov_id r) f (t_openvpn s)" "f row = patched patch now row"
    using ov_updateProfile_Inr [OF assms(6)] by blast
  have u: "ov_uniq (t_openvpn s)" using assms(1) by (simp add: db_inv_def)
  have "row \<in> set (t_openvpn s)" "ov_id row = ov_id r" using f(1) by (auto simp: find_Some_iff)
  then have row: "row = r" using u assms(2) by (auto simp: ov_uniq_def distinct_map dest: inj_onD)
  have "f r = r\<lparr>ov_updated_at := now\<rparr>" using f(3) editor_patch [OF assms(3,4,5)] row by simp
  then have "update_where (\<lambda>x. ov_id x = ov_id r) f (t_openvpn s) =
      update_where (\<lambda>x. ov_id x = ov_id r) (\<lambda>x. x\<lparr>ov_updated_at := now\<rparr>) (t_openvpn s)"
    using openvpn.update_one [OF u assms(2), of "\<lambda>x. ov_id x = ov_id r" f]
      openvpn.update_one [OF u assms(2), of "\<lambda>x. ov_id x = ov_id r" "\<lambda>x. x\<lparr>ov_updated_at := now\<rparr>"] by simp
  with f(2) show ?thesis by auto
qed


definition shown_page_of :: "vpn_summary \<Rightarrow> vpn_page" where
  "shown_page_of v = \<lparr>vp_tab = TabOverview, vp_summary = Some v, vp_wireguard = [], vp_openvpn = [], vp_warp = None,
     vp_speed = None, vp_speedBusy = False, vp_busy = None, vp_error = None, vp_servers = [], vp_search = [], vp_gatePage = 1,
     vp_gateRefreshing = False, vp_editor = None, vp_editorSaving = False, vp_editorError = None, vp_deleteTarget = None\<rparr>"

theorem connect_offered_iff_accepted_witness:
  "\<exists>v. getVpnStatusSummary idle_env (idle_vpn StatusError) = (Inr v, idle_vpn StatusError) \<and>
     canConnect (shown_page_of v) \<and> (\<exists>u. assertCanStartConnection idle_env (idle_vpn StatusError) = (Inr (), u))"
proof -
  obtain v where v: "getVpnStatusSummary idle_env (idle_vpn StatusError) = (Inr v, idle_vpn StatusError)"
    and st: "vs_status v = StatusError" "vs_isBusy v = False"
    by (simp add: getVpnStatusSummary_def andThen_run profile_name_def rowToSettings_def demo_settings_def truthy_def)
      (simp add: idle_vpn_def demo_vpn_def vpn_of_def)
  have c: "canConnect (shown_page_of v)"
    using st by (simp add: canConnect_def operationBusy_def active_def shown_page_of_def truthy_def)
  have "canConnect (shown_page_of v) \<longleftrightarrow> (\<exists>u. assertCanStartConnection idle_env (idle_vpn StatusError) = (Inr (), u))"
    by (rule connect_offered_iff_accepted [OF _ v]) (simp_all add: shown_page_of_def idle_vpn_def demo_vpn_def vpn_of_def)
  with c v show ?thesis by blast
qed

lemma demo_config_tidy: "trim demo_ovpn = demo_ovpn" "length demo_ovpn = 44" "demo_ovpn \<noteq> []"
  by (simp_all add: demo_ovpn_def LF_def trim_def trimStart_def trimEnd_def char_eval)

theorem unchanged_save_keeps_profile_witness:
  "\<exists>patch q t now. ov_updateProfile demo_env ''o1'' patch demo_ovpn_db = (Inr q, t) \<and>
     t_openvpn t = [demo_ovpn_row\<lparr>ov_updated_at := now\<rparr>]"
proof -
  let ?patch = "\<lparr>op_name = Some ''home'', op_config = Some demo_ovpn, op_username = Some (Some ''u''), op_password = Some (Some MASK),
      op_enabled = Some True\<rparr>"
  note eval = trim_def trimStart_def trimEnd_def char_eval
  have parsed: "openvpnUpdateSchema (editor_body (editor_of KindOpenvpn (ov_id demo_ovpn_row)
      (openvpn_json (ov_rowToProfile False demo_ovpn_row)))) = Some ?patch"
    by (simp add: editor_fields editor_body_def demo_ovpn_row_def truthy_def openvpnUpdateSchema_def is_object_def
        optional_def get_field_def trimmed_value_def text_value_def nullable_def bool_value_def bounded_def
        text_or_nothing_def demo_config_tidy MASK_def) (simp add: eval)
  obtain q t where run: "ov_updateProfile demo_env ''o1'' ?patch demo_ovpn_db = (Inr q, t)"
    by (simp add: ov_updateProfile_def demo_ovpn_db_def demo_ovpn_row_def act_simps sql_update_def
        ov_uniq_def empty_db_def set_to_def log_info_def logged_def writeLog_eq log_uniq_def ov_getProfileById_def
        Let_def demo_ovpn_valid eval)
  have "\<exists>now. t_openvpn t = update_where (\<lambda>x. ov_id x = ov_id demo_ovpn_row) (\<lambda>x. x\<lparr>ov_updated_at := now\<rparr>) (t_openvpn demo_ovpn_db)"
  proof (rule unchanged_save_keeps_profile [OF demo_ovpn_inv _ _ _ parsed])
    show "demo_ovpn_row \<in> set (t_openvpn demo_ovpn_db)" by (simp add: demo_ovpn_db_def)
    show "tidy_openvpn demo_ovpn_row"
      by (simp add: tidy_openvpn_def demo_ovpn_row_def demo_config_tidy truthy_def) (simp add: eval)
    show "ov_id demo_ovpn_row \<noteq> []" by (simp add: demo_ovpn_row_def)
    show "ov_updateProfile demo_env (ov_id demo_ovpn_row) ?patch demo_ovpn_db = (Inr q, t)"
      using run by (simp add: demo_ovpn_row_def)
  qed
  then show ?thesis using run by (auto simp: demo_ovpn_db_def update_where_def)
qed

end
