(* ===== verification/View.thy ===== *)
theory View imports Js_String Schema begin

section \<open>What a page shows and offers\<close>

text \<open>
  The elements a page is rendered to, without their layout: its texts and badges, its alerts, what it says where a list is
  empty, its inputs with their values, its buttons with the handler that a press runs, and its dialogs. A render function
  is a function from the state of the page to a list of elements; a typographic sign (an ellipsis, a dash, a middle dot) is
  written in ASCII. A dialog that is open takes every press; closing it runs its own handler.
\<close>

datatype 'e element =
    Shown string
  | Pair string string
  | Mark string string
  | Notice string string
  | Nothing_here string string
  | Link string string
  | Input string string bool
  | Secret_input string string bool
  | Check string bool bool
  | Button string bool 'e
  | Modal string string 'e "'e element list"

fun pressed :: "'e element \<Rightarrow> 'e list" where
  "pressed (Button label disabled e) = (if disabled then [] else [e])"
| "pressed _ = []"

fun is_modal :: "'e element \<Rightarrow> bool" where
  "is_modal (Modal title description close es) = True"
| "is_modal _ = False"

fun modal_presses :: "'e element \<Rightarrow> 'e list" where
  "modal_presses (Modal title description close es) = close # concat (map pressed es)"
| "modal_presses _ = []"

definition offered :: "'e element list \<Rightarrow> 'e list" where
  "offered es = (if list_ex is_modal es then concat (map modal_presses es) else concat (map pressed es))"

text \<open>The texts on the screen; the characters of a password input are not among them.\<close>

fun texts :: "'e element \<Rightarrow> string list" where
  "texts (Shown t) = [t]"
| "texts (Pair l v) = [l, v]"
| "texts (Mark variant t) = [t]"
| "texts (Notice variant t) = [t]"
| "texts (Nothing_here t d) = [t, d]"
| "texts (Link l target) = [l]"
| "texts (Input l v required) = [l, v]"
| "texts (Secret_input l v required) = [l]"
| "texts (Check l v disabled) = [l]"
| "texts (Button l disabled e) = [l]"
| "texts (Modal t d close es) = t # d # concat (map texts es)"

text \<open>
  A form with an empty required input is not submitted by the browser: its button counts as disabled.
\<close>

definition incomplete :: "'e element list \<Rightarrow> bool" where
  "incomplete es = list_ex (\<lambda>x. case x of Input l v required \<Rightarrow> required \<and> v = []
     | Secret_input l v required \<Rightarrow> required \<and> v = [] | _ \<Rightarrow> False) es"

definition shown_when :: "bool \<Rightarrow> 'a list \<Rightarrow> 'a list" where
  "shown_when b es = (if b then es else [])"

definition shown_for :: "'a option \<Rightarrow> ('a \<Rightarrow> 'b list) \<Rightarrow> 'b list" where
  "shown_for v f = (case v of None \<Rightarrow> [] | Some x \<Rightarrow> f x)"

lemma pressed_append [simp]: "concat (map pressed (shown_when b es)) = (if b then concat (map pressed es) else [])"
  by (simp add: shown_when_def)

lemma pressed_for [simp]: "concat (map pressed (shown_for v f)) = (case v of None \<Rightarrow> [] | Some x \<Rightarrow> concat (map pressed (f x)))"
  by (simp add: shown_for_def split: option.split)

lemma modal_when [simp]: "list_ex is_modal (shown_when b es) \<longleftrightarrow> b \<and> list_ex is_modal es"
  by (simp add: shown_when_def)

lemma modal_for [simp]: "list_ex is_modal (shown_for v f) \<longleftrightarrow> (case v of None \<Rightarrow> False | Some x \<Rightarrow> list_ex is_modal (f x))"
  by (simp add: shown_for_def split: option.split)

lemma offered_plain: "\<not> list_ex is_modal es \<Longrightarrow> offered es = concat (map pressed es)"
  by (simp add: offered_def)

text \<open>Every press that these elements take satisfies \<open>P\<close>.\<close>

definition only :: "('e \<Rightarrow> bool) \<Rightarrow> 'e element list \<Rightarrow> bool" where
  "only P es \<longleftrightarrow> list_all (\<lambda>x. list_all P (pressed x)) es"

lemma only_simps [simp]:
  "only P []" "only P (x # es) \<longleftrightarrow> list_all P (pressed x) \<and> only P es" "only P (es @ fs) \<longleftrightarrow> only P es \<and> only P fs"
  "only P (shown_when b es) \<longleftrightarrow> (b \<longrightarrow> only P es)"
  "only P (shown_for v f) \<longleftrightarrow> (case v of None \<Rightarrow> True | Some x \<Rightarrow> only P (f x))"
  "only P (concat (map g xs)) \<longleftrightarrow> (\<forall>x \<in> set xs. only P (g x))"
  by (auto simp: only_def shown_when_def shown_for_def list_all_iff split: option.split)

definition only_modal :: "('e \<Rightarrow> bool) \<Rightarrow> 'e element list \<Rightarrow> bool" where
  "only_modal P es \<longleftrightarrow> list_all (\<lambda>x. list_all P (modal_presses x)) es"

lemma only_modal_simps [simp]:
  "only_modal P []" "only_modal P (x # es) \<longleftrightarrow> list_all P (modal_presses x) \<and> only_modal P es"
  "only_modal P (es @ fs) \<longleftrightarrow> only_modal P es \<and> only_modal P fs"
  "only_modal P (shown_when b es) \<longleftrightarrow> (b \<longrightarrow> only_modal P es)"
  "only_modal P (shown_for v f) \<longleftrightarrow> (case v of None \<Rightarrow> True | Some x \<Rightarrow> only_modal P (f x))"
  "only_modal P (concat (map g xs)) \<longleftrightarrow> (\<forall>x \<in> set xs. only_modal P (g x))"
  by (auto simp: only_modal_def shown_when_def shown_for_def list_all_iff split: option.split)

lemma modal_rows [simp]: "list_ex is_modal (concat (map f xs)) \<longleftrightarrow> (\<exists>x \<in> set xs. list_ex is_modal (f x))"
  by (induction xs) auto

lemma only_offered: "only P es \<Longrightarrow> only_modal P es \<Longrightarrow> e \<in> set (offered es) \<Longrightarrow> P e"
  by (auto simp: offered_def only_def only_modal_def list_all_iff split: if_splits)

lemma press_all: "list_all P (concat (map pressed es)) \<longleftrightarrow> only P es"
  by (induction es) (auto simp: only_def)

lemma only_modal_none: "\<not> list_ex is_modal es \<Longrightarrow> only_modal P es"
proof (induction es)
  case (Cons x es)
  then show ?case by (cases x) auto
qed simp

text \<open>What the elements offer, by the predicates that hold of all of it.\<close>

lemma offered_all: "list_all P (offered es) \<longleftrightarrow> (if list_ex is_modal es then only_modal P es else only P es)"
  by (simp add: offered_def only_def only_modal_def list_all_iff)

lemma offered_iff: "e \<in> set (offered es) \<longleftrightarrow> \<not> list_all (\<lambda>x. x \<noteq> e) (offered es)"
  by (auto simp: list_all_iff)

lemma in_presses: "e \<in> set (concat (map pressed es)) \<longleftrightarrow> \<not> only (\<lambda>x. x \<noteq> e) es"
  unfolding press_all [symmetric] by (auto simp: list_all_iff)

text \<open>Decimals: \<open>toFixed\<close> of a quotient with a positive divisor, rounded half up.\<close>

definition fixed_1 :: "int \<Rightarrow> nat \<Rightarrow> string" where
  "fixed_1 i d = (let t = (2 * nat (abs i) * 10 + d) div (2 * d) in
     (if i < 0 then ''-'' else []) @ show_nat (t div 10) @ ''.'' @ show_nat (t mod 10))"

definition fixed_2 :: "int \<Rightarrow> string" where
  "fixed_2 hundredths = (let n = nat (abs hundredths) in
     (if hundredths < 0 then ''-'' else []) @ show_nat (n div 100) @ ''.'' @ show_nat (n mod 100 div 10) @ show_nat (n mod 10))"

end
