(* ===== verification/Vpn_View.thy ===== *)
theory Vpn_View imports Vpn_Page View begin

section \<open>The VPN page on the screen\<close>

text \<open>
  The render function of \<open>app/vpn/page.tsx\<close> with the handlers its buttons run. The argument \<open>when\<close> is the browser's
  \<open>toLocaleString\<close> of an instant.
\<close>

datatype vpn_event =
    Read_status
  | Press_disconnect
  | Open_tab vpn_tab
  | Run_speed_test
  | New_profile profile_kind
  | Press_connect profile_kind string
  | Edit_profile profile_kind string
  | Ask_delete profile_kind string string
  | Refresh_servers
  | Press_gate_connect public_vpngate_server
  | Press_gate_save public_vpngate_server
  | Previous_servers
  | Next_servers
  | Press_warp string
  | Close_editor
  | Save_profile
  | Cancel_delete
  | Confirm_delete

text \<open>The requests that go through \<open>action\<close>: the label, the method, the path and the body.\<close>

fun vpn_action :: "vpn_page \<Rightarrow> vpn_event \<Rightarrow> (string \<times> string \<times> string \<times> json option) option" where
  "vpn_action p (Press_connect k i) =
     Some (''Connecting '' @ kind_name k, ''POST'', ''/api/vpn/connect'', Some (connect_body k i))"
| "vpn_action p Press_disconnect = Some (''Disconnecting VPN'', ''POST'', ''/api/vpn/disconnect'', None)"
| "vpn_action p (Press_gate_connect g) =
     Some (''Connecting VPNGate '' @ g_countryShort g, ''POST'', ''/api/vpn/vpngate'', Some (gate_body True g))"
| "vpn_action p (Press_gate_save g) =
     Some (''Saving VPNGate profile'', ''POST'', ''/api/vpn/vpngate'', Some (gate_body False g))"
| "vpn_action p (Press_warp operation) =
     Some (''WARP '' @ operation, ''POST'', ''/api/vpn/warp'', Some (warp_body operation))"
| "vpn_action p Confirm_delete = map_option (\<lambda>d. (''Deleting '' @ kind_name (dt_kind d) @ '' profile'', ''DELETE'',
     ''/api/vpn/'' @ kind_name (dt_kind d) @ ''/'' @ dt_id d, None)) (vp_deleteTarget p)"
| "vpn_action p _ = None"

definition or_text :: "string option \<Rightarrow> string \<Rightarrow> string" where
  "or_text v fallback = (case truthy v of Some t \<Rightarrow> t | None \<Rightarrow> fallback)"

definition status_name :: "vpn_status \<Rightarrow> string" where
  "status_name st = (case st of StatusOff \<Rightarrow> ''off'' | StatusConnecting \<Rightarrow> ''connecting'' | StatusConnected \<Rightarrow> ''connected''
     | StatusError \<Rightarrow> ''error'')"

definition vpn_header :: "vpn_page \<Rightarrow> vpn_event element list" where
  "vpn_header p =
     [Shown ''VPN'', Shown ''Manage the container's outbound route. Only one tunnel can be active at a time.'',
      Button ''Refresh'' False Read_status] @
     shown_when (active p) [Button ''Disconnect'' (\<not> canDisconnect p) Press_disconnect] @
     shown_for (truthy (vp_error p)) (\<lambda>e. [Notice ''destructive'' e]) @
     shown_for (truthy (vp_busy p)) (\<lambda>b. [Notice ''default'' (b @ ''...'')]) @
     shown_for (vp_summary p) (\<lambda>v. shown_for (truthy (vs_lastError v)) (\<lambda>e.
       shown_when (vs_status v = StatusError) [Notice ''destructive'' e]))"

definition vpn_tabs :: "vpn_event element list" where
  "vpn_tabs = [Button ''Overview'' False (Open_tab TabOverview), Button ''WireGuard'' False (Open_tab TabWireguard),
     Button ''OpenVPN'' False (Open_tab TabOpenvpn), Button ''VPNGate'' False (Open_tab TabVpngate),
     Button ''WARP'' False (Open_tab TabWarp)]"

definition overview_tab :: "(timestamp \<Rightarrow> string) \<Rightarrow> vpn_page \<Rightarrow> vpn_event element list" where
  "overview_tab when p =
     (let v = vp_summary p; or_v = (\<lambda>f d. case v of None \<Rightarrow> d | Some x \<Rightarrow> or_text (f x) d) in
      [Shown ''Connection'', Shown ''Current outbound VPN state.'', Shown ''Status'',
       Mark (if active p then ''success'' else if map_option vs_status v = Some StatusError then ''destructive'' else ''secondary'')
         (case v of None \<Rightarrow> ''off'' | Some x \<Rightarrow> status_name (vs_status x)),
       Pair ''Type'' (case v of None \<Rightarrow> ''off'' | Some x \<Rightarrow> tunnel_name (vs_type x)),
       Pair ''Profile'' (currentLabel p),
       Pair ''Public IP'' (or_v vs_publicIp ''Unknown''),
       Pair ''Country'' (or_v vs_country ''Unknown''),
       Pair ''Connected since'' (case v of None \<Rightarrow> ''N/A'' | Some x \<Rightarrow> (case vs_connectedSince x of None \<Rightarrow> ''N/A'' | Some t \<Rightarrow> when t)),
       Shown ''Speed test'', Shown ''Measures the current outbound route.'',
       Button (if vp_speedBusy p then ''Testing...'' else ''Run test'') (vp_speedBusy p) Run_speed_test,
       Pair ''Download'' ((case vp_speed p of None \<Rightarrow> ''-'' | Some r \<Rightarrow> fixed_2 (sr_downloadMbps r)) @ '' Mbps''),
       Pair ''Upload'' ((case vp_speed p of None \<Rightarrow> ''-'' | Some r \<Rightarrow> fixed_2 (sr_uploadMbps r)) @ '' Mbps'')] @
      shown_for (vp_speed p) (\<lambda>r. [Shown (''Last tested '' @ when (sr_testedAt r))]))"

text \<open>The profile of the tunnel that is connected.\<close>

definition profile_active :: "vpn_page \<Rightarrow> vpn_type \<Rightarrow> string \<Rightarrow> bool" where
  "profile_active p ty i \<longleftrightarrow> active p \<and>
     (case vp_summary p of None \<Rightarrow> False | Some v \<Rightarrow> vs_type v = ty \<and> vs_profileId v = Some i)"

definition profile_buttons :: "vpn_page \<Rightarrow> profile_kind \<Rightarrow> bool \<Rightarrow> string \<Rightarrow> string \<Rightarrow> bool \<Rightarrow> vpn_event element list" where
  "profile_buttons p k isActive i name enabled =
     [Button (if isActive then ''Connected'' else ''Connect'') (\<not> canConnect p \<or> isActive \<or> \<not> enabled) (Press_connect k i),
      Button (''Edit '' @ name) (isActive \<or> operationBusy p) (Edit_profile k i),
      Button (''Delete '' @ name) (isActive \<or> operationBusy p) (Ask_delete k i name)]"

definition wireguard_row :: "vpn_page \<Rightarrow> wireguard_profile_summary \<Rightarrow> vpn_event element list" where
  "wireguard_row p r =
     (let isActive = profile_active p TypeWireguard (wgs_id r) in
      [Shown (wgs_name r)] @ shown_when isActive [Mark ''success'' ''Connected''] @
      shown_when (wgs_enabled r = 0) [Mark ''secondary'' ''Disabled''] @
      [Shown (or_text (wgs_endpoint r) (or_text (wgs_address r) ''Configured''))] @
      profile_buttons p KindWireguard isActive (wgs_id r) (wgs_name r) (wgs_enabled r \<noteq> 0))"

definition wireguard_tab :: "vpn_page \<Rightarrow> vpn_event element list" where
  "wireguard_tab p =
     [Shown ''WireGuard profiles'', Shown ''Imported WireGuard configurations available to the proxy.'',
      Button ''Add profile'' False (New_profile KindWireguard)] @
     (if vp_wireguard p = []
      then [Nothing_here ''No WireGuard profiles'' ''Add a configuration to connect through WireGuard.'']
      else concat (map (wireguard_row p) (vp_wireguard p)))"

definition openvpn_row :: "vpn_page \<Rightarrow> openvpn_profile_summary \<Rightarrow> vpn_event element list" where
  "openvpn_row p r =
     (let isActive = profile_active p TypeOpenvpn (ovs_id r) in
      [Shown (ovs_name r)] @ shown_when (ovs_source r = Vpngate) [Mark ''outline'' ''VPNGate''] @
      shown_when isActive [Mark ''success'' ''Connected''] @
      shown_when (ovs_enabled r = 0) [Mark ''secondary'' ''Disabled''] @
      [Shown (or_text (case ovs_remotes r of [] \<Rightarrow> None | a # _ \<Rightarrow> Some a) ''Configured'')] @
      profile_buttons p KindOpenvpn isActive (ovs_id r) (ovs_name r) (ovs_enabled r \<noteq> 0))"

definition openvpn_tab :: "vpn_page \<Rightarrow> vpn_event element list" where
  "openvpn_tab p =
     [Shown ''OpenVPN profiles'', Shown ''Uploaded configurations and VPNGate servers saved as profiles.'',
      Button ''Add profile'' False (New_profile KindOpenvpn)] @
     (if vp_openvpn p = []
      then [Nothing_here ''No OpenVPN profiles'' ''Upload a configuration or save a VPNGate server.'']
      else concat (map (openvpn_row p) (vp_openvpn p)))"

definition gate_row :: "vpn_page \<Rightarrow> public_vpngate_server \<Rightarrow> vpn_event element list" where
  "gate_row p g =
     (let isActive = active p \<and> (case vp_summary p of None \<Rightarrow> False | Some v \<Rightarrow> vs_profileId v = Some (''vpngate:'' @ g_id g)) in
      [Shown (g_countryLong g), Mark ''outline'' (g_countryShort g)] @ shown_when isActive [Mark ''success'' ''Connected''] @
      [Shown (g_ip g),
       Shown ((if g_ping g = 0 then ''N/A'' else show_int (g_ping g)) @ '' ms - '' @ fixed_1 (g_speed g) 1000000 @
         '' Mbps - '' @ show_int (g_sessions g) @ '' sessions''),
       Button (if isActive then ''Connected'' else ''Connect'') (\<not> canConnect p \<or> isActive) (Press_gate_connect g),
       Button ''Save'' (operationBusy p) (Press_gate_save g)])"

definition vpngate_tab :: "vpn_page \<Rightarrow> vpn_event element list" where
  "vpngate_tab p =
     [Input ''Search country, IP, or hostname'' (vp_search p) False,
      Button (if vp_gateRefreshing p then ''Refreshing...'' else ''Refresh servers'') (vp_gateRefreshing p) Refresh_servers,
      Shown ''Public VPNGate servers'',
      Shown (show_nat (length (filteredGate p)) @ '' matching servers - page '' @ show_nat (shown_page p) @ '' of '' @
        show_nat (gatePages p))] @
     (if visibleGate p = []
      then [Nothing_here ''No VPNGate servers found'' ''Refresh the list or change your search.'']
      else concat (map (gate_row p) (visibleGate p))) @
     [Button ''Previous'' (shown_page p \<le> 1) Previous_servers, Button ''Next'' (gatePages p \<le> shown_page p) Next_servers]"

definition yes_no :: "bool \<Rightarrow> string" where
  "yes_no b = (if b then ''Yes'' else ''No'')"

definition warp_tab :: "vpn_page \<Rightarrow> vpn_event element list" where
  "warp_tab p =
     (let w = vp_warp p;
          has = (\<lambda>f. case w of None \<Rightarrow> False | Some x \<Rightarrow> f x);
          text = (\<lambda>f. case w of None \<Rightarrow> ''Unknown'' | Some x \<Rightarrow> or_text (f x) ''Unknown'');
          other = (map_option vs_type (vp_summary p) \<noteq> Some TypeWarp) in
      [Shown ''Cloudflare WARP'', Shown ''Local WARP client status.'',
       Pair ''Installed'' (yes_no (has ws_installed)),
       Pair ''Service'' (if has ws_daemonRunning then ''Running'' else ''Stopped''),
       Pair ''Registered'' (yes_no (has ws_registered)),
       Pair ''Connected'' (yes_no (has ws_connected)),
       Pair ''Mode'' (text ws_mode), Pair ''Account'' (text ws_accountType), Pair ''Device'' (text ws_deviceId),
       Shown ''Actions'', Shown ''Register, connect, disconnect, or rotate the WARP identity.'',
       Button ''Register'' (operationBusy p \<or> active p \<or> \<not> has ws_installed \<or> has ws_registered) (Press_warp ''register''),
       Button ''Connect'' (\<not> canConnect p \<or> \<not> has ws_installed \<or> \<not> has ws_registered \<or> has ws_connected) (Press_warp ''connect''),
       Button ''Disconnect'' (operationBusy p \<or> \<not> active p \<or> other) (Press_warp ''disconnect''),
       Button ''Rotate'' (operationBusy p \<or> \<not> has ws_installed \<or> \<not> has ws_registered \<or> active p \<and> other) (Press_warp ''rotate'')] @
      shown_for w (\<lambda>x. shown_when (ws_details x \<noteq> []) [Shown (ws_details x)]))"

definition editor_dialog :: "vpn_page \<Rightarrow> vpn_event element list" where
  "editor_dialog p = shown_for (vp_editor p) (\<lambda>ed.
     [Modal ((if truthy (ed_id ed) \<noteq> None then ''Edit'' else ''Add'') @ '' '' @
          (case ed_kind ed of KindWireguard \<Rightarrow> ''WireGuard'' | KindOpenvpn \<Rightarrow> ''OpenVPN'') @ '' profile'')
        ''Paste a complete, valid VPN configuration.'' Close_editor
        (shown_for (truthy (vp_editorError p)) (\<lambda>e. [Notice ''destructive'' ''Validation error'', Notice ''destructive'' e]) @
         [Input ''Name'' (ed_name ed) False, Input ''Configuration'' (ed_config ed) False] @
         shown_when (ed_kind ed = KindOpenvpn) [Input ''Username'' (ed_username ed) False,
            Secret_input ''Password'' (ed_password ed) False] @
         shown_when (truthy (ed_id ed) \<noteq> None) [Check ''Enabled'' (ed_enabled ed) False] @
         [Button ''Cancel'' False Close_editor,
          Button (if vp_editorSaving p then ''Saving...'' else ''Save profile'')
            (vp_editorSaving p \<or> trim (ed_name ed) = [] \<or> trim (ed_config ed) = []) Save_profile])])"

definition delete_dialog :: "vpn_page \<Rightarrow> vpn_event element list" where
  "delete_dialog p = shown_for (vp_deleteTarget p) (\<lambda>d.
     [Modal ''Delete VPN profile?'' (dt_name d @ '' will be permanently removed.'') Cancel_delete
        [Button ''Cancel'' False Cancel_delete, Button ''Delete profile'' False Confirm_delete]])"

definition vpn_view :: "(timestamp \<Rightarrow> string) \<Rightarrow> vpn_page \<Rightarrow> vpn_event element list" where
  "vpn_view when p = vpn_header p @ vpn_tabs @
     (case vp_tab p of TabOverview \<Rightarrow> overview_tab when p | TabWireguard \<Rightarrow> wireguard_tab p | TabOpenvpn \<Rightarrow> openvpn_tab p
        | TabVpngate \<Rightarrow> vpngate_tab p | TabWarp \<Rightarrow> warp_tab p) @
     editor_dialog p @ delete_dialog p"

text \<open>What the other presses do to the page at once.\<close>

definition open_tab :: "vpn_tab \<Rightarrow> vpn_page \<Rightarrow> vpn_page" where
  "open_tab t p = p\<lparr>vp_tab := t\<rparr>"

definition previous_servers :: "vpn_page \<Rightarrow> vpn_page" where
  "previous_servers p = p\<lparr>vp_gatePage := max 1 (vp_gatePage p - 1)\<rparr>"

definition next_servers :: "vpn_page \<Rightarrow> vpn_page" where
  "next_servers p = p\<lparr>vp_gatePage := min (gatePages p) (Suc (vp_gatePage p))\<rparr>"

definition ask_delete_profile :: "delete_target option \<Rightarrow> vpn_page \<Rightarrow> vpn_page" where
  "ask_delete_profile target p = p\<lparr>vp_deleteTarget := target\<rparr>"

subsection \<open>What a press can do\<close>

fun starts_tunnel :: "vpn_event \<Rightarrow> bool" where
  "starts_tunnel (Press_connect k i) = True"
| "starts_tunnel (Press_gate_connect g) = True"
| "starts_tunnel (Press_warp operation) = (operation = ''connect'')"
| "starts_tunnel _ = False"

fun stops_tunnel :: "vpn_event \<Rightarrow> bool" where
  "stops_tunnel Press_disconnect = True"
| "stops_tunnel (Press_warp operation) = (operation = ''disconnect'')"
| "stops_tunnel _ = False"

lemma only_header:
  "only P (vpn_header p) \<longleftrightarrow> P Read_status \<and> (canDisconnect p \<longrightarrow> P Press_disconnect)"
  "only P vpn_tabs \<longleftrightarrow> (\<forall>t. P (Open_tab t))"
  "only P (overview_tab when p) \<longleftrightarrow> vp_speedBusy p \<or> P Run_speed_test"
proof -
  show "only P (vpn_header p) \<longleftrightarrow> P Read_status \<and> (canDisconnect p \<longrightarrow> P Press_disconnect)"
    by (auto simp: vpn_header_def canDisconnect_def split: option.split)
  have "(\<forall>t. P (Open_tab t)) \<longleftrightarrow> P (Open_tab TabOverview) \<and> P (Open_tab TabWireguard) \<and> P (Open_tab TabOpenvpn) \<and>
      P (Open_tab TabVpngate) \<and> P (Open_tab TabWarp)" by (metis vpn_tab.exhaust)
  then show "only P vpn_tabs \<longleftrightarrow> (\<forall>t. P (Open_tab t))" by (simp add: vpn_tabs_def)
  show "only P (overview_tab when p) \<longleftrightarrow> vp_speedBusy p \<or> P Run_speed_test"
    unfolding overview_tab_def Let_def by (cases "vp_speed p") (auto simp: shown_for_def)
qed

definition profile_presses :: "(vpn_event \<Rightarrow> bool) \<Rightarrow> vpn_page \<Rightarrow> profile_kind \<Rightarrow> bool \<Rightarrow> string \<Rightarrow> string \<Rightarrow> bool \<Rightarrow> bool" where
  "profile_presses P p k isActive i name enabled \<longleftrightarrow>
     (canConnect p \<and> \<not> isActive \<and> enabled \<longrightarrow> P (Press_connect k i)) \<and>
     (\<not> isActive \<and> \<not> operationBusy p \<longrightarrow> P (Edit_profile k i) \<and> P (Ask_delete k i name))"

lemma only_profiles:
  "only P (wireguard_tab p) \<longleftrightarrow> P (New_profile KindWireguard) \<and> (\<forall>r \<in> set (vp_wireguard p).
     profile_presses P p KindWireguard (profile_active p TypeWireguard (wgs_id r)) (wgs_id r) (wgs_name r) (wgs_enabled r \<noteq> 0))"
  "only P (openvpn_tab p) \<longleftrightarrow> P (New_profile KindOpenvpn) \<and> (\<forall>r \<in> set (vp_openvpn p).
     profile_presses P p KindOpenvpn (profile_active p TypeOpenvpn (ovs_id r)) (ovs_id r) (ovs_name r) (ovs_enabled r \<noteq> 0))"
proof -
  have "only P (wireguard_row p r) \<longleftrightarrow>
      profile_presses P p KindWireguard (profile_active p TypeWireguard (wgs_id r)) (wgs_id r) (wgs_name r) (wgs_enabled r \<noteq> 0)" for r
    by (auto simp: wireguard_row_def profile_buttons_def profile_presses_def Let_def)
  then show "only P (wireguard_tab p) \<longleftrightarrow> P (New_profile KindWireguard) \<and> (\<forall>r \<in> set (vp_wireguard p).
     profile_presses P p KindWireguard (profile_active p TypeWireguard (wgs_id r)) (wgs_id r) (wgs_name r) (wgs_enabled r \<noteq> 0))"
    by (simp add: wireguard_tab_def)
  have "only P (openvpn_row p r) \<longleftrightarrow>
      profile_presses P p KindOpenvpn (profile_active p TypeOpenvpn (ovs_id r)) (ovs_id r) (ovs_name r) (ovs_enabled r \<noteq> 0)" for r
    by (auto simp: openvpn_row_def profile_buttons_def profile_presses_def Let_def)
  then show "only P (openvpn_tab p) \<longleftrightarrow> P (New_profile KindOpenvpn) \<and> (\<forall>r \<in> set (vp_openvpn p).
     profile_presses P p KindOpenvpn (profile_active p TypeOpenvpn (ovs_id r)) (ovs_id r) (ovs_name r) (ovs_enabled r \<noteq> 0))"
    by (simp add: openvpn_tab_def)
qed

lemma only_gate:
  "only P (vpngate_tab p) \<longleftrightarrow> (vp_gateRefreshing p \<or> P Refresh_servers) \<and> (\<forall>g \<in> set (visibleGate p).
     (canConnect p \<and> \<not> (active p \<and> (case vp_summary p of None \<Rightarrow> False | Some v \<Rightarrow> vs_profileId v = Some (''vpngate:'' @ g_id g)))
        \<longrightarrow> P (Press_gate_connect g)) \<and> (\<not> operationBusy p \<longrightarrow> P (Press_gate_save g))) \<and>
     (1 < shown_page p \<longrightarrow> P Previous_servers) \<and> (shown_page p < gatePages p \<longrightarrow> P Next_servers)"
proof -
  have "only P (gate_row p g) \<longleftrightarrow>
     (canConnect p \<and> \<not> (active p \<and> (case vp_summary p of None \<Rightarrow> False | Some v \<Rightarrow> vs_profileId v = Some (''vpngate:'' @ g_id g)))
        \<longrightarrow> P (Press_gate_connect g)) \<and> (\<not> operationBusy p \<longrightarrow> P (Press_gate_save g))" for g
    unfolding gate_row_def Let_def by auto
  then show ?thesis unfolding vpngate_tab_def by (auto simp: not_le)
qed

lemma only_warp:
  assumes "\<not> operationBusy p \<Longrightarrow> P (Press_warp ''register'') \<and> P (Press_warp ''rotate'')" "canConnect p \<Longrightarrow> P (Press_warp ''connect'')"
    "canDisconnect p \<Longrightarrow> P (Press_warp ''disconnect'')"
  shows "only P (warp_tab p)"
  using assms unfolding warp_tab_def Let_def canDisconnect_def by (auto simp: shown_for_def shown_when_def split: option.splits)

lemma only_dialogs:
  "only P (editor_dialog p)" "only P (delete_dialog p)"
  "only_modal P (editor_dialog p) \<longleftrightarrow> (case vp_editor p of None \<Rightarrow> True | Some ed \<Rightarrow> P Close_editor \<and>
     (\<not> vp_editorSaving p \<and> trim (ed_name ed) \<noteq> [] \<and> trim (ed_config ed) \<noteq> [] \<longrightarrow> P Save_profile))"
  "only_modal P (delete_dialog p) \<longleftrightarrow> vp_deleteTarget p = None \<or> P Cancel_delete \<and> P Confirm_delete"
  by (cases "vp_editor p"; auto simp: editor_dialog_def delete_dialog_def press_all shown_for_def shown_when_def split: option.splits)+

lemma no_dialogs:
  "\<not> list_ex is_modal (vpn_header p)" "\<not> list_ex is_modal vpn_tabs" "\<not> list_ex is_modal (overview_tab when p)"
  "\<not> list_ex is_modal (wireguard_tab p)" "\<not> list_ex is_modal (openvpn_tab p)" "\<not> list_ex is_modal (vpngate_tab p)"
  "\<not> list_ex is_modal (warp_tab p)"
proof -
  show "\<not> list_ex is_modal (vpn_header p)" by (simp add: vpn_header_def split: option.split)
  show "\<not> list_ex is_modal vpn_tabs" by (simp add: vpn_tabs_def)
  show "\<not> list_ex is_modal (overview_tab when p)"
    unfolding overview_tab_def Let_def by (cases "vp_speed p") simp_all
  show "\<not> list_ex is_modal (wireguard_tab p)" "\<not> list_ex is_modal (openvpn_tab p)"
    by (simp_all add: wireguard_tab_def wireguard_row_def openvpn_tab_def openvpn_row_def profile_buttons_def Let_def)
  show "\<not> list_ex is_modal (vpngate_tab p)" by (simp add: vpngate_tab_def gate_row_def Let_def)
  show "\<not> list_ex is_modal (warp_tab p)"
    unfolding warp_tab_def Let_def by (cases "vp_warp p") simp_all
qed

lemmas only_none = no_dialogs [THEN only_modal_none]

text \<open>What holds of every press that a view offers is shown for each of its parts.\<close>

lemma only_view:
  assumes "e \<in> set (offered (vpn_view when p))"
    and "P Read_status" "canDisconnect p \<Longrightarrow> P Press_disconnect" "\<And>t. P (Open_tab t)" "P Run_speed_test"
    and "\<And>k. P (New_profile k)" "\<And>k i. canConnect p \<Longrightarrow> P (Press_connect k i)"
    and "\<And>k i. \<not> operationBusy p \<Longrightarrow> P (Edit_profile k i)" "\<And>k i n. \<not> operationBusy p \<Longrightarrow> P (Ask_delete k i n)"
    and "P Refresh_servers" "\<And>g. canConnect p \<Longrightarrow> P (Press_gate_connect g)" "\<And>g. \<not> operationBusy p \<Longrightarrow> P (Press_gate_save g)"
    and "P Previous_servers" "P Next_servers"
    and "\<not> operationBusy p \<Longrightarrow> P (Press_warp ''register'') \<and> P (Press_warp ''rotate'')" "canConnect p \<Longrightarrow> P (Press_warp ''connect'')"
    and "canDisconnect p \<Longrightarrow> P (Press_warp ''disconnect'')"
    and "P Close_editor" "P Save_profile" "P Cancel_delete" "vp_deleteTarget p \<noteq> None \<Longrightarrow> P Confirm_delete"
  shows "P e"
proof (rule only_offered [OF _ _ assms(1)])
  have tab: "only P (case vp_tab p of TabOverview \<Rightarrow> overview_tab when p | TabWireguard \<Rightarrow> wireguard_tab p
      | TabOpenvpn \<Rightarrow> openvpn_tab p | TabVpngate \<Rightarrow> vpngate_tab p | TabWarp \<Rightarrow> warp_tab p)"
  proof (cases "vp_tab p")
    case TabOverview
    then show ?thesis using assms(5) by (simp add: only_header)
  next
    case TabWireguard
    then show ?thesis using assms(6-9) by (simp add: only_profiles profile_presses_def)
  next
    case TabOpenvpn
    then show ?thesis using assms(6-9) by (simp add: only_profiles profile_presses_def)
  next
    case TabVpngate
    then show ?thesis using assms(10-14) by (simp add: only_gate)
  next
    case TabWarp
    then show ?thesis using only_warp [OF assms(15-17)] by simp
  qed
  show "only P (vpn_view when p)"
    using tab assms(2-4) by (simp add: vpn_view_def only_header only_dialogs)
  have tab': "only_modal P (case vp_tab p of TabOverview \<Rightarrow> overview_tab when p | TabWireguard \<Rightarrow> wireguard_tab p
      | TabOpenvpn \<Rightarrow> openvpn_tab p | TabVpngate \<Rightarrow> vpngate_tab p | TabWarp \<Rightarrow> warp_tab p)"
    by (cases "vp_tab p") (simp_all add: only_none)
  show "only_modal P (vpn_view when p)"
    using tab' assms(18-21) by (cases "vp_deleteTarget p") (simp_all add: vpn_view_def only_none only_dialogs split: option.split)
qed

lemma starting_press: "e \<in> set (offered (vpn_view when p)) \<Longrightarrow> starts_tunnel e \<Longrightarrow> canConnect p"
  by (drule only_view [where P = "\<lambda>e. starts_tunnel e \<longrightarrow> canConnect p"]) simp_all

lemma stopping_press: "e \<in> set (offered (vpn_view when p)) \<Longrightarrow> stops_tunnel e \<Longrightarrow> canDisconnect p"
  by (drule only_view [where P = "\<lambda>e. stops_tunnel e \<longrightarrow> canDisconnect p"]) simp_all

text \<open>While an operation is under way no press outside the dialog of a deletion asks the server for another one.\<close>

lemma no_action_while_busy:
  "e \<in> set (offered (vpn_view when p)) \<Longrightarrow> operationBusy p \<Longrightarrow> vp_deleteTarget p = None \<Longrightarrow> vpn_action p e = None"
  by (drule only_view [where P = "\<lambda>e. operationBusy p \<longrightarrow> vpn_action p e = None"])
    (simp_all add: canConnect_def canDisconnect_def)

text \<open>The button of a WireGuard profile.\<close>

lemma wireguard_connect_offered:
  assumes "vp_tab p = TabWireguard" and "vp_editor p = None" and "vp_deleteTarget p = None"
  shows "Press_connect KindWireguard i \<in> set (offered (vpn_view when p)) \<longleftrightarrow>
     canConnect p \<and> (\<exists>r \<in> set (vp_wireguard p). wgs_id r = i \<and> wgs_enabled r \<noteq> 0)"
proof -
  have plain: "\<not> list_ex is_modal (vpn_view when p)"
    using assms by (simp add: vpn_view_def no_dialogs editor_dialog_def delete_dialog_def)
  have idle: "canConnect p \<Longrightarrow> \<not> profile_active p ty k" for ty k by (simp add: canConnect_def profile_active_def)
  show ?thesis unfolding offered_plain [OF plain] in_presses
    using assms idle by (auto simp: vpn_view_def only_header only_profiles only_dialogs profile_presses_def)
qed


definition demo_vpn_page :: "vpn_summary \<Rightarrow> vpn_page" where
  "demo_vpn_page v = (shown_page_of v)\<lparr>vp_tab := TabWireguard, vp_wireguard := [\<lparr>wgs_id = ''w1'', wgs_name = ''home'',
     wgs_address = None, wgs_endpoint = None, wgs_enabled = 1, wgs_created_at = 0, wgs_updated_at = 0\<rparr>]\<rparr>"


end
