(* ===== verification/Provider_Pages.thy ===== *)
theory Provider_Pages imports Log_Page begin

section \<open>The pages of the providers and their users\<close>

text \<open>
  \<open>app/providers/page.tsx\<close>, \<open>app/providers/[id]/users/page.tsx\<close> and \<open>app/providers/tests/page.tsx\<close>: what the forms send,
  what the handlers do with the responses, and that a form saved without a change changes nothing. Items of the pages
  are the values of the API; a number field of a form holds an integer.
\<close>

text \<open>What a load makes of its response: the data of the payload, when there are any, or the error it throws.\<close>

definition load_result :: "('z) response_scheme \<Rightarrow> 'a option \<Rightarrow> string \<Rightarrow> string + 'a" where
  "load_result r found fallback = (case checked r fallback of
     Inl msg \<Rightarrow> Inl msg
   | Inr payload \<Rightarrow> (case found of
       Some x \<Rightarrow> Inr x
     | None \<Rightarrow> Inl (let e = payload_field ''error'' payload in if js_truthy e then element_text e else fallback)))"

text \<open>A request of a page: \<open>Inl\<close> is a fetch that threw.\<close>

definition answer_outcome :: "string + response \<Rightarrow> string \<Rightarrow> string + json" where
  "answer_outcome answer fallback = (case answer of Inl msg \<Rightarrow> Inl msg | Inr r \<Rightarrow> checked r fallback)"

subsection \<open>The providers\<close>

record provider_form =
  pf_name :: string
  pf_host :: string
  pf_route :: string
  pf_upstreamUsername :: string
  pf_upstreamPassword :: string
  pf_initialUsername :: string
  pf_initialPassword :: string
  pf_isDefault :: bool
  pf_cacheHours :: int
  pf_enabled :: bool

record providers_page =
  pp_providers :: "iptv_provider list"
  pp_loading :: bool
  pp_search :: string
  pp_pageError :: "string option"
  pp_modalOpen :: bool
  pp_editingId :: "string option"
  pp_formError :: "string option"
  pp_saving :: bool
  pp_deleteId :: "string option"
  pp_deleting :: bool
  pp_form :: provider_form

definition loadProviders :: "string + response \<times> iptv_provider list option \<Rightarrow> providers_page \<Rightarrow> providers_page" where
  "loadProviders answer p =
     (let p = p\<lparr>pp_loading := True, pp_pageError := None\<rparr> in
      (case (case answer of Inl msg \<Rightarrow> Inl msg
             | Inr (r, found) \<Rightarrow> load_result r found (''Unable to load providers (HTTP '' @ show_nat (r_status r) @ '').'')) of
         Inl msg \<Rightarrow> p\<lparr>pp_pageError := Some msg\<rparr> | Inr ps \<Rightarrow> p\<lparr>pp_providers := ps\<rparr>)\<lparr>pp_loading := False\<rparr>)"

definition blank_form :: "bool \<Rightarrow> provider_form" where
  "blank_form first = \<lparr>pf_name = [], pf_host = ''http://'', pf_route = [], pf_upstreamUsername = [],
     pf_upstreamPassword = [], pf_initialUsername = [], pf_initialPassword = [], pf_isDefault = first,
     pf_cacheHours = 1, pf_enabled = True\<rparr>"

definition resetForm :: "providers_page \<Rightarrow> providers_page" where
  "resetForm p = p\<lparr>pp_editingId := None, pp_form := blank_form (pp_providers p = []), pp_formError := None\<rparr>"

definition openCreateProvider :: "providers_page \<Rightarrow> providers_page" where
  "openCreateProvider p = (resetForm p)\<lparr>pp_modalOpen := True\<rparr>"

definition form_of :: "iptv_provider \<Rightarrow> provider_form" where
  "form_of provider = \<lparr>pf_name = p_name provider, pf_host = p_host provider, pf_route = p_route provider,
     pf_upstreamUsername = p_upstream_username provider, pf_upstreamPassword = [], pf_initialUsername = [],
     pf_initialPassword = [], pf_isDefault = (p_is_default provider = 1),
     pf_cacheHours = p_cache_duration_hours provider, pf_enabled = (p_enabled provider = 1)\<rparr>"

definition openEditProvider :: "iptv_provider \<Rightarrow> providers_page \<Rightarrow> providers_page" where
  "openEditProvider provider p = p\<lparr>pp_editingId := Some (p_id provider), pp_form := form_of provider,
     pp_formError := None, pp_modalOpen := True\<rparr>"

definition form_body :: "string option \<Rightarrow> provider_form \<Rightarrow> json" where
  "form_body editingId f = JObj (
     [(''name'', JStr (trim (pf_name f))), (''host'', JStr (trim (pf_host f))), (''route'', JStr (trim (pf_route f))),
      (''upstream_username'', JStr (trim (pf_upstreamUsername f))), (''is_default'', JBool (pf_isDefault f)),
      (''cache_duration_hours'', JNum (pf_cacheHours f)), (''enabled'', JBool (pf_enabled f))] @
     (if pf_upstreamPassword f \<noteq> [] then [(''upstream_password'', JStr (pf_upstreamPassword f))] else []) @
     (if truthy editingId = None then [(''local_username'', JStr (trim (pf_initialUsername f))),
        (''local_password'', JStr (pf_initialPassword f))] else []))"

definition form_endpoint :: "string option \<Rightarrow> string \<times> string" where
  "form_endpoint editingId = (case truthy editingId of
     Some i \<Rightarrow> (''PUT'', ''/api/providers/'' @ i) | None \<Rightarrow> (''POST'', ''/api/providers''))"

definition saveProvider_started :: "providers_page \<Rightarrow> providers_page" where
  "saveProvider_started p = p\<lparr>pp_saving := True, pp_formError := None\<rparr>"

definition saveProvider_answered ::
  "string + response \<Rightarrow> string + response \<times> iptv_provider list option \<Rightarrow> providers_page \<Rightarrow> providers_page" where
  "saveProvider_answered answer loaded p =
     (case answer_outcome answer ''Failed to save provider.'' of
        Inl msg \<Rightarrow> p\<lparr>pp_formError := Some msg\<rparr>
      | Inr _ \<Rightarrow> loadProviders loaded (p\<lparr>pp_modalOpen := False\<rparr>))\<lparr>pp_saving := False\<rparr>"

definition page_setDefaultProvider ::
  "string + response \<Rightarrow> string + response \<times> iptv_provider list option \<Rightarrow> providers_page \<Rightarrow> providers_page" where
  "page_setDefaultProvider answer loaded p =
     (let p = p\<lparr>pp_pageError := None\<rparr> in
      case answer_outcome answer ''Failed to set default provider.'' of
        Inl msg \<Rightarrow> p\<lparr>pp_pageError := Some msg\<rparr> | Inr _ \<Rightarrow> loadProviders loaded p)"

definition deleteProvider_started :: "providers_page \<Rightarrow> providers_page" where
  "deleteProvider_started p = (if truthy (pp_deleteId p) = None then p else p\<lparr>pp_deleting := True, pp_pageError := None\<rparr>)"

definition deleteProvider_answered ::
  "string + response \<Rightarrow> string + response \<times> iptv_provider list option \<Rightarrow> providers_page \<Rightarrow> providers_page" where
  "deleteProvider_answered answer loaded p =
     (case answer_outcome answer ''Failed to delete provider.'' of
        Inl msg \<Rightarrow> p\<lparr>pp_pageError := Some msg\<rparr>
      | Inr _ \<Rightarrow> loadProviders loaded (p\<lparr>pp_deleteId := None\<rparr>))\<lparr>pp_deleting := False\<rparr>"

definition filtered_providers :: "providers_page \<Rightarrow> iptv_provider list" where
  "filtered_providers p =
     (let query = toLowerCase (trim (pp_search p)) in
      if query = [] then pp_providers p
      else filter (\<lambda>r. includesStr (toLowerCase (p_name r)) query \<or> includesStr (toLowerCase (p_route r)) query
        \<or> includesStr (toLowerCase (p_host r)) query) (pp_providers p))"

definition selectedForDelete :: "providers_page \<Rightarrow> iptv_provider option" where
  "selectedForDelete p = find (\<lambda>r. pp_deleteId p = Some (p_id r)) (pp_providers p)"

subsection \<open>The client users\<close>

record users_page =
  up_provider :: "iptv_provider option"
  up_users :: "provider_user list"
  up_loading :: bool
  up_pageError :: "string option"
  up_message :: "string option"
  up_editorOpen :: bool
  up_editingUser :: "provider_user option"
  up_username :: string
  up_password :: string
  up_enabled :: bool
  up_saving :: bool
  up_formError :: "string option"
  up_deleteUser :: "provider_user option"
  up_deleting :: bool

text \<open>Both responses are there before either is looked at.\<close>

definition loadUsers ::
  "string + (response \<times> iptv_provider option) \<times> (response \<times> provider_user list option) \<Rightarrow> users_page \<Rightarrow> users_page" where
  "loadUsers answer p =
     (let p = p\<lparr>up_loading := True, up_pageError := None\<rparr> in
      (case answer of
         Inl msg \<Rightarrow> p\<lparr>up_pageError := Some msg\<rparr>
       | Inr ((pr, provider), (ur, users)) \<Rightarrow>
           (case load_result pr provider ''Unable to load provider.'' of
              Inl msg \<Rightarrow> p\<lparr>up_pageError := Some msg\<rparr>
            | Inr q \<Rightarrow> (case load_result ur users ''Unable to load provider users.'' of
                Inl msg \<Rightarrow> p\<lparr>up_pageError := Some msg\<rparr>
              | Inr us \<Rightarrow> p\<lparr>up_provider := Some q, up_users := us\<rparr>)))\<lparr>up_loading := False\<rparr>)"

definition openCreateUser :: "users_page \<Rightarrow> users_page" where
  "openCreateUser p = p\<lparr>up_editingUser := None, up_username := [], up_password := [], up_enabled := True,
     up_formError := None, up_editorOpen := True\<rparr>"

definition openEditUser :: "provider_user \<Rightarrow> users_page \<Rightarrow> users_page" where
  "openEditUser user p = p\<lparr>up_editingUser := Some user, up_username := pu_username user, up_password := [],
     up_enabled := (pu_enabled user = 1), up_formError := None, up_editorOpen := True\<rparr>"

definition user_body :: "users_page \<Rightarrow> json" where
  "user_body p = JObj ([(''username'', JStr (trim (up_username p))), (''enabled'', JBool (up_enabled p))] @
     (if up_password p \<noteq> [] then [(''password'', JStr (up_password p))] else []))"

definition saveUser_started :: "users_page \<Rightarrow> users_page" where
  "saveUser_started p = p\<lparr>up_saving := True, up_formError := None, up_message := None\<rparr>"

definition saved_message :: "bool \<Rightarrow> json \<Rightarrow> string" where
  "saved_message editing payload =
     (if payload_field ''registryRefreshed'' payload = JBool False
      then ''User saved. The proxy core will apply it on the next registry sync.''
      else if editing then ''User updated and applied to the proxy core.''
      else ''User added and applied to the proxy core.'')"

definition saveUser_answered ::
  "string + response \<Rightarrow> string + (response \<times> iptv_provider option) \<times> (response \<times> provider_user list option) \<Rightarrow>
     users_page \<Rightarrow> users_page" where
  "saveUser_answered answer loaded p =
     (case answer_outcome answer ''Unable to save user.'' of
        Inl msg \<Rightarrow> p\<lparr>up_formError := Some msg\<rparr>
      | Inr payload \<Rightarrow> loadUsers loaded (p\<lparr>up_editorOpen := False,
          up_message := Some (saved_message (up_editingUser p \<noteq> None) payload)\<rparr>))\<lparr>up_saving := False\<rparr>"

definition removeUser_started :: "users_page \<Rightarrow> users_page" where
  "removeUser_started p = (if up_deleteUser p = None then p
     else p\<lparr>up_deleting := True, up_pageError := None, up_message := None\<rparr>)"

definition removeUser_answered ::
  "string + response \<Rightarrow> string + (response \<times> iptv_provider option) \<times> (response \<times> provider_user list option) \<Rightarrow>
     users_page \<Rightarrow> users_page" where
  "removeUser_answered answer loaded p =
     (case answer_outcome answer ''Unable to remove user.'' of
        Inl msg \<Rightarrow> p\<lparr>up_pageError := Some msg\<rparr>
      | Inr payload \<Rightarrow> loadUsers loaded (p\<lparr>up_deleteUser := None, up_message := Some
          (if payload_field ''registryRefreshed'' payload = JBool False
           then ''User removed. The proxy core will apply it on the next registry sync.''
           else ''User removed and access revoked from the proxy core.'')\<rparr>))\<lparr>up_deleting := False\<rparr>"

definition enabledCount :: "users_page \<Rightarrow> nat" where
  "enabledCount p = length (filter (\<lambda>u. pu_enabled u = 1) (up_users p))"

subsection \<open>The tests\<close>

record test_state =
  ts_loading :: bool
  ts_data :: json
  ts_error :: "string option"

definition emptyState :: test_state where
  "emptyState = \<lparr>ts_loading = False, ts_data = JNull, ts_error = None\<rparr>"

type_synonym test_results = "string \<Rightarrow> test_state option"

definition testProvider_started :: "string \<Rightarrow> test_results \<Rightarrow> test_results" where
  "testProvider_started pid results = results(pid \<mapsto>
     (case results pid of Some st \<Rightarrow> st | None \<Rightarrow> emptyState)\<lparr>ts_loading := True, ts_error := None\<rparr>)"

definition test_answer :: "string + response \<Rightarrow> test_state" where
  "test_answer answer = (case answer of
     Inl msg \<Rightarrow> \<lparr>ts_loading = False, ts_data = JNull, ts_error = Some msg\<rparr>
   | Inr r \<Rightarrow>
       (let payload = readJson r in
        if payload = JNull then \<lparr>ts_loading = False, ts_data = JNull, ts_error = Some (null_error ''data'')\<rparr>
        else
          let given = payload_field ''data'' payload; data = (if js_truthy given then given else JNull);
              e = payload_field ''error'' payload in
          if \<not> r_ok r \<or> \<not> js_truthy (payload_field ''success'' payload)
          then \<lparr>ts_loading = False, ts_data = data, ts_error = Some (if js_truthy e then element_text e
                  else ''Provider test failed with HTTP '' @ show_nat (r_status r) @ ''.'')\<rparr>
          else \<lparr>ts_loading = False, ts_data = data, ts_error = None\<rparr>))"

definition testProvider_answered :: "string \<times> (string + response) \<Rightarrow> test_results \<Rightarrow> test_results" where
  "testProvider_answered a results = results(fst a \<mapsto> test_answer (snd a))"

text \<open>All tests are started at once; their answers come in any order.\<close>

definition testAll :: "string list \<Rightarrow> (string \<times> (string + response)) list \<Rightarrow> test_results \<Rightarrow> test_results" where
  "testAll pids answers results = fold testProvider_answered answers (fold testProvider_started pids results)"

subsection \<open>Saving a form\<close>

lemma trimmed_value_trim: "trimmed_value lo hi (JStr (trim x)) = Some y \<Longrightarrow> y = trim x"
  by (auto simp: trimmed_value_def bounded_def split: if_splits)

lemma url_value_trim: "url_value env hi (JStr (trim x)) = Some y \<Longrightarrow> y = trim x"
  by (auto simp: url_value_def split: option.splits if_splits dest: trimmed_value_trim)

lemma text_value_same: "text_value lo hi (JStr x) = Some y \<Longrightarrow> y = x"
  by (auto simp: text_value_def bounded_def split: if_splits)

lemma int_value_same: "int_value lo hi (JNum i) = Some j \<Longrightarrow> j = i"
  by (auto simp: int_value_def split: if_splits)

text \<open>What the schema of an update reads from the form of a provider whose password field is left empty.\<close>

lemma edit_form_input:
  assumes "updateProviderSchema env (form_body (Some i) f) = Some inp" and "i \<noteq> []" and "pf_upstreamPassword f = []"
  shows "inp = \<lparr>ui_name = Some (trim (pf_name f)), ui_host = Some (trim (pf_host f)), ui_route = Some (trim (pf_route f)),
     ui_upstream_username = Some (trim (pf_upstreamUsername f)), ui_upstream_password = None, ui_local_username = None,
     ui_local_password = None, ui_is_default = Some (pf_isDefault f), ui_cache_duration_hours = Some (pf_cacheHours f),
     ui_enabled = Some (pf_enabled f)\<rparr>"
  using assms
  by (auto simp: updateProviderSchema_def form_body_def truthy_def is_object_def optional_def get_field_def bool_value_def
      bind_eq_Some_conv dest!: trimmed_value_trim url_value_trim int_value_same)

text \<open>What the schema of a creation reads from the form.\<close>

lemma create_form_input:
  assumes "createProviderSchema env (form_body None f) = Some inp"
  shows "ci_name inp = trim (pf_name f)" and "ci_host inp = trim (pf_host f)" and "ci_route inp = trim (pf_route f)"
    and "ci_upstream_username inp = trim (pf_upstreamUsername f)" and "ci_upstream_password inp = pf_upstreamPassword f"
    and "ci_local_username inp = trim (pf_initialUsername f)" and "ci_local_password inp = pf_initialPassword f"
    and "ci_is_default inp = Some (pf_isDefault f)" and "ci_enabled inp = Some (pf_enabled f)"
    and "ci_cache_duration_hours inp = Some (pf_cacheHours f)" and "pf_upstreamPassword f \<noteq> []"
  using assms
  by (auto simp: createProviderSchema_def form_body_def truthy_def required_def optional_def get_field_def bool_value_def
      bind_eq_Some_conv dest!: trimmed_value_trim url_value_trim int_value_same text_value_same split: if_splits)

definition tidy_provider :: "'w env \<Rightarrow> provider \<Rightarrow> bool" where
  "tidy_provider env r \<longleftrightarrow> trim (p_name r) = p_name r \<and> normalizeHost env (trim (p_host r)) = Inr (p_host r) \<and>
     normalizeRoute (trim (p_route r)) = p_route r \<and> trim (p_upstream_username r) = p_upstream_username r \<and>
     p_is_default r \<in> {0, 1} \<and> p_enabled r \<in> {0, 1}"

lemma only_default:
  assumes "p_uniq t" and "r \<in> set t" and "p_is_default r = 1"
  shows "cleared b now (\<lambda>x. p_id x \<noteq> p_id r) t = t"
proof -
  have "x = r" if "x \<in> set t" "p_is_default x = 1" for x
  proof -
    have "x \<in> set (filter (\<lambda>r. p_is_default r = 1) t)" "r \<in> set (filter (\<lambda>r. p_is_default r = 1) t)" using that assms by auto
    moreover have "length (filter (\<lambda>r. p_is_default r = 1) t) \<le> 1" using assms(1) by (simp add: p_uniq_def)
    ultimately show ?thesis by (cases "filter (\<lambda>r. p_is_default r = 1) t") auto
  qed
  then show ?thesis by (auto simp: cleared_def update_where_def intro!: map_idI)
qed



text \<open>A user form saved with an empty password field keeps the verifier; the name and the access are those of the form.\<close>

lemma saved_user_form:
  assumes "db_inv s" and "updateUserSchema (user_body p) = Some inp" and "up_password p = []"
    and "updateUser env pid uid inp s = (Inr u, t)"
  shows "\<exists>old \<in> set (t_provider_users s). \<exists>new. pu_id old = uid \<and> pu_id new = uid \<and>
     t_provider_users t = update_where (\<lambda>r. pu_id r = uid) (\<lambda>_. new) (t_provider_users s) \<and>
     pu_username new = trim (up_username p) \<and> pu_enabled new = (if up_enabled p then 1 else 0) \<and>
     pu_password_hash new = pu_password_hash old"
proof -
  have inp: "inp = \<lparr>uu_username = Some (trim (up_username p)), uu_password = None, uu_enabled = Some (up_enabled p)\<rparr>"
    using assms(2,3)
    by (auto simp: updateUserSchema_def user_body_def is_object_def optional_def get_field_def bool_value_def
        bind_eq_Some_conv dest!: trimmed_value_trim)
  then have fields: "uu_username inp = Some (trim (up_username p))" "uu_password inp = None" "uu_enabled inp = Some (up_enabled p)"
    by simp_all
  obtain old new where "old \<in> set (t_provider_users s)" "pu_id old = uid" "pu_id new = uid"
    "t_provider_users t = update_where (\<lambda>r. pu_id r = uid) (\<lambda>_. new) (t_provider_users s)"
    "pu_username new = trim (trim (up_username p))" "pu_enabled new = (if up_enabled p then 1 else 0)"
    "pu_password_hash new = pu_password_hash old"
    using updateUser_Inr [OF assms(4,1)] unfolding fields by auto
  then show ?thesis by (metis trim_trim)
qed

text \<open>A provider created with the form is stored as the form shows it: the last row carries the trimmed name and the
  normalised route and host, is the default exactly if that was ticked, and its one client user has the name of the form and
  a verifier of the password of the form.\<close>

theorem created_as_shown:
  assumes "db_inv s" and "createProviderSchema env (form_body None f) = Some inp" and "createProvider env inp s = (Inr p, t)"
  shows "\<exists>rows row u. t_providers t = rows @ [row] \<and> map p_id rows = map p_id (t_providers s) \<and>
     t_provider_users t = t_provider_users s @ [u] \<and> p_name row = trim (pf_name f) \<and>
     p_route row = normalizeRoute (trim (pf_route f)) \<and> Inr (p_host row) = normalizeHost env (trim (pf_host f)) \<and>
     (p_is_default row = 1 \<longleftrightarrow> pf_isDefault f) \<and> pu_provider_id u = p_id row \<and>
     pu_username u = trim (pf_initialUsername f) \<and> made_verifier env (pf_initialPassword f) (pu_password_hash u)"
  using createProvider_Inr [OF assms(3,1)] create_form_input [OF assms(2)] by fastforce

text \<open>The first provider is offered as the default.\<close>

lemma first_is_default: "pp_providers p = [] \<Longrightarrow> pf_isDefault (pp_form (openCreateProvider p))"
  by (simp add: openCreateProvider_def resetForm_def blank_form_def)

subsection \<open>The order of the answers\<close>

lemma answered_lookup:
  "distinct (map fst as) \<Longrightarrow> fold testProvider_answered as results pid =
     (case map_of as pid of Some a \<Rightarrow> Some (test_answer a) | None \<Rightarrow> results pid)"
proof (induction as arbitrary: results)
  case (Cons a as)
  then have "map_of as (fst a) = None" by (simp add: map_of_eq_None_iff)
  with Cons show ?case
    by (cases "pid = fst a") (simp_all add: testProvider_answered_def split: option.splits)
qed simp

text \<open>When all providers are tested at once, what the page shows in the end does not depend on the order in which the tests
  answer: every provider has the result of its own answer.\<close>

theorem tests_in_any_order:
  assumes "distinct pids" and "map fst answers = pids" and "mset answers' = mset answers"
  shows "testAll pids answers' results = testAll pids answers results \<and>
     list_all (\<lambda>(pid, a). testAll pids answers results pid = Some (test_answer a)) answers"
proof -
  have d: "distinct (map fst answers)" using assms(1,2) by simp
  have "mset (map fst answers') = mset (map fst answers)" using assms(3) by (metis mset_map)
  then have d': "distinct (map fst answers')" using d by (metis mset_eq_imp_distinct_iff)
  have "map_of answers' = map_of answers"
    using d d' assms(3) by (metis map_of_inject_set mset_eq_setD)
  then show ?thesis
    using d d' by (auto simp: testAll_def fun_eq_iff answered_lookup list_all_iff)
qed

subsection \<open>Concrete forms\<close>

lemmas form_eval = trimmed_value_def text_value_def url_value_def bool_value_def int_value_def bounded_def is_object_def
  optional_def required_def get_field_def truthy_def

lemma demo_provider_texts:
  "trim ''One'' = ''One''" "trim ''http://up'' = ''http://up''" "trim ''one'' = ''one''" "trim ''a'' = ''a''"
  by (simp_all add: trim_def trimStart_def trimEnd_def char_eval)

lemma demo_provider_tidy: "tidy_provider demo_env demo_provider"
  by (simp add: tidy_provider_def demo_provider_def demo_provider_texts) (simp add: provider_eval)

definition demo_edit :: update_provider_input where
  "demo_edit = \<lparr>ui_name = Some ''One'', ui_host = Some ''http://up'', ui_route = Some ''one'', ui_upstream_username = Some ''a'',
     ui_upstream_password = None, ui_local_username = None, ui_local_password = None, ui_is_default = Some True,
     ui_cache_duration_hours = Some 1, ui_enabled = Some True\<rparr>"

lemma demo_edit_parsed:
  "updateProviderSchema demo_env (form_body (Some ''p1'') (form_of (shown_provider demo_provider False demo_db))) = Some demo_edit"
  by (simp add: form_of_def form_body_def updateProviderSchema_def demo_edit_def form_eval demo_provider_def
      demo_provider_texts demo_url_def)

lemma demo_edit_saved: "\<exists>p t. updateProvider demo_env ''p1'' demo_edit demo_db = (Inr p, t)"
  by (simp add: updateProvider_def demo_edit_def unmasked_def chosen_def provider_eval)


definition demo_form :: provider_form where
  "demo_form = (blank_form True)\<lparr>pf_name := '' Two'', pf_host := ''http://h/'', pf_route := ''Two'', pf_upstreamUsername := ''u'',
     pf_upstreamPassword := ''v'', pf_initialUsername := ''w'', pf_initialPassword := ''x''\<rparr>"

definition demo_parsed :: create_provider_input where
  "demo_parsed = demo_provider_input\<lparr>ci_cache_duration_hours := Some 1, ci_enabled := Some True\<rparr>"

lemma demo_form_parsed: "createProviderSchema demo_env (form_body None demo_form) = Some demo_parsed"
proof -
  have t: "trim '' Two'' = ''Two''" "trim ''Two'' = ''Two''" "trim ''http://h/'' = ''http://h/''" "trim ''u'' = ''u''" "trim ''w'' = ''w''"
    by (simp_all add: trim_def trimStart_def trimEnd_def char_eval)
  show ?thesis
    by (simp add: demo_form_def blank_form_def form_body_def createProviderSchema_def demo_parsed_def demo_provider_input_def
        form_eval t demo_url_def)
qed

lemma demo_form_saved: "\<exists>p t. createProvider demo_env demo_parsed demo_db = (Inr p, t)"
  by (simp add: createProvider_def demo_parsed_def demo_provider_input_def provider_eval)

theorem created_as_shown_witness:
  "\<exists>p t row. createProvider demo_env demo_parsed demo_db = (Inr p, t) \<and> p_name row = ''Two'' \<and>
     row \<in> set (t_providers t) \<and> p_is_default row = 1"
proof -
  obtain p t where run: "createProvider demo_env demo_parsed demo_db = (Inr p, t)" using demo_form_saved by blast
  have "trim (pf_name demo_form) = ''Two''" "pf_isDefault demo_form"
    by (simp_all add: demo_form_def blank_form_def trim_def trimStart_def trimEnd_def char_eval)
  with created_as_shown [OF demo_db_inv demo_form_parsed run] run show ?thesis by fastforce
qed

theorem tests_in_any_order_witness:
  "testAll [''p1'', ''p2''] [(''p2'', Inl ''down''), (''p1'', Inl ''late'')] Map.empty =
   testAll [''p1'', ''p2''] [(''p1'', Inl ''late''), (''p2'', Inl ''down'')] Map.empty"
  using tests_in_any_order [of "[''p1'', ''p2'']" "[(''p1'', Inl ''late''), (''p2'', Inl ''down'')]"
      "[(''p2'', Inl ''down''), (''p1'', Inl ''late'')]" Map.empty] by simp

end
