(* ===== verification/Provider_Views.thy ===== *)
theory Provider_Views imports Provider_Pages View begin

section \<open>The pages of the providers, their users and their tests on the screen\<close>

text \<open>
  The render functions of \<open>app/providers/page.tsx\<close>, \<open>app/providers/[id]/users/page.tsx\<close> and
  \<open>app/providers/tests/page.tsx\<close>. The argument \<open>when\<close> is the browser's \<open>toLocaleString\<close> of an instant. The browser's check that the upstream
  address is a URL is left out.
\<close>

subsection \<open>The providers\<close>

datatype providers_event =
    Open_create
  | Reload_providers
  | Press_set_default string
  | Open_edit iptv_provider
  | Ask_delete_provider string
  | Close_form
  | Cancel_form
  | Submit_provider
  | Cancel_delete_provider
  | Confirm_delete_provider

definition users_of :: "iptv_provider \<Rightarrow> provider_user list" where
  "users_of provider = (case p_users provider of None \<Rightarrow> [] | Some us \<Rightarrow> us)"

definition provider_table_row :: "iptv_provider \<Rightarrow> providers_event element list" where
  "provider_table_row provider =
     (let enabledUsers = length (filter (\<lambda>u. pu_enabled u = 1) (users_of provider)); totalUsers = length (users_of provider) in
      [Shown (p_name provider)] @ shown_when (p_is_default provider = 1) [Mark ''secondary'' ''Default''] @
      [Shown (p_host provider), Shown (''/'' @ p_route provider),
       Shown (show_nat enabledUsers @ '' enabled''), Shown (show_nat totalUsers @ '' total''),
       Shown (if p_cache_duration_hours provider = 0 then ''Off'' else show_int (p_cache_duration_hours provider) @ ''h''),
       Mark (if p_enabled provider = 1 then ''success'' else ''secondary'') (if p_enabled provider = 1 then ''Enabled'' else ''Disabled''),
       Link ''Users'' (''/providers/'' @ p_id provider @ ''/users'')] @
      shown_when (p_is_default provider \<noteq> 1) [Button ''Set default'' False (Press_set_default (p_id provider))] @
      [Button (''Edit '' @ p_name provider) False (Open_edit provider),
       Button (''Delete '' @ p_name provider) False (Ask_delete_provider (p_id provider))])"

definition providers_table :: "providers_page \<Rightarrow> providers_event element list" where
  "providers_table p =
     (if pp_loading p \<and> pp_providers p = [] then [Shown ''Loading providers...'']
      else if filtered_providers p = [] then
        (if pp_providers p = []
         then [Nothing_here ''No providers configured'' ''Add your first Xtream provider to begin routing traffic.'',
               Button ''Add provider'' False Open_create]
         else [Nothing_here ''No providers found'' ''Try a different search.''])
      else map Shown [''Provider'', ''Route'', ''Client users'', ''Cache'', ''Status'', ''Actions''] @
        concat (map provider_table_row (filtered_providers p)))"

definition provider_fields :: "providers_page \<Rightarrow> providers_event element list" where
  "provider_fields p =
     (let f = pp_form p; editing = (truthy (pp_editingId p) \<noteq> None) in
      [Input ''Name'' (pf_name f) True, Input ''Route'' (pf_route f) True,
       Shown (''Public path: /'' @ (if pf_route f = [] then ''route'' else pf_route f) @ ''/...''),
       Input ''Upstream URL'' (pf_host f) True, Shown ''Upstream credentials'',
       Shown ''The account issued by the IPTV provider. These credentials remain server-side.'',
       Input ''Username'' (pf_upstreamUsername f) True, Secret_input ''Password'' (pf_upstreamPassword f) (\<not> editing)] @
      (if \<not> editing
       then [Shown ''Initial client user'',
             Shown ''Create the first login your IPTV player will use. More users can be added after saving.'',
             Input ''Username'' (pf_initialUsername f) True, Secret_input ''Password'' (pf_initialPassword f) True]
       else [Notice ''default'' ''Client usernames and passwords are managed separately so provider edits cannot accidentally change client access.'']) @
      [Input ''Metadata cache (hours)'' (show_int (pf_cacheHours f)) False, Shown ''Set to 0 to bypass metadata caching.'',
       Check ''Enabled'' (pf_enabled f) False, Check ''Default provider'' (pf_isDefault f) False])"

definition provider_form_dialog :: "providers_page \<Rightarrow> providers_event element list" where
  "provider_form_dialog p = shown_when (pp_modalOpen p)
     (let editing = truthy (pp_editingId p) in
      [Modal (if editing \<noteq> None then ''Edit provider'' else ''Add provider'')
        (if editing \<noteq> None then ''Update the upstream connection and routing settings.''
         else ''Connect an upstream provider and create the first client login.'') Close_form
        (shown_for (truthy (pp_formError p)) (\<lambda>e. [Notice ''destructive'' e]) @ provider_fields p @
         shown_for editing (\<lambda>i. [Link ''Manage users'' (''/providers/'' @ i @ ''/users'')]) @
         [Button ''Cancel'' False Cancel_form,
          Button (if pp_saving p then ''Saving...'' else if editing \<noteq> None then ''Save changes'' else ''Add provider'')
            (pp_saving p \<or> incomplete (provider_fields p) \<or> pf_cacheHours (pp_form p) < 0 \<or> pf_cacheHours (pp_form p) > 24)
            Submit_provider])])"

definition provider_delete_dialog :: "providers_page \<Rightarrow> providers_event element list" where
  "provider_delete_dialog p = shown_when (truthy (pp_deleteId p) \<noteq> None)
     [Modal ''Delete provider?''
        (case selectedForDelete p of
           Some q \<Rightarrow> ''This permanently removes '' @ p_name q @ '', all of its client users, and its routing configuration.''
         | None \<Rightarrow> ''This action cannot be undone.'') Cancel_delete_provider
        [Button ''Cancel'' (pp_deleting p) Cancel_delete_provider,
         Button (if pp_deleting p then ''Deleting...'' else ''Delete provider'') (pp_deleting p) Confirm_delete_provider]]"

definition providers_view :: "providers_page \<Rightarrow> providers_event element list" where
  "providers_view p =
     [Shown ''Providers'', Shown ''Manage upstream Xtream providers, client access, routes, and metadata caching.'',
      Link ''Test providers'' ''/providers/tests'', Button ''Add provider'' False Open_create] @
     shown_for (truthy (pp_pageError p)) (\<lambda>e. [Notice ''destructive'' e]) @
     [Input ''Search providers'' (pp_search p) False, Shown (show_nat (length (pp_providers p)) @ '' total''),
      Shown (show_nat (length (filter (\<lambda>r. p_enabled r = 1) (pp_providers p))) @ '' enabled''),
      Button ''Refresh providers'' (pp_loading p) Reload_providers] @
     providers_table p @ provider_form_dialog p @ provider_delete_dialog p"

text \<open>What a press does to the page at once; requests that it sends are answered later.\<close>

definition close_provider_form :: "providers_page \<Rightarrow> providers_page" where
  "close_provider_form p = p\<lparr>pp_modalOpen := False, pp_formError := None\<rparr>"

definition cancel_provider_form :: "providers_page \<Rightarrow> providers_page" where
  "cancel_provider_form p = p\<lparr>pp_modalOpen := False\<rparr>"

definition ask_delete_provider :: "string option \<Rightarrow> providers_page \<Rightarrow> providers_page" where
  "ask_delete_provider i p = p\<lparr>pp_deleteId := i\<rparr>"

subsection \<open>The client users\<close>

datatype users_event =
    Open_create_user
  | Reload_users
  | Open_edit_user provider_user
  | Ask_remove_user provider_user
  | Close_user_form
  | Cancel_user_form
  | Submit_user
  | Cancel_remove_user
  | Confirm_remove_user

definition user_table_row :: "(timestamp \<Rightarrow> string) \<Rightarrow> provider_user \<Rightarrow> users_event element list" where
  "user_table_row when user =
     [Shown (pu_username user),
      Mark (if pu_enabled user = 1 then ''success'' else ''secondary'') (if pu_enabled user = 1 then ''Enabled'' else ''Disabled''),
      Shown (when (pu_updated_at user)),
      Button (''Edit '' @ pu_username user) False (Open_edit_user user),
      Button (''Delete '' @ pu_username user) False (Ask_remove_user user)]"

definition users_table :: "(timestamp \<Rightarrow> string) \<Rightarrow> users_page \<Rightarrow> users_event element list" where
  "users_table when p =
     [Shown ''Client access'', Shown ''Each user gets an independent username and password for the same upstream provider.'',
      Button ''Refresh users'' (up_loading p) Reload_users] @
     (if up_loading p \<and> up_users p = [] then [Shown ''Loading users...'']
      else if up_users p = []
      then [Nothing_here ''No client users'' ''This provider cannot be used by IPTV clients until you add a user.'',
            Button ''Add user'' False Open_create_user]
      else map Shown [''Username'', ''Status'', ''Updated'', ''Actions''] @ concat (map (user_table_row when) (up_users p)))"

definition user_fields :: "users_page \<Rightarrow> users_event element list" where
  "user_fields p =
     [Input ''Username'' (up_username p) True, Secret_input ''Password'' (up_password p) (up_editingUser p = None),
      Check ''Enabled'' (up_enabled p) False, Shown ''Disabled users are rejected immediately.'']"

definition user_form_dialog :: "users_page \<Rightarrow> users_event element list" where
  "user_form_dialog p = shown_when (up_editorOpen p)
     (let editing = (up_editingUser p \<noteq> None) in
      [Modal (if editing then ''Edit client user'' else ''Add client user'')
        (if editing then ''Change the username, password, or access status. Leave the password blank to keep it unchanged.''
         else ''Create a login for an IPTV client.'') Close_user_form
        (shown_for (truthy (up_formError p)) (\<lambda>e. [Notice ''destructive'' e]) @ user_fields p @
         [Button ''Cancel'' (up_saving p) Cancel_user_form,
          Button (if up_saving p then ''Saving...'' else if editing then ''Save changes'' else ''Add user'')
            (up_saving p \<or> incomplete (user_fields p)) Submit_user])])"

definition user_delete_dialog :: "users_page \<Rightarrow> users_event element list" where
  "user_delete_dialog p = shown_for (up_deleteUser p) (\<lambda>user.
     [Modal ''Remove client user?''
        (pu_username user @ '' will immediately lose access to this provider. Existing metadata cache remains shared and unchanged.'')
        Cancel_remove_user
        [Button ''Cancel'' (up_deleting p) Cancel_remove_user,
         Button (if up_deleting p then ''Removing...'' else ''Remove user'') (up_deleting p) Confirm_remove_user]])"

definition users_view :: "(timestamp \<Rightarrow> string) \<Rightarrow> users_page \<Rightarrow> users_event element list" where
  "users_view when p =
     (let enabled = (case up_provider p of None \<Rightarrow> False | Some q \<Rightarrow> p_enabled q = 1) in
      [Shown (case up_provider p of None \<Rightarrow> ''Provider users'' | Some q \<Rightarrow> p_name q @ '' users''),
       Shown ''Create separate client logins for this provider. Password changes and removals are applied to the proxy core immediately.'',
       Link ''Providers'' ''/providers'', Button ''Add user'' (up_provider p = None) Open_create_user] @
      shown_for (truthy (up_pageError p)) (\<lambda>e. [Notice ''destructive'' e]) @
      shown_for (truthy (up_message p)) (\<lambda>m. [Notice ''success'' m]) @
      [Pair ''Provider'' (case truthy (map_option p_name (up_provider p)) of None \<Rightarrow> ''Loading...'' | Some n \<Rightarrow> n),
       Shown (''Route: /'' @ (case truthy (map_option p_route (up_provider p)) of None \<Rightarrow> ''...'' | Some n \<Rightarrow> n)),
       Pair ''Client users'' (show_nat (length (up_users p))), Shown (show_nat (enabledCount p) @ '' enabled''),
       Shown ''Provider status'', Mark (if enabled then ''success'' else ''secondary'') (if enabled then ''Enabled'' else ''Disabled''),
       Shown ''Disabled providers reject all client access.''] @
      users_table when p @ user_form_dialog p @ user_delete_dialog p)"

definition close_user_form :: "users_page \<Rightarrow> users_page" where
  "close_user_form p = p\<lparr>up_editorOpen := False, up_formError := None\<rparr>"

definition cancel_user_form :: "users_page \<Rightarrow> users_page" where
  "cancel_user_form p = p\<lparr>up_editorOpen := False\<rparr>"

definition ask_remove_user :: "provider_user option \<Rightarrow> users_page \<Rightarrow> users_page" where
  "ask_remove_user user p = p\<lparr>up_deleteUser := user\<rparr>"

subsection \<open>The tests\<close>

record tests_page =
  tp_providers :: "iptv_provider list"
  tp_loading :: bool
  tp_loadError :: "string option"
  tp_results :: test_results
  tp_testingAll :: bool

datatype tests_event = Reload_tests | Test_all | Test_one string

definition tests_loadProviders :: "string + response \<times> iptv_provider list option \<Rightarrow> tests_page \<Rightarrow> tests_page" where
  "tests_loadProviders answer p =
     (let p = p\<lparr>tp_loading := True, tp_loadError := None\<rparr> in
      (case (case answer of Inl msg \<Rightarrow> Inl msg
             | Inr (r, found) \<Rightarrow> load_result r found (''Unable to load providers (HTTP '' @ show_nat (r_status r) @ '').'')) of
         Inl msg \<Rightarrow> p\<lparr>tp_loadError := Some msg\<rparr> | Inr ps \<Rightarrow> p\<lparr>tp_providers := ps\<rparr>)\<lparr>tp_loading := False\<rparr>)"

text \<open>\<open>new Date(value * 1000)\<close> is an invalid date beyond \<open>8.64e15\<close> milliseconds.\<close>

definition epoch_ms :: "json \<Rightarrow> int" where
  "epoch_ms v = (case v of JDec d \<Rightarrow> d * 10 | _ \<Rightarrow> number_or_0 (Some v) * 1000)"

definition formatEpoch :: "(timestamp \<Rightarrow> string) \<Rightarrow> json \<Rightarrow> string" where
  "formatEpoch when v =
     (if v = JNull \<or> v = JStr [] then ''N/A''
      else if epoch_ms v \<le> 0 \<or> epoch_ms v > 8640000000000000 then element_text v
      else when (nat (epoch_ms v)))"

definition display :: "json \<Rightarrow> string" where
  "display v = (if v = JNull \<or> v = JStr [] then ''N/A'' else element_text v)"

definition account_pairs :: "(timestamp \<Rightarrow> string) \<Rightarrow> json \<Rightarrow> (string \<times> string) list" where
  "account_pairs when account =
     (let field = field_or_null account in
      [(''Username'', display (field ''username'')), (''Status'', display (field ''status'')),
       (''Expires'', formatEpoch when (field ''expiresAt'')), (''Trial'', display (field ''isTrial'')),
       (''Active connections'', display (field ''activeConnections'')),
       (''Max connections'', display (field ''maxConnections'')), (''Created'', formatEpoch when (field ''createdAt'')),
       (''Formats'', (case field ''allowedOutputFormats'' of
          JArr vs \<Rightarrow> if vs = [] then ''N/A'' else join '', '' (map element_text vs) | _ \<Rightarrow> ''N/A''))])"

definition server_pairs :: "json \<Rightarrow> (string \<times> string) list" where
  "server_pairs server =
     (let field = field_or_null server in
      [(''Server'', display (field ''url'')), (''Protocol'', display (field ''protocol'')), (''Port'', display (field ''port'')),
       (''HTTPS port'', display (field ''httpsPort'')), (''RTMP port'', display (field ''rtmpPort'')),
       (''Timezone'', display (field ''timezone'')), (''Server time'', display (field ''timeNow'')),
       (''Timestamp'', display (field ''timestampNow''))])"

definition status_only :: "test_state \<Rightarrow> string option" where
  "status_only st =
     (let code = field_or_null (ts_data st) ''upstreamStatus''; phrase = field_or_null (ts_data st) ''upstreamStatusText'' in
      if ts_data st \<noteq> JNull \<and> js_truthy code
      then Some (''HTTP '' @ element_text code @ (if js_truthy phrase then '' '' @ element_text phrase else []))
      else ts_error st)"

definition test_card :: "(timestamp \<Rightarrow> string) \<Rightarrow> test_results \<Rightarrow> iptv_provider \<Rightarrow> tests_event element list" where
  "test_card when results provider =
     (let st = (case results (p_id provider) of Some x \<Rightarrow> x | None \<Rightarrow> emptyState);
          data = (ts_data st \<noteq> JNull);
          account = field_or_null (ts_data st) ''account''; server = field_or_null (ts_data st) ''server'' in
      [Shown (p_name provider), Mark ''outline'' (''/'' @ p_route provider)] @
      shown_when (p_enabled provider \<noteq> 1) [Mark ''secondary'' ''Disabled''] @
      [Shown (p_host provider @ '' - '' @ p_upstream_username provider),
       Button (if ts_loading st then ''Testing...'' else ''Test account'') (ts_loading st) (Test_one (p_id provider))] @
      shown_when (truthy (ts_error st) \<noteq> None \<or> data \<and> \<not> js_truthy account)
        [Notice ''destructive'' (case truthy (status_only st) of Some t \<Rightarrow> t | None \<Rightarrow> ''Authentication failed.'')] @
      shown_when (data \<and> js_truthy account)
        ([Shown ''Connected and authenticated'', Shown (element_text (field_or_null (ts_data st) ''elapsedMs'') @ '' ms''),
          Shown ''Account''] @ map (\<lambda>(l, v). Pair l v) (account_pairs when account) @
         shown_when (js_truthy server) ([Shown ''Server''] @ map (\<lambda>(l, v). Pair l v) (server_pairs server))) @
      shown_when (\<not> ts_loading st \<and> truthy (ts_error st) = None \<and> \<not> data) [Shown ''Not tested yet.''])"

definition tests_view :: "(timestamp \<Rightarrow> string) \<Rightarrow> tests_page \<Rightarrow> tests_event element list" where
  "tests_view when p =
     [Shown ''Provider tests'',
      Shown ''Check Xtream authentication and server details. Non-JSON responses are shown as HTTP status only.'',
      Button ''Refresh'' (tp_loading p) Reload_tests,
      Button (if tp_testingAll p then ''Testing...'' else ''Test all'') (tp_testingAll p \<or> tp_providers p = []) Test_all] @
     shown_for (truthy (tp_loadError p)) (\<lambda>e. [Notice ''destructive'' e]) @
     (if \<not> tp_loading p \<and> tp_providers p = []
      then [Nothing_here ''No providers to test'' ''Add a provider first, then return here to verify its account.'']
      else concat (map (test_card when (tp_results p)) (tp_providers p)))"

subsection \<open>What the pages offer\<close>

lemma provider_row_only:
  "only P (provider_table_row r) \<longleftrightarrow> P (Open_edit r) \<and> P (Ask_delete_provider (p_id r)) \<and>
     (p_is_default r \<noteq> 1 \<longrightarrow> P (Press_set_default (p_id r)))"
  by (auto simp: provider_table_row_def Let_def)

lemma provider_parts_plain:
  "\<not> list_ex is_modal (provider_table_row r)" "\<not> list_ex is_modal (providers_table p)" "\<not> list_ex is_modal (provider_fields p)"
  "only P (provider_fields p)"
  by (simp_all add: provider_table_row_def providers_table_def provider_fields_def Let_def)

lemma provider_dialogs:
  "only P (provider_form_dialog p)" "only P (provider_delete_dialog p)"
  "list_ex is_modal (provider_form_dialog p) \<longleftrightarrow> pp_modalOpen p"
  "list_ex is_modal (provider_delete_dialog p) \<longleftrightarrow> truthy (pp_deleteId p) \<noteq> None"
  "only_modal P (provider_delete_dialog p) \<longleftrightarrow> truthy (pp_deleteId p) = None \<or>
     P Cancel_delete_provider \<and> (\<not> pp_deleting p \<longrightarrow> P Confirm_delete_provider)"
  "only_modal P (provider_form_dialog p) \<longleftrightarrow> \<not> pp_modalOpen p \<or> P Close_form \<and> P Cancel_form \<and>
     (\<not> (pp_saving p \<or> incomplete (provider_fields p) \<or> pf_cacheHours (pp_form p) < 0 \<or> pf_cacheHours (pp_form p) > 24)
        \<longrightarrow> P Submit_provider)"
  by (auto simp: provider_form_dialog_def provider_delete_dialog_def press_all provider_parts_plain Let_def split: option.split)

lemma filtered_empty [simp]: "pp_providers p = [] \<Longrightarrow> filtered_providers p = []"
  by (simp add: filtered_providers_def Let_def)

lemma providers_base:
  "only P (providers_table p) \<longleftrightarrow> (pp_loading p \<and> pp_providers p = []) \<or>
     (pp_providers p = [] \<longrightarrow> P Open_create) \<and> (\<forall>r \<in> set (filtered_providers p). only P (provider_table_row r))"
  by (auto simp: providers_table_def)

text \<open>All that the page offers, by the predicates that hold of it.\<close>

lemma providers_view_offers:
  "list_all P (offered (providers_view p)) \<longleftrightarrow>
     (if pp_modalOpen p \<or> truthy (pp_deleteId p) \<noteq> None
      then only_modal P (provider_form_dialog p) \<and> only_modal P (provider_delete_dialog p)
      else P Open_create \<and> (\<not> pp_loading p \<longrightarrow> P Reload_providers) \<and>
        (\<forall>r \<in> set (filtered_providers p). only P (provider_table_row r)))"
proof -
  have none: "only_modal Q (providers_table p)" for Q :: "providers_event \<Rightarrow> bool"
    by (rule only_modal_none) (rule provider_parts_plain)
  show ?thesis
    by (auto simp: offered_all providers_view_def provider_dialogs provider_parts_plain none providers_base
        split: option.split)
qed

lemma user_parts:
  "\<not> list_ex is_modal (user_table_row when r)" "\<not> list_ex is_modal (users_table when p)" "only P (user_fields p)"
  "only P (user_table_row when r) \<longleftrightarrow> P (Open_edit_user r) \<and> P (Ask_remove_user r)"
  by (simp_all add: user_table_row_def users_table_def user_fields_def)

lemma users_base:
  "only P (users_table when p) \<longleftrightarrow> (\<not> up_loading p \<longrightarrow> P Reload_users \<and> (up_users p = [] \<longrightarrow> P Open_create_user)) \<and>
     (\<forall>r \<in> set (up_users p). P (Open_edit_user r) \<and> P (Ask_remove_user r))"
  by (auto simp: users_table_def user_parts)

lemma user_dialogs:
  "only P (user_form_dialog p)" "only P (user_delete_dialog p)"
  "list_ex is_modal (user_form_dialog p) \<longleftrightarrow> up_editorOpen p"
  "list_ex is_modal (user_delete_dialog p) \<longleftrightarrow> up_deleteUser p \<noteq> None"
  "only_modal P (user_delete_dialog p) \<longleftrightarrow> up_deleteUser p = None \<or>
     P Cancel_remove_user \<and> (\<not> up_deleting p \<longrightarrow> P Confirm_remove_user)"
  "only_modal P (user_form_dialog p) \<longleftrightarrow> \<not> up_editorOpen p \<or> P Close_user_form \<and> (\<not> up_saving p \<longrightarrow> P Cancel_user_form) \<and>
     (\<not> (up_saving p \<or> incomplete (user_fields p)) \<longrightarrow> P Submit_user)"
  by (auto simp: user_form_dialog_def user_delete_dialog_def press_all user_parts Let_def split: option.split)

lemma users_view_offers:
  "list_all P (offered (users_view when p)) \<longleftrightarrow>
     (if up_editorOpen p \<or> up_deleteUser p \<noteq> None
      then only_modal P (user_form_dialog p) \<and> only_modal P (user_delete_dialog p)
      else (up_provider p \<noteq> None \<longrightarrow> P Open_create_user) \<and> only P (users_table when p))"
proof -
  have none: "only_modal Q (users_table when p)" for Q :: "users_event \<Rightarrow> bool"
    by (rule only_modal_none) (rule user_parts)
  show ?thesis
    by (auto simp: offered_all users_view_def user_dialogs user_parts none Let_def split: option.split)
qed

end
