(* ===== verification/Admin_Pages.thy ===== *)
theory Admin_Pages imports Provider_Pages begin

section \<open>The shell, the login, the settings, the cache page and the dashboard\<close>

text \<open>
  \<open>components/layout\<close>, \<open>app/page.tsx\<close>, \<open>app/login/page.tsx\<close>, \<open>app/settings/page.tsx\<close>, \<open>app/cache/page.tsx\<close> and
  \<open>app/dashboard/page.tsx\<close>: where a visitor is sent, the requests of the pages and what they make of the responses. What
  a page only displays is kept as the JSON value it received. \<open>router.replace\<close> sets the location the browser goes to.
\<close>

text \<open>The data of a payload, when there are any.\<close>

definition data_of :: "('z) response_scheme \<Rightarrow> json option" where
  "data_of r = (let d = payload_field ''data'' (readJson r) in if js_truthy d then Some d else None)"

subsection \<open>Where a visitor is sent\<close>

definition HomePage :: "'w env \<Rightarrow> request \<Rightarrow> (('w, 'z) app_scheme, string) act" where
  "HomePage env req = andThen (getSessionUser env req) (\<lambda>user. case user of
     None \<Rightarrow> ret ''/login'' | Some _ \<Rightarrow> ret ''/dashboard'')"

record shell =
  sh_user :: json
  sh_checkingAuth :: bool
  sh_location :: "string option"
  sh_mobileOpen :: bool

text \<open>A fetch that throws leaves the user unknown; so does a payload of \<open>null\<close>.\<close>

definition checkAuth :: "string + response \<Rightarrow> shell \<Rightarrow> shell" where
  "checkAuth answer p =
     (case answer of
        Inl msg \<Rightarrow> p
      | Inr r \<Rightarrow>
          if r_status r = 401 then p\<lparr>sh_location := Some ''/login''\<rparr>
          else let payload = readJson r; user = payload_field ''user'' payload in
            if js_truthy (payload_field ''authenticated'' payload) \<and> js_truthy user then p\<lparr>sh_user := user\<rparr> else p)
     \<lparr>sh_checkingAuth := False\<rparr>"

record login_page =
  lg_isSetup :: bool
  lg_username :: string
  lg_password :: string
  lg_confirmPassword :: string
  lg_error :: "string option"
  lg_submitting :: bool
  lg_checkingAuth :: bool
  lg_location :: "string option"

definition login_checkAuth :: "string + response \<Rightarrow> login_page \<Rightarrow> login_page" where
  "login_checkAuth answer p =
     (case answer of
        Inl msg \<Rightarrow> p
      | Inr r \<Rightarrow>
          let payload = readJson r in
          if payload = JNull then p
          else if js_truthy (payload_field ''authenticated'' payload) then p\<lparr>lg_location := Some ''/dashboard''\<rparr>
          else p\<lparr>lg_isSetup := js_truthy (payload_field ''needsSetup'' payload)\<rparr>)
     \<lparr>lg_checkingAuth := False\<rparr>"

text \<open>The request of the form, if one is sent.\<close>

definition handleSubmit :: "login_page \<Rightarrow> (string \<times> json) option \<times> login_page" where
  "handleSubmit p =
     (let p = p\<lparr>lg_error := None\<rparr> in
      if lg_isSetup p \<and> lg_password p \<noteq> lg_confirmPassword p
      then (None, p\<lparr>lg_error := Some ''Passwords do not match.''\<rparr>)
      else (Some (if lg_isSetup p then ''/api/auth/setup'' else ''/api/auth/login'',
              JObj [(''username'', JStr (lg_username p)), (''password'', JStr (lg_password p))]),
            p\<lparr>lg_submitting := True\<rparr>))"

definition submit_answered :: "string + response \<Rightarrow> login_page \<Rightarrow> login_page" where
  "submit_answered answer p =
     (case answer_outcome answer ''Unable to sign in.'' of
        Inl msg \<Rightarrow> p\<lparr>lg_error := Some msg\<rparr> | Inr _ \<Rightarrow> p\<lparr>lg_location := Some ''/dashboard''\<rparr>)\<lparr>lg_submitting := False\<rparr>"

definition nav_hrefs :: "string list" where
  "nav_hrefs = [''/dashboard'', ''/providers'', ''/providers/tests'', ''/cache'', ''/vpn'', ''/logs'', ''/settings'']"

definition isActive :: "string \<Rightarrow> string \<Rightarrow> bool" where
  "isActive pathname href =
     (if href = ''/providers'' then pathname = ''/providers'' else pathname = href \<or> startsWith pathname (href @ ''/''))"

subsection \<open>The settings\<close>

definition formatUptime :: "nat \<Rightarrow> string" where
  "formatUptime seconds =
     (let days = seconds div 86400; hours = (seconds mod 86400) div 3600; minutes = (seconds mod 3600) div 60 in
      if days > 0 then show_nat days @ ''d '' @ show_nat hours @ ''h'' else show_nat hours @ ''h '' @ show_nat minutes @ ''m'')"

record settings_page =
  sp_settings :: json
  sp_health :: json
  sp_loading :: bool
  sp_logRetentionDays :: int
  sp_saving :: bool
  sp_message :: "string option"
  sp_error :: "string option"
  sp_currentPassword :: string
  sp_newPassword :: string
  sp_confirmPassword :: string
  sp_passwordSaving :: bool
  sp_passwordError :: "string option"
  sp_passwordMessage :: "string option"

definition settings_loaded :: "string + response \<times> response \<Rightarrow> settings_page \<Rightarrow> settings_page" where
  "settings_loaded answer p =
     (let p = p\<lparr>sp_loading := True, sp_error := None\<rparr> in
      (case answer of
         Inl msg \<Rightarrow> p\<lparr>sp_error := Some msg\<rparr>
       | Inr (settingsResponse, healthResponse) \<Rightarrow>
           (case load_result settingsResponse (data_of settingsResponse) ''Unable to load settings.'' of
              Inl msg \<Rightarrow> p\<lparr>sp_error := Some msg\<rparr>
            | Inr data \<Rightarrow>
                let p = p\<lparr>sp_settings := data,
                  sp_logRetentionDays := (case field_or_null data ''log_retention_days'' of JNum i \<Rightarrow> if i \<noteq> 0 then i else 30 | _ \<Rightarrow> 30)\<rparr>;
                    health = readJson healthResponse in
                if \<not> r_ok healthResponse then p
                else if health = JNull then p\<lparr>sp_error := Some (null_error ''success'')\<rparr>
                else (case data_of healthResponse of
                    Some d \<Rightarrow> if js_truthy (payload_field ''success'' health) then p\<lparr>sp_health := d\<rparr> else p
                  | None \<Rightarrow> p)))\<lparr>sp_loading := False\<rparr>)"

definition settings_body :: "settings_page \<Rightarrow> json" where
  "settings_body p = JObj [(''log_retention_days'', JNum (sp_logRetentionDays p))]"

definition retention_typed :: "string \<Rightarrow> settings_page \<Rightarrow> settings_page" where
  "retention_typed v p = p\<lparr>sp_logRetentionDays := (case parseInt v of Some i \<Rightarrow> if i \<noteq> 0 then i else 1 | None \<Rightarrow> 1)\<rparr>"

definition settings_save_started :: "settings_page \<Rightarrow> settings_page" where
  "settings_save_started p = p\<lparr>sp_saving := True, sp_error := None, sp_message := None\<rparr>"

definition settings_saved :: "string + response \<Rightarrow> settings_page \<Rightarrow> settings_page" where
  "settings_saved answer p =
     (case answer_outcome answer ''Unable to save settings.'' of
        Inl msg \<Rightarrow> p\<lparr>sp_error := Some msg\<rparr>
      | Inr payload \<Rightarrow>
          let data = payload_field ''data'' payload in
          (if js_truthy data then p\<lparr>sp_settings := data\<rparr> else p)\<lparr>sp_message := Some ''Settings saved.''\<rparr>)\<lparr>sp_saving := False\<rparr>"

definition password_check :: "settings_page \<Rightarrow> string option" where
  "password_check p =
     (if length (sp_newPassword p) < 8 then Some ''New password must contain at least 8 characters.''
      else if sp_newPassword p \<noteq> sp_confirmPassword p then Some ''New password confirmation does not match.'' else None)"

definition password_body :: "settings_page \<Rightarrow> json" where
  "password_body p = JObj [(''current_password'', JStr (sp_currentPassword p)), (''new_password'', JStr (sp_newPassword p))]"

text \<open>The request of the form, if one is sent; without one the form is done.\<close>

definition changePassword :: "settings_page \<Rightarrow> json option \<times> settings_page" where
  "changePassword p =
     (let p = p\<lparr>sp_passwordSaving := True, sp_passwordError := None, sp_passwordMessage := None\<rparr> in
      case password_check p of
        Some msg \<Rightarrow> (None, p\<lparr>sp_passwordError := Some msg, sp_passwordSaving := False\<rparr>)
      | None \<Rightarrow> (Some (password_body p), p))"

definition password_answered :: "string + response \<Rightarrow> settings_page \<Rightarrow> settings_page" where
  "password_answered answer p =
     (case answer_outcome answer ''Unable to update password.'' of
        Inl msg \<Rightarrow> p\<lparr>sp_passwordError := Some msg\<rparr>
      | Inr payload \<Rightarrow>
          let m = payload_field ''message'' payload in
          p\<lparr>sp_currentPassword := [], sp_newPassword := [], sp_confirmPassword := [],
            sp_passwordMessage := Some (if js_truthy m then element_text m else ''Password updated. Other sessions were signed out.'')\<rparr>)
     \<lparr>sp_passwordSaving := False\<rparr>"

definition shown_text :: "json \<Rightarrow> string \<Rightarrow> string \<Rightarrow> string" where
  "shown_text v k otherwise = (let x = field_or_null v k in if js_truthy x then element_text x else otherwise)"

definition network_rows :: "settings_page \<Rightarrow> (string \<times> string) list" where
  "network_rows p = [(''VPN'', shown_text (sp_settings p) ''active_vpn_type'' ''off''),
     (''Status'', shown_text (sp_settings p) ''vpn_status'' ''off''),
     (''Public IP'', shown_text (sp_settings p) ''public_ip'' ''Unknown'')]"

subsection \<open>The cache page\<close>

record cache_page =
  cp_entries :: "json list"
  cp_stats :: json
  cp_states :: "json list"
  cp_bulk :: json
  cp_loading :: bool
  cp_refreshingAll :: bool
  cp_busyKey :: "string option"
  cp_error :: "string option"
  cp_message :: "string option"
  cp_loadInFlight :: bool

definition emptyStats :: json where
  "emptyStats = JObj [(''entries'', JNum 0), (''bytes'', JNum 0), (''registeredRefreshes'', JNum 0), (''activeReaders'', JNum 0),
     (''retiredGenerations'', JNum 0)]"

definition idleBulk :: json where
  "idleBulk = JObj [(''status'', JStr ''idle'')]"

definition new_cache_page :: cache_page where
  "new_cache_page = \<lparr>cp_entries = [], cp_stats = emptyStats, cp_states = [], cp_bulk = idleBulk, cp_loading = True,
     cp_refreshingAll = False, cp_busyKey = None, cp_error = None, cp_message = None, cp_loadInFlight = False\<rparr>"

text \<open>A call of \<open>load\<close>: whether it sends a request.\<close>

definition cache_load :: "bool \<Rightarrow> cache_page \<Rightarrow> bool \<times> cache_page" where
  "cache_load silent p =
     (if cp_loadInFlight p then (False, p)
      else (True, p\<lparr>cp_loadInFlight := True, cp_loading := (if silent then cp_loading p else True)\<rparr>))"

definition array_of :: "json \<Rightarrow> json list" where
  "array_of v = (case v of JArr vs \<Rightarrow> vs | _ \<Rightarrow> [])"

definition or_default :: "json \<Rightarrow> json \<Rightarrow> json" where
  "or_default v d = (if js_truthy v then v else d)"

definition http_failure :: "string \<Rightarrow> string + response \<Rightarrow> string" where
  "http_failure what answer = (case answer of Inl _ \<Rightarrow> [] | Inr r \<Rightarrow> what @ '' (HTTP '' @ show_nat (r_status r) @ '').'')"

definition cache_answered :: "bool \<Rightarrow> string + response \<Rightarrow> cache_page \<Rightarrow> cache_page" where
  "cache_answered silent answer p =
     (let q = (case answer_outcome answer (http_failure ''Unable to load cache'' answer) of
          Inl msg \<Rightarrow> (if silent then p else p\<lparr>cp_error := Some msg\<rparr>)
        | Inr payload \<Rightarrow> p\<lparr>cp_entries := array_of (payload_field ''data'' payload),
            cp_stats := or_default (payload_field ''stats'' payload) emptyStats,
            cp_states := array_of (payload_field ''states'' payload),
            cp_bulk := or_default (payload_field ''bulk'' payload) idleBulk,
            cp_error := (if silent then cp_error p else None)\<rparr>)
      in q\<lparr>cp_loadInFlight := False, cp_loading := (if silent then cp_loading q else False)\<rparr>)"

definition refreshAll_started :: "cache_page \<Rightarrow> cache_page" where
  "refreshAll_started p = p\<lparr>cp_refreshingAll := True, cp_error := None, cp_message := None\<rparr>"

text \<open>The answer of a refresh: on success the list is loaded again, silently, before the refresh is over.\<close>

definition refreshAll_answered :: "string + response \<Rightarrow> cache_page \<Rightarrow> bool \<times> cache_page" where
  "refreshAll_answered answer p =
     (case answer_outcome answer (http_failure ''Cache refresh failed to start'' answer) of
        Inl msg \<Rightarrow> (False, p\<lparr>cp_error := Some msg\<rparr>)
      | Inr payload \<Rightarrow> cache_load True (p\<lparr>cp_message := Some
          (if js_truthy (payload_field ''alreadyRunning'' payload)
           then ''A bulk cache refresh is already running. The existing job is shown below.''
           else ''Bulk cache refresh started. It will continue even if you reload or leave this page.'')\<rparr>))"

definition refreshAll_over :: "cache_page \<Rightarrow> cache_page" where
  "refreshAll_over p = p\<lparr>cp_refreshingAll := False\<rparr>"

definition refreshEntry_request :: "string \<Rightarrow> string \<times> string" where
  "refreshEntry_request key = (''DELETE'', ''/api/system/cache?key='' @ encodeURIComponent key)"

definition refreshEntry_started :: "string \<Rightarrow> cache_page \<Rightarrow> cache_page" where
  "refreshEntry_started key p = p\<lparr>cp_busyKey := Some key, cp_error := None, cp_message := None\<rparr>"

definition refreshEntry_answered :: "string + response \<Rightarrow> cache_page \<Rightarrow> bool \<times> cache_page" where
  "refreshEntry_answered answer p =
     (case answer_outcome answer (http_failure ''Cache refresh failed to start'' answer) of
        Inl msg \<Rightarrow> (False, p\<lparr>cp_error := Some msg\<rparr>)
      | Inr payload \<Rightarrow> cache_load True (p\<lparr>cp_message := Some
          ''Cache refresh started. Automatic and manual refreshes share the same Redis lock, so duplicate pulls for this entry are skipped.''\<rparr>))"

definition refreshEntry_over :: "cache_page \<Rightarrow> cache_page" where
  "refreshEntry_over p = p\<lparr>cp_busyKey := None\<rparr>"

definition bulkRunning :: "cache_page \<Rightarrow> bool" where
  "bulkRunning p \<longleftrightarrow> field_or_null (cp_bulk p) ''status'' = JStr ''refreshing''"

text \<open>\<open>new Map(...)\<close>: the last state with a key counts.\<close>

definition operationByKey :: "cache_page \<Rightarrow> json \<Rightarrow> json option" where
  "operationByKey p key = find (\<lambda>s. field_or_null s ''key'' = key) (rev (cp_states p))"

definition can_refresh_all :: "cache_page \<Rightarrow> bool" where
  "can_refresh_all p \<longleftrightarrow> \<not> (cp_refreshingAll p \<or> bulkRunning p)"

definition can_refresh_entry :: "string \<Rightarrow> cache_page \<Rightarrow> bool" where
  "can_refresh_entry key p \<longleftrightarrow> \<not> (cp_busyKey p = Some key \<or> cp_refreshingAll p \<or> bulkRunning p \<or>
     (case operationByKey p (JStr key) of Some s \<Rightarrow> field_or_null s ''status'' = JStr ''running'' | None \<Rightarrow> False))"

definition badge_text :: "json option \<Rightarrow> string" where
  "badge_text s = (case s of
     None \<Rightarrow> ''Idle''
   | Some v \<Rightarrow> (let st = field_or_null v ''status'' in
       if st = JStr ''running'' then ''Refreshing'' else if st = JStr ''succeeded'' then ''Updated''
       else if st = JStr ''failed'' then ''Failed'' else if st = JStr ''rejected'' then ''Rejected'' else element_text st))"

text \<open>\<open>formatBytes\<close> divides by 1024 until the value is below it or the units are used up; the quotients are exact.\<close>

definition BYTE_UNITS :: "string list" where "BYTE_UNITS = [''B'', ''KB'', ''MB'', ''GB'', ''TB'']"

function byte_unit :: "nat \<Rightarrow> nat \<Rightarrow> nat" where
  "byte_unit v unit = (if 1024 ^ Suc unit \<le> v \<and> unit < length BYTE_UNITS - 1 then byte_unit v (Suc unit) else unit)"
  by auto
termination by (relation "measure (\<lambda>(v, unit). length BYTE_UNITS - unit)") (auto simp: BYTE_UNITS_def)

definition formatBytes :: "int \<Rightarrow> string" where
  "formatBytes value =
     (if value \<le> 0 then ''0 B''
      else let v = nat value; unit = byte_unit v 0; den = 1024 ^ unit in
        toFixed (if 10 * den \<le> v \<or> unit = 0 then 0 else 1) v den @ '' '' @ BYTE_UNITS ! unit)"

subsection \<open>The dashboard and the top bar\<close>

record dashboard =
  dp_health :: json
  dp_vpn :: json
  dp_providers :: "json list"
  dp_recentWarnings :: "json list"
  dp_system :: json
  dp_loading :: bool
  dp_refreshing :: bool
  dp_error :: "string option"

text \<open>The data of a payload with success; the status of the response is not looked at here.\<close>

definition fresh_data :: "('z) response_scheme \<Rightarrow> json option" where
  "fresh_data r = (if js_truthy (payload_field ''success'' (readJson r)) then data_of r else None)"

definition set_fresh :: "('a \<Rightarrow> 'p \<Rightarrow> 'p) \<Rightarrow> 'a option \<Rightarrow> 'p \<Rightarrow> 'p" where
  "set_fresh f v p = (case v of None \<Rightarrow> p | Some x \<Rightarrow> f x p)"

record dashboard_answers =
  da_health :: response
  da_vpn :: response
  da_providers :: response
  da_logs :: response
  da_system :: response

definition dashboard_load_started :: "bool \<Rightarrow> dashboard \<Rightarrow> dashboard" where
  "dashboard_load_started manual p = p\<lparr>dp_refreshing := (if manual then True else dp_refreshing p), dp_error := None\<rparr>"

text \<open>The payloads are used in this order; one that is \<open>null\<close> throws, which ends the use of the others.\<close>

fun used_in_order :: "(response \<times> (json option \<Rightarrow> 'p \<Rightarrow> 'p)) list \<Rightarrow> 'p \<Rightarrow> bool \<times> 'p" where
  "used_in_order [] p = (True, p)"
| "used_in_order ((r, f) # rest) p =
     (if readJson r = JNull then (False, p) else used_in_order rest (f (fresh_data r) p))"

definition dashboard_loaded :: "string + dashboard_answers \<Rightarrow> dashboard \<Rightarrow> dashboard" where
  "dashboard_loaded answer p =
     (case answer of
        Inl msg \<Rightarrow> p\<lparr>dp_error := Some msg\<rparr>
      | Inr a \<Rightarrow>
          (case used_in_order
             [(da_health a, set_fresh (\<lambda>d p. p\<lparr>dp_health := d\<rparr>)), (da_vpn a, set_fresh (\<lambda>d p. p\<lparr>dp_vpn := d\<rparr>)),
              (da_providers a, set_fresh (\<lambda>d p. p\<lparr>dp_providers := array_of d\<rparr>)),
              (da_logs a, set_fresh (\<lambda>d p. p\<lparr>dp_recentWarnings := array_of d\<rparr>)),
              (da_system a, set_fresh (\<lambda>d p. p\<lparr>dp_system := d\<rparr>))] p of
             (False, q) \<Rightarrow> q\<lparr>dp_error := Some (null_error ''success'')\<rparr>
           | (True, q) \<Rightarrow>
               (case find (\<lambda>r. \<not> r_ok r) [da_health a, da_vpn a, da_providers a, da_system a] of
                  Some r \<Rightarrow> q\<lparr>dp_error := Some (''Some runtime data could not be loaded (HTTP '' @ show_nat (r_status r) @ '').'')\<rparr>
                | None \<Rightarrow> q)))
     \<lparr>dp_loading := False, dp_refreshing := False\<rparr>"

definition enabledProviders :: "dashboard \<Rightarrow> nat" where
  "enabledProviders p = length (filter (\<lambda>v. field_or_null v ''enabled'' = JNum 1) (dp_providers p))"

definition defaultProvider :: "dashboard \<Rightarrow> json option" where
  "defaultProvider p = find (\<lambda>v. field_or_null v ''is_default'' = JNum 1) (dp_providers p)"

definition vpnConnected :: "dashboard \<Rightarrow> bool" where
  "vpnConnected p \<longleftrightarrow> field_or_null (dp_vpn p) ''status'' = JStr ''connected''"

datatype theme = Dark | Light

record top_bar =
  tb_vpn :: json
  tb_network :: json
  tb_system :: json
  tb_refreshing :: bool
  tb_theme :: theme
  tb_stored_theme :: "string option"

definition initial_theme :: "string option \<Rightarrow> bool \<Rightarrow> theme" where
  "initial_theme stored prefers_light =
     (if stored = Some ''light'' then Light else if stored = Some ''dark'' then Dark
      else if prefers_light then Light else Dark)"

definition toggleTheme :: "top_bar \<Rightarrow> top_bar" where
  "toggleTheme p = (case tb_theme p of
     Dark \<Rightarrow> p\<lparr>tb_stored_theme := Some ''light'', tb_theme := Light\<rparr>
   | Light \<Rightarrow> p\<lparr>tb_stored_theme := Some ''dark'', tb_theme := Dark\<rparr>)"

definition network_endpoint :: "bool \<Rightarrow> string" where
  "network_endpoint force = ''/api/network/status'' @ (if force then ''?refresh=true'' else [])"

text \<open>Only the payloads of successful responses are read, one after the other; a \<open>null\<close> throws and ends it.\<close>

fun used_if_ok :: "(response \<times> (json option \<Rightarrow> 'p \<Rightarrow> 'p)) list \<Rightarrow> 'p \<Rightarrow> 'p" where
  "used_if_ok [] p = p"
| "used_if_ok ((r, f) # rest) p =
     (if \<not> r_ok r then used_if_ok rest p
      else if readJson r = JNull then p else used_if_ok rest (f (fresh_data r) p))"

definition refreshStatus :: "string + response \<times> response \<times> response \<Rightarrow> top_bar \<Rightarrow> top_bar" where
  "refreshStatus answer p =
     (case answer of
        Inl msg \<Rightarrow> p
      | Inr (vr, nr, sr) \<Rightarrow> used_if_ok [(vr, set_fresh (\<lambda>d p. p\<lparr>tb_vpn := d\<rparr>)), (nr, set_fresh (\<lambda>d p. p\<lparr>tb_network := d\<rparr>)),
          (sr, set_fresh (\<lambda>d p. p\<lparr>tb_system := d\<rparr>))] p)\<lparr>tb_refreshing := False\<rparr>"

definition vpn_text :: "top_bar \<Rightarrow> string" where
  "vpn_text p =
     (let status = shown_text (tb_vpn p) ''status'' ''off'' in
      if status = ''connected'' then shown_text (tb_vpn p) ''profileName'' (shown_text (tb_vpn p) ''type'' ''VPN'')
      else if status = ''connecting'' then ''Connecting'' else if status = ''error'' then ''VPN error'' else ''Direct'')"

definition goRunning :: "top_bar \<Rightarrow> bool" where
  "goRunning p \<longleftrightarrow> field_or_null (field_or_null (tb_system p) ''go'') ''running'' = JBool True"

subsection \<open>Every visitor has a page to stay on\<close>

lemma received_fields [simp]:
  "r_status (received rp) = rp_status rp" "readJson (received rp) = (if stringify (rp_body rp) = [] then JObj [] else rp_body rp)"
  "r_ok (received rp) = (200 \<le> rp_status rp \<and> rp_status rp < 300)"
  by (simp_all add: received_def readJson_def)

text \<open>The answer about the session sends a visitor away from exactly one of the two: from the pages to the login, or from
  the login to the pages; so nobody is sent back and forth. The start page agrees with it.\<close>

theorem one_page_keeps_visitor:
  assumes "me_GET env req s = (Inr rp, t)" and "rp_status rp \<noteq> 500" and "sh_location p = None" and "lg_location q = None"
  shows "(sh_location (checkAuth (Inr (received rp)) p) = Some ''/login'') \<noteq>
         (lg_location (login_checkAuth (Inr (received rp)) q) = Some ''/dashboard'') \<and>
     (fst (HomePage env req s) = Inr ''/dashboard'') = (sh_location (checkAuth (Inr (received rp)) p) = None)"
proof -
  obtain found u where f: "getSessionUser env req s = (found, u)" by (cases "getSessionUser env req s")
  show ?thesis
  proof (cases found)
    case (Inl e)
    then have "rp = error_json 500 (message e)" using assms(1) f
      by (simp add: me_GET_def route_catch_def act_simps)
    then show ?thesis using assms(2) by (simp add: error_json_def reply_json_def)
  next
    case (Inr user)
    show ?thesis
    proof (cases user)
      case None
      have "rp = reply_json 401 [(''success'', JBool False), (''authenticated'', JBool False),
          (''needsSetup'', JBool (length (t_users u) = 0))]"
        using assms(1) f Inr None by (auto simp: me_GET_def route_catch_def act_simps)
      then show ?thesis using f Inr None assms(3,4)
        by (simp add: HomePage_def act_simps checkAuth_def login_checkAuth_def reply_json_def payload_field_def
            field_or_null_def or_null_def stringify.simps Let_def)
    next
      case (Some v)
      then show ?thesis using f Inr Some assms
        by (auto simp: me_GET_def route_catch_def HomePage_def act_simps checkAuth_def login_checkAuth_def reply_json_def
            ok_json_def payload_field_def field_or_null_def or_null_def Let_def)
    qed
  qed
qed

lemma me_answers_demo: "me_GET demo_env demo_request (demo_vpn :: nat vpn) =
  (Inr (reply_json 401 [(''success'', JBool False), (''authenticated'', JBool False), (''needsSetup'', JBool True)]), demo_vpn)"
  by (simp add: me_GET_def demo_request_def getSessionUser_def truthy_def route_catch_def act_simps demo_vpn_def vpn_of_def demo_db_def empty_db_def)

subsection \<open>At most one request for the list of the cache\<close>

text \<open>The page and the requests for the list that are not answered yet, \<open>True\<close> for a silent one. A timer, the button, and the
  answers of the refreshes call \<open>load\<close> at any time.\<close>

inductive cache_step :: "cache_page \<times> bool list \<Rightarrow> cache_page \<times> bool list \<Rightarrow> bool" where
  load: "cache_load silent p = (sent, q) \<Longrightarrow> cache_step (p, out) (q, if sent then silent # out else out)"
| answer: "silent \<in> set out \<Longrightarrow> cache_step (p, out) (cache_answered silent a p, remove1 silent out)"
| all_start: "can_refresh_all p \<Longrightarrow> cache_step (p, out) (refreshAll_started p, out)"
| all_answer: "refreshAll_answered a p = (sent, q) \<Longrightarrow> cache_step (p, out) (q, if sent then True # out else out)"
| all_over: "cache_step (p, out) (refreshAll_over p, out)"
| entry_start: "can_refresh_entry key p \<Longrightarrow> cache_step (p, out) (refreshEntry_started key p, out)"
| entry_answer: "refreshEntry_answered a p = (sent, q) \<Longrightarrow> cache_step (p, out) (q, if sent then True # out else out)"
| entry_over: "cache_step (p, out) (refreshEntry_over p, out)"

inductive cache_run :: "cache_page \<times> bool list \<Rightarrow> bool" where
  opened: "cache_run (snd (cache_load False new_cache_page), [False])"
| step: "cache_run s \<Longrightarrow> cache_step s t \<Longrightarrow> cache_run t"

inductive_cases cache_stepE: "cache_step s t"

definition load_inv :: "cache_page \<times> bool list \<Rightarrow> bool" where
  "load_inv s \<longleftrightarrow> (cp_loadInFlight (fst s) \<longleftrightarrow> snd s \<noteq> []) \<and> length (snd s) \<le> 1 \<and>
     (cp_loading (fst s) \<longleftrightarrow> snd s = [False])"

lemma load_inv_load:
  "load_inv (p, out) \<Longrightarrow> cache_load silent p = (sent, q) \<Longrightarrow> load_inv (q, if sent then silent # out else out)"
  by (auto simp: load_inv_def cache_load_def split: if_splits)

lemma load_inv_answer: "load_inv (p, out) \<Longrightarrow> silent \<in> set out \<Longrightarrow> load_inv (cache_answered silent a p, remove1 silent out)"
  by (cases out) (auto simp: load_inv_def cache_answered_def Let_def split: sum.splits)

lemma load_inv_same:
  "load_inv (p, out) \<Longrightarrow> cp_loadInFlight q = cp_loadInFlight p \<Longrightarrow> cp_loading q = cp_loading p \<Longrightarrow> load_inv (q, out)"
  by (simp add: load_inv_def)

lemma load_inv_refreshed:
  "load_inv (p, out) \<Longrightarrow> refreshAll_answered a p = (sent, q) \<Longrightarrow> load_inv (q, if sent then True # out else out)"
  "load_inv (p, out) \<Longrightarrow> refreshEntry_answered a p = (sent, q) \<Longrightarrow> load_inv (q, if sent then True # out else out)"
  by (auto simp: refreshAll_answered_def refreshEntry_answered_def load_inv_def cache_load_def split: sum.splits if_splits)

lemma load_inv_step: "load_inv s \<Longrightarrow> cache_step s t \<Longrightarrow> load_inv t"
proof (erule cache_stepE)
  fix silent p sent q out assume "load_inv s" "s = (p, out)" "t = (q, if sent then silent # out else out)"
    "cache_load silent p = (sent, q)"
  then show "load_inv t" using load_inv_load by blast
next
  fix silent out p a assume "load_inv s" "s = (p, out)" "t = (cache_answered silent a p, remove1 silent out)" "silent \<in> set out"
  then show "load_inv t" using load_inv_answer by blast
next
  fix a p sent q out assume "load_inv s" "s = (p, out)" "t = (q, if sent then True # out else out)"
    "refreshAll_answered a p = (sent, q)"
  then show "load_inv t" using load_inv_refreshed(1) by blast
next
  fix a p sent q out assume "load_inv s" "s = (p, out)" "t = (q, if sent then True # out else out)"
    "refreshEntry_answered a p = (sent, q)"
  then show "load_inv t" using load_inv_refreshed(2) by blast
qed (auto simp: load_inv_def refreshAll_started_def refreshEntry_started_def refreshAll_over_def refreshEntry_over_def)

text \<open>C38: However the timer, the buttons and the answers fall, at most one request for the list is on its way, which is what the
  flag says, and the button to reload is disabled exactly while the one on its way was not a silent one.\<close>

theorem one_cache_request:
  assumes "cache_run s"
  shows "length (snd s) \<le> 1 \<and> (cp_loadInFlight (fst s) \<longleftrightarrow> snd s \<noteq> []) \<and> (cp_loading (fst s) \<longleftrightarrow> snd s = [False])"
proof -
  have "load_inv s" using assms
  proof induction
    case opened
    show ?case by (simp add: load_inv_def cache_load_def new_cache_page_def)
  qed (rule load_inv_step)
  then show ?thesis by (simp add: load_inv_def)
qed

theorem one_cache_request_witness:
  "cache_run (snd (cache_load False new_cache_page), [False]) \<and>
   cp_loadInFlight (snd (cache_load False new_cache_page)) \<and> cp_loading (snd (cache_load False new_cache_page))"
  using one_cache_request [OF cache_run.opened] cache_run.opened by simp

subsection \<open>Forms and displays\<close>

text \<open>A change of password that the page sends passes the schema of the route, up to its limits of length; a request whose
  confirmation agrees and that the page holds back would not pass.\<close>

lemma sent_password_accepted:
  assumes "fst (changePassword p) = Some body" and "sp_currentPassword p \<noteq> []" and "length (sp_currentPassword p) \<le> 1024"
    and "length (sp_newPassword p) \<le> 1024"
  shows "passwordSchema body = Some (sp_currentPassword p, sp_newPassword p)"
  using assms by (auto simp: changePassword_def password_check_def password_body_def passwordSchema_def string_field_def get_field_def
      bounded_def both_def Let_def Suc_le_eq split: option.splits if_splits)

lemma held_back_password_refused:
  assumes "fst (changePassword p) = None" and "sp_newPassword p = sp_confirmPassword p"
  shows "passwordSchema (password_body p) = None"
  using assms by (auto simp: changePassword_def password_check_def password_body_def passwordSchema_def string_field_def get_field_def
      bounded_def both_def Let_def split: option.splits if_splits)

text \<open>The settings page reads a field that the settings do not have.\<close>

lemma public_ip_never_shown: "(''Public IP'', ''Unknown'') \<in> set (network_rows (p\<lparr>sp_settings := settings_json g\<rparr>))"
  by (simp add: network_rows_def shown_text_def field_or_null_def or_null_def settings_json_def)

text \<open>The unit of a number of bytes: the largest whose size is not above it.\<close>

lemma byte_unit_spec:
  "1024 ^ u \<le> v \<or> u = 0 \<Longrightarrow> u \<le> 4 \<Longrightarrow> byte_unit v u \<le> 4 \<and> (1024 ^ byte_unit v u \<le> v \<or> byte_unit v u = 0) \<and>
     (v < 1024 ^ Suc (byte_unit v u) \<or> byte_unit v u = 4)"
proof (induction v u rule: byte_unit.induct)
  case (1 v u)
  show ?case
  proof (cases "1024 ^ Suc u \<le> v \<and> u < length BYTE_UNITS - 1")
    case True
    then have "byte_unit v u = byte_unit v (Suc u)" by (subst byte_unit.simps) simp
    moreover have "Suc u \<le> 4" using True by (simp add: BYTE_UNITS_def)
    ultimately show ?thesis using "1.IH" [OF True] True by simp
  next
    case False
    then have "byte_unit v u = u" by (subst byte_unit.simps) simp
    then show ?thesis using False "1.prems" by (auto simp: BYTE_UNITS_def)
  qed
qed


text \<open>At most one entry of the navigation is marked.\<close>

lemma isActive_path: "isActive path href \<Longrightarrow> \<exists>rest. path = href @ rest \<and> (rest = [] \<or> hd rest = CHR ''/'')"
  by (auto simp: isActive_def startsWith_iff split: if_splits)

definition first_part :: "string \<Rightarrow> string" where
  "first_part path = takeWhile (\<lambda>c. c \<noteq> CHR ''/'') (tl path)"

lemma active_first_part:
  assumes "h \<in> set nav_hrefs" and "isActive path h"
  shows "first_part path = first_part h"
proof -
  obtain rest where r: "path = h @ rest" "rest = [] \<or> hd rest = CHR ''/''" using isActive_path [OF assms(2)] by blast
  have "h \<noteq> []" using assms(1) by (auto simp: nav_hrefs_def)
  then show ?thesis using r assms(1) by (cases rest) (auto simp: first_part_def nav_hrefs_def)
qed

lemma same_first_part:
  "h \<in> set nav_hrefs \<Longrightarrow> k \<in> set nav_hrefs \<Longrightarrow> first_part h = first_part k \<Longrightarrow> h \<noteq> k \<Longrightarrow>
     {h, k} = {''/providers'', ''/providers/tests''}"
  by (simp add: nav_hrefs_def first_part_def) (elim disjE; simp add: insert_commute)

lemma one_nav_entry: "length (filter (isActive path) nav_hrefs) \<le> 1"
proof (cases "filter (isActive path) nav_hrefs")
  case (Cons h hs)
  show ?thesis
  proof (cases hs)
    case (Cons k ks)
    then have hk: "h \<in> set (filter (isActive path) nav_hrefs)" "k \<in> set (filter (isActive path) nav_hrefs)"
      using \<open>filter (isActive path) nav_hrefs = h # hs\<close> by simp_all
    have "distinct nav_hrefs" by (simp add: nav_hrefs_def)
    then have "distinct (filter (isActive path) nav_hrefs)" by (rule distinct_filter)
    then have "h \<noteq> k" using \<open>filter (isActive path) nav_hrefs = h # hs\<close> Cons by simp
    moreover have "first_part h = first_part k" using hk active_first_part [of h path] active_first_part [of k path] by simp
    ultimately have pair: "{h, k} = {''/providers'', ''/providers/tests''}" using hk by (intro same_first_part) auto
    have "isActive path h" "isActive path k" using hk by auto
    then have "isActive path ''/providers''" "isActive path ''/providers/tests''" using pair by (auto simp: doubleton_eq_iff)
    then show ?thesis by (simp add: isActive_def)
  qed (simp add: \<open>filter (isActive path) nav_hrefs = h # hs\<close>)
qed simp

text \<open>A retention period that the form sends within its bounds is taken as it is.\<close>

lemma retention_accepted:
  "1 \<le> sp_logRetentionDays p \<Longrightarrow> sp_logRetentionDays p \<le> 365 \<Longrightarrow>
     updateSettingsSchema (settings_body p) = Some (Some (sp_logRetentionDays p))"
  by (simp add: updateSettingsSchema_def settings_body_def is_object_def optional_def get_field_def int_value_def)

theorem one_page_keeps_visitor_witness:
  "sh_location (checkAuth (Inr (received (reply_json 401 [(''success'', JBool False), (''authenticated'', JBool False),
      (''needsSetup'', JBool True)]))) \<lparr>sh_user = JNull, sh_checkingAuth = True, sh_location = None, sh_mobileOpen = False\<rparr>) = Some ''/login''"
proof -
  let ?p = "\<lparr>sh_user = JNull, sh_checkingAuth = True, sh_location = None, sh_mobileOpen = False\<rparr>"
    and ?q = "\<lparr>lg_isSetup = False, lg_username = [], lg_password = [], lg_confirmPassword = [], lg_error = None,
      lg_submitting = False, lg_checkingAuth = True, lg_location = None\<rparr>"
  have "lg_location (login_checkAuth (Inr (received (reply_json 401 [(''success'', JBool False), (''authenticated'', JBool False),
      (''needsSetup'', JBool True)]))) ?q) = None"
    by (simp add: login_checkAuth_def reply_json_def payload_field_def field_or_null_def or_null_def Let_def)
  then show ?thesis
    using one_page_keeps_visitor [OF me_answers_demo, of ?p ?q] by (simp add: reply_json_def)
qed

end
