(* ===== verification/Cache_View.thy ===== *)
theory Cache_View imports Admin_Pages View begin

section \<open>The cache page on the screen\<close>

text \<open>
  The render function of \<open>app/cache/page.tsx\<close>, without tooltips. The argument \<open>when\<close> is the browser's \<open>toLocaleString\<close>
  of an instant in milliseconds, and \<open>rank\<close> the collation key by which \<open>localeCompare\<close> orders two texts. The keys of the
  entries are texts.
\<close>

subsection \<open>Values on a page\<close>

text \<open>A value between two tags: a boolean and nothing leave no text. A value in a template leaves its name.\<close>

definition jsx_text :: "json \<Rightarrow> string" where
  "jsx_text v = (case v of JBool b \<Rightarrow> [] | _ \<Rightarrow> element_text v)"

definition template_field :: "json \<Rightarrow> string \<Rightarrow> string" where
  "template_field v k = (case v of
     JObj kvs \<Rightarrow> (case map_of kvs k of None \<Rightarrow> ''undefined'' | Some x \<Rightarrow> if x = JNull then ''null'' else element_text x)
   | _ \<Rightarrow> ''undefined'')"

definition nullish :: "json \<Rightarrow> json \<Rightarrow> json" where
  "nullish v d = (if v = JNull then d else v)"

text \<open>The plural of an English noun: the ending, unless the number is one.\<close>

definition unless_one :: "json \<Rightarrow> string \<Rightarrow> string" where
  "unless_one v ending = (if v = JNum 1 then [] else ending)"

text \<open>\<open>Number\<close> of a text of digits; \<open>new Date\<close> of a number of seconds, which is invalid beyond \<open>8.64e15\<close> milliseconds.\<close>

definition int_text :: "string \<Rightarrow> int option" where
  "int_text s =
     (let t = trim s; u = (if startsWith t ''-'' \<or> startsWith t ''+'' then drop 1 t else t) in
      if t = [] then Some 0
      else if u \<noteq> [] \<and> list_all is_digit u then Some (if startsWith t ''-'' then - digits_val u else digits_val u) else None)"

definition epoch_instant :: "json \<Rightarrow> int option" where
  "epoch_instant v = (case v of
     JNum i \<Rightarrow> Some (i * 1000) | JDec d \<Rightarrow> Some (d * 10) | JBool b \<Rightarrow> Some (if b then 1000 else 0)
   | JStr s \<Rightarrow> map_option (\<lambda>i. i * 1000) (int_text s) | _ \<Rightarrow> None)"

definition date_text :: "(int \<Rightarrow> string) \<Rightarrow> int option \<Rightarrow> string" where
  "date_text when v = (case v of
     None \<Rightarrow> ''Invalid Date'' | Some ms \<Rightarrow> if abs ms > 8640000000000000 then ''Invalid Date'' else when ms)"

definition formatTime :: "(int \<Rightarrow> string) \<Rightarrow> json \<Rightarrow> string" where
  "formatTime when v = (if js_truthy v then date_text when (epoch_instant v) else ''N/A'')"

definition bytes_text :: "json \<Rightarrow> string" where
  "bytes_text v = (case v of JNum i \<Rightarrow> formatBytes i | _ \<Rightarrow> ''0 B'')"

subsection \<open>The parameters of a query\<close>

text \<open>\<open>new URLSearchParams(query).get(name)\<close>. A byte that is not given as two hexadecimal digits stays a percent sign; the
  bytes are UTF-8, of characters of at most two.\<close>

definition hex_nibble :: "char \<Rightarrow> nat option" where
  "hex_nibble c =
     (if is_digit c then Some (of_char c - 48) else if in_range 65 70 c then Some (of_char c - 55)
      else if in_range 97 102 c then Some (of_char c - 87) else None)"

fun form_bytes :: "string \<Rightarrow> nat list" where
  "form_bytes [] = []"
| "form_bytes (c # cs) =
     (if c = CHR ''+'' then 32 # form_bytes cs
      else if c = CHR ''%'' then
        (case cs of
           a # b # r \<Rightarrow>
             (case (hex_nibble a, hex_nibble b) of
                (Some x, Some y) \<Rightarrow> (16 * x + y) # form_bytes r | _ \<Rightarrow> 37 # form_bytes cs)
         | _ \<Rightarrow> 37 # form_bytes cs)
      else of_char c # form_bytes cs)"

definition form_text :: "string \<Rightarrow> string" where
  "form_text s = utf8_units (form_bytes s)"

definition query_pairs :: "string \<Rightarrow> (string \<times> string) list" where
  "query_pairs query =
     (let q = (if startsWith query ''?'' then drop 1 query else query) in
      map (\<lambda>part. (form_text (takeWhile (\<lambda>c. c \<noteq> CHR ''='') part), form_text (drop 1 (dropWhile (\<lambda>c. c \<noteq> CHR ''='') part))))
        (filter (\<lambda>part. part \<noteq> []) (splitOn (CHR ''&'') q)))"

definition search_param :: "string \<Rightarrow> string \<Rightarrow> string option" where
  "search_param name query = map_of (query_pairs query) name"

subsection \<open>The entries\<close>

definition describeEntry :: "json \<Rightarrow> string \<times> string" where
  "describeEntry entry =
     (let d = field_or_null entry ''descriptor''; endpoint = field_or_null d ''endpoint''; query = field_or_null d ''query'' in
      if \<not> js_truthy endpoint then (''Legacy cache entry'', ''Imported cache data'')
      else (case truthy (search_param ''action'' (if js_truthy query then element_text query else [])) of
          Some action \<Rightarrow> element_text endpoint @ '' - '' @ action
        | None \<Rightarrow> element_text endpoint, jsx_text (field_or_null d ''providerId'')))"

definition sorted_entries :: "(string \<Rightarrow> 'k :: linorder) \<Rightarrow> cache_page \<Rightarrow> json list" where
  "sorted_entries rank p = sort_key (\<lambda>e. rank (fst (describeEntry e))) (cp_entries p)"

text \<open>The refresh is due after seven tenths of the time to live, rounded half up; the product is the exact one, which a
  double gives for every multiple of ten seconds, so for whole hours.\<close>

definition refreshAt :: "json \<Rightarrow> json" where
  "refreshAt entry = (case (field_or_null entry ''fetchedAt'', field_or_null entry ''ttlSeconds'') of
     (JNum fetched, JNum ttl) \<Rightarrow> JNum (fetched + (7 * ttl + 5) div 10) | _ \<Rightarrow> JNull)"

definition entry_key :: "json \<Rightarrow> string" where
  "entry_key entry = element_text (field_or_null entry ''key'')"

definition stateBadge :: "json option \<Rightarrow> 'e element" where
  "stateBadge s =
     (let st = (case s of None \<Rightarrow> JNull | Some v \<Rightarrow> field_or_null v ''status'') in
      Mark (if s = None then ''outline'' else if st = JStr ''running'' \<or> st = JStr ''rejected'' then ''warning''
            else if st = JStr ''succeeded'' then ''success'' else if st = JStr ''failed'' then ''destructive'' else ''outline'')
        (badge_text s))"

datatype cache_event = Reload_cache | Refresh_all | Refresh_entry string

definition running_state :: "json option \<Rightarrow> bool" where
  "running_state s \<longleftrightarrow> (case s of None \<Rightarrow> False | Some v \<Rightarrow> field_or_null v ''status'' = JStr ''running'')"

definition cache_row :: "(int \<Rightarrow> string) \<Rightarrow> cache_page \<Rightarrow> json \<Rightarrow> cache_event element list" where
  "cache_row when p entry =
     (let (title, detail) = describeEntry entry; key = entry_key entry; st = operationByKey p (JStr key);
          field = field_or_null entry in
      [Shown title, Shown (detail @ '' - HTTP '' @ jsx_text (field ''status'')),
       Shown (if js_truthy (field ''itemCountKnown'') then jsx_text (nullish (field ''itemCount'') (JNum 0)) else ''-''),
       Shown (bytes_text (field ''sizeBytes'')), Shown (jsx_text (nullish (field ''activeReaders'') (JNum 0))), stateBadge st] @
      shown_for st (\<lambda>s. [Shown (jsx_text (or_default (field_or_null s ''operation'') (JStr ''refresh'')) @ '' - '' @
        formatTime when (or_default (field_or_null s ''finishedAt'') (field_or_null s ''startedAt'')))]) @
      [Shown (formatTime when (field ''fetchedAt'')), Shown (formatTime when (refreshAt entry)),
       Mark (if js_truthy (field ''refreshRegistered'') then ''success'' else ''warning'')
         (if js_truthy (field ''refreshRegistered'') then ''Scheduled'' else ''Not scheduled''),
       Button (if running_state st then ''Refreshing'' else ''Refresh'')
         (cp_busyKey p = Some key \<or> cp_refreshingAll p \<or> bulkRunning p \<or> running_state st) (Refresh_entry key)])"

subsection \<open>The page\<close>

definition bulk_count :: "cache_page \<Rightarrow> string \<Rightarrow> json" where
  "bulk_count p k = or_default (field_or_null (cp_bulk p) k) (JNum 0)"

definition bulkCompleted :: "cache_page \<Rightarrow> int" where
  "bulkCompleted p = number_or_0 (Some (bulk_count p ''succeeded'')) + number_or_0 (Some (bulk_count p ''failed'')) +
     number_or_0 (Some (bulk_count p ''skipped''))"

definition bulk_running_notice :: "cache_page \<Rightarrow> cache_event element list" where
  "bulk_running_notice p = shown_when (bulkRunning p)
     (let op = field_or_null (cp_bulk p) ''operationId''; skipped = bulk_count p ''skipped'' in
      [Notice ''default'' (''Bulk refresh is running'' @ (if js_truthy op then '' - '' @ take 8 (element_text op) else []) @
        ''. '' @ show_int (bulkCompleted p) @ '' completed of '' @ jsx_text (bulk_count p ''started'') @ '' started so far'' @
        (if number_or_0 (Some skipped) > 0
         then '' - '' @ element_text skipped @ '' duplicate'' @ unless_one skipped ''s'' @ '' skipped'' else []) @
        ''. This state is stored in Redis and survives a page reload.'')])"

definition bulk_result_notice :: "(int \<Rightarrow> string) \<Rightarrow> cache_page \<Rightarrow> cache_event element list" where
  "bulk_result_notice when p =
     (let st = field_or_null (cp_bulk p) ''status'' in
      shown_when (\<not> bulkRunning p \<and> st \<noteq> JStr ''idle'' \<and> st \<noteq> JStr ''unknown'')
        [Notice (if st = JStr ''failed'' \<or> st = JStr ''interrupted'' then ''destructive''
                 else if st = JStr ''partial'' then ''warning'' else ''success'')
          (''Last bulk refresh: '' @ jsx_text st @ '' - '' @ jsx_text (bulk_count p ''succeeded'') @ '' succeeded, '' @
           jsx_text (bulk_count p ''failed'') @ '' failed, '' @ jsx_text (bulk_count p ''skipped'') @ '' skipped - finished '' @
           formatTime when (field_or_null (cp_bulk p) ''finishedAt'') @ ''.'' @
           (case field_or_null (cp_bulk p) ''errors'' of
              JArr (e # es) \<Rightarrow> '' '' @ (if e = JNull then ''null'' else element_text e) | _ \<Rightarrow> []))])"

definition cache_metrics :: "cache_page \<Rightarrow> cache_event element list" where
  "cache_metrics p =
     (let stat = field_or_null (cp_stats p) in
      [Pair ''Entries'' (jsx_text (stat ''entries'')), Pair ''Stored data'' (bytes_text (stat ''bytes'')),
       Pair ''Auto-refresh jobs'' (jsx_text (stat ''registeredRefreshes'')),
       Pair ''Active readers'' (jsx_text (stat ''activeReaders'')),
       Pair ''Retiring generations'' (jsx_text (stat ''retiredGenerations''))])"

definition retired_notice :: "cache_page \<Rightarrow> cache_event element list" where
  "retired_notice p =
     (let retired = field_or_null (cp_stats p) ''retiredGenerations'' in
      shown_when (number_or_0 (Some retired) > 0)
        [Notice ''default'' (jsx_text retired @ '' previous generation'' @ (if retired = JNum 1 then '' is'' else ''s are'') @
          '' waiting for active request'' @ unless_one (field_or_null (cp_stats p) ''activeReaders'') ''s'' @
          '' to finish. Cleanup happens automatically when the last reader releases it.'')])"

definition cache_list :: "(string \<Rightarrow> 'k :: linorder) \<Rightarrow> (int \<Rightarrow> string) \<Rightarrow> cache_page \<Rightarrow> cache_event element list" where
  "cache_list rank when p =
     (if cp_loading p \<and> cp_entries p = [] then [Shown ''Loading cache...'']
      else if sorted_entries rank p = []
      then [Nothing_here ''Cache is empty'' ''Refresh all cache to pull the standard heavy provider datasets into Redis.'',
            Button (if bulkRunning p then ''Refreshing...'' else ''Refresh all cache'') (cp_refreshingAll p \<or> bulkRunning p) Refresh_all]
      else map Shown [''Entry'', ''Items'', ''Size'', ''Readers'', ''State'', ''Fetched'', ''Refresh'', ''Action''] @
        concat (map (cache_row when p) (sorted_entries rank p)))"

definition cache_view :: "(string \<Rightarrow> 'k :: linorder) \<Rightarrow> (int \<Rightarrow> string) \<Rightarrow> cache_page \<Rightarrow> cache_event element list" where
  "cache_view rank when p =
     [Shown ''Cache'',
      Shown ''Validated IPTV metadata cached in Redis with persistent single-flight refresh state. Cache activity is also available in the unified Logs console.'',
      Button ''Reload status'' (cp_loading p) Reload_cache,
      Button (if bulkRunning p then ''Refreshing...'' else if cp_refreshingAll p then ''Starting...'' else ''Refresh all cache'')
        (cp_refreshingAll p \<or> bulkRunning p) Refresh_all] @
     shown_for (truthy (cp_error p)) (\<lambda>e. [Notice ''destructive'' e]) @
     shown_for (truthy (cp_message p)) (\<lambda>m. [Notice ''success'' m]) @
     bulk_running_notice p @ bulk_result_notice when p @ cache_metrics p @ retired_notice p @ cache_list rank when p"

subsection \<open>What the page offers\<close>

lemma cache_row_only:
  "only P (cache_row when p entry) \<longleftrightarrow>
     (can_refresh_entry (entry_key entry) p \<longrightarrow> P (Refresh_entry (entry_key entry)))"
  by (auto simp: cache_row_def Let_def can_refresh_entry_def running_state_def stateBadge_def
      split: prod.splits option.splits)

lemma notices_only [simp]:
  "only P (bulk_running_notice p)" "only P (bulk_result_notice when p)" "only P (cache_metrics p)" "only P (retired_notice p)"
  by (simp_all add: bulk_running_notice_def bulk_result_notice_def cache_metrics_def retired_notice_def Let_def)

lemma sorted_entries_set [simp]: "set (sorted_entries rank p) = set (cp_entries p)"
  "sorted_entries rank p = [] \<longleftrightarrow> cp_entries p = []"
  by (simp add: sorted_entries_def) (metis set_empty set_sort sorted_entries_def)

lemma cache_list_only:
  "only P (cache_list rank when p) \<longleftrightarrow>
     (cp_entries p = [] \<longrightarrow> \<not> cp_loading p \<longrightarrow> can_refresh_all p \<longrightarrow> P Refresh_all) \<and>
     (\<forall>e \<in> set (cp_entries p). can_refresh_entry (entry_key e) p \<longrightarrow> P (Refresh_entry (entry_key e)))"
  by (auto simp: cache_list_def cache_row_only can_refresh_all_def)

lemma cache_view_only:
  "only P (cache_view rank when p) \<longleftrightarrow>
     (\<not> cp_loading p \<longrightarrow> P Reload_cache) \<and> (can_refresh_all p \<longrightarrow> P Refresh_all) \<and>
     (\<forall>e \<in> set (cp_entries p). can_refresh_entry (entry_key e) p \<longrightarrow> P (Refresh_entry (entry_key e)))"
  by (auto simp: cache_view_def cache_list_only can_refresh_all_def split: option.split)

lemma cache_parts_plain [simp]:
  "\<not> list_ex is_modal (cache_row when p entry)" "\<not> list_ex is_modal (bulk_running_notice p)"
  "\<not> list_ex is_modal (bulk_result_notice when p)" "\<not> list_ex is_modal (cache_metrics p)" "\<not> list_ex is_modal (retired_notice p)"
  by (simp_all add: cache_row_def bulk_running_notice_def bulk_result_notice_def cache_metrics_def retired_notice_def
      stateBadge_def Let_def split: prod.split option.split)

lemma cache_view_plain: "\<not> list_ex is_modal (cache_view rank when p)"
  by (simp add: cache_view_def cache_list_def split: option.split)

text \<open>The buttons of the page are exactly those whose operation may start: the list can be reloaded unless a request that is
  not silent is on its way, everything can be refreshed unless a bulk refresh runs or starts, and an entry of the list unless
  that or a refresh of its own does.\<close>

theorem cache_page_offers:
  "set (offered (cache_view rank when p)) =
     {e. e = Reload_cache \<and> \<not> cp_loading p} \<union> {e. e = Refresh_all \<and> can_refresh_all p} \<union>
     Refresh_entry ` {key \<in> entry_key ` set (cp_entries p). can_refresh_entry key p}"
proof -
  have "e \<in> set (offered (cache_view rank when p)) \<longleftrightarrow> \<not> only (\<lambda>x. x \<noteq> e) (cache_view rank when p)" for e
    using offered_plain [OF cache_view_plain] in_presses by metis
  then show ?thesis unfolding cache_view_only by auto
qed

text \<open>The list is a permutation of the entries, in the order of their titles, and entries of the same title stay in the order
  in which they came.\<close>

lemma sorted_entries_spec:
  "mset (sorted_entries rank p) = mset (cp_entries p)"
  "sorted (map (\<lambda>e. rank (fst (describeEntry e))) (sorted_entries rank p))"
  "filter (\<lambda>e. rank (fst (describeEntry e)) = k) (sorted_entries rank p) =
     filter (\<lambda>e. rank (fst (describeEntry e)) = k) (cp_entries p)"
  unfolding sorted_entries_def by (auto simp: sort_key_stable)

text \<open>A parameter that was encoded is read back.\<close>

lemma nibble_digit: "n < 16 \<Longrightarrow> hex_nibble (HEX_DIGIT n) = Some n"
  by (auto simp: hex_nibble_def HEX_DIGIT_def is_digit_def in_range_def)

lemma form_percent: "b < 256 \<Longrightarrow> form_bytes (percent b @ r) = b # form_bytes r"
  by (simp add: percent_def nibble_digit)

lemma form_encoded: "form_bytes (encode_char c @ r) = utf8_bytes c @ form_bytes r"
proof (cases "url_unreserved c")
  case True
  then show ?thesis
    using unreserved_small [of c] unreserved_plain [of c] by (simp add: encode_char_def utf8_bytes_def)
next
  case False
  have "192 + of_char c div 64 < (256 :: nat)" using of_char_small [of c] by linarith
  then show ?thesis using False by (auto simp: encode_char_def utf8_bytes_def Let_def form_percent)
qed

lemma form_text_encoded: "form_text (encodeURIComponent s) = s"
proof -
  have "form_bytes (encodeURIComponent s) = concat (map utf8_bytes s)"
    unfolding encodeURIComponent_def by (induction s) (simp_all add: form_encoded)
  moreover have "utf8_units (concat (map utf8_bytes s)) = s"
    by (induction s) (simp_all add: units_bytes)
  ultimately show ?thesis by (simp add: form_text_def)
qed

lemma demo_describe:
  "describeEntry (JObj [(''descriptor'', JObj [(''providerId'', JStr ''p1''), (''endpoint'', JStr ''player_api.php''),
     (''query'', JStr ''username=a&action=get%5Flive'')])]) = (''player_api.php - get_live'', ''p1'')"
  by (simp add: describeEntry_def field_or_null_def or_null_def search_param_def query_pairs_def truthy_def jsx_text_def
      form_text_def hex_nibble_def char_eval)

end
