(* ===== verification/Admin_Views.thy ===== *)
theory Admin_Views imports Cache_View begin

section \<open>The shell, the login, the settings and the dashboard on the screen\<close>

text \<open>
  The render functions of \<open>components/layout\<close>, \<open>app/login/page.tsx\<close>, \<open>app/settings/page.tsx\<close> and
  \<open>app/dashboard/page.tsx\<close>. A following of a link is not an event of the page; a link of the navigation closes the menu of
  a small screen as well.
\<close>

subsection \<open>The shell around every page\<close>

datatype 'e shell_event = On_page 'e | Open_menu | Close_menu | Sign_out | Switch_theme | Refresh_runtime

definition nav_groups :: "(string \<times> (string \<times> string) list) list" where
  "nav_groups =
     [(''Overview'', [(''Dashboard'', ''/dashboard'')]),
      (''IPTV'', [(''Providers'', ''/providers''), (''Provider Tests'', ''/providers/tests''), (''Cache'', ''/cache'')]),
      (''Network'', [(''VPN'', ''/vpn'')]),
      (''System'', [(''Logs'', ''/logs''), (''Settings'', ''/settings'')])]"

definition handleLogout :: "string + response \<Rightarrow> shell \<Rightarrow> shell" where
  "handleLogout answer p = p\<lparr>sh_location := Some ''/login''\<rparr>"

definition set_menu :: "bool \<Rightarrow> shell \<Rightarrow> shell" where
  "set_menu shown p = p\<lparr>sh_mobileOpen := shown\<rparr>"

text \<open>The entry of the page is marked.\<close>

definition nav_item :: "string \<Rightarrow> string \<times> string \<Rightarrow> 'e shell_event element list" where
  "nav_item pathname item = [Mark (if isActive pathname (snd item) then ''accent'' else ''muted'') [], Link (fst item) (snd item)]"

definition sidebar_content :: "string \<Rightarrow> json \<Rightarrow> 'e shell_event element list" where
  "sidebar_content pathname user =
     [Link ''IPTV Proxy Administration'' ''/dashboard'', Button ''Close navigation'' False Close_menu] @
     concat (map (\<lambda>(label, items). Shown label # concat (map (nav_item pathname) items)) nav_groups) @
     [Shown (toUpperCase (take 1 (shown_text user ''username'' ''A''))), Shown (shown_text user ''username'' ''Administrator''),
      Shown ''Admin'', Button ''Sign out'' False Sign_out]"

definition sidebar_view :: "string \<Rightarrow> shell \<Rightarrow> 'e shell_event element list" where
  "sidebar_view pathname p =
     sidebar_content pathname (sh_user p) @
     shown_when (sh_mobileOpen p) (Button ''Close navigation'' False Close_menu # sidebar_content pathname (sh_user p))"

definition top_bar_view :: "top_bar \<Rightarrow> 'e shell_event element list" where
  "top_bar_view p =
     (let viewers = or_default (field_or_null (field_or_null (tb_system p) ''go'') ''viewers'') (JNum 0) in
      [Button ''Open navigation'' False Open_menu, Shown (shown_text (tb_network p) ''ip'' ''IP unavailable''),
       Shown (''- '' @ shown_text (tb_network p) ''location'' (shown_text (tb_network p) ''country'' ''Unknown location''))] @
      shown_when (number_or_0 (Some viewers) > 0)
        [Mark ''secondary'' (jsx_text viewers @ '' viewer'' @ unless_one viewers ''s'')] @
      [Mark (if goRunning p then ''success'' else ''destructive'') (''Go '' @ (if goRunning p then ''online'' else ''offline'')),
       Link (vpn_text p) ''/vpn'',
       Button (''Switch to '' @ (if tb_theme p = Dark then ''light'' else ''dark'') @ '' mode'') False Switch_theme,
       Button ''Refresh runtime status'' (tb_refreshing p) Refresh_runtime])"

text \<open>Until the session has been looked at there is only a skeleton.\<close>

definition app_shell_view :: "string \<Rightarrow> shell \<Rightarrow> top_bar \<Rightarrow> 'e element list \<Rightarrow> 'e shell_event element list" where
  "app_shell_view pathname p bar children =
     (if sh_checkingAuth p then []
      else sidebar_view pathname p @ top_bar_view bar @ map (map_element On_page) children)"

subsection \<open>The login\<close>

datatype login_event = Submit_login

definition login_fields :: "login_page \<Rightarrow> login_event element list" where
  "login_fields p =
     [Input ''Username'' (lg_username p) True, Secret_input ''Password'' (lg_password p) True] @
     shown_when (lg_isSetup p) [Secret_input ''Confirm password'' (lg_confirmPassword p) True]"

definition login_view :: "login_page \<Rightarrow> login_event element list" where
  "login_view p =
     (if lg_checkingAuth p then [Shown ''Loading'']
      else
        [Shown ''IPTV Proxy'', Shown (if lg_isSetup p then ''Create administrator'' else ''Sign in''),
         Shown (if lg_isSetup p then ''Set the credentials for the first administrator account.''
                else ''Use your administrator credentials to continue.'')] @
        shown_for (truthy (lg_error p)) (\<lambda>e. [Notice ''destructive'' (''Authentication failed '' @ e)]) @
        login_fields p @
        [Button (if lg_submitting p then ''Please wait'' else if lg_isSetup p then ''Create administrator'' else ''Sign in'')
           (lg_submitting p \<or> incomplete (login_fields p)) Submit_login])"

subsection \<open>The settings\<close>

datatype settings_event = Submit_password | Save_settings

definition detail_rows :: "(string \<times> string) list \<Rightarrow> 'e element list" where
  "detail_rows rows = map (\<lambda>(label, v). Pair label v) rows"

definition password_fields :: "settings_page \<Rightarrow> settings_event element list" where
  "password_fields p =
     [Secret_input ''Current password'' (sp_currentPassword p) True, Secret_input ''New password'' (sp_newPassword p) True,
      Secret_input ''Confirm password'' (sp_confirmPassword p) True]"

text \<open>A text that was typed and is shorter than \<open>minLength\<close>, or a number outside \<open>min\<close> and \<open>max\<close>, keeps the browser from
  submitting the form.\<close>

definition too_short :: "nat \<Rightarrow> string \<Rightarrow> bool" where
  "too_short n typed \<longleftrightarrow> typed \<noteq> [] \<and> length typed < n"

definition password_card :: "settings_page \<Rightarrow> settings_event element list" where
  "password_card p =
     [Shown ''Administrator password'',
      Shown ''Changing your password signs out every other administrator session immediately.''] @
     shown_for (truthy (sp_passwordError p)) (\<lambda>e. [Notice ''destructive'' e]) @
     shown_for (truthy (sp_passwordMessage p)) (\<lambda>m. [Notice ''success'' m]) @
     password_fields p @
     [Button (if sp_passwordSaving p then ''Updating...'' else ''Update password'')
        (sp_passwordSaving p \<or> incomplete (password_fields p) \<or> too_short 8 (sp_newPassword p) \<or> too_short 8 (sp_confirmPassword p))
        Submit_password]"

definition retention_card :: "settings_page \<Rightarrow> settings_event element list" where
  "retention_card p =
     [Shown ''Log retention'', Shown ''Choose how long historical application logs remain in SQLite.'',
      Input ''Retention period'' (show_int (sp_logRetentionDays p)) False, Shown ''days'', Shown ''Valid range: 1-365 days.'',
      Button (if sp_saving p then ''Saving...'' else ''Save settings'')
        (sp_saving p \<or> sp_loading p \<or> sp_logRetentionDays p < 1 \<or> sp_logRetentionDays p > 365) Save_settings]"

definition storage_rows :: "settings_page \<Rightarrow> (string \<times> string) list" where
  "storage_rows p =
     (let h = sp_health p; field = field_or_null h in
      [(''Database'', shown_text h ''dbPath'' ''/data/iptv-proxy.db''),
       (''Journal mode'', if js_truthy (field ''dbWalMode'') then ''WAL'' else ''Standard''),
       (''Size'', shown_text h ''dbSizeFormatted'' ''N/A''),
       (''Providers'', element_text (nullish (field ''activeProviders'') (JNum 0)) @ '' enabled / '' @
          element_text (nullish (field ''totalProviders'') (JNum 0)) @ '' total''),
       (''Log records'', jsx_text (nullish (field ''totalLogs'') (JNum 0)))])"

definition uptime_seconds :: "json \<Rightarrow> nat" where
  "uptime_seconds health = (case field_or_null (field_or_null health ''environment'') ''uptimeSeconds'' of
     JNum i \<Rightarrow> nat i | _ \<Rightarrow> 0)"

definition runtime_rows :: "settings_page \<Rightarrow> (string \<times> string) list" where
  "runtime_rows p =
     (let h = sp_health p; e = field_or_null h ''environment'' in
      [(''Node.js'', shown_text e ''nodeVersion'' ''N/A''),
       (''Platform'', if js_truthy h then template_field e ''platform'' @ '' / '' @ template_field e ''arch'' else ''N/A''),
       (''Uptime'', formatUptime (uptime_seconds h)),
       (''Setup'', if js_truthy (field_or_null (sp_settings p) ''initial_setup_completed'') then ''Complete'' else ''Pending'')])"

definition settings_view :: "settings_page \<Rightarrow> settings_event element list" where
  "settings_view p =
     [Shown ''Settings'', Shown ''Security, retention, storage, and runtime information.''] @
     shown_for (truthy (sp_error p)) (\<lambda>e. [Notice ''destructive'' e]) @
     shown_for (truthy (sp_message p)) (\<lambda>m. [Notice ''success'' m]) @
     password_card p @ retention_card p @
     [Shown ''Storage'', Shown ''Current SQLite database state.''] @ detail_rows (storage_rows p) @
     [Shown ''Runtime'', Shown ''Host process information reported by the application.''] @ detail_rows (runtime_rows p) @
     [Shown ''Network state'', Shown ''Persisted VPN state recorded by the control plane.''] @ detail_rows (network_rows p)"

subsection \<open>The dashboard\<close>

datatype dashboard_event = Refresh_dashboard

definition go_field :: "dashboard \<Rightarrow> string \<Rightarrow> json" where
  "go_field p k = field_or_null (field_or_null (dp_system p) ''go'') k"

definition vpn_metric :: "dashboard \<Rightarrow> string \<times> string" where
  "vpn_metric p =
     (let v = dp_vpn p; st = field_or_null v ''status'' in
      (if vpnConnected p then ''Connected'' else if st = JStr ''connecting'' then ''Connecting''
       else if st = JStr ''error'' then ''Error'' else ''Direct'',
       if vpnConnected p
       then shown_text v ''profileName'' (template_field v ''type'') @ '' - '' @ shown_text v ''publicIp'' ''IP unavailable''
       else ''Host network egress''))"

definition dashboard_metrics :: "dashboard \<Rightarrow> dashboard_event element list" where
  "dashboard_metrics p =
     (if dp_loading p then []
      else
        [Pair ''VPN'' (fst (vpn_metric p)), Shown (snd (vpn_metric p)),
         Pair ''Providers'' (show_nat (enabledProviders p) @ '' / '' @ show_nat (length (dp_providers p))),
         Shown (case defaultProvider p of Some d \<Rightarrow> ''Default: '' @ template_field d ''name'' | None \<Rightarrow> ''No default provider''),
         Pair ''Live streams'' (jsx_text (nullish (go_field p ''activeStreams'') (JNum 0))),
         Shown (element_text (nullish (go_field p ''viewers'') (JNum 0)) @ '' active viewer'' @ unless_one (go_field p ''viewers'') ''s''),
         Pair ''Database'' (shown_text (dp_health p) ''dbSizeFormatted'' ''Ready''),
         Shown (if js_truthy (field_or_null (dp_health p) ''dbWalMode'') then ''SQLite - WAL mode'' else ''SQLite'')])"

definition dashboard_provider :: "json \<Rightarrow> dashboard_event element list" where
  "dashboard_provider provider =
     (let field = field_or_null provider; enabled = (field ''enabled'' = JNum 1) in
      [Shown (jsx_text (field ''name''))] @ shown_when (field ''is_default'' = JNum 1) [Mark ''secondary'' ''Default''] @
      [Shown (''/'' @ jsx_text (field ''route'')), Shown (jsx_text (field ''host'')),
       Mark (if enabled then ''success'' else ''secondary'') (if enabled then ''Enabled'' else ''Disabled'')])"

definition dashboard_providers :: "dashboard \<Rightarrow> dashboard_event element list" where
  "dashboard_providers p =
     [Shown ''Providers'', Shown ''Configured upstream routes and their current state.'', Link ''Manage'' ''/providers''] @
     (if dp_providers p = []
      then [Nothing_here ''No providers configured'' ''Add an Xtream provider to start routing IPTV traffic.'',
            Link ''Add provider'' ''/providers'']
      else map Shown [''Provider'', ''Route'', ''Upstream'', ''Status''] @ concat (map dashboard_provider (take 6 (dp_providers p))))"

text \<open>The services with the colour of their lamp and what is said of them.\<close>

definition runtime_services :: "dashboard \<Rightarrow> (string \<times> bool \<times> string) list" where
  "runtime_services p =
     (let h = field_or_null (dp_health p); lamp = (\<lambda>k. h k = JBool True);
          found = (\<lambda>k. if js_truthy (h k) then ''Installed'' else ''Unavailable'') in
      [(''Go core'', go_field p ''running'' = JBool True,
        if js_truthy (dp_system p) then template_field (field_or_null (dp_system p) ''go'') ''latencyMs'' @ '' ms'' else ''Checking''),
       (''TUN device'', lamp ''tunAvailable'', if js_truthy (h ''tunAvailable'') then ''Available'' else ''Unavailable''),
       (''WireGuard'', lamp ''wireguardInstalled'', found ''wireguardInstalled''),
       (''OpenVPN'', lamp ''openvpnInstalled'', found ''openvpnInstalled''),
       (''Cloudflare WARP'', lamp ''warpInstalled'', found ''warpInstalled'')])"

definition dashboard_runtime :: "dashboard \<Rightarrow> dashboard_event element list" where
  "dashboard_runtime p =
     [Shown ''Runtime'', Shown ''Core services and host capabilities.''] @
     concat (map (\<lambda>(label, ok, detail). [Pair label detail, Mark (if ok then ''on'' else ''off'') []]) (runtime_services p)) @
     [Pair ''Host uptime'' (formatUptime (uptime_seconds (dp_health p)))]"

text \<open>The instant of a log entry is sent as its number of milliseconds in this model.\<close>

definition recent_warning :: "(int \<Rightarrow> string) \<Rightarrow> json \<Rightarrow> dashboard_event element list" where
  "recent_warning when item =
     [Shown (jsx_text (field_or_null item ''message'')),
      Shown (jsx_text (field_or_null item ''source'') @ '' - '' @
        date_text when (case field_or_null item ''timestamp'' of JNum ms \<Rightarrow> Some ms | _ \<Rightarrow> None))]"

definition dashboard_warnings :: "(int \<Rightarrow> string) \<Rightarrow> dashboard \<Rightarrow> dashboard_event element list" where
  "dashboard_warnings when p =
     [Shown ''Recent warnings'', Shown ''Latest warning events from the application log.'', Link ''View logs'' ''/logs''] @
     (if dp_recentWarnings p = [] then [Shown ''No recent warnings.'']
      else concat (map (recent_warning when) (dp_recentWarnings p)))"

definition dashboard_view :: "(int \<Rightarrow> string) \<Rightarrow> dashboard \<Rightarrow> dashboard_event element list" where
  "dashboard_view when p =
     [Shown ''Overview'', Shown ''Provider, stream, cache, VPN, and host status at a glance.'',
      Button ''Refresh'' (dp_refreshing p) Refresh_dashboard] @
     shown_for (truthy (dp_error p)) (\<lambda>e. [Notice ''warning'' e]) @
     dashboard_metrics p @ dashboard_providers p @ dashboard_runtime p @ dashboard_warnings when p"

subsection \<open>What the pages offer\<close>

lemma nav_groups_hrefs: "concat (map (\<lambda>(label, items). map snd items) nav_groups) = nav_hrefs"
  by (simp add: nav_groups_def nav_hrefs_def)

text \<open>Nothing of a page is offered before its visitor is known.\<close>

lemma nothing_before_session: "sh_checkingAuth p \<Longrightarrow> offered (app_shell_view path p bar children) = []"
  by (simp add: app_shell_view_def offered_def)

lemma mapped_pressed [simp]: "pressed (map_element f x) = map f (pressed x)"
  by (cases x) simp_all

lemma mapped_modal [simp]:
  "is_modal (map_element f x) = is_modal x" "modal_presses (map_element f x) = map f (modal_presses x)"
  by (cases x; simp add: map_concat o_def)+

lemma mapped_only [simp]:
  "list_ex is_modal (map (map_element f) es) = list_ex is_modal es"
  "only P (map (map_element f) es) \<longleftrightarrow> only (\<lambda>e. P (f e)) es"
  "only_modal P (map (map_element f) es) \<longleftrightarrow> only_modal (\<lambda>e. P (f e)) es"
  by (simp_all add: only_def only_modal_def list_ex_iff list_all_iff)

lemma sidebar_frame [simp]:
  "\<not> list_ex is_modal (sidebar_content path user)"
  "only P (sidebar_content path user) \<longleftrightarrow> P Close_menu \<and> P Sign_out"
  by (simp_all add: sidebar_content_def nav_groups_def nav_item_def)

lemma shell_frame:
  "\<not> list_ex is_modal (sidebar_view path p)" "\<not> list_ex is_modal (top_bar_view bar)"
  "only P (sidebar_view path p) \<longleftrightarrow> P Close_menu \<and> P Sign_out"
  "only P (top_bar_view bar) \<longleftrightarrow> P Open_menu \<and> P Switch_theme \<and> (\<not> tb_refreshing bar \<longrightarrow> P Refresh_runtime)"
  by (auto simp: sidebar_view_def top_bar_view_def Let_def)

text \<open>The shell takes nothing away from the page and adds nothing to it: once the visitor is known it offers of the page what
  the page offers, and beside it the menu, the sign out, the theme and the refresh exactly while no dialog of the page is open.\<close>

theorem shell_around_page:
  "list_all P (offered (app_shell_view path p bar children)) \<longleftrightarrow>
     sh_checkingAuth p \<or>
     (list_all (\<lambda>e. P (On_page e)) (offered children) \<and>
      (list_ex is_modal children \<or>
       P Close_menu \<and> P Sign_out \<and> P Open_menu \<and> P Switch_theme \<and> (tb_refreshing bar \<or> P Refresh_runtime)))"
proof (cases "sh_checkingAuth p")
  case False
  have none: "only_modal Q (sidebar_view path p)" "only_modal Q (top_bar_view bar)" for Q :: "'a shell_event \<Rightarrow> bool"
    by (rule only_modal_none, rule shell_frame)+
  show ?thesis
    unfolding offered_all by (auto simp: app_shell_view_def False shell_frame none)
qed (simp add: nothing_before_session)

lemma settings_view_offers:
  "list_all P (offered (settings_view p)) \<longleftrightarrow>
     (sp_passwordSaving p \<or> incomplete (password_fields p) \<or> too_short 8 (sp_newPassword p) \<or> too_short 8 (sp_confirmPassword p) \<or>
      P Submit_password) \<and>
     (sp_saving p \<or> sp_loading p \<or> sp_logRetentionDays p < 1 \<or> sp_logRetentionDays p > 365 \<or> P Save_settings)"
proof -
  have rows: "only P (detail_rows rows)" "\<not> list_ex is_modal (detail_rows rows)" for P and rows :: "(string \<times> string) list"
    by (auto simp: detail_rows_def only_def list_all_iff list_ex_iff)
  show ?thesis
    unfolding offered_all
    by (auto simp: settings_view_def password_card_def retention_card_def password_fields_def rows split: option.split)
qed

text \<open>What the forms of the settings send is never refused by the schema of its route: the page offers to save a retention period
  only within the bounds of the server, and a change of password only with a new one that is long enough.\<close>

theorem offered_settings_accepted:
  assumes "Save_settings \<in> set (offered (settings_view p))"
  shows "updateSettingsSchema (settings_body p) = Some (Some (sp_logRetentionDays p))"
proof -
  have "1 \<le> sp_logRetentionDays p" "sp_logRetentionDays p \<le> 365"
    using assms unfolding offered_iff settings_view_offers by auto
  then show ?thesis by (rule retention_accepted)
qed

theorem offered_password_accepted:
  assumes "Submit_password \<in> set (offered (settings_view p))" and "fst (changePassword p) = Some body"
    and "length (sp_currentPassword p) \<le> 1024" and "length (sp_newPassword p) \<le> 1024"
  shows "passwordSchema body = Some (sp_currentPassword p, sp_newPassword p)"
proof -
  have "sp_currentPassword p \<noteq> []"
    using assms(1) unfolding offered_iff settings_view_offers by (auto simp: incomplete_def password_fields_def)
  then show ?thesis using assms by (intro sent_password_accepted)
qed

end
