(* ===== verification/Log_View.thy ===== *)
theory Log_View imports Log_Page Cache_View begin

section \<open>The log page on the screen\<close>

text \<open>
  The render function of \<open>app/logs/page.tsx\<close>, the small handlers of its buttons and the export. \<open>JSON.parse\<close> is the argument
  \<open>parse\<close>; \<open>when\<close> is the browser's \<open>toLocaleString\<close> of an instant in milliseconds. The scrolling of the list is left out.
\<close>

subsection \<open>JSON with line breaks\<close>

text \<open>\<open>JSON.stringify(v, null, 2)\<close>.\<close>

definition line_of :: "nat \<Rightarrow> string \<Rightarrow> string" where
  "line_of depth s = replicate (2 * depth) (CHR '' '') @ s"

definition block_of :: "char \<Rightarrow> char \<Rightarrow> nat \<Rightarrow> string list \<Rightarrow> string" where
  "block_of l r depth parts =
     (if parts = [] then [l, r]
      else [l, CHR 0x0A] @ join ('','' @ [CHR 0x0A]) (map (line_of (Suc depth)) parts) @ [CHR 0x0A] @ line_of depth [r])"

fun pretty :: "nat \<Rightarrow> json \<Rightarrow> string" where
  "pretty depth (JArr vs) = block_of (CHR ''['') (CHR '']'') depth (map (pretty (Suc depth)) vs)"
| "pretty depth (JObj kvs) =
     block_of (CHR ''{'') (CHR ''}'') depth (map (\<lambda>(k, v). quote k @ '': '' @ pretty (Suc depth) v) kvs)"
| "pretty depth v = stringify v"

definition prettyMetadata :: "(string \<Rightarrow> json option) \<Rightarrow> string option \<Rightarrow> string option" where
  "prettyMetadata parse v = map_option (\<lambda>t. case parse t of Some j \<Rightarrow> pretty 0 j | None \<Rightarrow> t) (truthy v)"

subsection \<open>The handlers of the buttons\<close>

definition toggle_traffic :: "log_page \<Rightarrow> log_page" where
  "toggle_traffic p = p\<lparr>lp_group := (if lp_group p = ''traffic'' then ''ALL'' else ''traffic'')\<rparr>"

definition toggle_streaming :: "log_page \<Rightarrow> log_page" where
  "toggle_streaming p = p\<lparr>lp_streaming := \<not> lp_streaming p\<rparr>"

definition toggle_order :: "log_page \<Rightarrow> log_page" where
  "toggle_order p = p\<lparr>lp_asc := \<not> lp_asc p\<rparr>"

definition toggle_autoScroll :: "log_page \<Rightarrow> log_page" where
  "toggle_autoScroll p = p\<lparr>lp_autoScroll := \<not> lp_autoScroll p\<rparr>"

definition ask_clear :: "bool \<Rightarrow> log_page \<Rightarrow> log_page" where
  "ask_clear open p = p\<lparr>lp_confirmClear := open\<rparr>"

definition select_log :: "log_entry option \<Rightarrow> log_page \<Rightarrow> log_page" where
  "select_log e p = p\<lparr>lp_selected := e\<rparr>"

text \<open>The name and the content of the file; the argument is the present instant as \<open>toISOString\<close> writes it.\<close>

definition exportLogs :: "string \<Rightarrow> log_page \<Rightarrow> string \<times> string" where
  "exportLogs now p = (''iptv-proxy-logs-'' @ now @ ''.json'', pretty 0 (JArr (map log_json (lp_logs p))))"

subsection \<open>The page\<close>

datatype log_event =
    Toggle_traffic
  | Toggle_streaming
  | Export_logs
  | Ask_clear
  | Toggle_order
  | Reset_filters
  | Toggle_autoScroll
  | Select_log log_entry
  | Close_details
  | Show_trace string
  | Cancel_clear
  | Confirm_clear

definition group_options :: "(string \<times> string) list" where
  "group_options = [(''ALL'', ''All categories''), (''traffic'', ''Request traffic''), (''cache'', ''Cache''),
     (''streams'', ''Streams / HLS''), (''vpn'', ''VPN''), (''providers'', ''Providers''), (''auth'', ''Authentication''),
     (''system'', ''System'')]"

definition level_options :: "(string \<times> string) list" where
  "level_options = [(''ALL'', ''All levels''), (''info'', ''Info''), (''warning'', ''Warning''), (''error'', ''Error''),
     (''debug'', ''Debug'')]"

definition source_options :: "(string \<times> string) list" where
  "source_options = map (\<lambda>s. (s, if s = ''ALL'' then ''All sources'' else s)) page_sources"

text \<open>A select shows the label of the option that its value names.\<close>

definition select_box :: "string \<Rightarrow> (string \<times> string) list \<Rightarrow> string \<Rightarrow> 'e element" where
  "select_box label options v = Input label (case map_of options v of Some l \<Rightarrow> l | None \<Rightarrow> []) False"

definition badge_variant :: "badge \<Rightarrow> string" where
  "badge_variant b = (case b of Secondary \<Rightarrow> ''secondary'' | Warn \<Rightarrow> ''warning'' | Destructive \<Rightarrow> ''destructive'' | Outline \<Rightarrow> ''outline'')"

definition log_header :: "log_page \<Rightarrow> log_event element list" where
  "log_header p =
     [Shown ''Logs'', Shown ''One live console for application, VPN, cache, stream and end-to-end IPTV request traffic.'',
      Button ''Request traffic'' False Toggle_traffic,
      Button (if lp_streaming p then ''Live'' else ''Paused'') False Toggle_streaming,
      Button ''Export'' (lp_logs p = []) Export_logs,
      Button ''Clear'' (lp_total p = 0) Ask_clear] @
     shown_for (truthy (lp_error p)) (\<lambda>e. [Notice ''destructive'' e])"

definition log_filters :: "log_page \<Rightarrow> log_event element list" where
  "log_filters p =
     [Input ''Search message, URL, trace ID, stream, provider or action'' (lp_search p) False,
      select_box ''Filter by category group'' group_options (lp_group p),
      select_box ''Filter by level'' level_options (lp_level p),
      select_box ''Filter by source'' source_options (lp_source p),
      Button (if lp_asc p then ''Oldest'' else ''Newest'') False Toggle_order] @
     shown_when (hasFilters p) [Button ''Reset'' False Reset_filters]"

text \<open>What is told of the traffic of an entry, field by field; an absent or empty field is left out.\<close>

definition traffic_part :: "traffic option \<Rightarrow> (traffic \<Rightarrow> string option) \<Rightarrow> (string \<Rightarrow> 'e element list) \<Rightarrow> 'e element list" where
  "traffic_part t f g = shown_for t (\<lambda>t. shown_for (truthy (f t)) g)"

definition log_row :: "(string \<Rightarrow> json option) \<Rightarrow> (int \<Rightarrow> string) \<Rightarrow> log_entry \<Rightarrow> log_event element list" where
  "log_row parse when e =
     (let t = proxyTraffic e (parseMetadata parse (l_metadata_json e)) in
      [Button ''Select'' False (Select_log e), Mark (badge_variant (levelVariant (l_level e))) (level_name (l_level e)),
       Mark ''outline'' (displayGroup e)] @
      traffic_part t tr_step (\<lambda>s. [Mark ''secondary'' s]) @
      traffic_part t tr_method (\<lambda>m. [Shown m]) @
      traffic_part t tr_status (\<lambda>s. [Shown (''HTTP '' @ s)]) @
      traffic_part t tr_elapsedMs (\<lambda>ms. [Shown (ms @ '' ms'')]) @
      [Shown (l_message e)] @
      traffic_part t tr_url (\<lambda>u. [Shown u]) @
      [Shown (source_name (l_source e)), Shown ''-'', Shown (l_category e)] @
      traffic_part t tr_bytes (\<lambda>b. [Shown ''-'', Shown (b @ '' bytes'')]) @
      traffic_part t tr_traceId (\<lambda>i. [Shown ''-'', Shown (''trace '' @ i)]) @
      [Shown (date_text when (Some (int (l_timestamp e))))])"

definition log_console :: "(string \<Rightarrow> json option) \<Rightarrow> (int \<Rightarrow> string) \<Rightarrow> log_page \<Rightarrow> log_event element list" where
  "log_console parse when p =
     [Shown ''Unified console'',
      Shown (''Showing '' @ show_nat (length (lp_logs p)) @ '' of '' @ show_nat (lp_total p) @
        '' matching records. Trace IDs link the client request, routing/cache decision, provider request, provider response and final client response.''),
      Button (''Auto-scroll '' @ (if lp_autoScroll p then ''on'' else ''off'')) False Toggle_autoScroll] @
     (if lp_loading p \<and> lp_logs p = [] then [Shown ''Loading logs...'']
      else if lp_logs p = []
      then Nothing_here ''No logs found'' (if hasFilters p then ''No records match the current filters.''
             else ''No application events have been recorded yet.'') #
           shown_when (hasFilters p) [Button ''Reset filters'' False Reset_filters]
      else concat (map (log_row parse when) (lp_logs p)))"

definition or_dash :: "string option \<Rightarrow> string" where
  "or_dash v = (case truthy v of Some t \<Rightarrow> t | None \<Rightarrow> ''-'')"

definition traffic_details :: "traffic \<Rightarrow> log_event element list" where
  "traffic_details t =
     [Pair ''Request step'' (case truthy (tr_step t) of Some s \<Rightarrow> s | None \<Rightarrow> ''Traffic event''),
      Pair ''Status'' (case truthy (tr_status t) of Some s \<Rightarrow> ''HTTP '' @ s | None \<Rightarrow> ''-''),
      Pair ''URL'' (or_dash (tr_url t))] @
     shown_for (truthy (tr_traceId t)) (\<lambda>i. [Button ''Show complete request trace'' False (Show_trace i)])"

definition log_details :: "(string \<Rightarrow> json option) \<Rightarrow> (int \<Rightarrow> string) \<Rightarrow> log_page \<Rightarrow> log_event element list" where
  "log_details parse when p = shown_for (lp_selected p) (\<lambda>e.
     [Modal ''Log details'' (date_text when (Some (int (l_timestamp e)))) Close_details
       ([Shown ''Level'', Mark (badge_variant (levelVariant (l_level e))) (level_name (l_level e)),
         Pair ''Group'' (displayGroup e), Pair ''Source'' (source_name (l_source e)), Pair ''Category'' (l_category e)] @
        shown_for (proxyTraffic e (parseMetadata parse (l_metadata_json e))) traffic_details @
        [Pair ''Message'' (l_message e)] @
        shown_for (prettyMetadata parse (l_metadata_json e)) (\<lambda>m. [Pair ''Metadata'' m]) @
        [Button ''Close'' False Close_details])])"

definition clear_dialog :: "log_page \<Rightarrow> log_event element list" where
  "clear_dialog p = shown_when (lp_confirmClear p)
     [Modal ''Clear all logs?'' ''This permanently deletes the historical application log records from the unified console.''
        Cancel_clear
        [Button ''Cancel'' False Cancel_clear,
         Button (if lp_clearing p then ''Clearing...'' else ''Clear logs'') (lp_clearing p) Confirm_clear]]"

definition log_view :: "(string \<Rightarrow> json option) \<Rightarrow> (int \<Rightarrow> string) \<Rightarrow> log_page \<Rightarrow> log_event element list" where
  "log_view parse when p =
     log_header p @ log_filters p @ log_console parse when p @ log_details parse when p @ clear_dialog p"

subsection \<open>What the page offers\<close>

lemma option_values:
  "map fst group_options = page_groups" "map fst level_options = page_levels" "map fst source_options = page_sources"
  by (simp_all add: group_options_def level_options_def source_options_def page_groups_def page_levels_def page_sources_def)

lemma traffic_part_only: "only P (traffic_part t f g) \<longleftrightarrow> (\<forall>x. t = Some x \<longrightarrow> (\<forall>y. truthy (f x) = Some y \<longrightarrow> only P (g y)))"
  by (auto simp: traffic_part_def split: option.split)

lemma traffic_part_plain: "(\<And>y. \<not> list_ex is_modal (g y)) \<Longrightarrow> \<not> list_ex is_modal (traffic_part t f g)"
  by (auto simp: traffic_part_def split: option.split)

lemma log_row_only: "only P (log_row parse when e) \<longleftrightarrow> P (Select_log e)"
  by (simp add: log_row_def traffic_part_only Let_def)

lemma log_row_plain: "\<not> list_ex is_modal (log_row parse when e)"
  by (simp add: log_row_def traffic_part_plain Let_def)

lemma log_base_plain:
  "\<not> list_ex is_modal (log_header p)" "\<not> list_ex is_modal (log_filters p)" "\<not> list_ex is_modal (log_console parse when p)"
  by (simp_all add: log_header_def log_filters_def log_console_def select_box_def log_row_plain split: option.split)

text \<open>The history is cleared only after the question: while it is open the page offers just to answer it, and otherwise not to
  clear.\<close>

lemma log_details_plain: "Confirm_clear \<notin> set (concat (map modal_presses (log_details parse when p)))"
  by (auto simp: log_details_def shown_for_def traffic_details_def shown_when_def split: option.splits if_splits)

lemma log_base_modal: "only_modal P (log_header p)" "only_modal P (log_filters p)" "only_modal P (log_console parse when p)"
  by (rule only_modal_none, rule log_base_plain)+

end
