(* ===== verification/Pages.thy ===== *)
theory Pages imports Vpn_View Provider_Views Admin_Views Log_View begin

section \<open>What holds of every page\<close>

text \<open>
  Properties of the screens of several pages: a deletion happens only after its question, a typed password is never among the
  texts, and what the forms send passes the schemas of the routes.
\<close>

subsection \<open>The dialogs\<close>

lemma log_view_offers:
  "list_all P (offered (log_view parse when p)) \<longleftrightarrow>
     (if lp_selected p \<noteq> None \<or> lp_confirmClear p
      then only_modal P (log_details parse when p) \<and> only_modal P (clear_dialog p)
      else only P (log_header p) \<and> only P (log_filters p) \<and> only P (log_console parse when p))"
proof -
  have "list_ex is_modal (log_details parse when p) \<longleftrightarrow> lp_selected p \<noteq> None"
    "only Q (log_details parse when p)" "only Q (clear_dialog p)" "list_ex is_modal (clear_dialog p) \<longleftrightarrow> lp_confirmClear p" for Q
    by (auto simp: log_details_def clear_dialog_def split: option.split)
  then show ?thesis by (auto simp: offered_all log_view_def log_base_plain log_base_modal)
qed

lemma log_dialogs:
  "only_modal P (clear_dialog p) \<longleftrightarrow> lp_confirmClear p \<longrightarrow> P Cancel_clear \<and> (\<not> lp_clearing p \<longrightarrow> P Confirm_clear)"
  "only_modal (\<lambda>x. x \<noteq> Confirm_clear) (log_details parse when p)"
  by (auto simp: clear_dialog_def log_details_def press_all traffic_details_def split: option.split)

lemma log_confirm: "Confirm_clear \<in> set (offered (log_view parse when p)) \<longleftrightarrow> lp_confirmClear p \<and> \<not> lp_clearing p"
proof -
  have "only (\<lambda>x. x \<noteq> Confirm_clear) (log_header p)" "only (\<lambda>x. x \<noteq> Confirm_clear) (log_filters p)"
    "only (\<lambda>x. x \<noteq> Confirm_clear) (log_console parse when p)"
    by (auto simp: log_header_def log_filters_def log_console_def select_box_def log_row_only split: option.split)
  then show ?thesis unfolding offered_iff [of _ "log_view parse when p"] log_view_offers by (auto simp: log_dialogs)
qed

lemma provider_confirm:
  "Confirm_delete_provider \<in> set (offered (providers_view p)) \<longleftrightarrow> truthy (pp_deleteId p) \<noteq> None \<and> \<not> pp_deleting p"
  unfolding offered_iff [of _ "providers_view p"] providers_view_offers by (auto simp: provider_dialogs provider_row_only)

lemma user_confirm: "Confirm_remove_user \<in> set (offered (users_view when p)) \<longleftrightarrow> up_deleteUser p \<noteq> None \<and> \<not> up_deleting p"
  unfolding offered_iff [of _ "users_view when p"] users_view_offers by (auto simp: user_dialogs users_base)

lemma profile_confirm: "Confirm_delete \<in> set (offered (vpn_view when p)) \<longleftrightarrow> vp_deleteTarget p \<noteq> None"
proof
  assume "Confirm_delete \<in> set (offered (vpn_view when p))"
  then show "vp_deleteTarget p \<noteq> None"
    by (rule only_view [where P = "\<lambda>e. e = Confirm_delete \<longrightarrow> vp_deleteTarget p \<noteq> None", THEN mp]) simp_all
next
  assume some: "vp_deleteTarget p \<noteq> None"
  then have "list_ex is_modal (vpn_view when p)"
    by (auto simp: vpn_view_def delete_dialog_def)
  moreover have "\<not> only_modal (\<lambda>x. x \<noteq> Confirm_delete) (vpn_view when p)"
    using some by (simp add: vpn_view_def only_dialogs)
  ultimately show "Confirm_delete \<in> set (offered (vpn_view when p))" by (simp add: offered_iff offered_all)
qed


subsection \<open>The passwords\<close>

definition screen :: "'e element list \<Rightarrow> string list" where
  "screen es = concat (map texts es)"

lemma screen_simps [simp]:
  "screen [] = []" "screen (x # es) = texts x @ screen es" "screen (es @ fs) = screen es @ screen fs"
  "screen (shown_when b es) = (if b then screen es else [])"
  "screen (shown_for v f) = (case v of None \<Rightarrow> [] | Some x \<Rightarrow> screen (f x))"
  by (auto simp: screen_def shown_when_def shown_for_def split: option.split)

lemma texts_modal: "texts (Modal t d e es) = t # d # screen es"
  by (simp add: screen_def)

definition login_typed :: "string \<Rightarrow> string \<Rightarrow> login_page \<Rightarrow> login_page" where
  "login_typed a b p = p\<lparr>lg_password := a, lg_confirmPassword := b\<rparr>"

definition settings_typed :: "string \<Rightarrow> string \<Rightarrow> string \<Rightarrow> settings_page \<Rightarrow> settings_page" where
  "settings_typed a b c p = p\<lparr>sp_currentPassword := a, sp_newPassword := b, sp_confirmPassword := c\<rparr>"

definition provider_typed :: "string \<Rightarrow> string \<Rightarrow> providers_page \<Rightarrow> providers_page" where
  "provider_typed a b p = p\<lparr>pp_form := (pp_form p)\<lparr>pf_upstreamPassword := a, pf_initialPassword := b\<rparr>\<rparr>"

definition user_typed :: "string \<Rightarrow> users_page \<Rightarrow> users_page" where
  "user_typed a p = p\<lparr>up_password := a\<rparr>"

definition profile_typed :: "string \<Rightarrow> vpn_page \<Rightarrow> vpn_page" where
  "profile_typed a p = p\<lparr>vp_editor := map_option (\<lambda>ed. ed\<lparr>ed_password := a\<rparr>) (vp_editor p)\<rparr>"

lemma login_screen: "screen (login_view (login_typed a b p)) = screen (login_view p)"
  by (simp add: login_view_def login_typed_def login_fields_def split: option.split)

lemma settings_screen: "screen (settings_view (settings_typed a b c p)) = screen (settings_view p)"
  by (simp add: settings_view_def settings_typed_def password_card_def password_fields_def retention_card_def storage_rows_def
      runtime_rows_def network_rows_def Let_def split: option.split)

lemma provider_screen: "screen (providers_view (provider_typed a b p)) = screen (providers_view p)"
proof -
  have f: "filtered_providers (provider_typed a b p) = filtered_providers p" "pp_loading (provider_typed a b p) = pp_loading p"
    "pp_providers (provider_typed a b p) = pp_providers p" "pp_deleteId (provider_typed a b p) = pp_deleteId p"
    "pp_deleting (provider_typed a b p) = pp_deleting p"
    by (simp_all add: provider_typed_def filtered_providers_def Let_def)
  have same: "providers_table (provider_typed a b p) = providers_table p"
    "provider_delete_dialog (provider_typed a b p) = provider_delete_dialog p"
    unfolding providers_table_def provider_delete_dialog_def selectedForDelete_def f by (rule refl)+
  have "screen (provider_fields (provider_typed a b p)) = screen (provider_fields p)"
    by (simp add: provider_fields_def provider_typed_def Let_def)
  then have "screen (provider_form_dialog (provider_typed a b p)) = screen (provider_form_dialog p)"
    by (simp add: provider_form_dialog_def Let_def texts_modal del: texts.simps(11) split: option.split)
      (auto simp: provider_typed_def)
  then show ?thesis by (simp add: providers_view_def same) (simp add: provider_typed_def)
qed

lemma user_screen: "screen (users_view when (user_typed a p)) = screen (users_view when p)"
  by (simp add: users_view_def user_typed_def users_table_def user_form_dialog_def user_delete_dialog_def user_fields_def
      enabledCount_def texts_modal Let_def del: texts.simps(11) split: option.split)

lemma profile_fields:
  "vp_summary (profile_typed a p) = vp_summary p" "vp_busy (profile_typed a p) = vp_busy p" "vp_error (profile_typed a p) = vp_error p"
  "vp_tab (profile_typed a p) = vp_tab p" "vp_deleteTarget (profile_typed a p) = vp_deleteTarget p"
  "vp_editorError (profile_typed a p) = vp_editorError p" "vp_editorSaving (profile_typed a p) = vp_editorSaving p"
  "vp_wireguard (profile_typed a p) = vp_wireguard p" "vp_openvpn (profile_typed a p) = vp_openvpn p"
  "vp_warp (profile_typed a p) = vp_warp p" "vp_speed (profile_typed a p) = vp_speed p" "vp_speedBusy (profile_typed a p) = vp_speedBusy p"
  "vp_gateRefreshing (profile_typed a p) = vp_gateRefreshing p"
  "vp_editor (profile_typed a p) = map_option (\<lambda>ed. ed\<lparr>ed_password := a\<rparr>) (vp_editor p)"
  by (simp_all add: profile_typed_def)

lemma profile_state:
  "active (profile_typed a p) = active p" "operationBusy (profile_typed a p) = operationBusy p"
  "canConnect (profile_typed a p) = canConnect p" "canDisconnect (profile_typed a p) = canDisconnect p"
  "currentLabel (profile_typed a p) = currentLabel p" "profile_active (profile_typed a p) = profile_active p"
  by (simp_all add: active_def operationBusy_def canConnect_def canDisconnect_def currentLabel_def profile_active_def profile_fields fun_eq_iff)

lemmas profile_same = profile_fields profile_state

lemma profile_parts:
  "vpn_header (profile_typed a p) = vpn_header p" "overview_tab when (profile_typed a p) = overview_tab when p"
  "warp_tab (profile_typed a p) = warp_tab p" "delete_dialog (profile_typed a p) = delete_dialog p"
  unfolding vpn_header_def overview_tab_def warp_tab_def delete_dialog_def profile_same by (rule refl)+

lemma profile_tabs:
  "wireguard_tab (profile_typed a p) = wireguard_tab p" "openvpn_tab (profile_typed a p) = openvpn_tab p"
proof -
  have "wireguard_row (profile_typed a p) = wireguard_row p" "openvpn_row (profile_typed a p) = openvpn_row p"
    unfolding wireguard_row_def openvpn_row_def profile_buttons_def profile_same by (rule refl)+
  then show "wireguard_tab (profile_typed a p) = wireguard_tab p" "openvpn_tab (profile_typed a p) = openvpn_tab p"
    unfolding wireguard_tab_def openvpn_tab_def profile_same by simp_all
qed

lemma profile_gate: "vpngate_tab (profile_typed a p) = vpngate_tab p"
proof -
  have f: "vp_search (profile_typed a p) = vp_search p" "vp_servers (profile_typed a p) = vp_servers p"
    "vp_gatePage (profile_typed a p) = vp_gatePage p"
    by (simp_all add: profile_typed_def)
  have g: "filteredGate (profile_typed a p) = filteredGate p" unfolding filteredGate_def f by (rule refl)
  have h: "gatePages (profile_typed a p) = gatePages p" unfolding gatePages_def g by (rule refl)
  have k: "shown_page (profile_typed a p) = shown_page p" unfolding shown_page_def f h by (rule refl)
  have v: "visibleGate (profile_typed a p) = visibleGate p" unfolding visibleGate_def g k by (rule refl)
  have "gate_row (profile_typed a p) = gate_row p" unfolding gate_row_def profile_same by (rule refl)
  then show ?thesis unfolding vpngate_tab_def profile_same f g h k v by simp
qed

lemma profile_screen: "screen (vpn_view when (profile_typed a p)) = screen (vpn_view when p)"
proof -
  have "screen (editor_dialog (profile_typed a p)) = screen (editor_dialog p)"
    by (simp add: editor_dialog_def profile_same texts_modal del: texts.simps(11) split: option.split)
  then show ?thesis
    unfolding vpn_view_def profile_parts profile_tabs profile_gate profile_fields(4) by simp
qed

text \<open>What stands on the screen of a page does not depend on the passwords that were typed into it.\<close>

theorem typed_passwords_not_shown:
  "screen (login_view (login_typed a b lp)) = screen (login_view lp) \<and>
   screen (settings_view (settings_typed a b c sp)) = screen (settings_view sp) \<and>
   screen (providers_view (provider_typed a b pp)) = screen (providers_view pp) \<and>
   screen (users_view when (user_typed a up)) = screen (users_view when up) \<and>
   screen (vpn_view when (profile_typed a vp)) = screen (vpn_view when vp)"
  by (intro conjI login_screen settings_screen provider_screen user_screen profile_screen)

end
